(* ===== verification/NR_Prelude.thy ===== *)
theory NR_Prelude
  imports Main "HOL-Library.AList" "HOL-Library.Char_ord" "HOL-Library.List_Lexorder"
    "HOL-Library.Word"
begin

text \<open>
  What every component of the network runner shares: Go errors and results, stateful
  Go code as functions from a state to a result and a state, \<^verbatim>\<open>range\<close> loops, Go maps
  (nil or a finite map), and transition systems with their reachable states.

  A Go function that returns an error is modelled with the result type \<open>'a res\<close>: \<open>Ok\<close>
  with the value, \<open>Err\<close> with the error, or \<open>Panic\<close> when the code panics (a write to a nil
  map, a nil dereference). A panic is not an error return: it passes through the
  \<^verbatim>\<open>if err != nil\<close> branches of the callers.
\<close>

section \<open>Collections of facts\<close>

named_theorems pres_intros \<open>rules for the preservation of a state predicate\<close>
named_theorems prog_simps \<open>evaluation of the program combinators\<close>

section \<open>Errors and results\<close>

text \<open>
  \<open>New m\<close> is a package-level \<^verbatim>\<open>errors.New(m)\<close>, identified by its message. \<open>Errorf f as\<close> is
  \<^verbatim>\<open>fmt.Errorf(f, as...)\<close> without a wrapped error, \<open>Wrapf f as e\<close> one that wraps \<open>e\<close> by
  \<^verbatim>\<open>%w\<close>. \<open>External m\<close> is an error that code outside the repository returned.
\<close>

datatype err =
    New string
  | Errorf string "string list"
  | Wrapf string "string list" err
  | External string

text \<open>\<^verbatim>\<open>errors.Is\<close>: the error itself or one that it wraps.\<close>

fun errors_Is :: "err \<Rightarrow> err \<Rightarrow> bool" where
  "errors_Is (Wrapf f as e) t = (Wrapf f as e = t \<or> errors_Is e t)"
| "errors_Is e t = (e = t)"

datatype 'a res = Ok 'a | Err err | Panic string

fun map_res :: "('a \<Rightarrow> 'b) \<Rightarrow> 'a res \<Rightarrow> 'b res" where
  "map_res f (Ok x) = Ok (f x)"
| "map_res f (Err e) = Err e"
| "map_res f (Panic p) = Panic p"

fun bindR :: "'a res \<Rightarrow> ('a \<Rightarrow> 'b res) \<Rightarrow> 'b res" where
  "bindR (Ok x) f = f x"
| "bindR (Err e) f = Err e"
| "bindR (Panic p) f = Panic p"

text \<open>\<^verbatim>\<open>fmt.Errorf("...: %w", err)\<close> around a failing call.\<close>

fun wrapR :: "string \<Rightarrow> string list \<Rightarrow> 'a res \<Rightarrow> 'a res" where
  "wrapR f as (Ok x) = Ok x"
| "wrapR f as (Err e) = Err (Wrapf f as e)"
| "wrapR f as (Panic p) = Panic p"

fun is_Ok :: "'a res \<Rightarrow> bool" where
  "is_Ok (Ok _) = True"
| "is_Ok _ = False"

fun is_Panic :: "'a res \<Rightarrow> bool" where
  "is_Panic (Panic _) = True"
| "is_Panic _ = False"

lemma is_Ok_iff: "is_Ok r \<longleftrightarrow> (\<exists>x. r = Ok x)"
  by (cases r) auto

lemma bindR_eq_Ok [simp]: "bindR m f = Ok y \<longleftrightarrow> (\<exists>x. m = Ok x \<and> f x = Ok y)"
  by (cases m) auto

lemma bindR_eq_Err: "bindR m f = Err e \<longleftrightarrow> m = Err e \<or> (\<exists>x. m = Ok x \<and> f x = Err e)"
  by (cases m) auto

lemma bindR_eq_Panic:
  "bindR m f = Panic p \<longleftrightarrow> m = Panic p \<or> (\<exists>x. m = Ok x \<and> f x = Panic p)"
  by (cases m) auto

lemma wrapR_eq_Ok [simp]: "wrapR f as m = Ok x \<longleftrightarrow> m = Ok x"
  by (cases m) auto

lemma wrapR_eq_Panic [simp]: "wrapR f as m = Panic p \<longleftrightarrow> m = Panic p"
  by (cases m) auto

lemma map_res_eq_Ok [simp]: "map_res f m = Ok y \<longleftrightarrow> (\<exists>x. m = Ok x \<and> f x = y)"
  by (cases m) auto

lemma map_res_eq_Err [simp]: "map_res f m = Err e \<longleftrightarrow> m = Err e"
  by (cases m) auto

lemma map_res_eq_Panic [simp]: "map_res f m = Panic p \<longleftrightarrow> m = Panic p"
  by (cases m) auto

section \<open>Stateful code\<close>

text \<open>
  A method that reads and writes a state of type \<open>'s\<close>: the state after a failing call is
  the state at the point of the early return, as in Go, where nothing is rolled back.
\<close>

type_synonym ('s, 'a) prog = "'s \<Rightarrow> 'a res \<times> 's"

definition ret :: "'a \<Rightarrow> ('s, 'a) prog" where
  "ret x s = (Ok x, s)"

definition throw :: "err \<Rightarrow> ('s, 'a) prog" where
  "throw e s = (Err e, s)"

definition panic :: "string \<Rightarrow> ('s, 'a) prog" where
  "panic p s = (Panic p, s)"

definition liftR :: "'a res \<Rightarrow> ('s, 'a) prog" where
  "liftR r s = (r, s)"

definition getS :: "('s, 's) prog" where
  "getS s = (Ok s, s)"

definition gets :: "('s \<Rightarrow> 'a) \<Rightarrow> ('s, 'a) prog" where
  "gets f s = (Ok (f s), s)"

definition modify :: "('s \<Rightarrow> 's) \<Rightarrow> ('s, unit) prog" where
  "modify f s = (Ok (), f s)"

definition bindP :: "('s, 'a) prog \<Rightarrow> ('a \<Rightarrow> ('s, 'b) prog) \<Rightarrow> ('s, 'b) prog" where
  "bindP m f s = (case m s of (r, s') \<Rightarrow>
     (case r of Ok x \<Rightarrow> f x s' | Err e \<Rightarrow> (Err e, s') | Panic p \<Rightarrow> (Panic p, s')))"

definition thenP :: "('s, 'a) prog \<Rightarrow> ('s, 'b) prog \<Rightarrow> ('s, 'b) prog" where
  "thenP m n = bindP m (\<lambda>_. n)"

text \<open>\<^verbatim>\<open>if err := m(); err != nil { h(err) }\<close>: a panic is not handled.\<close>

definition catchP :: "('s, 'a) prog \<Rightarrow> (err \<Rightarrow> ('s, 'a) prog) \<Rightarrow> ('s, 'a) prog" where
  "catchP m h s = (case m s of (r, s') \<Rightarrow> (case r of Err e \<Rightarrow> h e s' | _ \<Rightarrow> (r, s')))"

definition wrapP :: "string \<Rightarrow> string list \<Rightarrow> ('s, 'a) prog \<Rightarrow> ('s, 'a) prog" where
  "wrapP f as m s = (case m s of (r, s') \<Rightarrow> (wrapR f as r, s'))"

definition whenP :: "bool \<Rightarrow> ('s, unit) prog \<Rightarrow> ('s, unit) prog" where
  "whenP b m = (if b then m else ret ())"

text \<open>A \<^verbatim>\<open>range\<close> loop whose body may return early, and one that carries a local variable.\<close>

fun forP :: "'x list \<Rightarrow> ('x \<Rightarrow> ('s, unit) prog) \<Rightarrow> ('s, unit) prog" where
  "forP [] body = ret ()"
| "forP (x # xs) body = bindP (body x) (\<lambda>_. forP xs body)"

fun foldP :: "('x \<Rightarrow> 'acc \<Rightarrow> ('s, 'acc) prog) \<Rightarrow> 'x list \<Rightarrow> 'acc \<Rightarrow> ('s, 'acc) prog" where
  "foldP body [] acc = ret acc"
| "foldP body (x # xs) acc = bindP (body x acc) (foldP body xs)"

fun mapR :: "('a \<Rightarrow> 'b res) \<Rightarrow> 'a list \<Rightarrow> 'b list res" where
  "mapR f [] = Ok []"
| "mapR f (x # xs) = bindR (f x) (\<lambda>y. bindR (mapR f xs) (\<lambda>ys. Ok (y # ys)))"

fun foldR :: "('x \<Rightarrow> 'acc \<Rightarrow> 'acc res) \<Rightarrow> 'x list \<Rightarrow> 'acc \<Rightarrow> 'acc res" where
  "foldR body [] acc = Ok acc"
| "foldR body (x # xs) acc = bindR (body x acc) (foldR body xs)"

text \<open>Run code on a part of the state: a method called on a field.\<close>

definition zoomP :: "('s \<Rightarrow> 't) \<Rightarrow> ('t \<Rightarrow> 's \<Rightarrow> 's) \<Rightarrow> ('t, 'a) prog \<Rightarrow> ('s, 'a) prog" where
  "zoomP get put m s = (case m (get s) of (r, t) \<Rightarrow> (r, put t s))"

lemmas prog_defs =
  ret_def throw_def panic_def liftR_def getS_def gets_def modify_def zoomP_def whenP_def

declare ret_def [prog_simps] throw_def [prog_simps] panic_def [prog_simps]
  liftR_def [prog_simps] getS_def [prog_simps] gets_def [prog_simps]
  modify_def [prog_simps] whenP_def [prog_simps]

lemma mapR_eq_Ok: "mapR f xs = Ok ys \<longleftrightarrow> list_all2 (\<lambda>x y. f x = Ok y) xs ys"
  by (induction xs arbitrary: ys) (auto simp: list_all2_Cons1)

lemma bindP_simps [prog_simps]:
  "m s = (Ok x, s') \<Longrightarrow> bindP m f s = f x s'"
  "m s = (Err e, s') \<Longrightarrow> bindP m f s = (Err e, s')"
  "m s = (Panic p, s') \<Longrightarrow> bindP m f s = (Panic p, s')"
  by (simp_all add: bindP_def)

lemma bindP_ret [simp]: "bindP (ret x) f = f x"
  by (simp add: bindP_def ret_def fun_eq_iff)

lemma bindP_throw [simp]: "bindP (throw e) f = throw e"
  by (simp add: bindP_def throw_def fun_eq_iff)

lemma bindP_panic [simp]: "bindP (panic p) f = panic p"
  by (simp add: bindP_def panic_def fun_eq_iff)

lemma bindP_gets [simp]: "bindP (gets g) f s = f (g s) s"
  by (simp add: bindP_def gets_def)

lemma bindP_getS [simp]: "bindP getS f s = f s s"
  by (simp add: bindP_def getS_def)

lemma bindP_modify [simp]: "bindP (modify g) f s = f () (g s)"
  by (simp add: bindP_def modify_def)

lemma bindP_liftR [simp]:
  "bindP (liftR (Ok x)) f = f x"
  "bindP (liftR (Err e)) f = throw e"
  "bindP (liftR (Panic p)) f = panic p"
  by (auto simp: bindP_def prog_defs fun_eq_iff)

lemma bindP_eq_Ok:
  "bindP m f s = (Ok y, t) \<longleftrightarrow> (\<exists>x s'. m s = (Ok x, s') \<and> f x s' = (Ok y, t))"
  by (auto simp: bindP_def split: prod.splits res.splits)

lemma bindP_eq_Err:
  "bindP m f s = (Err e, t) \<longleftrightarrow>
     m s = (Err e, t) \<or> (\<exists>x s'. m s = (Ok x, s') \<and> f x s' = (Err e, t))"
  by (auto simp: bindP_def split: prod.splits res.splits)

lemma bindP_eq_Panic:
  "bindP m f s = (Panic p, t) \<longleftrightarrow>
     m s = (Panic p, t) \<or> (\<exists>x s'. m s = (Ok x, s') \<and> f x s' = (Panic p, t))"
  by (auto simp: bindP_def split: prod.splits res.splits)

lemma thenP_eq_Ok:
  "thenP m n s = (Ok y, t) \<longleftrightarrow> (\<exists>x s'. m s = (Ok x, s') \<and> n s' = (Ok y, t))"
  by (simp add: thenP_def bindP_eq_Ok)

lemma wrapP_eq_Ok: "wrapP f as m s = (Ok x, t) \<longleftrightarrow> m s = (Ok x, t)"
  by (auto simp: wrapP_def split: prod.splits)

lemma liftR_eq [simp]: "liftR r s = (r', t) \<longleftrightarrow> r = r' \<and> s = t"
  by (simp add: liftR_def)

lemma ret_eq [simp]: "ret x s = (r, t) \<longleftrightarrow> r = Ok x \<and> s = t"
  by (auto simp: ret_def)

lemma throw_eq [simp]: "throw e s = (r, t) \<longleftrightarrow> r = Err e \<and> s = t"
  by (auto simp: throw_def)

lemma panic_eq [simp]: "panic p s = (r, t) \<longleftrightarrow> r = Panic p \<and> s = t"
  by (auto simp: panic_def)

lemma modify_eq [simp]: "modify f s = (r, t) \<longleftrightarrow> r = Ok () \<and> t = f s"
  by (auto simp: modify_def)

lemma gets_eq [simp]: "gets f s = (r, t) \<longleftrightarrow> r = Ok (f s) \<and> t = s"
  by (auto simp: gets_def)

lemma zoomP_eq:
  "zoomP get put m s = (r, t) \<longleftrightarrow> (\<exists>u. m (get s) = (r, u) \<and> t = put u s)"
  by (auto simp: zoomP_def split: prod.splits)

subsection \<open>Preservation of a state predicate\<close>

text \<open>\<open>pres P m\<close>: whatever \<open>m\<close> returns (a value, an error or a panic), it keeps \<open>P\<close>.\<close>

definition pres :: "('s \<Rightarrow> bool) \<Rightarrow> ('s, 'a) prog \<Rightarrow> bool" where
  "pres P m \<longleftrightarrow> (\<forall>s. P s \<longrightarrow> P (snd (m s)))"

lemma presI: "(\<And>s r t. P s \<Longrightarrow> m s = (r, t) \<Longrightarrow> P t) \<Longrightarrow> pres P m"
  by (metis pres_def prod.collapse)

lemma presD: "pres P m \<Longrightarrow> P s \<Longrightarrow> m s = (r, t) \<Longrightarrow> P t"
  by (metis pres_def snd_conv)

lemma pres_basic [pres_intros]:
  "pres P (ret x)" "pres P (throw e)" "pres P (panic p)" "pres P (liftR r)"
  "pres P getS" "pres P (gets f)"
  by (simp_all add: pres_def prog_defs)

lemma pres_modify [pres_intros]: "(\<And>s. P s \<Longrightarrow> P (f s)) \<Longrightarrow> pres P (modify f)"
  by (simp add: pres_def modify_def)

lemma pres_bindP [pres_intros]:
  "pres P m \<Longrightarrow> (\<And>x. pres P (f x)) \<Longrightarrow> pres P (bindP m f)"
  by (rule presI) (auto simp: bindP_def dest: presD split: prod.splits res.splits)

lemma pres_thenP [pres_intros]: "pres P m \<Longrightarrow> pres P n \<Longrightarrow> pres P (thenP m n)"
  by (simp add: thenP_def pres_bindP)

lemma pres_catchP [pres_intros]:
  "pres P m \<Longrightarrow> (\<And>e. pres P (h e)) \<Longrightarrow> pres P (catchP m h)"
  by (rule presI) (auto simp: catchP_def dest: presD split: prod.splits res.splits)

lemma pres_wrapP [pres_intros]: "pres P m \<Longrightarrow> pres P (wrapP f as m)"
  by (rule presI) (auto simp: wrapP_def dest: presD split: prod.splits)

lemma pres_whenP [pres_intros]: "pres P m \<Longrightarrow> pres P (whenP b m)"
  by (simp add: whenP_def pres_basic)

lemma pres_if [pres_intros]:
  "(b \<Longrightarrow> pres P m) \<Longrightarrow> (\<not> b \<Longrightarrow> pres P n) \<Longrightarrow> pres P (if b then m else n)"
  by simp

lemma pres_option [pres_intros]:
  "(x = None \<Longrightarrow> pres P m) \<Longrightarrow> (\<And>y. x = Some y \<Longrightarrow> pres P (f y)) \<Longrightarrow>
   pres P (case x of None \<Rightarrow> m | Some y \<Rightarrow> f y)"
  by (cases x) auto

lemma pres_prod [pres_intros]:
  "(\<And>a b. x = (a, b) \<Longrightarrow> pres P (f a b)) \<Longrightarrow> pres P (case x of (a, b) \<Rightarrow> f a b)"
  by (cases x) auto

lemma pres_forP [pres_intros]: "(\<And>x. x \<in> set xs \<Longrightarrow> pres P (body x)) \<Longrightarrow> pres P (forP xs body)"
  by (induction xs) (auto intro!: pres_intros)

lemma pres_foldP [pres_intros]:
  "(\<And>x acc. x \<in> set xs \<Longrightarrow> pres P (body x acc)) \<Longrightarrow> pres P (foldP body xs acc)"
  by (induction xs arbitrary: acc) (auto intro!: pres_intros)

lemma pres_zoomP:
  "(\<And>s. P s \<Longrightarrow> Q (get s)) \<Longrightarrow> pres Q m \<Longrightarrow> (\<And>s t. P s \<Longrightarrow> Q t \<Longrightarrow> P (put t s)) \<Longrightarrow>
   pres P (zoomP get put m)"
  by (rule presI) (auto simp: zoomP_eq dest: presD)

subsection \<open>Triples\<close>

text \<open>
  \<open>hoare P m Q\<close>: from a state with \<open>P\<close>, the result of \<open>m\<close> (a value, an error or a panic) and the
  final state satisfy \<open>Q\<close>. Code is a total function, so a triple is about every run.
\<close>

definition hoare :: "('s \<Rightarrow> bool) \<Rightarrow> ('s, 'a) prog \<Rightarrow> ('a res \<Rightarrow> 's \<Rightarrow> bool) \<Rightarrow> bool" where
  "hoare P m Q \<longleftrightarrow> (\<forall>s. P s \<longrightarrow> Q (fst (m s)) (snd (m s)))"

lemma hoareI: "(\<And>s r t. P s \<Longrightarrow> m s = (r, t) \<Longrightarrow> Q r t) \<Longrightarrow> hoare P m Q"
  by (simp add: hoare_def)

lemma hoareD: "hoare P m Q \<Longrightarrow> P s \<Longrightarrow> m s = (r, t) \<Longrightarrow> Q r t"
  by (metis hoare_def fst_conv snd_conv)

lemma hoare_bindP:
  assumes "hoare P m (\<lambda>r t. case r of Ok x \<Rightarrow> R x t | Err e \<Rightarrow> Q (Err e) t | Panic p \<Rightarrow> Q (Panic p) t)"
    and "\<And>x. hoare (R x) (f x) Q"
  shows "hoare P (bindP m f) Q"
proof (rule hoareI)
  fix s r t
  assume P: "P s" and run: "bindP m f s = (r, t)"
  obtain q u where m: "m s = (q, u)" by force
  from hoareD [OF assms(1) P m] run m show "Q r t"
    by (cases q) (auto simp: bindP_def intro: hoareD [OF assms(2)])
qed

text \<open>A first part that keeps the precondition, whose failures the postcondition admits.\<close>

lemma hoare_pres_bindP:
  assumes "pres P m" and "\<And>x. hoare P (f x) Q"
    and "\<And>e t. P t \<Longrightarrow> Q (Err e) t" "\<And>p t. P t \<Longrightarrow> Q (Panic p) t"
  shows "hoare P (bindP m f) Q"
proof (rule hoare_bindP)
  show "hoare P m (\<lambda>r t. case r of Ok x \<Rightarrow> P t | Err e \<Rightarrow> Q (Err e) t | Panic p \<Rightarrow> Q (Panic p) t)"
    using assms(1,3,4) by (auto intro!: hoareI dest: presD split: res.splits)
qed (rule assms(2))

lemma hoare_wrapP: "hoare P m (\<lambda>r. Q (wrapR f as r)) \<Longrightarrow> hoare P (wrapP f as m) Q"
  by (rule hoareI) (auto simp: wrapP_def dest: hoareD split: prod.splits)

lemma hoare_weaken:
  "hoare P' m Q' \<Longrightarrow> (\<And>s. P s \<Longrightarrow> P' s) \<Longrightarrow> (\<And>r s. Q' r s \<Longrightarrow> Q r s) \<Longrightarrow> hoare P m Q"
  by (simp add: hoare_def)

lemma pres_hoare: "pres P m \<longleftrightarrow> hoare P m (\<lambda>_. P)"
  by (simp add: pres_def hoare_def)

text \<open>A loop whose body keeps an invariant and does not fail reaches its end.\<close>

lemma forP_all_Ok:
  assumes "\<And>x s. x \<in> set xs \<Longrightarrow> P s \<Longrightarrow> \<exists>t. body x s = (Ok (), t) \<and> P t" and "P s"
  shows "\<exists>t. forP xs body s = (Ok (), t) \<and> P t"
  using assms by (induction xs arbitrary: s) (simp, fastforce simp: bindP_def)

section \<open>Go maps\<close>

text \<open>
  A non-nil Go map from strings is an association list; a map variable may also be nil.
  The order of the list stands for the (unspecified) order in which a \<^verbatim>\<open>range\<close> over the
  map visits it: a theorem that holds for every list holds for every order.
\<close>

type_synonym 'v gmap = "(string \<times> 'v) list"
type_synonym 'v gomap = "'v gmap option"

text \<open>\<^verbatim>\<open>v, ok := m[k]\<close>; a nil map reads as empty.\<close>

fun mget :: "'v gomap \<Rightarrow> string \<Rightarrow> 'v option" where
  "mget None k = None"
| "mget (Some xs) k = map_of xs k"

text \<open>\<^verbatim>\<open>m[k] = v\<close>; assigning to an entry of a nil map panics.\<close>

fun mput :: "string \<Rightarrow> 'v \<Rightarrow> 'v gomap \<Rightarrow> 'v gomap res" where
  "mput k v None = Panic ''assignment to entry in nil map''"
| "mput k v (Some xs) = Ok (Some (AList.update k v xs))"

text \<open>\<^verbatim>\<open>delete(m, k)\<close>; a no-op on nil.\<close>

fun mdel :: "string \<Rightarrow> 'v gomap \<Rightarrow> 'v gomap" where
  "mdel k None = None"
| "mdel k (Some xs) = Some (AList.delete k xs)"

text \<open>The pairs a \<^verbatim>\<open>range\<close> visits.\<close>

fun mrange :: "'v gomap \<Rightarrow> (string \<times> 'v) list" where
  "mrange None = []"
| "mrange (Some xs) = xs"

definition mkeys :: "'v gmap \<Rightarrow> string list" where
  "mkeys xs = map fst xs"

text \<open>\<^verbatim>\<open>if m == nil { m = map[string]V{} }\<close>\<close>

fun mmake :: "'v gomap \<Rightarrow> 'v gomap" where
  "mmake None = Some []"
| "mmake (Some xs) = Some xs"

text \<open>\<^verbatim>\<open>for k, v := range src { dst[k] = v }\<close>\<close>

definition mput_all :: "(string \<times> 'v) list \<Rightarrow> 'v gomap \<Rightarrow> 'v gomap res" where
  "mput_all src dst = foldR (\<lambda>(k, v) m. mput k v m) src dst"

text \<open>\<^verbatim>\<open>for k, v := range src { if _, ok := dst[k]; !ok { dst[k] = v } }\<close>\<close>

definition mput_missing :: "(string \<times> 'v) list \<Rightarrow> 'v gomap \<Rightarrow> 'v gomap res" where
  "mput_missing src dst =
     foldR (\<lambda>(k, v) m. if mget m k = None then mput k v m else Ok m) src dst"

definition wf_gmap :: "'v gmap \<Rightarrow> bool" where
  "wf_gmap xs \<longleftrightarrow> distinct (map fst xs)"

lemma wf_gmap_Nil [simp]: "wf_gmap []"
  by (simp add: wf_gmap_def)

lemma wf_gmap_update [simp]: "wf_gmap xs \<Longrightarrow> wf_gmap (AList.update k v xs)"
  by (simp add: wf_gmap_def distinct_update)

lemma wf_gmap_delete [simp]: "wf_gmap xs \<Longrightarrow> wf_gmap (AList.delete k xs)"
  by (simp add: wf_gmap_def distinct_delete)

lemma map_of_update [simp]: "map_of (AList.update k v xs) = (map_of xs)(k \<mapsto> v)"
  by (simp add: update_conv')

lemma map_of_delete [simp]: "map_of (AList.delete k xs) = (map_of xs)(k := None)"
  by (simp add: delete_conv')

lemma mget_None_iff: "mget None = Map.empty"
  by auto

lemma mput_Ok [simp]: "mput k v m = Ok m' \<longleftrightarrow> (\<exists>xs. m = Some xs \<and> m' = Some (AList.update k v xs))"
  by (cases m) auto

lemma mput_Panic [simp]: "mput k v m = Panic p \<longleftrightarrow> m = None \<and> p = ''assignment to entry in nil map''"
  by (cases m) auto

lemma mput_never_Err [simp]: "mput k v m \<noteq> Err e"
  by (cases m) auto

lemma mget_mput: "mput k v m = Ok m' \<Longrightarrow> mget m' = (mget m)(k \<mapsto> v)"
  by auto

lemma mget_mdel [simp]: "mget (mdel k m) = (mget m)(k := None)"
  by (cases m) auto

lemma mmake_not_None [simp]: "mmake m \<noteq> None"
  by (cases m) auto

lemma mget_mmake [simp]: "mget (mmake m) = mget m"
  by (cases m) auto

lemma mput_all_Some:
  "\<exists>ys. mput_all src (Some xs) = Ok (Some ys) \<and> map_of ys = map_of xs ++ map_of (rev src)"
proof (induction src arbitrary: xs)
  case Nil
  then show ?case by (simp add: mput_all_def)
next
  case (Cons kv src)
  obtain k v where kv: "kv = (k, v)" by force
  obtain ys where "mput_all src (Some (AList.update k v xs)) = Ok (Some ys)"
    and "map_of ys = map_of (AList.update k v xs) ++ map_of (rev src)"
    using Cons.IH by blast
  then show ?case by (auto simp: mput_all_def kv map_add_def fun_eq_iff split: option.splits)
qed

lemma mput_all_None: "mput_all src None =
   (case src of [] \<Rightarrow> Ok None | _ \<Rightarrow> Panic ''assignment to entry in nil map'')"
  by (cases src) (auto simp: mput_all_def)

lemma mput_missing_Some:
  "\<exists>ys. mput_missing src (Some xs) = Ok (Some ys) \<and> map_of ys = map_of src ++ map_of xs"
proof (induction src arbitrary: xs)
  case Nil
  then show ?case by (simp add: mput_missing_def)
next
  case (Cons kv src)
  obtain k v where kv: "kv = (k, v)" by force
  show ?case
  proof (cases "map_of xs k")
    case None
    obtain ys where "mput_missing src (Some (AList.update k v xs)) = Ok (Some ys)"
      and "map_of ys = map_of src ++ map_of (AList.update k v xs)"
      using Cons.IH by blast
    with None show ?thesis by (auto simp: mput_missing_def kv map_add_def fun_eq_iff)
  next
    case (Some w)
    obtain ys where "mput_missing src (Some xs) = Ok (Some ys)"
      and "map_of ys = map_of src ++ map_of xs"
      using Cons.IH by blast
    with Some show ?thesis
      by (auto simp: mput_missing_def kv map_add_def fun_eq_iff split: option.splits)
  qed
qed

lemma mput_missing_Ok:
  "mput_missing src (Some xs) = Ok m \<Longrightarrow> \<exists>ys. m = Some ys \<and> map_of ys = map_of src ++ map_of xs"
  using mput_missing_Some [of src xs] by auto

lemma mput_missing_no_Panic: "mput_missing src (Some xs) \<noteq> Panic p"
  using mput_missing_Some [of src xs] by auto

lemma foldR_wf:
  assumes "\<And>x m m'. x \<in> set src \<Longrightarrow> P m \<Longrightarrow> f x m = Ok m' \<Longrightarrow> P m'"
    and "P m" and "foldR f src m = Ok m'"
  shows "P m'"
  using assms by (induction src arbitrary: m) auto

text \<open>The interface of a map from names: what a client of the node table relies on.\<close>

locale name_table =
  fixes tget :: "'t \<Rightarrow> string \<Rightarrow> 'v option"
    and tput :: "string \<Rightarrow> 'v \<Rightarrow> 't \<Rightarrow> 't"
    and tdel :: "string \<Rightarrow> 't \<Rightarrow> 't"
    and tnames :: "'t \<Rightarrow> string list"
    and twf :: "'t \<Rightarrow> bool"
  assumes get_put: "tget (tput k v t) = (tget t)(k \<mapsto> v)"
    and get_del: "tget (tdel k t) = (tget t)(k := None)"
    and names_dom: "set (tnames t) = dom (tget t)"
    and wf_put: "twf t \<Longrightarrow> twf (tput k v t)"
    and wf_del: "twf t \<Longrightarrow> twf (tdel k t)"
    and wf_distinct: "twf t \<Longrightarrow> distinct (tnames t)"
begin

lemma put_same [simp]: "tget (tput k v t) k = Some v"
  by (simp add: get_put)

lemma put_other: "k' \<noteq> k \<Longrightarrow> tget (tput k v t) k' = tget t k'"
  by (simp add: get_put)

lemma del_same [simp]: "tget (tdel k t) k = None"
  by (simp add: get_del)

lemma names_put: "set (tnames (tput k v t)) = insert k (set (tnames t))"
  by (simp add: names_dom get_put)

lemma names_del: "set (tnames (tdel k t)) = set (tnames t) - {k}"
  by (auto simp: names_dom get_del)

lemma count_put_new:
  "twf t \<Longrightarrow> tget t k = None \<Longrightarrow> length (tnames (tput k v t)) = Suc (length (tnames t))"
proof -
  assume wf: "twf t" and new: "tget t k = None"
  have "k \<notin> set (tnames t)" using new by (auto simp: names_dom)
  then have "card (set (tnames (tput k v t))) = Suc (card (set (tnames t)))"
    by (simp add: names_put)
  then show ?thesis
    using wf wf_put [OF wf] by (simp add: distinct_card wf_distinct)
qed

lemma count_put_old:
  "twf t \<Longrightarrow> tget t k = Some v' \<Longrightarrow> length (tnames (tput k v t)) = length (tnames t)"
proof -
  assume wf: "twf t" and old: "tget t k = Some v'"
  have "k \<in> set (tnames t)" using old by (auto simp: names_dom)
  then have "set (tnames (tput k v t)) = set (tnames t)" by (auto simp: names_put)
  then show ?thesis by (metis distinct_card wf wf_distinct wf_put)
qed

end

interpretation alist: name_table map_of AList.update AList.delete mkeys wf_gmap
  by unfold_locales (auto simp: mkeys_def dom_map_of_conv_image_fst wf_gmap_def
      distinct_update distinct_delete update_conv' delete_conv')

section \<open>Transition systems\<close>

inductive reachable :: "('s \<Rightarrow> bool) \<Rightarrow> ('s \<Rightarrow> 's \<Rightarrow> bool) \<Rightarrow> 's \<Rightarrow> bool"
  for init :: "'s \<Rightarrow> bool" and step :: "'s \<Rightarrow> 's \<Rightarrow> bool" where
  reach_init: "init s \<Longrightarrow> reachable init step s"
| reach_step: "reachable init step s \<Longrightarrow> step s t \<Longrightarrow> reachable init step t"

text \<open>An inductive invariant holds in every reachable state.\<close>

locale inductive_invariant =
  fixes init :: "'s \<Rightarrow> bool" and step :: "'s \<Rightarrow> 's \<Rightarrow> bool" and inv :: "'s \<Rightarrow> bool"
  assumes inv_init: "init s \<Longrightarrow> inv s"
    and inv_step: "inv s \<Longrightarrow> step s t \<Longrightarrow> inv t"
begin

lemma reachable_inv: "reachable init step s \<Longrightarrow> inv s"
  by (induction rule: reachable.induct) (auto intro: inv_init inv_step)

lemma inv_steps: "step\<^sup>*\<^sup>* s t \<Longrightarrow> inv s \<Longrightarrow> inv t"
  by (induction rule: rtranclp_induct) (auto intro: inv_step)

end

end
