(* ===== verification/Go_Strings.thy ===== *)
theory Go_Strings
  imports NR_Prelude
begin

text \<open>
  The parts of Go's \<^verbatim>\<open>fmt\<close>, \<^verbatim>\<open>strings\<close> and \<^verbatim>\<open>path/filepath\<close> that the network runner
  calls, on byte strings: decimal printing, splitting and joining, prefixes and suffixes,
  and the lexical path operations \<^verbatim>\<open>Clean\<close>, \<^verbatim>\<open>Join\<close>, \<^verbatim>\<open>Dir\<close> and \<^verbatim>\<open>Base\<close> (with the Unix
  separator). The lemmas show that printing is injective, that splitting undoes joining,
  and that joining a plain name onto a directory keeps the name apart from every other.
\<close>

section \<open>Decimal printing\<close>

definition digit_char :: "nat \<Rightarrow> char" where
  "digit_char d = char_of (48 + d)"

fun show_nat :: "nat \<Rightarrow> string" where
  "show_nat n = (if n < 10 then [digit_char n] else show_nat (n div 10) @ [digit_char (n mod 10)])"

definition show_int :: "int \<Rightarrow> string" where
  "show_int i = (if i < 0 then CHR ''-'' # show_nat (nat (- i)) else show_nat (nat i))"

definition read_nat :: "string \<Rightarrow> nat" where
  "read_nat s = foldl (\<lambda>a c. 10 * a + (of_char c - 48)) 0 s"

declare show_nat.simps [simp del]

lemma of_char_digit [simp]: "d < 10 \<Longrightarrow> of_char (digit_char d) = (48 + d :: nat)"
  by (simp add: digit_char_def)

lemma read_nat_snoc: "read_nat (s @ [c]) = 10 * read_nat s + (of_char c - 48)"
  by (simp add: read_nat_def)

lemma read_show_nat [simp]: "read_nat (show_nat n) = n"
proof (induction n rule: show_nat.induct)
  case (1 n)
  show ?case
  proof (cases "n < 10")
    case True
    then show ?thesis by (simp add: show_nat.simps [of n] read_nat_def)
  next
    case False
    then show ?thesis using "1.IH" by (simp add: show_nat.simps [of n] read_nat_snoc)
  qed
qed

lemma show_nat_inject [simp]: "show_nat m = show_nat n \<longleftrightarrow> m = n"
  by (metis read_show_nat)

lemma show_nat_not_Nil [simp]: "show_nat n \<noteq> []"
  by (subst show_nat.simps) simp

lemma show_nat_digits: "c \<in> set (show_nat n) \<Longrightarrow> \<exists>d < 10. c = digit_char d"
proof (induction n rule: show_nat.induct)
  case (1 n)
  show ?case
  proof (cases "n < 10")
    case True
    then show ?thesis using "1.prems" by (auto simp: show_nat.simps [of n])
  next
    case False
    then have "c \<in> set (show_nat (n div 10)) \<or> c = digit_char (n mod 10)"
      using "1.prems" by (auto simp: show_nat.simps [of n])
    then show ?thesis using "1.IH" [OF False] by (auto intro: exI [of _ "n mod 10"])
  qed
qed

section \<open>Splitting and joining\<close>

text \<open>\<^verbatim>\<open>strings.Split(s, sep)\<close> for a one-byte separator.\<close>

fun split_on :: "char \<Rightarrow> string \<Rightarrow> string list" where
  "split_on c [] = [[]]"
| "split_on c (x # xs) =
     (if x = c then [] # split_on c xs
      else (case split_on c xs of [] \<Rightarrow> [[x]] | y # ys \<Rightarrow> (x # y) # ys))"

text \<open>\<^verbatim>\<open>strings.Join(elems, sep)\<close>\<close>

fun join_with :: "string \<Rightarrow> string list \<Rightarrow> string" where
  "join_with sep [] = []"
| "join_with sep [x] = x"
| "join_with sep (x # y # ys) = x @ sep @ join_with sep (y # ys)"

definition has_prefix :: "string \<Rightarrow> string \<Rightarrow> bool" where
  "has_prefix p s \<longleftrightarrow> take (length p) s = p"

definition has_suffix :: "string \<Rightarrow> string \<Rightarrow> bool" where
  "has_suffix p s \<longleftrightarrow> has_prefix (rev p) (rev s)"

definition trim_prefix :: "string \<Rightarrow> string \<Rightarrow> string" where
  "trim_prefix p s = (if has_prefix p s then drop (length p) s else s)"

definition trim_suffix :: "string \<Rightarrow> string \<Rightarrow> string" where
  "trim_suffix p s = (if has_suffix p s then take (length s - length p) s else s)"

lemma split_on_not_Nil [simp]: "split_on c s \<noteq> []"
  by (induction s) (auto split: list.splits)

lemma split_on_no_sep: "p \<in> set (split_on c s) \<Longrightarrow> c \<notin> set p"
  by (induction s arbitrary: p) (auto split: if_splits list.splits)

lemma split_on_id: "c \<notin> set s \<Longrightarrow> split_on c s = [s]"
  by (induction s) auto

lemma split_on_append_sep: "c \<notin> set s \<Longrightarrow> split_on c (s @ c # t) = s # split_on c t"
  by (induction s) auto

lemma split_on_append: "split_on c (s @ c # t) = split_on c s @ split_on c t"
  by (induction s) (auto split: list.splits)

lemma split_join: "xs \<noteq> [] \<Longrightarrow> (\<And>x. x \<in> set xs \<Longrightarrow> c \<notin> set x) \<Longrightarrow> split_on c (join_with [c] xs) = xs"
  by (induction "[c]" xs rule: join_with.induct) (auto simp: split_on_id split_on_append_sep)

lemma join_with_Cons: "xs \<noteq> [] \<Longrightarrow> join_with sep (x # xs) = x @ sep @ join_with sep xs"
  by (cases xs) auto

lemma join_split: "join_with [c] (split_on c s) = s"
proof (induction s)
  case (Cons x s)
  then show ?case
    by (cases "split_on c s") (auto simp: join_with_Cons, (metis append_Cons append_Nil
        join_with.simps(2) join_with_Cons list.exhaust)+)
qed simp

lemma has_prefix_append [simp]: "has_prefix p (p @ s)"
  by (simp add: has_prefix_def)

lemma trim_prefix_append [simp]: "trim_prefix p (p @ s) = s"
  by (simp add: trim_prefix_def)

section \<open>Paths\<close>

text \<open>
  \<^verbatim>\<open>filepath.Clean\<close>: the elements are pushed on a stack (kept reversed), empty and \<^verbatim>\<open>.\<close>
  elements are dropped, \<^verbatim>\<open>..\<close> pops an element, is dropped at the root and kept at the start
  of a relative path.
\<close>

fun clean_parts :: "bool \<Rightarrow> string list \<Rightarrow> string list \<Rightarrow> string list" where
  "clean_parts rooted st [] = st"
| "clean_parts rooted st (p # ps) =
     (if p = [] \<or> p = ''.'' then clean_parts rooted st ps
      else if p = ''..'' then
        (case st of
           [] \<Rightarrow> clean_parts rooted (if rooted then [] else [''..'']) ps
         | t # ts \<Rightarrow> clean_parts rooted (if t = ''..'' then ''..'' # st else ts) ps)
      else clean_parts rooted (p # st) ps)"

definition path_of_parts :: "bool \<Rightarrow> string list \<Rightarrow> string" where
  "path_of_parts rooted ps =
     (if rooted then CHR ''/'' # join_with ''/'' ps
      else if ps = [] then ''.'' else join_with ''/'' ps)"

definition is_rooted :: "string \<Rightarrow> bool" where
  "is_rooted p \<longleftrightarrow> has_prefix ''/'' p"

definition filepath_Clean :: "string \<Rightarrow> string" where
  "filepath_Clean p =
     (if p = [] then ''.''
      else path_of_parts (is_rooted p) (rev (clean_parts (is_rooted p) [] (split_on (CHR ''/'') p))))"

definition filepath_Join :: "string list \<Rightarrow> string" where
  "filepath_Join elems =
     (let es = dropWhile (\<lambda>e. e = []) elems
      in if es = [] then [] else filepath_Clean (join_with ''/'' es))"

text \<open>\<^verbatim>\<open>filepath.Dir\<close>: everything up to the last slash, cleaned.\<close>

definition filepath_Dir :: "string \<Rightarrow> string" where
  "filepath_Dir p = filepath_Clean (rev (dropWhile (\<lambda>c. c \<noteq> CHR ''/'') (rev p)))"

text \<open>\<^verbatim>\<open>filepath.Base\<close>: the last element, trailing slashes removed.\<close>

definition filepath_Base :: "string \<Rightarrow> string" where
  "filepath_Base p =
     (if p = [] then ''.''
      else let q = rev (dropWhile (\<lambda>c. c = CHR ''/'') (rev p))
           in if q = [] then ''/'' else last (split_on (CHR ''/'') q))"

text \<open>A name that is a single path element.\<close>

definition plain_name :: "string \<Rightarrow> bool" where
  "plain_name n \<longleftrightarrow> n \<noteq> [] \<and> CHR ''/'' \<notin> set n \<and> n \<noteq> ''.'' \<and> n \<noteq> ''..''"

lemma clean_parts_append:
  "clean_parts r st (ps @ qs) = clean_parts r (clean_parts r st ps) qs"
  by (induction r st ps rule: clean_parts.induct) (auto split: list.splits)

lemma clean_parts_plain: "plain_name n \<Longrightarrow> clean_parts r st [n] = n # st"
  by (simp add: plain_name_def)

lemma clean_parts_no_sep:
  "(\<And>p. p \<in> set ps \<Longrightarrow> CHR ''/'' \<notin> set p) \<Longrightarrow> (\<And>p. p \<in> set st \<Longrightarrow> CHR ''/'' \<notin> set p) \<Longrightarrow>
   p \<in> set (clean_parts r st ps) \<Longrightarrow> CHR ''/'' \<notin> set p"
  by (induction r st ps rule: clean_parts.induct) (auto split: list.splits if_splits)

text \<open>Cleaning a path with a plain last element appends that element to the cleaned rest.\<close>

definition dir_parts :: "string \<Rightarrow> string list" where
  "dir_parts d = rev (clean_parts (is_rooted d) [] (split_on (CHR ''/'') d))"

lemma dir_parts_no_sep: "p \<in> set (dir_parts d) \<Longrightarrow> CHR ''/'' \<notin> set p"
  unfolding dir_parts_def using clean_parts_no_sep [of "split_on (CHR ''/'') d" "[]" p]
  by (auto dest: split_on_no_sep)

lemma filepath_Join_plain:
  assumes "plain_name n"
  shows "filepath_Join [d, n] =
    (if d = [] then n else path_of_parts (is_rooted d) (dir_parts d @ [n]))"
proof (cases "d = []")
  case True
  have nr: "\<not> is_rooted n"
    using assms by (cases n) (auto simp: plain_name_def is_rooted_def has_prefix_def)
  have "split_on (CHR ''/'') n = [n]"
    using assms by (intro split_on_id) (simp add: plain_name_def)
  then have "filepath_Clean n = n"
    using assms nr clean_parts_plain [OF assms, of False "[]"]
    by (simp add: filepath_Clean_def path_of_parts_def) (simp add: plain_name_def)
  with True assms show ?thesis by (auto simp: filepath_Join_def plain_name_def)
next
  case False
  have "is_rooted (d @ ''/'' @ n) = is_rooted d"
    using False by (cases d) (auto simp: is_rooted_def has_prefix_def)
  moreover have "split_on (CHR ''/'') (d @ ''/'' @ n) = split_on (CHR ''/'') d @ [n]"
    using assms by (simp add: split_on_append split_on_id plain_name_def)
  moreover have "clean_parts (is_rooted d) st [n] = n # st" for st
    using assms by (rule clean_parts_plain)
  ultimately show ?thesis using False
    by (simp add: filepath_Join_def filepath_Clean_def clean_parts_append dir_parts_def)
qed

lemma join_with_snoc: "xs \<noteq> [] \<Longrightarrow> join_with sep (xs @ [x]) = join_with sep xs @ sep @ x"
  by (induction sep xs rule: join_with.induct) auto

lemma path_of_parts_snoc:
  "\<exists>q. path_of_parts r (ps @ [n]) = q @ n \<and> (q = [] \<or> last q = CHR ''/'')"
proof (cases "ps = []")
  case True
  then show ?thesis by (auto simp: path_of_parts_def intro: exI [of _ "''/''"])
next
  case False
  let ?q = "(if r then ''/'' else []) @ join_with ''/'' ps @ ''/''"
  have "path_of_parts r (ps @ [n]) = ?q @ n"
    using False by (simp add: path_of_parts_def join_with_snoc)
  then show ?thesis by (intro exI [of _ ?q]) simp
qed

lemma split_path_of_parts:
  assumes "\<And>p. p \<in> set ps \<Longrightarrow> CHR ''/'' \<notin> set p" and "ps \<noteq> []"
  shows "split_on (CHR ''/'') (path_of_parts r ps) = (if r then [] # ps else ps)"
  using assms split_join [of ps "CHR ''/''"] by (auto simp: path_of_parts_def)

lemma filepath_Join_inject:
  assumes m: "plain_name m" and n: "plain_name n"
  shows "filepath_Join [d, m] = filepath_Join [d, n] \<longleftrightarrow> m = n"
proof (cases "d = []")
  case True
  then show ?thesis by (simp add: filepath_Join_plain [OF m] filepath_Join_plain [OF n])
next
  case False
  have "split_on (CHR ''/'') (filepath_Join [d, k]) =
      (if is_rooted d then [] # dir_parts d @ [k] else dir_parts d @ [k])" if "plain_name k" for k
    using False that dir_parts_no_sep [of _ d]
    by (subst filepath_Join_plain [OF that]) (subst if_not_P [OF False],
        subst split_path_of_parts, auto simp: plain_name_def)
  from this [OF m] this [OF n] show ?thesis by (metis append1_eq_conv list.inject)
qed

lemma filepath_Base_plain: "plain_name n \<Longrightarrow> filepath_Base (filepath_Join [d, n]) = n"
proof -
  assume n: "plain_name n"
  let ?p = "filepath_Join [d, n]"
  have ends: "\<exists>q. ?p = q @ n \<and> (q = [] \<or> last q = CHR ''/'')"
  proof (cases "d = []")
    case True
    then show ?thesis using n by (simp add: filepath_Join_plain)
  next
    case False
    then have "?p = path_of_parts (is_rooted d) (dir_parts d @ [n])"
      using n by (simp add: filepath_Join_plain)
    then show ?thesis using path_of_parts_snoc by metis
  qed
  then obtain q where q: "?p = q @ n" "q = [] \<or> last q = CHR ''/''" by blast
  have nl: "n \<noteq> []" "CHR ''/'' \<notin> set n" using n by (auto simp: plain_name_def)
  then have drop: "dropWhile (\<lambda>c. c = CHR ''/'') (rev ?p) = rev ?p"
    using q(1) by (cases "rev n") (auto dest: arg_cong [of _ _ set])
  have "last (split_on (CHR ''/'') ?p) = n"
  proof (cases "q = []")
    case True
    then show ?thesis using q nl by (simp add: split_on_id)
  next
    case False
    then obtain q' where "q = q' @ [CHR ''/'']" using q(2) by (metis append_butlast_last_id)
    then show ?thesis using q nl by (simp add: split_on_append split_on_id)
  qed
  then show ?thesis using drop q nl by (simp add: filepath_Base_def)
qed


text \<open>A cleaned path: no empty or \<^verbatim>\<open>.\<close> elements, and \<^verbatim>\<open>..\<close> only at the start of a relative one.\<close>

definition clean_stack :: "bool \<Rightarrow> string list \<Rightarrow> bool" where
  "clean_stack r st \<longleftrightarrow> (\<exists>xs k. st = xs @ replicate k ''..'' \<and> (\<forall>p\<in>set xs. p \<notin> {[], ''.'', ''..''}) \<and> (r \<longrightarrow> k = 0))"

lemma clean_stack_Nil: "clean_stack r []"
  unfolding clean_stack_def by (intro exI [of _ "[]"] exI [of _ 0]) simp

lemma clean_stack_push:
  assumes "clean_stack r st" "p \<notin> {[], ''.'', ''..''}"
  shows "clean_stack r (p # st)"
proof -
  obtain xs k where "st = xs @ replicate k ''..''" "\<forall>p\<in>set xs. p \<notin> {[], ''.'', ''..''}" "r \<longrightarrow> k = 0"
    using assms(1) unfolding clean_stack_def by blast
  then show ?thesis unfolding clean_stack_def
    using assms(2) by (intro exI [of _ "p # xs"] exI [of _ k]) simp
qed

lemma clean_stack_up:
  assumes "clean_stack r (t # ts)"
  shows "clean_stack r (if t = ''..'' then ''..'' # t # ts else ts)"
proof -
  obtain xs k where st: "t # ts = xs @ replicate k ''..''" "\<forall>p\<in>set xs. p \<notin> {[], ''.'', ''..''}" "r \<longrightarrow> k = 0"
    using assms unfolding clean_stack_def by blast
  show ?thesis
  proof (cases xs)
    case Nil
    then have "t # ts = replicate k ''..''" "\<not> r" using st by (auto simp: Cons_replicate_eq)
    then show ?thesis unfolding clean_stack_def
      by (intro exI [of _ "[]"] exI [of _ "Suc k"]) (auto simp: Cons_replicate_eq)
  next
    case (Cons y ys)
    then show ?thesis using st unfolding clean_stack_def
      by (intro exI [of _ ys] exI [of _ k]) auto
  qed
qed

lemma clean_stack_parts: "clean_stack r st \<Longrightarrow> clean_stack r (clean_parts r st ps)"
proof (induction r st ps rule: clean_parts.induct)
  case (2 r st p ps)
  have up: "clean_stack r (if r then [] else [''..''])"
    unfolding clean_stack_def by (intro exI [of _ "[]"] exI [of _ "if r then 0 else 1"]) simp
  show ?case
  proof (cases "p = ''..'' \<and> st \<noteq> []")
    case True
    then obtain t ts where st: "st = t # ts" by (cases st) auto
    with 2(5) have "clean_stack r (if t = ''..'' then ''..'' # t # ts else ts)"
      by (simp only: clean_stack_up)
    with 2(3) [of t ts] True st show ?thesis by (cases "t = ''..''") simp_all
  next
    case False
    then show ?thesis using 2(1,2,4,5) up clean_stack_push [OF 2(5), of p] by auto
  qed
qed simp

lemma clean_parts_dots: "\<not> r \<Longrightarrow> clean_parts r (replicate j ''..'') (replicate k ''..'' @ ps) = clean_parts r (replicate (j + k) ''..'') ps"
proof (induction k arbitrary: j)
  case (Suc k)
  show ?case using Suc.IH [of "Suc j"] Suc.prems by (cases j) simp_all
qed simp

lemma clean_parts_names:
  "\<forall>p\<in>set xs. p \<notin> {[], ''.'', ''..''} \<Longrightarrow> clean_parts r st (rev xs) = xs @ st"
  by (induction xs arbitrary: st) (simp_all add: clean_parts_append)

lemma clean_parts_id: "clean_stack r st \<Longrightarrow> clean_parts r [] (rev st) = st"
  unfolding clean_stack_def
  using clean_parts_dots [of r 0] clean_parts_names by (cases r) auto

lemma dir_parts_clean:
  "clean_parts r [] (dir_parts d) = rev (dir_parts d)" if "r = is_rooted d"
  unfolding dir_parts_def that
  using clean_parts_id [OF clean_stack_parts [OF clean_stack_Nil]] by simp

lemma is_rooted_path:
  assumes "\<And>p. p \<in> set ps \<Longrightarrow> CHR ''/'' \<notin> set p" "ps \<noteq> []" "hd ps \<noteq> []"
  shows "is_rooted (path_of_parts r ps) = r"
proof (cases "hd ps")
  case (Cons c cs)
  then obtain qs where "ps = (c # cs) # qs" using assms(2) by (cases ps) auto
  then show ?thesis using assms(1) [of "hd ps"]
    by (cases qs) (auto simp: path_of_parts_def is_rooted_def has_prefix_def)
qed (use assms(3) in simp)

text \<open>Cleaning a cleaned path, with or without a slash at its end, changes nothing.\<close>

lemma Clean_path:
  assumes "\<And>p. p \<in> set ps \<Longrightarrow> CHR ''/'' \<notin> set p" and clean: "clean_stack r (rev ps)" and "ps \<noteq> []"
  shows "filepath_Clean (path_of_parts r ps) = path_of_parts r ps"
    "filepath_Clean (path_of_parts r ps @ ''/'') = path_of_parts r ps"
proof -
  let ?p = "path_of_parts r ps"
  have ne: "hd ps \<noteq> []" "p \<in> set ps \<Longrightarrow> p \<noteq> []" for p
    using clean assms(3) unfolding clean_stack_def
    by (metis (no_types, lifting) UnE empty_iff in_set_replicate insertI1 list.set_sel(1) list.simps(3) set_append set_rev)+
  have root: "is_rooted ?p = r" by (rule is_rooted_path [OF assms(1,3) ne(1)])
  have nonempty: "?p \<noteq> []"
    using assms(3) ne(1) by (cases ps; cases "tl ps") (auto simp: path_of_parts_def)
  then have root': "is_rooted (?p @ ''/'') = r" using root by (cases ?p) (auto simp: is_rooted_def has_prefix_def)
  note split = split_path_of_parts [OF assms(1,3), of r]
  have id: "clean_parts r [] (if r then [] # ps else ps) = rev ps"
    using clean_parts_id [OF clean] by (cases r) simp_all
  show "filepath_Clean ?p = ?p"
    using nonempty by (simp add: filepath_Clean_def root split id)
  have "split_on (CHR ''/'') (?p @ ''/'') = (if r then [] # ps else ps) @ [[]]"
    using split_on_append [of "CHR ''/''" ?p "[]"] by (simp add: split)
  then show "filepath_Clean (?p @ ''/'') = ?p"
    by (simp add: filepath_Clean_def root' clean_parts_append id)
qed

lemma clean_stack_dir_parts: "clean_stack (is_rooted d) (rev (dir_parts d))"
  by (simp add: dir_parts_def clean_stack_parts clean_stack_Nil)

lemma filepath_Clean_parts: "d \<noteq> [] \<Longrightarrow> filepath_Clean d = path_of_parts (is_rooted d) (dir_parts d)"
  by (simp add: filepath_Clean_def dir_parts_def)

lemma filepath_Clean_simps [simp]:
  "filepath_Clean [] = ''.''" "filepath_Clean ''.'' = ''.''" "filepath_Clean ''/'' = ''/''"
  by (simp_all add: filepath_Clean_def path_of_parts_def is_rooted_def has_prefix_def)

lemma filepath_Clean_idem [simp]: "filepath_Clean (filepath_Clean d) = filepath_Clean d"
proof (cases "dir_parts d = [] \<or> d = []")
  case True
  then show ?thesis
    by (cases "d = []") (auto simp: filepath_Clean_parts [of d] path_of_parts_def)
next
  case False
  then show ?thesis
    using Clean_path(1) [OF dir_parts_no_sep clean_stack_dir_parts] by (simp add: filepath_Clean_parts)
qed

lemma filepath_Join_clean: "filepath_Join es \<noteq> [] \<Longrightarrow> filepath_Clean (filepath_Join es) = filepath_Join es"
  by (cases "dropWhile (\<lambda>e. e = []) es = []") (simp_all add: filepath_Join_def Let_def)

lemma filepath_Dir_Join:
  assumes "plain_name n" "d \<noteq> []"
  shows "filepath_Dir (filepath_Join [d, n]) = filepath_Clean d"
proof -
  let ?r = "is_rooted d" and ?ps = "dir_parts d"
  let ?q = "if ?ps = [] then (if ?r then ''/'' else []) else path_of_parts ?r ?ps @ ''/''"
  have n: "CHR ''/'' \<notin> set n" using assms(1) by (simp add: plain_name_def)
  have join: "filepath_Join [d, n] = ?q @ n"
    using assms by (simp add: filepath_Join_plain) (auto simp: path_of_parts_def join_with_snoc)
  have "\<forall>c \<in> set (rev n). c \<noteq> CHR ''/''" using n by auto
  then have "dropWhile (\<lambda>c. c \<noteq> CHR ''/'') (rev n @ rev ?q) = dropWhile (\<lambda>c. c \<noteq> CHR ''/'') (rev ?q)"
    by (intro dropWhile_append2) blast
  moreover have "dropWhile (\<lambda>c. c \<noteq> CHR ''/'') (rev ?q) = rev ?q" by simp
  ultimately have "filepath_Dir (filepath_Join [d, n]) = filepath_Clean ?q"
    by (simp only: filepath_Dir_def join rev_append rev_rev_ident)
  also have "\<dots> = filepath_Clean d"
  proof (cases "?ps = []")
    case True
    then show ?thesis using assms(2)
      by (simp add: filepath_Clean_parts [of d] path_of_parts_def)
  next
    case False
    then show ?thesis using assms(2) Clean_path(2) [OF dir_parts_no_sep clean_stack_dir_parts False]
      by (simp add: filepath_Clean_parts)
  qed
  finally show ?thesis .
qed

end
