(* ===== verification/Go_Values.thy ===== *)
theory Go_Values
  imports Go_Strings
begin

text \<open>
  Dynamic values (\<^verbatim>\<open>interface{}\<close>), the JSON encoding of \<^verbatim>\<open>encoding/json\<close> on them, and the
  numeric conversions the network runner applies to them.

  A value read from JSON is null, a bool, a string, a float64, an array or an object. Values
  built by the program can also be an \<^verbatim>\<open>int\<close> or a \<^verbatim>\<open>uint16\<close>, which JSON turns into a
  float64. A float64 is written as a decimal: \<open>VFloat m n\<close> is \<open>m / 10^n\<close>, with \<open>n\<close> minimal.
  That is exact for numbers of up to 15 significant digits (ports, network IDs, times,
  amounts in a config); beyond that float64 rounds and the model does not.
\<close>

datatype val =
    VNull
  | VBool bool
  | VStr string
  | VInt int
  | VU16 "16 word"
  | VFloat int nat
  | VArr "val list"
  | VObj "(string \<times> val) list"

section \<open>Type assertions and conversions\<close>

fun as_string :: "val \<Rightarrow> string option" where
  "as_string (VStr s) = Some s"
| "as_string _ = None"

text \<open>\<^verbatim>\<open>%T\<close>\<close>

fun type_name :: "val \<Rightarrow> string" where
  "type_name VNull = ''<nil>''"
| "type_name (VBool _) = ''bool''"
| "type_name (VStr _) = ''string''"
| "type_name (VInt _) = ''int''"
| "type_name (VU16 _) = ''uint16''"
| "type_name (VFloat _ _) = ''float64''"
| "type_name (VArr _) = ''[]interface {}''"
| "type_name (VObj _) = ''map[string]interface {}''"

text \<open>The integer part of a float64, towards zero, as a Go conversion takes it.\<close>

definition trunc_dec :: "int \<Rightarrow> nat \<Rightarrow> int" where
  "trunc_dec m n = (if m < 0 then - ((- m) div 10 ^ n) else m div 10 ^ n)"

definition uint16_of_int :: "int \<Rightarrow> 16 word" where
  "uint16_of_int i = word_of_int i"

definition uint32_of_float :: "int \<Rightarrow> nat \<Rightarrow> 32 word" where
  "uint32_of_float m n = word_of_int (trunc_dec m n)"

definition uint16_of_float :: "int \<Rightarrow> nat \<Rightarrow> 16 word" where
  "uint16_of_float m n = word_of_int (trunc_dec m n)"

lemma trunc_dec_0 [simp]: "trunc_dec m 0 = m"
  by (simp add: trunc_dec_def)

lemma uint16_of_uint [simp]: "uint16_of_int (uint w) = w" "uint16_of_float (uint w) 0 = w"
  by (simp_all add: uint16_of_int_def uint16_of_float_def)

section \<open>Printing with \<^verbatim>\<open>%v\<close>\<close>

text \<open>The fixed notation, which \<^verbatim>\<open>%v\<close> and JSON use for \<open>|x| < 10^21\<close>.\<close>

fun pad_left :: "nat \<Rightarrow> string \<Rightarrow> string" where
  "pad_left n s = replicate (n - length s) (CHR ''0'') @ s"

definition show_float :: "int \<Rightarrow> nat \<Rightarrow> string" where
  "show_float m n =
     (if n = 0 then show_int m
      else let a = nat \<bar>m\<bar> in
        (if m < 0 then ''-'' else []) @ show_nat (a div 10 ^ n) @ ''.'' @
        pad_left n (show_nat (a mod 10 ^ n)))"

fun fmt_v :: "val \<Rightarrow> string" where
  "fmt_v VNull = ''<nil>''"
| "fmt_v (VBool b) = (if b then ''true'' else ''false'')"
| "fmt_v (VStr s) = s"
| "fmt_v (VInt i) = show_int i"
| "fmt_v (VU16 w) = show_nat (unat w)"
| "fmt_v (VFloat m n) = show_float m n"
| "fmt_v (VArr vs) = ''['' @ join_with '' '' (map fmt_v vs) @ '']''"
| "fmt_v (VObj kvs) = ''map['' @
     join_with '' '' (map (\<lambda>(k, s). k @ '':'' @ s) (sort_key fst (map (\<lambda>(k, v). (k, fmt_v v)) kvs)))
     @ '']''"

section \<open>Reading JSON\<close>

definition is_ws :: "char \<Rightarrow> bool" where
  "is_ws c \<longleftrightarrow> c = CHR '' '' \<or> c = CHR 0x09 \<or> c = CHR 0x0A \<or> c = CHR 0x0D"

definition skip_ws :: "string \<Rightarrow> string" where
  "skip_ws s = dropWhile is_ws s"

definition is_digit :: "char \<Rightarrow> bool" where
  "is_digit c \<longleftrightarrow> (48::nat) \<le> of_char c \<and> of_char c \<le> (57::nat)"

definition hex_val :: "char \<Rightarrow> nat option" where
  "hex_val c = (let n = of_char c :: nat in
     if 48 \<le> n \<and> n \<le> 57 then Some (n - 48)
     else if 97 \<le> n \<and> n \<le> 102 then Some (n - 87)
     else if 65 \<le> n \<and> n \<le> 70 then Some (n - 55) else None)"

definition hex4 :: "char \<Rightarrow> char \<Rightarrow> char \<Rightarrow> char \<Rightarrow> nat option" where
  "hex4 a b c d = (case (hex_val a, hex_val b, hex_val c, hex_val d) of
     (Some w, Some x, Some y, Some z) \<Rightarrow> Some (4096 * w + 256 * x + 16 * y + z) | _ \<Rightarrow> None)"

definition utf8 :: "nat \<Rightarrow> string" where
  "utf8 n =
     (if n < 128 then [char_of n]
      else if n < 2048 then [char_of (192 + n div 64), char_of (128 + n mod 64)]
      else if n < 65536 then
        [char_of (224 + n div 4096), char_of (128 + n div 64 mod 64), char_of (128 + n mod 64)]
      else [char_of (240 + n div 262144), char_of (128 + n div 4096 mod 64),
            char_of (128 + n div 64 mod 64), char_of (128 + n mod 64)])"

definition unescape :: "char \<Rightarrow> char option" where
  "unescape e =
     (if e = CHR 0x22 \<or> e = CHR 0x5C \<or> e = CHR ''/'' then Some e
      else if e = CHR ''b'' then Some (CHR 0x08)
      else if e = CHR ''f'' then Some (CHR 0x0C)
      else if e = CHR ''n'' then Some (CHR 0x0A)
      else if e = CHR ''r'' then Some (CHR 0x0D)
      else if e = CHR ''t'' then Some (CHR 0x09)
      else None)"

text \<open>A \<^verbatim>\<open>\uXXXX\<close> escape; a surrogate pair is one rune, a lone surrogate is U+FFFD.\<close>

fun parse_u :: "string \<Rightarrow> (string \<times> string) option" where
  "parse_u (a # b # c # d # r) =
     (case hex4 a b c d of
        None \<Rightarrow> None
      | Some n \<Rightarrow>
          if 55296 \<le> n \<and> n < 56320 then
            (case r of
               x # y # a' # b' # c' # d' # r' \<Rightarrow>
                 (case hex4 a' b' c' d' of
                    Some l \<Rightarrow>
                      if x = CHR 0x5C \<and> y = CHR ''u'' \<and> 56320 \<le> l \<and> l < 57344
                      then Some (utf8 (65536 + (n - 55296) * 1024 + (l - 56320)), r')
                      else Some (utf8 65533, r)
                  | None \<Rightarrow> Some (utf8 65533, r))
             | _ \<Rightarrow> Some (utf8 65533, r))
          else if 56320 \<le> n \<and> n < 57344 then Some (utf8 65533, r)
          else Some (utf8 n, r))"
| "parse_u _ = None"

lemma parse_u_shorter: "parse_u s = Some (u, r) \<Longrightarrow> length r < length s"
  by (induction s rule: parse_u.induct) (auto split: option.splits if_splits list.splits)

text \<open>The rest of a string after its opening quote.\<close>

function parse_str :: "string \<Rightarrow> (string \<times> string) option" where
  "parse_str [] = None"
| "parse_str (c # cs) =
     (if c = CHR 0x22 then Some ([], cs)
      else if c = CHR 0x5C then
        (case cs of
           [] \<Rightarrow> None
         | e # r \<Rightarrow>
             if e = CHR ''u'' then
               (case parse_u r of
                  None \<Rightarrow> None
                | Some (u, r') \<Rightarrow> map_option (\<lambda>(s, t). (u @ s, t)) (parse_str r'))
             else (case unescape e of
                     None \<Rightarrow> None
                   | Some x \<Rightarrow> map_option (\<lambda>(s, t). (x # s, t)) (parse_str r)))
      else if of_char c < (32::nat) then None
      else map_option (\<lambda>(s, t). (c # s, t)) (parse_str cs))"
  by pat_completeness auto
termination
  by (relation "measure length") (auto dest: parse_u_shorter)

text \<open>Numbers: a decimal with its fraction and exponent applied, in lowest form.\<close>

fun norm_dec :: "int \<Rightarrow> nat \<Rightarrow> int \<times> nat" where
  "norm_dec m 0 = (m, 0)"
| "norm_dec m (Suc n) = (if m mod 10 = 0 then norm_dec (m div 10) n else (m, Suc n))"

definition scale_dec :: "int \<Rightarrow> nat \<Rightarrow> int \<Rightarrow> int \<times> nat" where
  "scale_dec m n e =
     (if e \<le> int n then norm_dec m (nat (int n - e)) else (m * 10 ^ nat (e - int n), 0))"

definition parse_exp :: "string \<Rightarrow> (int \<times> string) option" where
  "parse_exp s =
     (let sg = (case s of c # _ \<Rightarrow> c = CHR ''-'' | [] \<Rightarrow> False);
          t = (case s of c # r \<Rightarrow> if c = CHR ''-'' \<or> c = CHR ''+'' then r else s | [] \<Rightarrow> []);
          ds = takeWhile is_digit t
      in if ds = [] then None
         else Some ((if sg then - int (read_nat ds) else int (read_nat ds)), dropWhile is_digit t))"

definition parse_frac :: "string \<Rightarrow> (string \<times> string) option" where
  "parse_frac r =
     (case r of
        [] \<Rightarrow> Some ([], [])
      | c # u \<Rightarrow>
          if c = CHR ''.'' then
            (if takeWhile is_digit u = [] then None
             else Some (takeWhile is_digit u, dropWhile is_digit u))
          else Some ([], r))"

definition parse_scale :: "int \<Rightarrow> nat \<Rightarrow> string \<Rightarrow> (val \<times> string) option" where
  "parse_scale m n r =
     (case r of
        [] \<Rightarrow> (case norm_dec m n of (a, b) \<Rightarrow> Some (VFloat a b, r))
      | c # u \<Rightarrow>
          if c = CHR ''e'' \<or> c = CHR ''E'' then
            (case parse_exp u of
               None \<Rightarrow> None
             | Some (e, t) \<Rightarrow> (case scale_dec m n e of (a, b) \<Rightarrow> Some (VFloat a b, t)))
          else (case norm_dec m n of (a, b) \<Rightarrow> Some (VFloat a b, r)))"

definition parse_unsigned :: "int \<Rightarrow> string \<Rightarrow> (val \<times> string) option" where
  "parse_unsigned sg t =
     (let ip = takeWhile is_digit t in
      if ip = [] \<or> hd ip = CHR ''0'' \<and> tl ip \<noteq> [] then None
      else (case parse_frac (dropWhile is_digit t) of
              None \<Rightarrow> None
            | Some (fp, r) \<Rightarrow> parse_scale (sg * int (read_nat (ip @ fp))) (length fp) r))"

definition parse_num :: "string \<Rightarrow> (val \<times> string) option" where
  "parse_num s =
     (if has_prefix ''-'' s then parse_unsigned (- 1) (tl s) else parse_unsigned 1 s)"

text \<open>
  Values. The fuel bounds the depth of the recursion; the text's length is always enough,
  because every nested call but the first of an array or object has consumed a byte.
  A repeated key keeps the last value.
\<close>

definition keep_last :: "(string \<times> 'v) list \<Rightarrow> (string \<times> 'v) list" where
  "keep_last kvs = fold (\<lambda>(k, v) m. AList.update k v m) kvs []"

fun parse_val :: "nat \<Rightarrow> string \<Rightarrow> (val \<times> string) option"
and parse_elems :: "nat \<Rightarrow> string \<Rightarrow> (val list \<times> string) option"
and parse_members :: "nat \<Rightarrow> string \<Rightarrow> ((string \<times> val) list \<times> string) option" where
  "parse_val 0 s = None"
| "parse_val (Suc f) s =
     (case skip_ws s of
        [] \<Rightarrow> None
      | c # r \<Rightarrow>
          if c = CHR ''{'' then
            (case skip_ws r of
               [] \<Rightarrow> None
             | d # r' \<Rightarrow>
                 if d = CHR ''}'' then Some (VObj [], r')
                 else map_option (\<lambda>(kvs, t). (VObj (keep_last kvs), t)) (parse_members f r))
          else if c = CHR ''['' then
            (case skip_ws r of
               [] \<Rightarrow> None
             | d # r' \<Rightarrow>
                 if d = CHR '']'' then Some (VArr [], r')
                 else map_option (\<lambda>(vs, t). (VArr vs, t)) (parse_elems f r))
          else if c = CHR 0x22 then map_option (\<lambda>(u, t). (VStr u, t)) (parse_str r)
          else if has_prefix ''true'' (c # r) then Some (VBool True, drop 4 (c # r))
          else if has_prefix ''false'' (c # r) then Some (VBool False, drop 5 (c # r))
          else if has_prefix ''null'' (c # r) then Some (VNull, drop 4 (c # r))
          else parse_num (c # r))"
| "parse_elems 0 s = None"
| "parse_elems (Suc f) s =
     (case parse_val f s of
        None \<Rightarrow> None
      | Some (v, r) \<Rightarrow>
          (case skip_ws r of
             [] \<Rightarrow> None
           | c # t \<Rightarrow>
               if c = CHR '','' then map_option (\<lambda>(vs, u). (v # vs, u)) (parse_elems f t)
               else if c = CHR '']'' then Some ([v], t)
               else None))"
| "parse_members 0 s = None"
| "parse_members (Suc f) s =
     (case skip_ws s of
        [] \<Rightarrow> None
      | q # s1 \<Rightarrow>
          if q \<noteq> CHR 0x22 then None
          else (case parse_str s1 of
                  None \<Rightarrow> None
                | Some (k, s2) \<Rightarrow>
                    (case skip_ws s2 of
                       [] \<Rightarrow> None
                     | d # s3 \<Rightarrow>
                         if d \<noteq> CHR '':'' then None
                         else (case parse_val f s3 of
                                 None \<Rightarrow> None
                               | Some (v, r) \<Rightarrow>
                                   (case skip_ws r of
                                      [] \<Rightarrow> None
                                    | c # t \<Rightarrow>
                                        if c = CHR '','' then
                                          map_option (\<lambda>(kvs, u). ((k, v) # kvs, u)) (parse_members f t)
                                        else if c = CHR ''}'' then Some ([(k, v)], t)
                                        else None)))))"

definition json_value :: "string \<Rightarrow> val option" where
  "json_value s =
     (case parse_val (2 * length s + 2) s of
        None \<Rightarrow> None
      | Some (v, r) \<Rightarrow> if skip_ws r = [] then Some v else None)"

definition json_error :: err where
  "json_error = External ''json''"

text \<open>\<^verbatim>\<open>json.Unmarshal(b, &m)\<close> for a map variable: \<^verbatim>\<open>null\<close> makes the map nil.\<close>

definition unmarshal_map :: "string \<Rightarrow> val gomap res" where
  "unmarshal_map s =
     (case json_value s of
        Some (VObj kvs) \<Rightarrow> Ok (Some kvs)
      | Some VNull \<Rightarrow> Ok None
      | _ \<Rightarrow> Err json_error)"

section \<open>Writing JSON\<close>

definition hex_digit :: "nat \<Rightarrow> char" where
  "hex_digit n = (if n < 10 then char_of (48 + n) else char_of (87 + n))"

text \<open>\<^verbatim>\<open>json.Marshal\<close> escapes quotes, backslashes, control bytes and \<^verbatim>\<open><\<close>, \<^verbatim>\<open>>\<close>, \<^verbatim>\<open>&\<close>.\<close>

definition escape_char :: "char \<Rightarrow> string" where
  "escape_char c =
     (if c = CHR 0x22 \<or> c = CHR 0x5C then [CHR 0x5C, c]
      else if c = CHR 0x0A then [CHR 0x5C, CHR ''n'']
      else if c = CHR 0x0D then [CHR 0x5C, CHR ''r'']
      else if c = CHR 0x09 then [CHR 0x5C, CHR ''t'']
      else if of_char c < (32::nat) \<or> c = CHR ''<'' \<or> c = CHR ''>'' \<or> c = CHR ''&'' then
        [CHR 0x5C, CHR ''u'', CHR ''0'', CHR ''0'',
         hex_digit (of_char c div 16), hex_digit (of_char c mod 16)]
      else [c])"

definition quote :: "string \<Rightarrow> string" where
  "quote s = CHR 0x22 # concat (map escape_char s) @ [CHR 0x22]"

text \<open>
  The text of a value. \<open>nl\<close> gives the line break and indentation of a nesting level and
  \<open>colon\<close> what separates a key from its value: both are empty of indentation for
  \<^verbatim>\<open>json.Marshal\<close>. The keys of an object are written in the order of the list.
\<close>

fun jtext :: "(nat \<Rightarrow> string) \<Rightarrow> string \<Rightarrow> nat \<Rightarrow> val \<Rightarrow> string" where
  "jtext nl colon l VNull = ''null''"
| "jtext nl colon l (VBool b) = (if b then ''true'' else ''false'')"
| "jtext nl colon l (VStr s) = quote s"
| "jtext nl colon l (VInt i) = show_int i"
| "jtext nl colon l (VU16 w) = show_nat (unat w)"
| "jtext nl colon l (VFloat m n) = show_float m n"
| "jtext nl colon l (VArr vs) =
     (if vs = [] then ''[]''
      else ''['' @ join_with '','' (map (\<lambda>v. nl (Suc l) @ jtext nl colon (Suc l) v) vs) @ nl l @ '']'')"
| "jtext nl colon l (VObj kvs) =
     (if kvs = [] then ''{}''
      else ''{'' @ join_with '',''
             (map (\<lambda>(k, v). nl (Suc l) @ quote k @ colon @ jtext nl colon (Suc l) v) kvs)
           @ nl l @ ''}'')"

text \<open>\<^verbatim>\<open>json.Marshal\<close> writes the keys of a map in sorted order.\<close>

fun canon :: "val \<Rightarrow> val" where
  "canon (VArr vs) = VArr (map canon vs)"
| "canon (VObj kvs) = VObj (sort_key fst (map (\<lambda>(k, v). (k, canon v)) kvs))"
| "canon v = v"

definition json_marshal :: "val \<Rightarrow> string" where
  "json_marshal v = jtext (\<lambda>_. []) '':'' 0 (canon v)"

text \<open>\<^verbatim>\<open>json.MarshalIndent(v, "", "    ")\<close> of a struct: the fields in their order.\<close>

definition indent4 :: "nat \<Rightarrow> string" where
  "indent4 l = CHR 0x0A # replicate (4 * l) (CHR '' '')"

definition json_indent :: "val \<Rightarrow> string" where
  "json_indent v = jtext indent4 '': '' 0 v"

text \<open>What a marshalled value reads back as: numbers become float64.\<close>

fun jsonify :: "val \<Rightarrow> val" where
  "jsonify (VInt i) = VFloat i 0"
| "jsonify (VU16 w) = VFloat (int (unat w)) 0"
| "jsonify (VArr vs) = VArr (map jsonify vs)"
| "jsonify (VObj kvs) = VObj (map (\<lambda>(k, v). (k, jsonify v)) kvs)"
| "jsonify v = v"

text \<open>Decimals in lowest form and objects without repeated keys.\<close>

fun wf_val :: "val \<Rightarrow> bool" where
  "wf_val (VFloat m n) \<longleftrightarrow> norm_dec m n = (m, n)"
| "wf_val (VArr vs) \<longleftrightarrow> list_all wf_val vs"
| "wf_val (VObj kvs) \<longleftrightarrow> distinct (map fst kvs) \<and> list_all (\<lambda>(k, v). wf_val v) kvs"
| "wf_val _ \<longleftrightarrow> True"

end
