(* ===== verification/Node_Process.thy ===== *)
theory Node_Process
  imports NR_Prelude
begin

text \<open>
  The process of a node (\<^verbatim>\<open>local/node_process.go\<close>) and its status
  (\<^verbatim>\<open>network/node/status/status.go\<close>).

  Calls to \<^verbatim>\<open>Stop\<close> run concurrently with each other and with the goroutine \<^verbatim>\<open>awaitExit\<close>. The
  first part of the theory is the sequential behaviour of each critical section, the second a
  step relation in which any number of \<^verbatim>\<open>Stop\<close> calls interleave with \<^verbatim>\<open>awaitExit\<close>, with
  cancellations of their contexts and with the exit of the operating-system process. A
  critical section under \<^verbatim>\<open>p.lock\<close> is one step.
\<close>

section \<open>Status\<close>

text \<open>\<open>NoStatus\<close> is the zero value of the byte type, which no constant names.\<close>

datatype Status = NoStatus | Running | Stopping | Stopped

fun Status_String :: "Status \<Rightarrow> string" where
  "Status_String Running = ''running''"
| "Status_String Stopping = ''stopping''"
| "Status_String Stopped = ''stopped''"
| "Status_String NoStatus = ''invalid status''"

section \<open>The process object\<close>

text \<open>
  \<open>np_exited\<close> is \<^verbatim>\<open>cmd.ProcessState\<close>: nil until \<^verbatim>\<open>cmd.Wait\<close> has returned, then the exit code.
\<close>

record nodeProcess =
  np_name :: string
  np_state :: Status
  np_closedOnStop :: bool
  np_exited :: "int option"

text \<open>\<^verbatim>\<open>(*os.ProcessState).ExitCode\<close>, which is -1 on a nil receiver.\<close>

definition np_ExitCode :: "nodeProcess \<Rightarrow> int" where
  "np_ExitCode p = (case np_exited p of None \<Rightarrow> - 1 | Some c \<Rightarrow> c)"

text \<open>\<^verbatim>\<open>close(p.closedOnStop)\<close> panics on a closed channel.\<close>

definition np_close :: "nodeProcess \<Rightarrow> nodeProcess res" where
  "np_close p =
     (if np_closedOnStop p then Panic ''close of closed channel''
      else Ok (p\<lparr>np_closedOnStop := True\<rparr>))"

text \<open>\<open>start\<close>: \<open>started\<close> is what \<^verbatim>\<open>cmd.Start\<close> returned.\<close>

definition np_start :: "unit res \<Rightarrow> (nodeProcess, unit) prog" where
  "np_start started =
     bindP (modify (np_state_update (\<lambda>_. Running))) (\<lambda>_.
       (case started of
          Ok _ \<Rightarrow> ret ()
        | Panic x \<Rightarrow> panic x
        | Err e \<Rightarrow>
            bindP (modify (np_state_update (\<lambda>_. Stopped))) (\<lambda>_.
            bindP getS (\<lambda>p.
            bindP (liftR (np_close p)) (\<lambda>p'.
            bindP (modify (\<lambda>_. p')) (\<lambda>_.
            throw (Wrapf ''couldn't start process: %w'' [] e)))))))"

definition newNodeProcess :: "string \<Rightarrow> unit res \<Rightarrow> unit res \<times> nodeProcess" where
  "newNodeProcess name started =
     np_start started \<lparr>np_name = name, np_state = NoStatus, np_closedOnStop = False, np_exited = None\<rparr>"

text \<open>The critical section of \<^verbatim>\<open>awaitExit\<close>.\<close>

definition np_exit_section :: "nodeProcess \<Rightarrow> nodeProcess res" where
  "np_exit_section p = np_close (p\<lparr>np_state := Stopped\<rparr>)"

text \<open>What the critical section at the start of \<^verbatim>\<open>Stop\<close> decides.\<close>

datatype stop_entry = AlreadyStopped int | OtherStopping | FirstStop

definition np_stop_section :: "nodeProcess \<Rightarrow> stop_entry \<times> nodeProcess" where
  "np_stop_section p =
     (if np_state p = Stopped then (AlreadyStopped (np_ExitCode p), p)
      else if np_state p = Stopping then (OtherStopping, p)
      else (FirstStop, p\<lparr>np_state := Stopping\<rparr>))"

definition np_Status :: "nodeProcess \<Rightarrow> Status" where
  "np_Status p = np_state p"

text \<open>
  A call to \<^verbatim>\<open>Stop\<close> that runs alone, \<open>c\<close> being the code with which the process exits: the
  first critical section, the exit of the process, the critical section of \<^verbatim>\<open>awaitExit\<close>, the
  read of the exit code. The concurrent runs below end in the same state.
\<close>

definition np_Stop :: "int \<Rightarrow> nodeProcess \<Rightarrow> int \<times> nodeProcess" where
  "np_Stop c p =
     (case np_stop_section p of
        (AlreadyStopped k, p') \<Rightarrow> (k, p')
      | (_, p') \<Rightarrow>
          (case np_exit_section (p'\<lparr>np_exited := Some c\<rparr>) of
             Ok q \<Rightarrow> (np_ExitCode q, q)
           | _ \<Rightarrow> (np_ExitCode p', p')))"

definition np_ok :: "nodeProcess \<Rightarrow> bool" where
  "np_ok p \<longleftrightarrow> np_state p \<noteq> NoStatus \<and> (np_closedOnStop p \<longleftrightarrow> np_state p = Stopped)"

text \<open>The interface \<^verbatim>\<open>NodeProcess\<close>, as the network uses it.\<close>

locale NodeProcess =
  fixes stop :: "int \<Rightarrow> 'p \<Rightarrow> int \<times> 'p" and status :: "'p \<Rightarrow> Status" and ok :: "'p \<Rightarrow> bool"
  assumes stop_ok: "ok p \<Longrightarrow> ok (snd (stop c p))"
    and stop_stopped: "ok p \<Longrightarrow> status (snd (stop c p)) = Stopped"
    and stop_running: "ok p \<Longrightarrow> status p \<noteq> Stopped \<Longrightarrow> fst (stop c p) = c"
    and stopped_stop: "ok p \<Longrightarrow> status p = Stopped \<Longrightarrow> snd (stop c p) = p"
    and stopped_code: "ok p \<Longrightarrow> status p = Stopped \<Longrightarrow> fst (stop c p) = fst (stop d p)"
begin

text \<open>Subsequent calls to \<^verbatim>\<open>Stop\<close> have no effect.\<close>

lemma stop_again:
  assumes "ok p"
  shows "snd (stop d (snd (stop c p))) = snd (stop c p)"
  using assms stop_ok stop_stopped stopped_stop by blast

end

lemma np_Stop_stopped: "np_state p = Stopped \<Longrightarrow> np_Stop c p = (np_ExitCode p, p)"
  by (simp add: np_Stop_def np_stop_section_def)

lemma np_Stop_running:
  "np_ok p \<Longrightarrow> np_state p \<noteq> Stopped \<Longrightarrow>
   np_Stop c p = (c, p\<lparr>np_state := Stopped, np_closedOnStop := True, np_exited := Some c\<rparr>)"
  by (cases p) (auto simp: np_Stop_def np_ok_def np_stop_section_def np_exit_section_def np_close_def
      np_ExitCode_def)

interpretation np: NodeProcess np_Stop np_Status np_ok
proof
  fix p :: nodeProcess and c d :: int
  assume ok: "np_ok p"
  show "np_ok (snd (np_Stop c p))" "np_Status (snd (np_Stop c p)) = Stopped"
    using ok np_Stop_stopped [of p c] np_Stop_running [OF ok, of c]
    by (cases "np_state p = Stopped"; simp add: np_ok_def np_Status_def)+
  show "fst (np_Stop c p) = c" if "np_Status p \<noteq> Stopped"
    using that ok by (simp add: np_Status_def np_Stop_running)
  show "snd (np_Stop c p) = p" "fst (np_Stop c p) = fst (np_Stop d p)" if "np_Status p = Stopped"
    using that by (simp_all add: np_Status_def np_Stop_stopped)
qed

section \<open>Concurrent calls\<close>

text \<open>
  Program points of a call to \<^verbatim>\<open>Stop\<close>: before its critical section, waiting for another
  call (\<open>SWaitOther\<close>), about to send SIGINT, in the \<^verbatim>\<open>select\<close>, about to kill the process and
  its descendants, waiting on \<^verbatim>\<open>closedOnStop\<close> after the \<^verbatim>\<open>select\<close>, and returned.
\<close>

datatype stop_pc = SEntry | SWaitOther | SSignal | SSelect | SKill | SWaitClosed | SDone int

text \<open>Program points of \<^verbatim>\<open>awaitExit\<close>: in \<^verbatim>\<open>cmd.Wait\<close>, before its critical section, finished.\<close>

datatype await_pc = AWait | ALock | AFinished

record np_sys =
  sys_np :: nodeProcess
  sys_await :: await_pc
  sys_calls :: "(stop_pc \<times> bool) list"
  sys_os :: "int option"
  sys_sigint :: bool
  sys_sigkill :: bool
  sys_panic :: bool

text \<open>
  A call is its program point and whether its context is done. \<open>sys_os\<close> is the exit code
  of the operating-system process, \<open>None\<close> while it runs.
\<close>

definition set_pc :: "nat \<Rightarrow> stop_pc \<Rightarrow> np_sys \<Rightarrow> np_sys" where
  "set_pc i pc s = s\<lparr>sys_calls := (sys_calls s)[i := (pc, snd (sys_calls s ! i))]\<rparr>"

definition at_pc :: "np_sys \<Rightarrow> nat \<Rightarrow> stop_pc \<Rightarrow> bool" where
  "at_pc s i pc \<longleftrightarrow> i < length (sys_calls s) \<and> fst (sys_calls s ! i) = pc"

inductive np_step :: "np_sys \<Rightarrow> np_sys \<Rightarrow> bool" where
  stop_done: "at_pc s i SEntry \<Longrightarrow> np_stop_section (sys_np s) = (AlreadyStopped c, p) \<Longrightarrow>
    np_step s (set_pc i (SDone c) (s\<lparr>sys_np := p\<rparr>))"
| stop_other: "at_pc s i SEntry \<Longrightarrow> np_stop_section (sys_np s) = (OtherStopping, p) \<Longrightarrow>
    np_step s (set_pc i SWaitOther (s\<lparr>sys_np := p\<rparr>))"
| stop_first: "at_pc s i SEntry \<Longrightarrow> np_stop_section (sys_np s) = (FirstStop, p) \<Longrightarrow>
    np_step s (set_pc i SSignal (s\<lparr>sys_np := p\<rparr>))"
| signal: "at_pc s i SSignal \<Longrightarrow> np_step s (set_pc i SSelect (s\<lparr>sys_sigint := True\<rparr>))"
| select_ctx: "at_pc s i SSelect \<Longrightarrow> snd (sys_calls s ! i) \<Longrightarrow> np_step s (set_pc i SKill s)"
| select_closed: "at_pc s i SSelect \<Longrightarrow> np_closedOnStop (sys_np s) \<Longrightarrow>
    np_step s (set_pc i SWaitClosed s)"
| kill: "at_pc s i SKill \<Longrightarrow> np_step s (set_pc i SWaitClosed (s\<lparr>sys_sigkill := True\<rparr>))"
| wait_closed: "at_pc s i SWaitClosed \<Longrightarrow> np_closedOnStop (sys_np s) \<Longrightarrow>
    np_step s (set_pc i (SDone (np_ExitCode (sys_np s))) s)"
| wait_other: "at_pc s i SWaitOther \<Longrightarrow> np_closedOnStop (sys_np s) \<Longrightarrow>
    np_step s (set_pc i (SDone (np_ExitCode (sys_np s))) s)"
| wait_returns: "sys_await s = AWait \<Longrightarrow> sys_os s = Some c \<Longrightarrow>
    np_step s (s\<lparr>sys_np := (sys_np s)\<lparr>np_exited := Some c\<rparr>, sys_await := ALock\<rparr>)"
| exit_section: "sys_await s = ALock \<Longrightarrow> np_exit_section (sys_np s) = Ok p \<Longrightarrow>
    np_step s (s\<lparr>sys_np := p, sys_await := AFinished\<rparr>)"
| exit_panic: "sys_await s = ALock \<Longrightarrow> np_exit_section (sys_np s) = Panic m \<Longrightarrow>
    np_step s (s\<lparr>sys_panic := True, sys_await := AFinished\<rparr>)"

text \<open>What the environment does: a context is cancelled or expires, the process exits.\<close>

inductive os_step :: "np_sys \<Rightarrow> np_sys \<Rightarrow> bool" where
  ctx_done: "i < length (sys_calls s) \<Longrightarrow> sys_calls s ! i = (pc, False) \<Longrightarrow>
    os_step s (s\<lparr>sys_calls := (sys_calls s)[i := (pc, True)]\<rparr>)"
| os_exit: "sys_os s = None \<Longrightarrow> os_step s (s\<lparr>sys_os := Some c\<rparr>)"

definition any_step :: "np_sys \<Rightarrow> np_sys \<Rightarrow> bool" where
  "any_step s t \<longleftrightarrow> np_step s t \<or> os_step s t"

text \<open>A process that was started, with any number of calls to \<^verbatim>\<open>Stop\<close> about to be made.\<close>

definition np_init :: "np_sys \<Rightarrow> bool" where
  "np_init s \<longleftrightarrow>
     (\<exists>name. newNodeProcess name (Ok ()) = (Ok (), sys_np s)) \<and> sys_await s = AWait \<and>
     (\<forall>c \<in> set (sys_calls s). c = (SEntry, False)) \<and>
     sys_os s = None \<and> \<not> sys_sigint s \<and> \<not> sys_sigkill s \<and> \<not> sys_panic s"

definition call_inv :: "nodeProcess \<Rightarrow> stop_pc \<Rightarrow> bool" where
  "call_inv p pc \<longleftrightarrow>
     (case pc of
        SEntry \<Rightarrow> True
      | SDone c \<Rightarrow> np_state p = Stopped \<and> np_exited p = Some c
      | _ \<Rightarrow> np_state p \<noteq> Running)"

text \<open>The call that found the process running, until the process has stopped.\<close>

definition first_inv :: "bool \<Rightarrow> bool \<Rightarrow> stop_pc \<Rightarrow> bool" where
  "first_inv si sk pc \<longleftrightarrow>
     (case pc of
        SSignal \<Rightarrow> True
      | SSelect \<Rightarrow> si
      | SKill \<Rightarrow> si
      | SWaitClosed \<Rightarrow> si \<and> sk
      | _ \<Rightarrow> False)"

definition np_inv :: "np_sys \<Rightarrow> bool" where
  "np_inv s \<longleftrightarrow>
     \<not> sys_panic s \<and>
     np_state (sys_np s) \<noteq> NoStatus \<and>
     (np_closedOnStop (sys_np s) \<longleftrightarrow> sys_await s = AFinished) \<and>
     (np_state (sys_np s) = Stopped \<longleftrightarrow> sys_await s = AFinished) \<and>
     (sys_await s = AWait \<longleftrightarrow> np_exited (sys_np s) = None) \<and>
     (sys_await s \<noteq> AWait \<longrightarrow> np_exited (sys_np s) = sys_os s) \<and>
     (\<forall>i < length (sys_calls s). call_inv (sys_np s) (fst (sys_calls s ! i))) \<and>
     (np_state (sys_np s) = Stopping \<longrightarrow>
        (\<exists>i < length (sys_calls s).
           first_inv (sys_sigint s) (sys_sigkill s) (fst (sys_calls s ! i))))"

lemmas np_section_defs =
  np_stop_section_def np_exit_section_def np_close_def np_ExitCode_def

lemma newNodeProcess_started:
  "newNodeProcess name (Ok ()) =
     (Ok (), \<lparr>np_name = name, np_state = Running, np_closedOnStop = False, np_exited = None\<rparr>)"
  by (simp add: newNodeProcess_def np_start_def)

lemma newNodeProcess_failed:
  "newNodeProcess name (Err e) =
     (Err (Wrapf ''couldn't start process: %w'' [] e),
      \<lparr>np_name = name, np_state = Stopped, np_closedOnStop = True, np_exited = None\<rparr>)"
  by (simp add: newNodeProcess_def np_start_def np_close_def)

lemma np_inv_init: "np_init s \<Longrightarrow> np_inv s"
  by (auto simp: np_init_def np_inv_def call_inv_def newNodeProcess_started dest!: nth_mem
      sym [of _ "sys_np s"])

text \<open>A step that only moves one call and may record a signal.\<close>

lemma np_inv_set_pc:
  assumes inv: "np_inv s" and i: "at_pc s i old" and new: "call_inv (sys_np s) pc"
    and t: "t = s\<lparr>sys_sigint := a, sys_sigkill := b\<rparr>" "sys_sigint s \<Longrightarrow> a" "sys_sigkill s \<Longrightarrow> b"
    and first: "np_state (sys_np s) = Stopping \<Longrightarrow> first_inv (sys_sigint s) (sys_sigkill s) old \<Longrightarrow>
      first_inv a b pc"
  shows "np_inv (set_pc i pc t)"
proof -
  have mono: "first_inv (sys_sigint s) (sys_sigkill s) q \<Longrightarrow> first_inv a b q" for q
    using t by (auto simp: first_inv_def split: stop_pc.splits)
  have "\<exists>k < length (sys_calls s).
      first_inv a b (fst ((sys_calls s)[i := (pc, snd (sys_calls s ! i))] ! k))"
    if stopping: "np_state (sys_np s) = Stopping"
  proof -
    obtain k where k: "k < length (sys_calls s)"
      "first_inv (sys_sigint s) (sys_sigkill s) (fst (sys_calls s ! k))"
      using inv stopping by (auto simp: np_inv_def)
    show ?thesis
    proof (cases "k = i")
      case True
      then have "first_inv a b pc" using first k i stopping by (simp add: at_pc_def)
      with True k show ?thesis by (intro exI [of _ i]) simp
    next
      case False
      with k mono show ?thesis by (intro exI [of _ k]) simp
    qed
  qed
  then show ?thesis using inv new i by (auto simp: np_inv_def t set_pc_def nth_list_update at_pc_def)
qed

lemma np_inv_move:
  assumes "np_inv s" "at_pc s i old" "call_inv (sys_np s) pc"
    and "np_state (sys_np s) = Stopping \<Longrightarrow> first_inv (sys_sigint s) (sys_sigkill s) old \<Longrightarrow>
      first_inv (sys_sigint s) (sys_sigkill s) pc"
  shows "np_inv (set_pc i pc s)"
  by (rule np_inv_set_pc [OF assms(1,2,3), of s "sys_sigkill s" "sys_sigint s"]) (use assms in auto)

lemma call_inv_stop:
  "call_inv p pc \<Longrightarrow> np_state p \<noteq> Stopped \<Longrightarrow>
   call_inv (p\<lparr>np_state := Stopped, np_closedOnStop := True\<rparr>) pc"
  by (cases pc) (auto simp: call_inv_def)

lemma call_inv_exited:
  "call_inv p pc \<Longrightarrow> np_exited p = None \<Longrightarrow> call_inv (p\<lparr>np_exited := e\<rparr>) pc"
  by (cases pc) (auto simp: call_inv_def)

lemma call_inv_stopping:
  "call_inv p pc \<Longrightarrow> np_state p = Running \<Longrightarrow> call_inv (p\<lparr>np_state := Stopping\<rparr>) pc"
  by (cases pc) (auto simp: call_inv_def)

lemma np_inv_step:
  assumes inv: "np_inv s" and step: "np_step s t"
  shows "np_inv t"
  using step
proof cases
  case (stop_first i p)
  then show ?thesis using inv
    by (cases "np_state (sys_np s)")
      (auto simp: np_inv_def first_inv_def at_pc_def set_pc_def np_section_defs nth_list_update
        call_inv_stopping call_inv_def [of _ SSignal] intro!: exI [of _ i])
next
  case (wait_returns c)
  then show ?thesis using inv by (auto simp: np_inv_def call_inv_exited)
next
  case (exit_section p)
  then show ?thesis using inv
    by (cases "sys_os s") (auto simp: np_inv_def np_section_defs call_inv_stop split: if_splits)
next
  case (exit_panic m)
  then show ?thesis using inv by (auto simp: np_inv_def np_section_defs split: if_splits)
next
  case (stop_done i c p)
  then have "sys_np s = p" "call_inv (sys_np s) (SDone c)" "np_state (sys_np s) = Stopped"
    using inv by (auto simp: np_section_defs np_inv_def call_inv_def split: if_splits option.splits)
  then show ?thesis using inv stop_done by (auto intro: np_inv_move)
next
  case (stop_other i p)
  then have "sys_np s = p" "call_inv (sys_np s) SWaitOther"
    by (auto simp: np_section_defs call_inv_def split: if_splits)
  then show ?thesis using inv stop_other by (auto intro!: np_inv_move simp: first_inv_def)
next
  case (signal i)
  then have "call_inv (sys_np s) SSelect" using inv by (auto simp: np_inv_def call_inv_def at_pc_def)
  then show ?thesis using inv signal
    by (auto intro!: np_inv_set_pc [where a = True and b = "sys_sigkill s"] simp: first_inv_def)
next
  case (select_ctx i)
  then have "call_inv (sys_np s) SKill" using inv by (auto simp: np_inv_def call_inv_def at_pc_def)
  then show ?thesis using inv select_ctx by (auto intro!: np_inv_move simp: first_inv_def)
next
  case (select_closed i)
  then have "call_inv (sys_np s) SWaitClosed" "np_state (sys_np s) = Stopped"
    using inv by (auto simp: np_inv_def call_inv_def at_pc_def)
  then show ?thesis using inv select_closed by (auto intro: np_inv_move)
next
  case (kill i)
  then have "call_inv (sys_np s) SWaitClosed" using inv by (auto simp: np_inv_def call_inv_def at_pc_def)
  then show ?thesis using inv kill
    by (auto intro!: np_inv_set_pc [where a = "sys_sigint s" and b = True] simp: first_inv_def)
next
  case (wait_closed i)
  then have "call_inv (sys_np s) (SDone (np_ExitCode (sys_np s)))" "np_state (sys_np s) = Stopped"
    using inv by (auto simp: np_inv_def call_inv_def np_ExitCode_def split: option.splits)
  then show ?thesis using inv wait_closed by (auto intro: np_inv_move)
next
  case (wait_other i)
  then have "call_inv (sys_np s) (SDone (np_ExitCode (sys_np s)))" "np_state (sys_np s) = Stopped"
    using inv by (auto simp: np_inv_def call_inv_def np_ExitCode_def split: option.splits)
  then show ?thesis using inv wait_other by (auto intro: np_inv_move)
qed

lemma np_inv_os_step: "np_inv s \<Longrightarrow> os_step s t \<Longrightarrow> np_inv t"
proof (erule os_step.cases)
  fix i u pc
  assume "np_inv s" "s = u" "t = u\<lparr>sys_calls := (sys_calls u)[i := (pc, True)]\<rparr>"
    "i < length (sys_calls u)" "sys_calls u ! i = (pc, False)"
  moreover from this have "fst ((sys_calls u)[i := (pc, True)] ! k) = fst (sys_calls u ! k)" for k
    by (cases "k = i") simp_all
  ultimately show "np_inv t" by (simp add: np_inv_def)
qed (auto simp: np_inv_def)

interpretation np_machine: inductive_invariant np_init any_step np_inv
  by unfold_locales (auto simp: any_step_def intro: np_inv_init np_inv_step np_inv_os_step)

section \<open>Every call to Stop returns\<close>

fun pc_rank :: "stop_pc \<Rightarrow> nat" where
  "pc_rank SEntry = 6"
| "pc_rank SSignal = 5"
| "pc_rank SSelect = 4"
| "pc_rank SKill = 3"
| "pc_rank SWaitClosed = 2"
| "pc_rank SWaitOther = 1"
| "pc_rank (SDone _) = 0"

fun await_rank :: "await_pc \<Rightarrow> nat" where
  "await_rank AWait = 2"
| "await_rank ALock = 1"
| "await_rank AFinished = 0"

definition call_rank :: "stop_pc \<times> bool \<Rightarrow> nat" where
  "call_rank c = pc_rank (fst c) + (if snd c then 0 else 1)"

definition np_rank :: "np_sys \<Rightarrow> nat" where
  "np_rank s = sum_list (map call_rank (sys_calls s)) + await_rank (sys_await s) +
     (if sys_os s = None then 1 else 0)"

lemma sum_list_update_less:
  "i < length xs \<Longrightarrow> f y < f (xs ! i) \<Longrightarrow>
   sum_list (map f (xs[i := y])) < (sum_list (map f xs) :: nat)"
proof (induction xs arbitrary: i)
  case (Cons x xs)
  then show ?case by (cases i) auto
qed simp

lemma np_rank_set_pc:
  assumes "at_pc s i old" "pc_rank pc < pc_rank old"
    and "sys_calls t = sys_calls s" "sys_await t = sys_await s" "sys_os t = sys_os s"
  shows "np_rank (set_pc i pc t) < np_rank s"
  using assms sum_list_update_less [of i "sys_calls s" call_rank "(pc, snd (sys_calls s ! i))"]
  by (auto simp: np_rank_def set_pc_def at_pc_def call_rank_def)

lemma np_rank_step: "any_step s t \<Longrightarrow> np_rank t < np_rank s"
  unfolding any_step_def
proof (elim disjE)
  show "np_step s t \<Longrightarrow> np_rank t < np_rank s"
    by (erule np_step.cases) (auto intro!: np_rank_set_pc simp: np_rank_def [of "_\<lparr>sys_await := _\<rparr>"] np_rank_def [of s])
  show "os_step s t \<Longrightarrow> np_rank t < np_rank s"
    by (erule os_step.cases) (auto simp: np_rank_def call_rank_def intro: sum_list_update_less)
qed

text \<open>A call that cannot move waits for a process that runs and has got its signals.\<close>

lemma np_stuck_pc:
  assumes stuck: "\<And>t. \<not> np_step s t" and i: "at_pc s i pc"
  shows "pc \<noteq> SEntry" "pc \<noteq> SSignal" "pc \<noteq> SKill"
    and "pc = SWaitOther \<or> pc = SWaitClosed \<or> pc = SSelect \<Longrightarrow> \<not> np_closedOnStop (sys_np s)"
    and "pc = SSelect \<Longrightarrow> \<not> snd (sys_calls s ! i)"
proof -
  show "pc \<noteq> SEntry"
  proof
    assume pc: "pc = SEntry"
    obtain e p where sec: "np_stop_section (sys_np s) = (e, p)" by force
    show False
    proof (cases e)
      case (AlreadyStopped c)
      then show False using stop_done i pc sec stuck by blast
    next
      case OtherStopping
      then show False using stop_other i pc sec stuck by blast
    next
      case FirstStop
      then show False using stop_first i pc sec stuck by blast
    qed
  qed
  show "pc \<noteq> SSignal" using i stuck signal by blast
  show "pc \<noteq> SKill" using i stuck kill by blast
  show "\<not> np_closedOnStop (sys_np s)" if "pc = SWaitOther \<or> pc = SWaitClosed \<or> pc = SSelect"
    using that i stuck wait_other wait_closed select_closed by blast
  show "\<not> snd (sys_calls s ! i)" if "pc = SSelect" using that i stuck select_ctx by blast
qed

lemma np_blocked:
  assumes inv: "np_inv s" and stuck: "\<And>t. \<not> np_step s t"
    and i: "at_pc s i pc" "\<And>c. pc \<noteq> SDone c"
  shows "sys_os s = None \<and> sys_sigint s \<and> ((\<forall>c \<in> set (sys_calls s). snd c) \<longrightarrow> sys_sigkill s)"
proof -
  have open_: "\<not> np_closedOnStop (sys_np s)"
    using np_stuck_pc [OF stuck i(1)] i(2) by (cases pc) auto
  have "sys_await s \<noteq> ALock"
  proof
    assume "sys_await s = ALock"
    then have "\<exists>t. np_step s t"
      using exit_section [of s] open_ by (auto simp: np_exit_section_def np_close_def)
    then show False using stuck by blast
  qed
  then have await: "sys_await s = AWait"
    using open_ inv by (cases "sys_await s") (auto simp: np_inv_def)
  then have os: "sys_os s = None" using wait_returns stuck by (cases "sys_os s") blast+
  have "np_state (sys_np s) \<noteq> Running"
    using inv i np_stuck_pc [OF stuck i(1)] by (cases pc) (auto simp: np_inv_def at_pc_def call_inv_def)
  then have "np_state (sys_np s) = Stopping"
    using inv await by (cases "np_state (sys_np s)") (auto simp: np_inv_def)
  then obtain k where k: "k < length (sys_calls s)"
    "first_inv (sys_sigint s) (sys_sigkill s) (fst (sys_calls s ! k))"
    using inv by (auto simp: np_inv_def)
  have "at_pc s k (fst (sys_calls s ! k))" using k by (simp add: at_pc_def)
  note first = np_stuck_pc [OF stuck this] k
  then show ?thesis using os nth_mem [OF k(1)]
    by (cases "fst (sys_calls s ! k)") (auto simp: first_inv_def)
qed

section \<open>Properties\<close>

text \<open>
  C12. Whatever the interleaving of any number of \<^verbatim>\<open>Stop\<close> calls with \<^verbatim>\<open>awaitExit\<close>, cancelled
  contexts and a process that may exit at any time: \<^verbatim>\<open>closedOnStop\<close> is never closed twice,
  and every call that has returned got the exit code of the process, with which the process
  is in state \<open>Stopped\<close>. So all calls return the same code.
\<close>

theorem Stop_returns_exit_code:
  assumes "reachable np_init any_step s"
  shows "\<not> sys_panic s \<and>
    (\<forall>i c. at_pc s i (SDone c) \<longrightarrow>
       np_Status (sys_np s) = Stopped \<and> np_closedOnStop (sys_np s) \<and> sys_os s = Some c)"
  using np_machine.reachable_inv [OF assms]
  by (auto simp: np_inv_def at_pc_def call_inv_def np_Status_def)

text \<open>
  C32. Every run of concurrent \<^verbatim>\<open>Stop\<close> calls is finite, and in a state in which nothing can
  happen any more all of them have returned: no call is lost waiting on \<^verbatim>\<open>closedOnStop\<close> or on
  the lock.
\<close>

theorem Stop_terminates:
  "wfp (\<lambda>t s. any_step s t) \<and>
   (\<forall>s i. reachable np_init any_step s \<longrightarrow> (\<nexists>t. any_step s t) \<longrightarrow> i < length (sys_calls s) \<longrightarrow>
      (\<exists>c. at_pc s i (SDone c)))"
proof (intro conjI allI impI)
  show "wfp (\<lambda>t s. any_step s t)"
    by (rule wfp_if_convertible_to_nat [of _ np_rank]) (rule np_rank_step)
  fix s i
  assume reach: "reachable np_init any_step s" and stuck: "\<nexists>t. any_step s t"
    and i: "i < length (sys_calls s)"
  show "\<exists>c. at_pc s i (SDone c)"
  proof (rule ccontr)
    assume "\<nexists>c. at_pc s i (SDone c)"
    then have "sys_os s = None"
      using np_blocked [OF np_machine.reachable_inv [OF reach], of i "fst (sys_calls s ! i)"] i stuck
      by (auto simp: any_step_def at_pc_def)
    then show False using os_exit stuck by (auto simp: any_step_def)
  qed
qed

text \<open>
  If the program cannot move while a call to \<^verbatim>\<open>Stop\<close> has not returned, the process is
  still running, it has been sent SIGINT, and once the contexts of all calls are done it has
  been sent SIGKILL: \<^verbatim>\<open>Stop\<close> only ever waits for a process that has been told to exit.
\<close>

theorem Stop_waits_only_for_signalled_process:
  assumes "reachable np_init any_step s" and "\<nexists>t. np_step s t"
    and "at_pc s i pc" and "\<forall>c. pc \<noteq> SDone c"
  shows "sys_os s = None \<and> sys_sigint s \<and> ((\<forall>c \<in> set (sys_calls s). snd c) \<longrightarrow> sys_sigkill s)"
  using np_blocked [OF np_machine.reachable_inv [OF assms(1)]] assms by blast

text \<open>
  C14. The concurrent runs refine the sequential \<^verbatim>\<open>Stop\<close>: once some call has returned \<open>c\<close>, the
  process object is what one call running alone would have made of the freshly started
  process, and that call would have returned \<open>c\<close> too.
\<close>

theorem Stop_refines_sequential:
  assumes "reachable np_init any_step s" and "at_pc s i (SDone c)"
  shows "np_Stop c (snd (newNodeProcess (np_name (sys_np s)) (Ok ()))) = (c, sys_np s)"
  using np_machine.reachable_inv [OF assms(1)] assms(2)
  by (cases "sys_np s") (auto simp: newNodeProcess_started np_Stop_running np_ok_def np_inv_def at_pc_def
      call_inv_def)

section \<open>A concrete run\<close>

text \<open>
  Two calls on one process: the first sends SIGINT, the second waits for it; the process
  exits with code 0 and both return 0.
\<close>

definition run_state ::
  "Status \<Rightarrow> int option \<Rightarrow> await_pc \<Rightarrow> stop_pc \<Rightarrow> stop_pc \<Rightarrow> int option \<Rightarrow> bool \<Rightarrow> np_sys" where
  "run_state st ex aw c1 c2 os si =
     \<lparr>sys_np = \<lparr>np_name = ''node1'', np_state = st, np_closedOnStop = (st = Stopped), np_exited = ex\<rparr>,
      sys_await = aw, sys_calls = [(c1, False), (c2, False)], sys_os = os, sys_sigint = si,
      sys_sigkill = False, sys_panic = False\<rparr>"

lemma run_init: "np_init (run_state Running None AWait SEntry SEntry None False)"
  by (simp add: np_init_def run_state_def newNodeProcess_started)

lemma run_waiting: "reachable np_init any_step (run_state Stopping None AWait SSelect SWaitOther None True)"
proof -
  have "reachable np_init any_step (run_state Running None AWait SEntry SEntry None False)"
    using run_init by (rule reach_init)
  then have "reachable np_init any_step (run_state Stopping None AWait SSignal SEntry None False)"
    by (rule reach_step) (use stop_first [of "run_state Running None AWait SEntry SEntry None False" 0] in \<open>simp add: any_step_def at_pc_def set_pc_def run_state_def np_stop_section_def\<close>)
  then have "reachable np_init any_step (run_state Stopping None AWait SSignal SWaitOther None False)"
    by (rule reach_step) (use stop_other [of "run_state Stopping None AWait SSignal SEntry None False" 1] in \<open>simp add: any_step_def at_pc_def set_pc_def run_state_def np_stop_section_def\<close>)
  then have "reachable np_init any_step (run_state Stopping None AWait SSelect SWaitOther None True)"
    by (rule reach_step) (use signal [of "run_state Stopping None AWait SSignal SWaitOther None False" 0] in \<open>simp add: any_step_def at_pc_def set_pc_def run_state_def\<close>)
  then show ?thesis .
qed

lemma run_finished:
  "reachable np_init any_step (run_state Stopped (Some 0) AFinished (SDone 0) (SDone 0) (Some 0) True)"
proof -
  have "reachable np_init any_step (run_state Stopping None AWait SSelect SWaitOther None True)"
    by (rule run_waiting)
  then have "reachable np_init any_step (run_state Stopping None AWait SSelect SWaitOther (Some 0) True)"
    by (rule reach_step) (use os_exit [of "run_state Stopping None AWait SSelect SWaitOther None True" 0] in \<open>simp add: any_step_def run_state_def\<close>)
  then have "reachable np_init any_step (run_state Stopping (Some 0) ALock SSelect SWaitOther (Some 0) True)"
    by (rule reach_step) (use wait_returns [of "run_state Stopping None AWait SSelect SWaitOther (Some 0) True" 0] in \<open>simp add: any_step_def run_state_def\<close>)
  then have "reachable np_init any_step (run_state Stopped (Some 0) AFinished SSelect SWaitOther (Some 0) True)"
    by (rule reach_step) (use exit_section [of "run_state Stopping (Some 0) ALock SSelect SWaitOther (Some 0) True"] in \<open>simp add: any_step_def run_state_def np_section_defs\<close>)
  then have "reachable np_init any_step (run_state Stopped (Some 0) AFinished SWaitClosed SWaitOther (Some 0) True)"
    by (rule reach_step) (use select_closed [of "run_state Stopped (Some 0) AFinished SSelect SWaitOther (Some 0) True" 0] in \<open>simp add: any_step_def at_pc_def set_pc_def run_state_def\<close>)
  then have "reachable np_init any_step (run_state Stopped (Some 0) AFinished (SDone 0) SWaitOther (Some 0) True)"
    by (rule reach_step) (use wait_closed [of "run_state Stopped (Some 0) AFinished SWaitClosed SWaitOther (Some 0) True" 0] in \<open>simp add: any_step_def at_pc_def set_pc_def run_state_def np_ExitCode_def\<close>)
  then have "reachable np_init any_step (run_state Stopped (Some 0) AFinished (SDone 0) (SDone 0) (Some 0) True)"
    by (rule reach_step) (use wait_other [of "run_state Stopped (Some 0) AFinished (SDone 0) SWaitOther (Some 0) True" 1] in \<open>simp add: any_step_def at_pc_def set_pc_def run_state_def np_ExitCode_def\<close>)
  then show ?thesis .
qed

lemma run_pc:
  "at_pc (run_state st ex aw c1 c2 os si) i pc \<longleftrightarrow> i = 0 \<and> pc = c1 \<or> i = 1 \<and> pc = c2"
  by (auto simp: at_pc_def run_state_def less_Suc_eq nth_Cons')

lemma run_waiting_stuck: "\<nexists>t. np_step (run_state Stopping None AWait SSelect SWaitOther None True) t"
  by (auto elim!: np_step.cases simp: run_pc) (auto simp: run_state_def)

theorem Stop_returns_exit_code_witness:
  "np_Status (sys_np (run_state Stopped (Some 0) AFinished (SDone 0) (SDone 0) (Some 0) True)) = Stopped"
  using Stop_returns_exit_code [OF run_finished] by (simp add: run_pc)

theorem Stop_refines_sequential_witness:
  "fst (np_Stop 0 (snd (newNodeProcess ''node1'' (Ok ())))) = 0"
  using Stop_refines_sequential [OF run_finished, of 0 0]
  by (simp add: run_pc) (simp add: run_state_def)

theorem Stop_terminates_witness:
  "\<exists>c. at_pc (run_state Stopped (Some 0) AFinished (SDone 0) (SDone 0) (Some 0) True) 0 (SDone c)"
proof -
  let ?s = "run_state Stopped (Some 0) AFinished (SDone 0) (SDone 0) (Some 0) True"
  define u where "u = ?s\<lparr>sys_calls := [(SDone 0, True), (SDone 0, True)]\<rparr>"
  have "any_step ?s (?s\<lparr>sys_calls := [(SDone 0, True), (SDone 0, False)]\<rparr>)"
    using ctx_done [of 0 ?s "SDone 0"] by (simp add: any_step_def run_state_def)
  moreover have "any_step (?s\<lparr>sys_calls := [(SDone 0, True), (SDone 0, False)]\<rparr>) u"
    using ctx_done [of 1 "?s\<lparr>sys_calls := [(SDone 0, True), (SDone 0, False)]\<rparr>" "SDone 0"]
    by (simp add: any_step_def run_state_def u_def)
  ultimately have "reachable np_init any_step u" using run_finished reach_step by metis
  moreover have "\<nexists>t. any_step u t"
  proof -
    have "at_pc u i pc \<Longrightarrow> pc = SDone 0" for i pc
      by (auto simp: u_def at_pc_def less_Suc_eq nth_Cons' split: if_splits)
    then have "\<nexists>t. np_step u t"
      by (auto elim!: np_step.cases) (auto simp: u_def run_state_def)
    moreover have "\<nexists>t. os_step u t"
      by (auto elim!: os_step.cases simp: u_def run_state_def less_Suc_eq nth_Cons' split: if_splits)
    ultimately show ?thesis by (simp add: any_step_def)
  qed
  ultimately have "\<exists>c. at_pc u 0 (SDone c)"
    using Stop_terminates by (auto simp: u_def)
  then show ?thesis by (auto simp: u_def at_pc_def run_state_def)
qed

theorem Stop_waits_only_for_signalled_process_witness:
  "sys_sigint (run_state Stopping None AWait SSelect SWaitOther None True)"
  using Stop_waits_only_for_signalled_process [OF run_waiting run_waiting_stuck, of 0 SSelect]
  by (simp add: run_pc)

end
