(* ===== verification/World.thy ===== *)
theory World
  imports Go_Values Node_Process
begin

text \<open>
  What the network runner runs in: the file system, the processes it has started, and the
  code it calls that is not part of the repository.

  Everything the program cannot determine itself is a field of the record \<open>env\<close>: the answers
  of the operating system (a function of a counter that every request advances, so that two
  requests may be answered differently), and the functions and constants of the packages it
  imports. Theorems hold for every \<open>env\<close>; one that relies on documented behaviour of such a
  function says so in a hypothesis.
\<close>

section \<open>The environment\<close>

text \<open>A beacon is a node ID and the port of its loopback address.\<close>

type_synonym beacon_set = "(string \<times> 16 word) list"

text \<open>One health poll: the status of the process, and the answer of the health API.\<close>

record poll =
  poll_running :: bool
  poll_healthy :: bool
  poll_ctx_done :: bool

record env =
  \<comment> \<open>answers of the operating system at a given tick\<close>
  os_portFree :: "nat \<Rightarrow> 16 word \<Rightarrow> bool"
  os_draws :: "nat \<Rightarrow> nat list"
  os_fsErr :: "nat \<Rightarrow> string \<Rightarrow> err option"
  os_exec :: "nat \<Rightarrow> string \<Rightarrow> string list \<Rightarrow> unit res"
  os_pipeErr :: "nat \<Rightarrow> err option"
  os_version :: "nat \<Rightarrow> string \<Rightarrow> string res"
  os_exitCode :: "nat \<Rightarrow> nat \<Rightarrow> int"
  os_time :: "nat \<Rightarrow> string"
  os_tempDir :: string
  os_homeDir :: string
  os_health :: "nat \<Rightarrow> nat \<Rightarrow> poll list"
  \<comment> \<open>github.com/luxdefi/node: staking, bls, ids\<close>
  staking_NewCertAndKeyBytes :: "nat \<Rightarrow> (string \<times> string) res"
  bls_NewSecretKey :: "nat \<Rightarrow> string res"
  nodeID_of_keypair :: "string \<Rightarrow> string \<Rightarrow> string res"
  ids_ToID :: "string \<Rightarrow> string res"
  ids_FromString :: "string \<Rightarrow> string res"
  ids_String :: "string \<Rightarrow> string"
  ids_Empty :: string
  PlatformChainID :: string
  \<comment> \<open>github.com/luxdefi/node/utils/beacon\<close>
  beacon_Add :: "string \<times> 16 word \<Rightarrow> beacon_set \<Rightarrow> beacon_set res"
  beacon_RemoveByID :: "string \<Rightarrow> beacon_set \<Rightarrow> beacon_set"
  beacon_IPsArg :: "beacon_set \<Rightarrow> string"
  beacon_IDsArg :: "beacon_set \<Rightarrow> string"
  \<comment> \<open>github.com/luxdefi/node/utils/wrappers, golang.org/x/mod/semver and github.com/otiai10/copy\<close>
  wrappers_Errs_Add :: "err \<Rightarrow> err option \<Rightarrow> err option"
  semver_Compare :: "string \<Rightarrow> string \<Rightarrow> int"
  dircopy_Copy :: "nat \<Rightarrow> string \<Rightarrow> string \<Rightarrow> string gmap \<Rightarrow> string gmap res"
  \<comment> \<open>github.com/luxdefi/node/config and utils/constants\<close>
  LocalID :: "32 word"
  NetworkName :: "32 word \<Rightarrow> string"
  NetworkNameKey :: string
  DataDirKey :: string
  DBPathKey :: string
  LogsDirKey :: string
  HTTPPortKey :: string
  StakingPortKey :: string
  BootstrapIPsKey :: string
  BootstrapIDsKey :: string
  HTTPHostKey :: string
  PluginDirKey :: string
  TrackSubnetsKey :: string
  StakingTLSKeyPathKey :: string
  StakingCertPathKey :: string
  StakingSignerKeyPathKey :: string
  GenesisConfigFileKey :: string
  ConfigFileKey :: string
  ChainConfigDirKey :: string
  SubnetConfigDirKey :: string

text \<open>The flag names of the node are pairwise different, as its documentation lists them.\<close>

definition flag_names :: "env \<Rightarrow> string list" where
  "flag_names e =
     [NetworkNameKey e, DataDirKey e, DBPathKey e, LogsDirKey e, HTTPPortKey e, StakingPortKey e,
      BootstrapIPsKey e, BootstrapIDsKey e, HTTPHostKey e, PluginDirKey e, TrackSubnetsKey e,
      StakingTLSKeyPathKey e, StakingCertPathKey e, StakingSignerKeyPathKey e,
      GenesisConfigFileKey e, ConfigFileKey e, ChainConfigDirKey e, SubnetConfigDirKey e]"

section \<open>The world\<close>

text \<open>\<open>procs\<close> lists every process the runner has started, in the order it started them.\<close>

record world =
  clock :: nat
  files :: "string gmap"
  dirs :: "string list"
  procs :: "nodeProcess list"

definition tick :: "(world, nat) prog" where
  "tick = bindP (gets clock) (\<lambda>t. bindP (modify (clock_update Suc)) (\<lambda>_. ret t))"

section \<open>Files\<close>

definition ErrNotExist :: err where
  "ErrNotExist = New ''file does not exist''"

definition ErrExist :: err where
  "ErrExist = New ''file already exists''"

definition fs_exists :: "string \<Rightarrow> world \<Rightarrow> bool" where
  "fs_exists p w \<longleftrightarrow> map_of (files w) p \<noteq> None \<or> p \<in> set (dirs w)"

text \<open>A request to the file system, which may fail for reasons of its own.\<close>

definition fs_op :: "env \<Rightarrow> string \<Rightarrow> (world, 'a) prog \<Rightarrow> (world, 'a) prog" where
  "fs_op e p m =
     bindP tick (\<lambda>t. (case os_fsErr e t p of Some er \<Rightarrow> throw er | None \<Rightarrow> m))"

text \<open>The directories \<^verbatim>\<open>MkdirAll\<close> makes: the path and those above it.\<close>

definition with_parents :: "string \<Rightarrow> string list" where
  "with_parents p =
     map (\<lambda>k. path_of_parts (is_rooted p) (take k (dir_parts p))) [1..<Suc (length (dir_parts p))]"

definition os_MkdirAll :: "env \<Rightarrow> string \<Rightarrow> (world, unit) prog" where
  "os_MkdirAll e p = fs_op e p (modify (\<lambda>w. w\<lparr>dirs := remdups (dirs w @ p # with_parents p)\<rparr>))"

definition os_Mkdir :: "env \<Rightarrow> string \<Rightarrow> (world, unit) prog" where
  "os_Mkdir e p =
     fs_op e p (bindP (gets (fs_exists p)) (\<lambda>ex.
       if ex then throw (Wrapf ''mkdir %s: %w'' [p] ErrExist)
       else modify (\<lambda>w. w\<lparr>dirs := dirs w @ [p]\<rparr>)))"

definition os_WriteFile :: "env \<Rightarrow> string \<Rightarrow> string \<Rightarrow> (world, unit) prog" where
  "os_WriteFile e p c = fs_op e p (modify (\<lambda>w. w\<lparr>files := AList.update p c (files w)\<rparr>))"

definition os_ReadFile :: "env \<Rightarrow> string \<Rightarrow> (world, string) prog" where
  "os_ReadFile e p =
     fs_op e p (bindP (gets (\<lambda>w. map_of (files w) p)) (\<lambda>c.
       (case c of None \<Rightarrow> throw (Wrapf ''open %s: %w'' [p] ErrNotExist) | Some s \<Rightarrow> ret s)))"

definition os_Stat :: "env \<Rightarrow> string \<Rightarrow> (world, unit) prog" where
  "os_Stat e p =
     fs_op e p (bindP (gets (fs_exists p)) (\<lambda>ex.
       if ex then ret () else throw (Wrapf ''stat %s: %w'' [p] ErrNotExist)))"

definition below :: "string \<Rightarrow> string \<Rightarrow> bool" where
  "below p q \<longleftrightarrow> q = p \<or> has_prefix (p @ ''/'') q"

definition os_RemoveAll :: "env \<Rightarrow> string \<Rightarrow> (world, unit) prog" where
  "os_RemoveAll e p =
     fs_op e p (modify (\<lambda>w. w\<lparr>files := filter (\<lambda>(q, _). \<not> below p q) (files w),
                             dirs := filter (\<lambda>q. \<not> below p q) (dirs w)\<rparr>))"

text \<open>\<^verbatim>\<open>filepath.Glob(dir/prefix*)\<close> for a directory without pattern characters: sorted.\<close>

definition Glob_prefix :: "string \<Rightarrow> string \<Rightarrow> (world, string list) prog" where
  "Glob_prefix dir pre =
     gets (\<lambda>w. sort (remdups (filter
       (\<lambda>q. filepath_Dir q = filepath_Clean dir \<and> has_prefix pre (filepath_Base q) \<and>
            q = filepath_Join [dir, filepath_Base q])
       (map fst (files w) @ dirs w))))"

section \<open>Processes\<close>

text \<open>\<^verbatim>\<open>newNodeProcess\<close>: the process object of a failed start is dropped by its caller.\<close>

definition proc_new :: "env \<Rightarrow> string \<Rightarrow> string \<Rightarrow> string list \<Rightarrow> (world, nat) prog" where
  "proc_new e name binary args =
     bindP tick (\<lambda>t.
       (case newNodeProcess name (os_exec e t binary args) of
          (Ok _, p) \<Rightarrow>
            bindP (gets (\<lambda>w. length (procs w))) (\<lambda>pid.
            bindP (modify (\<lambda>w. w\<lparr>procs := procs w @ [p]\<rparr>)) (\<lambda>_. ret pid))
        | (Err er, p) \<Rightarrow> throw er
        | (Panic m, p) \<Rightarrow> panic m))"

definition proc_Stop :: "env \<Rightarrow> nat \<Rightarrow> (world, int) prog" where
  "proc_Stop e pid =
     bindP tick (\<lambda>t w.
       (case np_Stop (os_exitCode e t pid) (procs w ! pid) of
          (c, p) \<Rightarrow> (Ok c, w\<lparr>procs := (procs w)[pid := p]\<rparr>)))"

definition proc_Status :: "nat \<Rightarrow> world \<Rightarrow> Status" where
  "proc_Status pid w = np_Status (procs w ! pid)"

text \<open>The processes that have not been stopped.\<close>

definition live_procs :: "world \<Rightarrow> nat set" where
  "live_procs w = {pid. pid < length (procs w) \<and> proc_Status pid w \<noteq> Stopped}"

definition procs_ok :: "world \<Rightarrow> bool" where
  "procs_ok w \<longleftrightarrow> list_all np_ok (procs w)"

subsection \<open>What the requests leave alone\<close>

definition same_procs :: "nodeProcess list \<Rightarrow> world \<Rightarrow> bool" where
  "same_procs ps w \<longleftrightarrow> procs w = ps"

named_theorems fs_pres \<open>preservation by requests that do not concern processes\<close>

lemma pres_tick [fs_pres]: "pres (same_procs ps) tick"
  by (simp add: tick_def pres_def same_procs_def ret_def)

lemma pres_fs_op:
  "pres (same_procs ps) m \<Longrightarrow> pres (same_procs ps) (fs_op e p m)"
  unfolding fs_op_def by (intro pres_intros pres_tick)

lemma pres_fs [fs_pres]:
  "pres (same_procs ps) (os_MkdirAll e p)" "pres (same_procs ps) (os_Mkdir e p)"
  "pres (same_procs ps) (os_WriteFile e p c)" "pres (same_procs ps) (os_ReadFile e p)"
  "pres (same_procs ps) (os_Stat e p)" "pres (same_procs ps) (os_RemoveAll e p)"
  "pres (same_procs ps) (Glob_prefix d pre)"
  unfolding os_MkdirAll_def os_Mkdir_def os_WriteFile_def os_ReadFile_def os_Stat_def
    os_RemoveAll_def Glob_prefix_def
  by (intro pres_fs_op pres_intros; simp add: same_procs_def)+

lemma tick_eq [simp]: "tick w = (Ok (clock w), w\<lparr>clock := Suc (clock w)\<rparr>)"
  by (simp add: tick_def ret_def)

lemma bindP_tick [simp]: "bindP tick f w = f (clock w) (w\<lparr>clock := Suc (clock w)\<rparr>)"
  by (simp add: bindP_def)

lemma proc_Stop_eq:
  "proc_Stop e pid w =
     (let (c, p) = np_Stop (os_exitCode e (clock w) pid) (procs w ! pid) in
      (Ok c, w\<lparr>clock := Suc (clock w), procs := (procs w)[pid := p]\<rparr>))"
  by (simp add: proc_Stop_def bindP_def split: prod.splits)

lemma proc_Stop_Ok: "\<exists>c. fst (proc_Stop e pid w) = Ok c"
  by (simp add: proc_Stop_eq split: prod.splits)

lemma proc_new_Ok:
  "proc_new e name b as w = (Ok pid, w') \<Longrightarrow>
   pid = length (procs w) \<and>
   (\<exists>p. procs w' = procs w @ [p] \<and> np_ok p \<and> np_Status p = Running \<and> np_name p = name)"
  by (cases "os_exec e (clock w) b as")
    (auto simp: proc_new_def bindP_eq_Ok newNodeProcess_started newNodeProcess_failed np_ok_def
      np_Status_def, auto simp: newNodeProcess_def np_start_def bindP_def modify_def panic_def)

lemma proc_new_fail:
  "fst (proc_new e name b as w) = r \<Longrightarrow> \<not> is_Ok r \<Longrightarrow> procs (snd (proc_new e name b as w)) = procs w"
  by (cases "os_exec e (clock w) b as")
    (auto simp: proc_new_def bindP_def newNodeProcess_started newNodeProcess_failed ret_def throw_def gets_def
      modify_def, auto simp: newNodeProcess_def np_start_def bindP_def modify_def panic_def)

section \<open>A concrete environment\<close>

text \<open>
  An environment in which every request succeeds, for evaluating the model on concrete
  inputs: all ports are free, random numbers are 0, processes start and exit with code 0,
  the beacon set is a list and the flag names are those of the node's documentation.
\<close>

definition demo_env :: env where
  "demo_env =
     \<lparr>os_portFree = (\<lambda>t p. True), os_draws = (\<lambda>t. [t]), os_fsErr = (\<lambda>t p. None),
      os_exec = (\<lambda>t b as. Ok ()), os_pipeErr = (\<lambda>t. None),
      os_version = (\<lambda>t b. Ok ''lux/1.10.0 [database=v1.4.5]''),
      os_exitCode = (\<lambda>t pid. 0), os_time = (\<lambda>t. ''20240101_000000''),
      os_tempDir = ''/tmp'', os_homeDir = ''/home/lux'',
      os_health = (\<lambda>t pid. [\<lparr>poll_running = True, poll_healthy = True, poll_ctx_done = False\<rparr>]),
      staking_NewCertAndKeyBytes = (\<lambda>t. Ok (''cert'' @ show_nat t, ''key'' @ show_nat t)),
      bls_NewSecretKey = (\<lambda>t. Ok ''secret''),
      nodeID_of_keypair = (\<lambda>k c. Ok (''NodeID-'' @ k)),
      ids_ToID = (\<lambda>b. if length b = 32 then Ok b else Err (External ''bad length'')),
      ids_FromString = Ok, ids_String = id, ids_Empty = [], PlatformChainID = ''P'',
      beacon_Add = (\<lambda>b bs. if fst b \<in> fst ` set bs then Err (External ''duplicate'') else Ok (bs @ [b])),
      beacon_RemoveByID = (\<lambda>i bs. filter (\<lambda>b. fst b \<noteq> i) bs),
      beacon_IPsArg = (\<lambda>bs. join_with '','' (map (\<lambda>b. ''[::1]:'' @ show_nat (unat (snd b))) bs)),
      beacon_IDsArg = (\<lambda>bs. join_with '','' (map fst bs)),
      wrappers_Errs_Add = (\<lambda>er acc. case acc of None \<Rightarrow> Some er | Some x \<Rightarrow> Some x),
      semver_Compare = (\<lambda>a b. 1), dircopy_Copy = (\<lambda>t s d fs. Ok fs),
      LocalID = 12345, NetworkName = (\<lambda>n. ''network-'' @ show_nat (unat n)),
      NetworkNameKey = ''network-id'', DataDirKey = ''data-dir'', DBPathKey = ''db-dir'',
      LogsDirKey = ''log-dir'', HTTPPortKey = ''http-port'', StakingPortKey = ''staking-port'',
      BootstrapIPsKey = ''bootstrap-ips'', BootstrapIDsKey = ''bootstrap-ids'',
      HTTPHostKey = ''http-host'', PluginDirKey = ''plugin-dir'', TrackSubnetsKey = ''track-subnets'',
      StakingTLSKeyPathKey = ''staking-tls-key-file'', StakingCertPathKey = ''staking-tls-cert-file'',
      StakingSignerKeyPathKey = ''staking-signer-key-file'', GenesisConfigFileKey = ''genesis-file'',
      ConfigFileKey = ''config-file'', ChainConfigDirKey = ''chain-config-dir'',
      SubnetConfigDirKey = ''subnet-config-dir''\<rparr>"

definition demo_world :: world where
  "demo_world = \<lparr>clock = 0, files = [], dirs = [], procs = []\<rparr>"

end
