(* ===== verification/Json_Roundtrip.thy ===== *)
theory Json_Roundtrip
  imports Go_Values
begin

text \<open>
  Reading back what \<^verbatim>\<open>encoding/json\<close> wrote: the parser applied to the text of a value
  gives the value, with its numbers as float64, for the compact and the indented form.
\<close>

section \<open>Strings\<close>

lemma hex_val_digit [simp]: "n < 16 \<Longrightarrow> hex_val (hex_digit n) = Some n"
  by (auto simp: hex_val_def hex_digit_def Let_def)

lemma hex_val_0 [simp]: "hex_val (CHR ''0'') = Some 0"
  by (simp add: hex_val_def Let_def)

lemma parse_u_byte:
  "(of_char c :: nat) < 128 \<Longrightarrow>
   parse_u (CHR ''0'' # CHR ''0'' # hex_digit (of_char c div 16) # hex_digit (of_char c mod 16) # r)
     = Some ([c], r)"
proof -
  assume lt: "(of_char c :: nat) < 128"
  have "hex4 (CHR ''0'') (CHR ''0'') (hex_digit (of_char c div 16)) (hex_digit (of_char c mod 16))
      = Some (of_char c)"
    using lt by (simp add: hex4_def less_mult_imp_div_less)
  then show ?thesis using lt by (simp add: utf8_def del: hex_val_digit)
qed

lemma parse_str_escape:
  "parse_str (escape_char c @ r) = map_option (\<lambda>(s, t). (c # s, t)) (parse_str r)"
proof -
  have neq: "CHR 0x22 \<noteq> CHR 0x5C" by simp
  consider (q) "c = CHR 0x22 \<or> c = CHR 0x5C" | (n) "c = CHR 0x0A" | (r) "c = CHR 0x0D"
    | (t) "c = CHR 0x09"
    | (u) "c \<noteq> CHR 0x22" "c \<noteq> CHR 0x5C" "c \<noteq> CHR 0x0A" "c \<noteq> CHR 0x0D" "c \<noteq> CHR 0x09"
        "of_char c < (32::nat) \<or> c = CHR ''<'' \<or> c = CHR ''>'' \<or> c = CHR ''&''"
    | (p) "c \<noteq> CHR 0x22" "c \<noteq> CHR 0x5C" "c \<noteq> CHR 0x0A" "c \<noteq> CHR 0x0D" "c \<noteq> CHR 0x09"
        "\<not> (of_char c < (32::nat) \<or> c = CHR ''<'' \<or> c = CHR ''>'' \<or> c = CHR ''&'')"
    by argo
  then show ?thesis
  proof cases
    case u
    from u(6) have "(of_char c :: nat) < 128" by (elim disjE) simp_all
    then have pu: "parse_u (CHR ''0'' # CHR ''0'' # hex_digit (of_char c div 16) #
        hex_digit (of_char c mod 16) # r) = Some ([c], r)"
      by (rule parse_u_byte)
    have esc: "escape_char c = [CHR 0x5C, CHR ''u'', CHR ''0'', CHR ''0'',
        hex_digit (of_char c div 16), hex_digit (of_char c mod 16)]"
      using u by (simp add: escape_char_def)
    show ?thesis by (simp add: esc pu del: parse_u.simps)
  next
    case p
    then show ?thesis by (simp add: escape_char_def)
  qed (auto simp: escape_char_def unescape_def)
qed

lemma parse_str_quote: "parse_str (concat (map escape_char s) @ CHR 0x22 # r) = Some (s, r)"
  by (induction s) (simp_all add: parse_str_escape)

section \<open>Numbers\<close>

definition ends_num :: "string \<Rightarrow> bool" where
  "ends_num r \<longleftrightarrow> (case r of [] \<Rightarrow> True | c # _ \<Rightarrow>
     \<not> is_digit c \<and> c \<noteq> CHR ''.'' \<and> c \<noteq> CHR ''e'' \<and> c \<noteq> CHR ''E'')"

lemma is_digit_digit_char [simp]: "d < 10 \<Longrightarrow> is_digit (digit_char d)"
  by (simp add: is_digit_def)

lemma show_nat_all_digits: "c \<in> set (show_nat n) \<Longrightarrow> is_digit c"
  using show_nat_digits by fastforce

lemma ends_num_digits:
  assumes "ends_num r" "\<And>c. c \<in> set ds \<Longrightarrow> is_digit c"
  shows "takeWhile is_digit (ds @ r) = ds" "dropWhile is_digit (ds @ r) = r"
  using assms by (auto simp: ends_num_def takeWhile_append dropWhile_append split: list.splits)

lemma show_nat_leading:
  "\<not> (hd (show_nat n) = CHR ''0'' \<and> tl (show_nat n) \<noteq> [])"
proof (induction n rule: show_nat.induct)
  case (1 n)
  show ?case
  proof (cases "n < 10")
    case True
    then show ?thesis by (simp add: show_nat.simps [of n])
  next
    case False
    have hd: "hd (show_nat n) = hd (show_nat (n div 10))"
      using False by (simp add: show_nat.simps [of n])
    have "hd (show_nat (n div 10)) \<noteq> CHR ''0''"
    proof
      assume z: "hd (show_nat (n div 10)) = CHR ''0''"
      with 1 False have "tl (show_nat (n div 10)) = []" by blast
      with z have "show_nat (n div 10) = [CHR ''0'']"
        by (metis hd_Cons_tl show_nat_not_Nil)
      then have "n div 10 = read_nat [CHR ''0'']" by (metis read_show_nat)
      then show False using False by (simp add: read_nat_def)
    qed
    with hd show ?thesis by simp
  qed
qed

lemma is_digit_simps [simp]: "\<not> is_digit (CHR ''.'')" "\<not> is_digit (CHR ''-'')"
  by (simp_all add: is_digit_def)

lemma show_nat_hd: "is_digit (hd (show_nat n))"
  by (meson hd_in_set show_nat_all_digits show_nat_not_Nil)

lemma parse_scale_end: "ends_num r \<Longrightarrow> norm_dec m n = (a, b) \<Longrightarrow> parse_scale m n r = Some (VFloat a b, r)"
  by (simp add: parse_scale_def ends_num_def split: list.splits)

lemma parse_frac_end: "ends_num r \<Longrightarrow> parse_frac r = Some ([], r)"
  by (simp add: parse_frac_def ends_num_def split: list.splits)

lemma parse_frac_digits:
  assumes "ends_num r" "\<And>c. c \<in> set ds \<Longrightarrow> is_digit c" "ds \<noteq> []"
  shows "parse_frac (CHR ''.'' # ds @ r) = Some (ds, r)"
  using ends_num_digits [OF assms(1,2)] assms(3) by (simp add: parse_frac_def)

lemma parse_unsigned_int:
  assumes "ends_num r"
  shows "parse_unsigned sg (show_nat a @ r) = Some (VFloat (sg * int a) 0, r)"
  using ends_num_digits [OF assms, of "show_nat a"] show_nat_all_digits [of _ a] assms
    show_nat_leading [of a]
  by (auto simp: parse_unsigned_def Let_def parse_frac_end parse_scale_end)

lemma parse_unsigned_frac:
  assumes r: "ends_num r" and ds: "\<And>c. c \<in> set ds \<Longrightarrow> is_digit c" "ds \<noteq> []"
    and norm: "norm_dec (sg * int (read_nat (show_nat a @ ds))) (length ds) = (m, n)"
  shows "parse_unsigned sg (show_nat a @ CHR ''.'' # ds @ r) = Some (VFloat m n, r)"
proof -
  have "takeWhile is_digit (show_nat a @ CHR ''.'' # ds @ r) = show_nat a"
    "dropWhile is_digit (show_nat a @ CHR ''.'' # ds @ r) = CHR ''.'' # ds @ r"
    using show_nat_all_digits by (simp_all add: takeWhile_append dropWhile_append)
  then show ?thesis
    using parse_frac_digits [OF r ds] parse_scale_end [OF r norm] show_nat_leading [of a]
    by (simp add: parse_unsigned_def Let_def)
qed

lemma has_prefix_minus: "has_prefix ''-'' s \<longleftrightarrow> s \<noteq> [] \<and> hd s = CHR ''-''"
  by (cases s) (auto simp: has_prefix_def)

lemma has_prefix_minus_Cons [simp]: "has_prefix ''-'' (CHR ''-'' # s)"
  by (simp add: has_prefix_minus)

lemma show_nat_not_minus [simp]: "\<not> has_prefix ''-'' (show_nat n @ r)"
  using show_nat_hd [of n] by (auto simp: has_prefix_minus)

lemma parse_num_int:
  assumes "ends_num r"
  shows "parse_num (show_int i @ r) = Some (VFloat i 0, r)"
  using parse_unsigned_int [OF assms] by (simp add: parse_num_def show_int_def)

lemma read_nat_append: "read_nat (s @ t) = read_nat s * 10 ^ length t + read_nat t"
proof (induction t rule: rev_induct)
  case (snoc c t)
  then show ?case
    using read_nat_snoc [of "s @ t" c] read_nat_snoc [of t c] by (simp add: algebra_simps)
qed (simp add: read_nat_def)

lemma read_nat_zeros [simp]: "read_nat (replicate k (CHR ''0'')) = 0"
  by (induction k) (simp_all add: read_nat_append [of "[CHR ''0'']", simplified] read_nat_def)

lemma length_show_nat: "b < 10 ^ Suc n \<Longrightarrow> length (show_nat b) \<le> Suc n"
proof (induction n arbitrary: b)
  case 0
  then show ?case by (simp add: show_nat.simps [of b])
next
  case (Suc n)
  then have "b div 10 < 10 ^ Suc n" by (simp add: less_mult_imp_div_less)
  then show ?case using Suc.IH by (subst show_nat.simps) simp
qed

lemma pad_left_props:
  assumes "b < 10 ^ Suc n"
  shows "length (pad_left (Suc n) (show_nat b)) = Suc n"
    and "read_nat (pad_left (Suc n) (show_nat b)) = b"
    and "\<And>c. c \<in> set (pad_left (Suc n) (show_nat b)) \<Longrightarrow> is_digit c"
  using length_show_nat [OF assms]
  by (auto simp: read_nat_append dest: show_nat_all_digits) (simp add: is_digit_def)

lemma parse_num_float:
  assumes r: "ends_num r" and wf: "norm_dec m n = (m, n)"
  shows "parse_num (show_float m n @ r) = Some (VFloat m n, r)"
proof (cases n)
  case 0
  then show ?thesis using parse_num_int [OF r] by (simp add: show_float_def)
next
  case (Suc k)
  let ?a = "nat \<bar>m\<bar>" and ?sg = "if m < 0 then - 1 else 1 :: int"
  let ?ds = "pad_left n (show_nat (?a mod 10 ^ n))"
  have "?a mod 10 ^ n < 10 ^ Suc k" by (simp add: Suc)
  note pad = pad_left_props [OF this, folded Suc]
  have "?ds \<noteq> []" using pad(1) Suc by (metis Zero_not_Suc list.size(3))
  moreover have "norm_dec (?sg * int (read_nat (show_nat (?a div 10 ^ n) @ ?ds))) (length ?ds) = (m, n)"
  proof -
    have "read_nat (show_nat (?a div 10 ^ n) @ ?ds) = ?a"
      using pad by (simp only: read_nat_append read_show_nat div_mult_mod_eq)
    moreover have "?sg * int ?a = m" by simp
    ultimately show ?thesis using wf pad(1) by (simp only:)
  qed
  ultimately have "parse_unsigned ?sg (show_nat (?a div 10 ^ n) @ CHR ''.'' # ?ds @ r)
      = Some (VFloat m n, r)"
    by (rule parse_unsigned_frac [OF r pad(3), rotated])
  then show ?thesis
    by (auto simp: parse_num_def show_float_def Let_def Suc simp del: pad_left.simps
        split: if_splits)
qed

section \<open>Values\<close>

definition all_ws :: "string \<Rightarrow> bool" where
  "all_ws s \<longleftrightarrow> (\<forall>c \<in> set s. is_ws c)"

lemma skip_ws_append: "all_ws w \<Longrightarrow> skip_ws (w @ s) = skip_ws s"
  by (simp add: skip_ws_def all_ws_def dropWhile_append)

lemma skip_ws_Cons [simp]: "\<not> is_ws c \<Longrightarrow> skip_ws (c # s) = c # s"
  by (simp add: skip_ws_def)

lemma is_ws_punct [simp]:
  "\<not> is_ws (CHR '','')" "\<not> is_ws (CHR '':'')" "\<not> is_ws (CHR '']'')" "\<not> is_ws (CHR ''}'')"
  "\<not> is_ws (CHR ''['')" "\<not> is_ws (CHR ''{'')" "\<not> is_ws (CHR 0x22)" "\<not> is_ws (CHR ''t'')"
  "\<not> is_ws (CHR ''f'')" "\<not> is_ws (CHR ''n'')" "\<not> is_ws (CHR ''-'')"
  by (simp_all add: is_ws_def)

lemma digit_not_ws: "is_digit c \<Longrightarrow> \<not> is_ws c"
  unfolding is_ws_def is_digit_def by (intro notI) (elim disjE conjE; simp)

lemma ws_ends_num: "is_ws c \<Longrightarrow> ends_num (c # r)"
  unfolding is_ws_def by (elim disjE; simp add: ends_num_def is_digit_def)

lemma ends_num_ws: "all_ws w \<Longrightarrow> ends_num r \<Longrightarrow> ends_num (w @ r)"
  by (cases w) (simp_all add: all_ws_def ws_ends_num)

lemma ends_num_punct [simp]:
  "ends_num (CHR '','' # r)" "ends_num (CHR '']'' # r)" "ends_num (CHR ''}'' # r)" "ends_num []"
  by (simp_all add: ends_num_def is_digit_def)

text \<open>A number starts with a digit or a sign: none of the other branches applies.\<close>

lemma parse_val_num:
  assumes "s = c # t" "is_digit c \<or> c = CHR ''-''"
  shows "parse_val (Suc f) s = parse_num s"
proof -
  have "c \<noteq> CHR ''{''" "c \<noteq> CHR ''[''" "c \<noteq> CHR 0x22" "c \<noteq> CHR ''t''" "c \<noteq> CHR ''f''"
    "c \<noteq> CHR ''n''" "\<not> is_ws c"
    using assms(2) digit_not_ws [of c] by (elim disjE; force simp: is_digit_def)+
  then show ?thesis using assms(1) by (simp add: has_prefix_def)
qed

lemma show_int_start: "\<exists>c t. show_int i @ r = c # t \<and> (is_digit c \<or> c = CHR ''-'')"
  using show_nat_hd [of "nat i"] show_nat_not_Nil [of "nat i"]
  by (cases "show_nat (nat i)") (auto simp: show_int_def)

lemma show_float_start: "\<exists>c t. show_float m n @ r = c # t \<and> (is_digit c \<or> c = CHR ''-'')"
proof (cases "n = 0")
  case True
  then show ?thesis using show_int_start by (simp add: show_float_def)
next
  case False
  then show ?thesis
    using show_nat_hd [of "nat \<bar>m\<bar> div 10 ^ n"] show_nat_not_Nil [of "nat \<bar>m\<bar> div 10 ^ n"]
    by (cases "show_nat (nat \<bar>m\<bar> div 10 ^ n)") (auto simp: show_float_def Let_def)
qed

lemma parse_val_float:
  "ends_num r \<Longrightarrow> norm_dec m n = (m, n) \<Longrightarrow>
   parse_val (Suc f) (show_float m n @ r) = Some (VFloat m n, r)"
  using show_float_start [of m n r] parse_val_num parse_num_float by metis

lemma parse_val_int: "ends_num r \<Longrightarrow> parse_val (Suc f) (show_int i @ r) = Some (VFloat i 0, r)"
  using show_int_start [of i r] parse_val_num parse_num_int by metis

lemma parse_val_quote: "parse_val (Suc f) (quote s @ r) = Some (VStr s, r)"
  by (simp add: quote_def parse_str_quote)

lemma parse_val_skip: "all_ws w \<Longrightarrow> parse_val f (w @ s) = parse_val f s"
  by (cases f) (simp_all add: skip_ws_append)

lemma keep_last_distinct: "distinct (map fst kvs) \<Longrightarrow> keep_last kvs = kvs"
proof (induction kvs rule: rev_induct)
  case (snoc kv kvs)
  moreover have "AList.update k v xs = xs @ [(k, v)]" if "k \<notin> fst ` set xs" for k xs and v :: 'a
    using that by (induction xs) auto
  ultimately show ?case by (auto simp: keep_last_def split: prod.splits)
qed (simp add: keep_last_def)

lemma digit_not_bracket: "is_digit c \<or> c = CHR ''-'' \<Longrightarrow> \<not> is_ws c \<and> c \<noteq> CHR '']''"
  using digit_not_ws [of c] by (elim disjE; force simp: is_digit_def)

lemma jtext_start: "\<exists>c t. jtext nl colon l v = c # t \<and> \<not> is_ws c \<and> c \<noteq> CHR '']''"
proof (cases v)
  case (VInt i)
  then show ?thesis using show_int_start [of i "[]"] digit_not_bracket by fastforce
next
  case (VU16 w)
  have "show_nat (unat w) = show_int (int (unat w))" by (simp add: show_int_def)
  with VU16 show ?thesis
    using show_int_start [of "int (unat w)" "[]"] digit_not_bracket by fastforce
next
  case (VFloat m n)
  then show ?thesis using show_float_start [of m n "[]"] digit_not_bracket by fastforce
qed (auto simp: quote_def)

lemma parse_elems_join:
  assumes tx: "\<And>v g r. v \<in> set vs \<Longrightarrow> ends_num r \<Longrightarrow> length (tx v) \<le> g \<Longrightarrow>
      parse_val g (tx v @ r) = Some (jv v, r)"
    and w: "all_ws w" and ne: "vs \<noteq> []"
    and len: "length (join_with '','' (map tx vs) @ w @ '']'') \<le> f"
  shows "parse_elems f (join_with '','' (map tx vs) @ w @ CHR '']'' # r) = Some (map jv vs, r)"
  using tx ne len
proof (induction vs arbitrary: f)
  case (Cons v vs)
  from Cons.prems(3) obtain g where f: "f = Suc g" by (cases f) auto
  show ?case
  proof (cases "vs = []")
    case True
    have "parse_val g (tx v @ w @ CHR '']'' # r) = Some (jv v, w @ CHR '']'' # r)"
      using Cons.prems f True w by (simp add: ends_num_ws)
    then show ?thesis using True f w by (simp add: skip_ws_append)
  next
    case False
    let ?rest = "join_with '','' (map tx vs) @ w @ CHR '']'' # r"
    have "parse_val g (tx v @ CHR '','' # ?rest) = Some (jv v, CHR '','' # ?rest)"
      using Cons.prems f False by (simp add: join_with_Cons)
    moreover have "parse_elems g ?rest = Some (map jv vs, r)"
      using Cons.IH [of g] Cons.prems f False by (simp add: join_with_Cons)
    ultimately show ?thesis using f False by (simp add: join_with_Cons)
  qed
qed simp

lemma parse_members_join:
  assumes tx: "\<And>k v g r. (k, v) \<in> set kvs \<Longrightarrow> ends_num r \<Longrightarrow> length (tx v) \<le> g \<Longrightarrow>
      parse_val g (tx v @ r) = Some (jv v, r)"
    and ws: "all_ws w" "all_ws w1" and ne: "kvs \<noteq> []"
    and len: "length (join_with '','' (map (\<lambda>(k, v). w1 @ quote k @ CHR '':'' # tx v) kvs) @ w @ ''}'') \<le> f"
  shows "parse_members f (join_with '','' (map (\<lambda>(k, v). w1 @ quote k @ CHR '':'' # tx v) kvs)
      @ w @ CHR ''}'' # r) = Some (map (\<lambda>(k, v). (k, jv v)) kvs, r)"
  using tx ne len
proof (induction kvs arbitrary: f)
  case (Cons kv kvs)
  obtain k v where kv: "kv = (k, v)" by force
  let ?mem = "\<lambda>(k, v). w1 @ quote k @ CHR '':'' # tx v"
  from Cons.prems(3) obtain g where f: "f = Suc g" by (cases f) auto
  have key: "skip_ws (w1 @ quote k @ CHR '':'' # s) = CHR 0x22 # concat (map escape_char k) @ CHR 0x22 # CHR '':'' # s"
    for s using ws by (simp add: skip_ws_append quote_def)
  show ?case
  proof (cases "kvs = []")
    case True
    have "parse_val g (tx v @ w @ CHR ''}'' # r) = Some (jv v, w @ CHR ''}'' # r)"
      using Cons.prems f True ws kv by (simp add: ends_num_ws)
    then show ?thesis using True f ws kv
      by (simp add: key parse_str_quote skip_ws_append del: parse_str.simps)
  next
    case False
    let ?rest = "join_with '','' (map ?mem kvs) @ w @ CHR ''}'' # r"
    have "parse_val g (tx v @ CHR '','' # ?rest) = Some (jv v, CHR '','' # ?rest)"
      using Cons.prems(1) [of k v "CHR '','' # ?rest" g] Cons.prems(3) f False kv
      by (simp add: join_with_Cons)
    moreover have "parse_members g ?rest = Some (map (\<lambda>(k, v). (k, jv v)) kvs, r)"
    proof (rule Cons.IH)
      show "length (join_with '','' (map ?mem kvs) @ w @ ''}'') \<le> g"
        using Cons.prems f False kv by (simp add: join_with_Cons)
    qed (use Cons.prems False in auto)
    ultimately show ?thesis using f False kv
      by (simp add: join_with_Cons key parse_str_quote del: parse_str.simps)
  qed
qed simp

lemma jtext_length: "0 < length (jtext nl colon l v)"
  using jtext_start [of nl colon l v] by auto

lemma map_text_skip:
  assumes "all_ws w" "\<And>g r. ends_num r \<Longrightarrow> length t \<le> g \<Longrightarrow> parse_val g (t @ r) = Some (x, r)"
  shows "ends_num r \<Longrightarrow> length (w @ t) \<le> g \<Longrightarrow> parse_val g ((w @ t) @ r) = Some (x, r)"
  using assms by (simp add: parse_val_skip)

lemma parse_jtext_arr:
  assumes nl: "\<And>l. all_ws (nl l)"
    and each: "\<And>v f r. v \<in> set vs \<Longrightarrow> ends_num r \<Longrightarrow> length (jtext nl c (Suc l) v) \<le> f \<Longrightarrow>
      parse_val f (jtext nl c (Suc l) v @ r) = Some (jsonify v, r)"
    and fuel: "length (jtext nl c l (VArr vs)) \<le> f"
  shows "parse_val f (jtext nl c l (VArr vs) @ r) = Some (jsonify (VArr vs), r)"
proof (cases "vs = []")
  case True
  with fuel show ?thesis by (cases f) auto
next
  case False
  let ?tx = "\<lambda>v. nl (Suc l) @ jtext nl c (Suc l) v"
  let ?elems = "join_with '','' (map ?tx vs) @ nl l @ CHR '']'' # r"
  from fuel False obtain g where f: "f = Suc g" by (cases f) auto
  have "parse_elems g ?elems = Some (map jsonify vs, r)"
  proof (rule parse_elems_join)
    fix v g r
    assume "v \<in> set vs" "ends_num r" "length (?tx v) \<le> g"
    then show "parse_val g (?tx v @ r) = Some (jsonify v, r)" using each nl by (intro map_text_skip)
  qed (use nl fuel False f in auto)
  moreover obtain x t where "skip_ws ?elems = x # t" "x \<noteq> CHR '']''"
  proof -
    obtain v vs' where vs: "vs = v # vs'" using False by (cases vs) auto
    obtain x t where "jtext nl c (Suc l) v = x # t" "\<not> is_ws x" "x \<noteq> CHR '']''" using jtext_start by blast
    then show thesis using that nl by (cases "vs' = []") (auto simp: vs join_with_Cons skip_ws_append)
  qed
  ultimately show ?thesis using False f by simp
qed

lemma parse_jtext_obj:
  assumes nl: "\<And>l. all_ws (nl l)" and colon: "all_ws w1"
    and each: "\<And>k v f r. (k, v) \<in> set kvs \<Longrightarrow> ends_num r \<Longrightarrow> length (jtext nl (CHR '':'' # w1) (Suc l) v) \<le> f \<Longrightarrow>
      parse_val f (jtext nl (CHR '':'' # w1) (Suc l) v @ r) = Some (jsonify v, r)"
    and keys: "distinct (map fst kvs)" and fuel: "length (jtext nl (CHR '':'' # w1) l (VObj kvs)) \<le> f"
  shows "parse_val f (jtext nl (CHR '':'' # w1) l (VObj kvs) @ r) = Some (jsonify (VObj kvs), r)"
proof (cases "kvs = []")
  case True
  with fuel show ?thesis by (cases f) auto
next
  case False
  let ?tx = "\<lambda>v. w1 @ jtext nl (CHR '':'' # w1) (Suc l) v"
  let ?mem = "\<lambda>(k, v). nl (Suc l) @ quote k @ CHR '':'' # ?tx v"
  let ?mems = "join_with '','' (map ?mem kvs) @ nl l @ CHR ''}'' # r"
  from fuel False obtain g where f: "f = Suc g" by (cases f) auto
  have "parse_members g ?mems = Some (map (\<lambda>(k, v). (k, jsonify v)) kvs, r)"
  proof (rule parse_members_join)
    fix k v g r
    assume "(k, v) \<in> set kvs" "ends_num r" "length (?tx v) \<le> g"
    then show "parse_val g (?tx v @ r) = Some (jsonify v, r)" using each colon by (intro map_text_skip)
  qed (use nl fuel False f in auto)
  moreover obtain t where "skip_ws ?mems = CHR 0x22 # t"
  proof -
    obtain k v kvs' where kvs: "kvs = (k, v) # kvs'" using False by (cases kvs) auto
    show thesis using that nl by (cases "kvs' = []") (auto simp: kvs join_with_Cons skip_ws_append quote_def)
  qed
  moreover have "keep_last (map (\<lambda>(k, v). (k, jsonify v)) kvs) = map (\<lambda>(k, v). (k, jsonify v)) kvs"
    using keys by (intro keep_last_distinct) (simp add: comp_def case_prod_beta)
  ultimately show ?thesis using False f by simp
qed

lemma parse_jtext:
  assumes nl: "\<And>l. all_ws (nl l)" and colon: "all_ws w1"
  shows "wf_val v \<Longrightarrow> ends_num r \<Longrightarrow> length (jtext nl (CHR '':'' # w1) l v) \<le> f \<Longrightarrow>
    parse_val f (jtext nl (CHR '':'' # w1) l v @ r) = Some (jsonify v, r)"
proof (induction v arbitrary: l f r)
  case (VArr vs)
  have "wf_val v" if "v \<in> set vs" for v using VArr.prems(1) that by (simp add: list_all_iff)
  then show ?case using VArr.IH VArr.prems(3) by (intro parse_jtext_arr nl) blast
next
  case (VObj kvs)
  have wf: "wf_val v" if "(k, v) \<in> set kvs" for k v using VObj.prems(1) that by (auto simp: list_all_iff)
  have "parse_val g (jtext nl (CHR '':'' # w1) (Suc l) v @ q) = Some (jsonify v, q)"
    if kv: "(k, v) \<in> set kvs" and "ends_num q" "length (jtext nl (CHR '':'' # w1) (Suc l) v) \<le> g" for k v g q
    using VObj.IH [OF kv] wf [OF kv] that by (auto simp: snds.simps)
  then show ?case using VObj.prems(1,3) by (intro parse_jtext_obj nl colon) simp_all
next
  case (VU16 w)
  have "show_nat (unat w) = show_int (int (unat w))" by (simp add: show_int_def)
  with VU16 show ?case using parse_val_int jtext_length [of nl "CHR '':'' # w1" l "VU16 w"]
    by (cases f) auto
next
  case (VInt i)
  then show ?case using parse_val_int jtext_length [of nl "CHR '':'' # w1" l "VInt i"]
    by (cases f) auto
next
  case (VFloat m n)
  then show ?case using parse_val_float jtext_length [of nl "CHR '':'' # w1" l "VFloat m n"]
    by (cases f) auto
next
  case (VStr x)
  then show ?case using parse_val_quote jtext_length [of nl "CHR '':'' # w1" l "VStr x"]
    by (cases f) auto
next
  case VNull
  then show ?case by (cases f) (auto simp: has_prefix_def)
next
  case (VBool b)
  then show ?case by (cases f) (auto simp: has_prefix_def split: if_splits)
qed

lemma json_value_jtext:
  assumes "\<And>l. all_ws (nl l)" "all_ws w1" "wf_val v"
  shows "json_value (jtext nl (CHR '':'' # w1) 0 v) = Some (jsonify v)"
proof -
  let ?t = "jtext nl (CHR '':'' # w1) 0 v"
  have "parse_val (2 * length ?t + 2) (?t @ []) = Some (jsonify v, [])"
    by (rule parse_jtext) (use assms in simp_all)
  then show ?thesis by (simp add: json_value_def skip_ws_def del: parse_val.simps)
qed

lemma json_value_indent: "wf_val v \<Longrightarrow> json_value (json_indent v) = Some (jsonify v)"
  unfolding json_indent_def
  by (rule json_value_jtext) (simp_all add: indent4_def all_ws_def is_ws_def)

lemma distinct_keys_sort: "distinct (map fst (sort_key f xs)) = distinct (map fst xs)"
  by (metis distinct_map distinct_sort set_sort)

lemma wf_val_canon [simp]: "wf_val v \<Longrightarrow> wf_val (canon v)"
  by (induction v) (auto simp: list_all_iff comp_def case_prod_beta distinct_keys_sort)

lemma json_value_marshal: "wf_val v \<Longrightarrow> json_value (json_marshal v) = Some (jsonify (canon v))"
  unfolding json_marshal_def
  by (rule json_value_jtext [of "\<lambda>_. []" "[]"]) (simp_all add: all_ws_def)

end
