(* ===== verification/Utils.thy ===== *)
theory Utils
  imports World Json_Roundtrip
begin

text \<open>
  The package \<^verbatim>\<open>utils\<close>: node IDs, the network ID of a genesis, checks of executables, VM IDs,
  directories with a time stamp (\<^verbatim>\<open>utils/utils.go\<close>), setting a key of a JSON object
  (\<^verbatim>\<open>utils/json.go\<close>) and the color picker (\<^verbatim>\<open>utils/color.go\<close>).
\<close>

section \<open>utils.go\<close>

definition ToNodeID :: "env \<Rightarrow> string \<Rightarrow> string \<Rightarrow> string res" where
  "ToNodeID e stakingKey stakingCert = nodeID_of_keypair e stakingKey stakingCert"

definition genesisNetworkIDKey :: string where
  "genesisNetworkIDKey = ''networkID''"

definition NetworkIDFromGenesis :: "string \<Rightarrow> 32 word res" where
  "NetworkIDFromGenesis genesis =
     bindR (wrapR ''couldn't unmarshal genesis: %w'' [] (unmarshal_map genesis)) (\<lambda>genesisMap.
       (case mget genesisMap genesisNetworkIDKey of
          None \<Rightarrow> Err (Errorf ''couldn't find key %q in genesis'' [genesisNetworkIDKey])
        | Some (VFloat m n) \<Rightarrow> Ok (uint32_of_float m n)
        | Some v \<Rightarrow> Err (Errorf ''expected float64 but got %T'' [type_name v])))"

definition ErrInvalidExecPath :: err where
  "ErrInvalidExecPath = New ''lux exec is invalid''"

definition ErrNotExists :: err where
  "ErrNotExists = New ''lux exec not exists''"

definition ErrNotExistsPlugin :: err where
  "ErrNotExistsPlugin = New ''plugin exec not exists''"

definition CheckExecPath :: "env \<Rightarrow> string \<Rightarrow> (world, unit) prog" where
  "CheckExecPath e exec =
     (if exec = [] then throw ErrInvalidExecPath
      else catchP (os_Stat e exec) (\<lambda>er.
        if errors_Is er ErrNotExist then throw ErrNotExists
        else throw (Wrapf ''failed to stat exec %q (%w)'' [exec] er)))"

definition CheckPluginPath :: "env \<Rightarrow> string \<Rightarrow> (world, unit) prog" where
  "CheckPluginPath e pluginExec =
     catchP (os_Stat e pluginExec) (\<lambda>er.
       if errors_Is er ErrNotExist then throw ErrNotExistsPlugin
       else throw (Wrapf ''failed to stat plugin exec %q (%w)'' [pluginExec] er))"

text \<open>\<^verbatim>\<open>b := make([]byte, 32); copy(b, vmName)\<close>: the name padded with zero bytes.\<close>

definition VMID :: "env \<Rightarrow> string \<Rightarrow> string res" where
  "VMID e vmName =
     (if length vmName > 32
      then Err (Errorf ''VM name must be <= 32 bytes, found %d'' [show_nat (length vmName)])
      else ids_ToID e (vmName @ replicate (32 - length vmName) (CHR 0x00)))"

definition MkDirWithTimestamp :: "env \<Rightarrow> string \<Rightarrow> (world, string) prog" where
  "MkDirWithTimestamp e dirPrefix =
     bindP tick (\<lambda>t.
       let dirName = dirPrefix @ ''_'' @ os_time e t in
       bindP (os_MkdirAll e dirName) (\<lambda>_. ret dirName))"

section \<open>json.go\<close>

definition SetJSONKey :: "string \<Rightarrow> string \<Rightarrow> string \<Rightarrow> string res" where
  "SetJSONKey jsonBody k v =
     bindR (unmarshal_map jsonBody) (\<lambda>config.
     bindR (if v = [] then Ok (mdel k config) else mput k (VStr v) config) (\<lambda>config'.
       Ok (case config' of None \<Rightarrow> ''null'' | Some kvs \<Rightarrow> json_marshal (VObj kvs))))"

section \<open>color.go\<close>

datatype Color =
  Cyan | LightBlue | LightGray | LightGreen | LightPurple | LightCyan | Purple | Yellow

definition supportedColors :: "Color list" where
  "supportedColors = [Cyan, LightBlue, LightGray, LightGreen, LightPurple, LightCyan, Purple, Yellow]"

record colorPicker =
  usedIndex :: nat

definition NewColorPicker :: colorPicker where
  "NewColorPicker = \<lparr>usedIndex = 0\<rparr>"

definition NextColor :: "(colorPicker, Color) prog" where
  "NextColor =
     bindP (gets (\<lambda>c. supportedColors ! (usedIndex c mod length supportedColors))) (\<lambda>color.
     bindP (modify (usedIndex_update Suc)) (\<lambda>_. ret color))"

text \<open>The colors of \<open>n\<close> calls in a row.\<close>

fun next_colors :: "nat \<Rightarrow> (colorPicker, Color list) prog" where
  "next_colors 0 = ret []"
| "next_colors (Suc n) =
     bindP NextColor (\<lambda>c. bindP (next_colors n) (\<lambda>cs. ret (c # cs)))"

section \<open>Lemmas\<close>

subsection \<open>What the JSON parser returns is well-formed\<close>

lemma norm_dec_idem: "norm_dec m n = (a, b) \<Longrightarrow> norm_dec a b = (a, b)"
  by (induction m n rule: norm_dec.induct) (auto split: if_splits)

lemma parse_scale_wf: "parse_scale m n r = Some (v, t) \<Longrightarrow> wf_val v \<and> jsonify v = v"
  by (auto simp: parse_scale_def scale_dec_def norm_dec_idem split: list.splits if_splits
      option.splits prod.splits)

lemma parse_num_wf: "parse_num s = Some (v, r) \<Longrightarrow> wf_val v \<and> jsonify v = v"
  by (auto simp: parse_num_def parse_unsigned_def Let_def split: if_splits option.splits
      dest: parse_scale_wf)

lemma keep_last_keys: "distinct (map fst (keep_last kvs))"
proof -
  have "distinct (map fst (fold (\<lambda>(k, v) m. AList.update k v m) kvs m))"
    if "distinct (map fst m)" for m :: "(string \<times> 'a) list"
    using that by (induction kvs arbitrary: m) (auto simp: distinct_update)
  then show ?thesis by (simp add: keep_last_def)
qed

lemma keep_last_subset: "set (keep_last kvs) \<subseteq> set kvs"
proof -
  have "set (fold (\<lambda>(k, v) m. AList.update k v m) kvs m) \<subseteq> set m \<union> set kvs"
    for m :: "(string \<times> 'a) list"
  proof (induction kvs arbitrary: m)
    case (Cons kv kvs)
    obtain k v where kv: "kv = (k, v)" by force
    have "set (AList.update k v m) \<subseteq> insert (k, v) (set m)" by (induction m) auto
    then show ?case using Cons.IH [of "AList.update k v m"] by (auto simp: kv)
  qed simp
  from this [of "[]"] show ?thesis by (simp add: keep_last_def)
qed

definition parsed :: "val \<Rightarrow> bool" where
  "parsed v \<longleftrightarrow> wf_val v \<and> jsonify v = v"

lemma map_fixed: "map f xs = xs \<Longrightarrow> x \<in> set xs \<Longrightarrow> f x = x"
  by (induction xs) auto

lemma parsed_VObj_iff:
  "parsed (VObj kvs) \<longleftrightarrow> distinct (map fst kvs) \<and> (\<forall>kv \<in> set kvs. parsed (snd kv))"
proof -
  have "map (\<lambda>(k, v). (k, jsonify v)) kvs = kvs \<longleftrightarrow> (\<forall>kv \<in> set kvs. jsonify (snd kv) = snd kv)"
    using map_fixed [of "\<lambda>(k, v). (k, jsonify v)" kvs] by (force intro: map_idI)
  then show ?thesis by (auto simp: parsed_def list_all_iff)
qed

lemma parsed_VObj: "list_all (\<lambda>kv. parsed (snd kv)) kvs \<Longrightarrow> parsed (VObj (keep_last kvs))"
  using keep_last_subset [of kvs] keep_last_keys [of kvs]
  by (auto simp: parsed_VObj_iff list_all_iff)

lemma parsed_VArr: "parsed (VArr vs) \<longleftrightarrow> list_all parsed vs"
  using map_fixed [of jsonify vs] by (auto simp: parsed_def list_all_iff intro: map_idI)

lemma parsed_basic: "parsed VNull" "parsed (VBool b)" "parsed (VStr s)" "parsed (VObj [])"
  by (simp_all add: parsed_def)

lemma parse_num_parsed: "parse_num s = Some (v, r) \<Longrightarrow> parsed v"
  using parse_num_wf by (simp add: parsed_def)

lemma parse_parsed:
  "(\<forall>s v r. parse_val f s = Some (v, r) \<longrightarrow> parsed v) \<and>
   (\<forall>s vs r. parse_elems f s = Some (vs, r) \<longrightarrow> list_all parsed vs) \<and>
   (\<forall>s kvs r. parse_members f s = Some (kvs, r) \<longrightarrow> list_all (\<lambda>kv. parsed (snd kv)) kvs)"
proof (induction f)
  case (Suc f)
  have "parsed v" if "parse_val (Suc f) s = Some (v, r)" for s v r
    using that Suc.IH
    by (auto simp: parsed_basic parsed_VArr parse_num_parsed
        intro!: parsed_VObj split: list.splits if_splits) blast+
  moreover have "list_all parsed vs" if "parse_elems (Suc f) s = Some (vs, r)" for s vs r
    using that Suc.IH by (auto split: list.splits if_splits option.splits) blast+
  moreover have "list_all (\<lambda>kv. parsed (snd kv)) kvs" if "parse_members (Suc f) s = Some (kvs, r)" for s kvs r
    using that Suc.IH by (auto split: list.splits if_splits option.splits) blast+
  ultimately show ?case by blast
qed simp

lemma json_value_parsed: "json_value s = Some v \<Longrightarrow> parsed v"
  unfolding json_value_def
  using conjunct1 [OF parse_parsed [of "2 * length s + 2"]]
  by (simp del: parse_val.simps split: option.splits prod.splits if_splits) blast

lemma unmarshal_map_parsed: "unmarshal_map s = Ok (Some kvs) \<Longrightarrow> parsed (VObj kvs)"
  using json_value_parsed [of s] by (auto simp: unmarshal_map_def split: option.splits val.splits)

subsection \<open>Reading back a map\<close>

lemma map_of_sort_key: "distinct (map fst kvs) \<Longrightarrow> map_of (sort_key fst kvs) = map_of kvs"
  by (rule map_of_eqI) (auto simp: distinct_keys_sort dest: map_of_SomeD)

lemma map_of_map_val: "map_of (map (\<lambda>(k, v). (k, f v)) kvs) k = map_option f (map_of kvs k)"
  by (induction kvs) auto

lemma jsonify_canon: "jsonify v = v \<Longrightarrow> jsonify (canon v) = canon v"
proof (induction v)
  case (VArr vs)
  then have "jsonify (canon v) = canon v" if "v \<in> set vs" for v
    using that map_fixed [of jsonify vs v] by simp
  then show ?case by (simp add: map_idI)
next
  case (VObj kvs)
  have "jsonify (canon v) = canon v" if kv: "(k, v) \<in> set kvs" for k v
    using VObj kv map_fixed [of "\<lambda>(k, v). (k, jsonify v)" kvs "(k, v)"] by (fastforce simp: snds.simps)
  then show ?case by (auto simp: intro!: map_idI)
qed auto

lemma unmarshal_marshal:
  assumes "parsed (VObj kvs)"
  shows "\<exists>m. unmarshal_map (json_marshal (VObj kvs)) = Ok (Some m) \<and>
    (\<forall>k. map_of m k = map_option canon (map_of kvs k))"
proof -
  let ?m = "sort_key fst (map (\<lambda>(k, v). (k, canon v)) kvs)"
  have wf: "wf_val (VObj kvs)" and fixed: "jsonify (VObj kvs) = VObj kvs"
    using assms by (simp_all add: parsed_def)
  have "unmarshal_map (json_marshal (VObj kvs)) = Ok (Some ?m)"
    using json_value_marshal [OF wf] jsonify_canon [OF fixed] by (simp add: unmarshal_map_def)
  moreover have "distinct (map fst (map (\<lambda>(k, v). (k, canon v)) kvs))"
    using wf by (simp add: comp_def case_prod_beta)
  ultimately show ?thesis by (simp add: map_of_sort_key map_of_map_val)
qed

lemma parsed_update: "parsed (VObj kvs) \<Longrightarrow> parsed (VObj (AList.update k (VStr s) kvs))"
proof -
  have "set (AList.update k (VStr s) kvs) \<subseteq> insert (k, VStr s) (set kvs)"
    by (induction kvs) auto
  moreover have "parsed (VStr s)" by (simp add: parsed_def)
  ultimately show "parsed (VObj kvs) \<Longrightarrow> ?thesis"
    by (fastforce simp: parsed_VObj_iff distinct_update)
qed

lemma parsed_delete: "parsed (VObj kvs) \<Longrightarrow> parsed (VObj (AList.delete k kvs))"
  by (simp add: parsed_VObj_iff distinct_delete) (auto simp: AList.delete_eq)

section \<open>Properties\<close>

text \<open>
  \<^verbatim>\<open>SetJSONKey\<close> on a JSON object succeeds, and reading its result back gives the object
  with exactly that key changed: set to the given string, or removed when the string is
  empty. Every other entry is kept (nested objects have their keys sorted).
\<close>

theorem SetJSONKey_roundtrip:
  assumes "unmarshal_map body = Ok (Some kvs)"
  shows "\<exists>t m. SetJSONKey body k v = Ok t \<and> unmarshal_map t = Ok (Some m) \<and>
    map_of m k = (if v = [] then None else Some (VStr v)) \<and>
    (\<forall>k'. k' \<noteq> k \<longrightarrow> map_of m k' = map_option canon (map_of kvs k'))"
  using unmarshal_marshal [OF parsed_update [OF unmarshal_map_parsed [OF assms]], of k v]
    unmarshal_marshal [OF parsed_delete [OF unmarshal_map_parsed [OF assms]], of k]
  by (cases "v = []") (auto simp: SetJSONKey_def assms)

theorem SetJSONKey_roundtrip_witness:
  "\<exists>t m. SetJSONKey (json_marshal (VObj [(''a'', VBool True)])) ''b'' ''x'' = Ok t \<and>
     unmarshal_map t = Ok (Some m) \<and> map_of m ''b'' = Some (VStr ''x'')"
  using SetJSONKey_roundtrip [of "json_marshal (VObj [(''a'', VBool True)])" "[(''a'', VBool True)]" "''b''" "''x''"]
    json_value_marshal [of "VObj [(''a'', VBool True)]"]
  by (auto simp: unmarshal_map_def)

text \<open>
  \<^verbatim>\<open>VMID\<close>: a name of more than 32 bytes is refused; two names without zero bytes that get
  the same VM ID are the same name. (\<^verbatim>\<open>ids.ToID\<close> copies a slice of 32 bytes.)
\<close>

theorem VMID_injective:
  assumes "\<And>b. length b = 32 \<Longrightarrow> ids_ToID e b = Ok b"
    and "CHR 0x00 \<notin> set a" and "CHR 0x00 \<notin> set b"
  shows "(32 < length a \<longrightarrow> (\<exists>er. VMID e a = Err er)) \<and>
    (VMID e a = Ok i \<and> VMID e b = Ok i \<longrightarrow> a = b)"
proof -
  have "takeWhile (\<lambda>c. c \<noteq> CHR 0x00) (s @ replicate n (CHR 0x00)) = s"
    if "CHR 0x00 \<notin> set s" for s n
    using that by (auto simp: takeWhile_append takeWhile_replicate)
  then have "a = b" if "a @ replicate m (CHR 0x00) = b @ replicate n (CHR 0x00)" for m n
    using that assms by metis
  then show ?thesis using assms(1) by (simp add: VMID_def) (metis)
qed

theorem VMID_injective_witness:
  "VMID demo_env ''subnetevm'' = Ok (''subnetevm'' @ replicate 23 (CHR 0x00)) \<and>
   VMID demo_env ''timestampvm'' \<noteq> VMID demo_env ''subnetevm''"
proof -
  have "VMID demo_env ''subnetevm'' = Ok (''subnetevm'' @ replicate 23 (CHR 0x00))"
    by (simp add: VMID_def demo_env_def)
  moreover have "(\<exists>i. VMID demo_env ''timestampvm'' = Ok i \<and> VMID demo_env ''subnetevm'' = Ok i) \<longrightarrow>
      ''timestampvm'' = ''subnetevm''"
    using VMID_injective [of demo_env "''timestampvm''" "''subnetevm''"] by (auto simp: demo_env_def)
  ultimately show ?thesis by auto
qed

end
