(* ===== verification/Net_Config.thy ===== *)
theory Net_Config
  imports Utils
begin

text \<open>
  The configuration of a node (\<^verbatim>\<open>network/node/node.go\<close>) and of a network
  (\<^verbatim>\<open>network/config.go\<close>, \<^verbatim>\<open>network/network.go\<close>), and their validation.
\<close>

section \<open>Node configuration\<close>

record NodeConfig =
  nc_Name :: string
  nc_IsBeacon :: bool
  nc_StakingKey :: string
  nc_StakingCert :: string
  nc_StakingSigningKey :: string
  nc_ConfigFile :: string
  nc_ChainConfigFiles :: "string gomap"
  nc_UpgradeConfigFiles :: "string gomap"
  nc_SubnetConfigFiles :: "string gomap"
  nc_Flags :: "val gomap"
  nc_BinaryPath :: string
  nc_RedirectStdout :: bool
  nc_RedirectStderr :: bool

definition wrong_type :: "string \<Rightarrow> string \<Rightarrow> val \<Rightarrow> err" where
  "wrong_type key expected v =
     Errorf (''wrong type for field %q in config expected '' @ expected @ '' got %T'') [key, type_name v]"

definition expect_string :: "val gomap \<Rightarrow> string \<Rightarrow> unit res" where
  "expect_string configMap key =
     (case mget configMap key of
        None \<Rightarrow> Ok ()
      | Some (VStr _) \<Rightarrow> Ok ()
      | Some v \<Rightarrow> Err (wrong_type key ''string'' v))"

definition expect_float :: "val gomap \<Rightarrow> string \<Rightarrow> unit res" where
  "expect_float configMap key =
     (case mget configMap key of
        None \<Rightarrow> Ok ()
      | Some (VFloat _ _) \<Rightarrow> Ok ()
      | Some v \<Rightarrow> Err (wrong_type key ''float64'' v))"

definition validateConfigFile :: "env \<Rightarrow> string \<Rightarrow> 32 word \<Rightarrow> unit res" where
  "validateConfigFile e configFile expectedNetworkID =
     (if configFile = [] then Ok ()
      else bindR (wrapR ''could not unmarshal config file: %w'' [] (unmarshal_map configFile)) (\<lambda>configMap.
           bindR (case mget configMap (NetworkNameKey e) of
                    None \<Rightarrow> Ok ()
                  | Some (VFloat m n) \<Rightarrow>
                      if uint32_of_float m n \<noteq> expectedNetworkID
                      then Err (Errorf ''config file network id %d differs from genesis network id %d''
                             [show_int (trunc_dec m n), show_nat (unat expectedNetworkID)])
                      else Ok ()
                  | Some v \<Rightarrow> Err (wrong_type (NetworkNameKey e) ''float64'' v)) (\<lambda>_.
           bindR (expect_string configMap (DBPathKey e)) (\<lambda>_.
           bindR (expect_string configMap (LogsDirKey e)) (\<lambda>_.
           bindR (expect_float configMap (HTTPPortKey e)) (\<lambda>_.
           expect_float configMap (StakingPortKey e)))))))"

definition NodeConfig_Validate :: "env \<Rightarrow> NodeConfig \<Rightarrow> 32 word \<Rightarrow> unit res" where
  "NodeConfig_Validate e c expectedNetworkID =
     (if nc_StakingKey c = [] then Err (New ''staking key not given'')
      else if nc_StakingCert c = [] then Err (New ''staking cert not given'')
      else validateConfigFile e (nc_ConfigFile c) expectedNetworkID)"

section \<open>Network configuration\<close>

record NetConfig =
  cfg_Genesis :: string
  cfg_NodeConfigs :: "NodeConfig list"
  cfg_Flags :: "val gomap"
  cfg_BinaryPath :: string
  cfg_ChainConfigFiles :: "string gomap"
  cfg_UpgradeConfigFiles :: "string gomap"
  cfg_SubnetConfigFiles :: "string gomap"

text \<open>The loop of \<^verbatim>\<open>Validate\<close>: \<open>i\<close> is the index, the flag says whether a beacon was seen.\<close>

fun validate_nodes :: "env \<Rightarrow> 32 word \<Rightarrow> nat \<Rightarrow> bool \<Rightarrow> NodeConfig list \<Rightarrow> bool res" where
  "validate_nodes e networkID i someNodeIsBeacon [] = Ok someNodeIsBeacon"
| "validate_nodes e networkID i someNodeIsBeacon (nodeConfig # rest) =
     bindR (wrapR ''node %q config failed validation: %w''
              [if nc_Name nodeConfig \<noteq> [] then nc_Name nodeConfig else show_nat i]
              (NodeConfig_Validate e nodeConfig networkID)) (\<lambda>_.
       validate_nodes e networkID (Suc i) (someNodeIsBeacon \<or> nc_IsBeacon nodeConfig) rest)"

definition NetConfig_Validate :: "env \<Rightarrow> NetConfig \<Rightarrow> unit res" where
  "NetConfig_Validate e c =
     (if cfg_Genesis c = [] then Err (New ''no genesis given'')
      else bindR (wrapR ''couldn't get network ID from genesis: %w'' []
                    (NetworkIDFromGenesis (cfg_Genesis c))) (\<lambda>networkID.
           bindR (validate_nodes e networkID 0 False (cfg_NodeConfigs c)) (\<lambda>someNodeIsBeacon.
           if cfg_NodeConfigs c \<noteq> [] \<and> \<not> someNodeIsBeacon
           then Err (New ''beacon nodes not given'') else Ok ())))"

section \<open>Errors and specifications of the network interface\<close>

definition ErrUndefined :: err where
  "ErrUndefined = New ''undefined network''"

definition ErrStopped :: err where
  "ErrStopped = New ''network stopped''"

definition ErrNodeNotFound :: err where
  "ErrNodeNotFound = New ''node not found in network''"

text \<open>Instants and durations are in nanoseconds; a pointer or a byte slice that may be nil is an
  option.\<close>

record PermissionlessValidatorSpec =
  pvs_SubnetID :: string
  pvs_AssetID :: string
  pvs_NodeName :: string
  pvs_StakedAmount :: "64 word"
  pvs_StartTime :: "int option"
  pvs_StakeDuration :: int

record ElasticSubnetSpec =
  ess_SubnetID :: "string option"
  ess_AssetName :: string
  ess_AssetSymbol :: string
  ess_InitialSupply :: "64 word"
  ess_MaxSupply :: "64 word"
  ess_MinConsumptionRate :: "64 word"
  ess_MaxConsumptionRate :: "64 word"
  ess_MinValidatorStake :: "64 word"
  ess_MaxValidatorStake :: "64 word"
  ess_MinStakeDuration :: int
  ess_MaxStakeDuration :: int
  ess_MinDelegationFee :: "32 word"
  ess_MinDelegatorStake :: "64 word"
  ess_MaxValidatorWeightFactor :: "8 word"
  ess_UptimeRequirement :: "32 word"

record SubnetSpec =
  ss_Participants :: "string list"
  ss_SubnetConfig :: "string option"

record RemoveSubnetValidatorSpec =
  rsv_NodeNames :: "string list"
  rsv_SubnetID :: string

record BlockchainSpec =
  bs_VMName :: string
  bs_Genesis :: string
  bs_SubnetID :: "string option"
  bs_SubnetSpec :: "SubnetSpec option"
  bs_ChainConfig :: "string option"
  bs_NetworkUpgrade :: "string option"
  bs_BlockchainAlias :: string
  bs_PerNodeChainConfig :: "string gomap"

section \<open>Lemmas\<close>

lemma validate_nodes_Ok:
  "validate_nodes e nid i b cs = Ok b' \<longleftrightarrow>
     (\<forall>c \<in> set cs. NodeConfig_Validate e c nid = Ok ()) \<and> b' = (b \<or> (\<exists>c \<in> set cs. nc_IsBeacon c))"
  by (induction cs arbitrary: i b) auto

text \<open>The first node that fails is the one the error names.\<close>

lemma validate_nodes_first:
  assumes "\<forall>c \<in> set pre. NodeConfig_Validate e c nid = Ok ()"
    and "NodeConfig_Validate e c nid = Err er"
  shows "validate_nodes e nid i b (pre @ c # post) =
    Err (Wrapf ''node %q config failed validation: %w''
      [if nc_Name c \<noteq> [] then nc_Name c else show_nat (i + length pre)] er)"
  using assms by (induction pre arbitrary: i b) auto

section \<open>Properties\<close>

text \<open>
  A network configuration is valid exactly if it has a genesis with a numeric network
  ID, every node has a staking key and certificate and a config file that agrees with that ID
  and has fields of the right types, and some node is a beacon unless there are no nodes.
\<close>

theorem NetConfig_Validate_iff:
  "NetConfig_Validate e c = Ok () \<longleftrightarrow>
     cfg_Genesis c \<noteq> [] \<and>
     (\<exists>networkID. NetworkIDFromGenesis (cfg_Genesis c) = Ok networkID \<and>
        (\<forall>nc \<in> set (cfg_NodeConfigs c).
           nc_StakingKey nc \<noteq> [] \<and> nc_StakingCert nc \<noteq> [] \<and>
           validateConfigFile e (nc_ConfigFile nc) networkID = Ok ())) \<and>
     (cfg_NodeConfigs c = [] \<or> (\<exists>nc \<in> set (cfg_NodeConfigs c). nc_IsBeacon nc))"
  by (auto simp: NetConfig_Validate_def validate_nodes_Ok NodeConfig_Validate_def split: if_splits)

text \<open>
  Validation names the first node that is wrong: by its name, or by its index when it
  has none; the nodes after it are not looked at.
\<close>

theorem NetConfig_Validate_first_error:
  assumes "cfg_Genesis c \<noteq> []" and "NetworkIDFromGenesis (cfg_Genesis c) = Ok nid"
    and "cfg_NodeConfigs c = pre @ nc # post"
    and "\<forall>x \<in> set pre. NodeConfig_Validate e x nid = Ok ()"
    and "NodeConfig_Validate e nc nid = Err er"
  shows "NetConfig_Validate e c = Err (Wrapf ''node %q config failed validation: %w''
    [if nc_Name nc \<noteq> [] then nc_Name nc else show_nat (length pre)] er)"
  using assms validate_nodes_first [OF assms(4,5), of 0 False post]
  by (simp add: NetConfig_Validate_def)

section \<open>A concrete configuration\<close>

definition demo_genesis :: string where
  "demo_genesis = json_marshal (VObj [(''networkID'', VInt 1337)])"

definition demo_node :: "string \<Rightarrow> bool \<Rightarrow> NodeConfig" where
  "demo_node name beacon =
     \<lparr>nc_Name = name, nc_IsBeacon = beacon, nc_StakingKey = ''key-'' @ name,
      nc_StakingCert = ''cert-'' @ name, nc_StakingSigningKey = [], nc_ConfigFile = [],
      nc_ChainConfigFiles = None, nc_UpgradeConfigFiles = None, nc_SubnetConfigFiles = None,
      nc_Flags = None, nc_BinaryPath = ''luxd'', nc_RedirectStdout = False,
      nc_RedirectStderr = False\<rparr>"

definition demo_config :: "NodeConfig list \<Rightarrow> NetConfig" where
  "demo_config ncs =
     \<lparr>cfg_Genesis = demo_genesis, cfg_NodeConfigs = ncs, cfg_Flags = Some [(''log-level'', VStr ''DEBUG'')],
      cfg_BinaryPath = ''luxd'', cfg_ChainConfigFiles = None, cfg_UpgradeConfigFiles = None,
      cfg_SubnetConfigFiles = None\<rparr>"

lemma demo_genesis_id: "NetworkIDFromGenesis demo_genesis = Ok 1337"
  using json_value_marshal [of "VObj [(''networkID'', VInt 1337)]"]
  by (simp add: NetworkIDFromGenesis_def demo_genesis_def unmarshal_map_def genesisNetworkIDKey_def
      uint32_of_float_def)

lemma demo_genesis_nonempty: "demo_genesis \<noteq> []"
  by (simp add: demo_genesis_def json_marshal_def)

lemma demo_node_valid: "NodeConfig_Validate demo_env (demo_node n b) nid = Ok ()"
  by (simp add: NodeConfig_Validate_def demo_node_def validateConfigFile_def)

theorem NetConfig_Validate_iff_witness:
  "NetConfig_Validate demo_env (demo_config [demo_node ''a'' True, demo_node ''b'' False]) = Ok () \<and>
   NetConfig_Validate demo_env (demo_config [demo_node ''a'' False]) \<noteq> Ok ()"
  unfolding NetConfig_Validate_iff
  by (auto simp: demo_config_def demo_genesis_id demo_genesis_nonempty demo_node_def validateConfigFile_def)

theorem NetConfig_Validate_first_error_witness:
  "NetConfig_Validate demo_env (demo_config [demo_node ''a'' True, (demo_node [] False)\<lparr>nc_StakingKey := []\<rparr>]) =
     Err (Wrapf ''node %q config failed validation: %w'' [show_nat 1] (New ''staking key not given''))"
  using NetConfig_Validate_first_error [of "demo_config [demo_node ''a'' True, (demo_node [] False)\<lparr>nc_StakingKey := []\<rparr>]"
      1337 "[demo_node ''a'' True]" "(demo_node [] False)\<lparr>nc_StakingKey := []\<rparr>" "[]" demo_env
      "New ''staking key not given''"]
  by (simp add: demo_config_def demo_genesis_id demo_genesis_nonempty demo_node_valid)
    (simp add: demo_node_def NodeConfig_Validate_def)

end
