(* ===== verification/Go_Base64.thy ===== *)
theory Go_Base64
  imports Go_Strings
begin

text \<open>
  \<^verbatim>\<open>base64.StdEncoding\<close>, in which the runner keeps a node's BLS signing key: encoding of a
  byte string, decoding with the padding checked, and that decoding undoes encoding.
\<close>

definition b64_char :: "nat \<Rightarrow> char" where
  "b64_char n =
     (if n < 26 then char_of (65 + n)
      else if n < 52 then char_of (71 + n)
      else if n < 62 then char_of (n - 4)
      else if n = 62 then CHR ''+'' else CHR ''/'')"

definition b64_val :: "char \<Rightarrow> nat option" where
  "b64_val c = (let n = of_char c :: nat in
     if 65 \<le> n \<and> n \<le> 90 then Some (n - 65)
     else if 97 \<le> n \<and> n \<le> 122 then Some (n - 71)
     else if 48 \<le> n \<and> n \<le> 57 then Some (n + 4)
     else if n = 43 then Some 62 else if n = 47 then Some 63 else None)"

fun b64_encode :: "string \<Rightarrow> string" where
  "b64_encode [] = []"
| "b64_encode [a] =
     (let x = of_char a :: nat in
      [b64_char (x div 4), b64_char (x mod 4 * 16), CHR ''='', CHR ''=''])"
| "b64_encode [a, b] =
     (let x = of_char a :: nat; y = of_char b :: nat in
      [b64_char (x div 4), b64_char (x mod 4 * 16 + y div 16), b64_char (y mod 16 * 4), CHR ''=''])"
| "b64_encode (a # b # c # r) =
     (let x = of_char a :: nat; y = of_char b :: nat; z = of_char c :: nat in
      [b64_char (x div 4), b64_char (x mod 4 * 16 + y div 16),
       b64_char (y mod 16 * 4 + z div 64), b64_char (z mod 64)] @ b64_encode r)"

text \<open>Groups of four characters; only the last may be padded. Line breaks are ignored.\<close>

fun b64_groups :: "string \<Rightarrow> string option" where
  "b64_groups [] = Some []"
| "b64_groups (p # q # u # v # r) =
     (case (b64_val p, b64_val q) of
        (Some i, Some j) \<Rightarrow>
          let a = char_of (i * 4 + j div 16) in
          if u = CHR ''='' then (if v = CHR ''='' \<and> r = [] then Some [a] else None)
          else (case b64_val u of
                  None \<Rightarrow> None
                | Some k \<Rightarrow>
                    let b = char_of (j mod 16 * 16 + k div 4) in
                    if v = CHR ''='' then (if r = [] then Some [a, b] else None)
                    else (case b64_val v of
                            None \<Rightarrow> None
                          | Some l \<Rightarrow>
                              map_option (\<lambda>s. a # b # char_of (k mod 4 * 64 + l) # s) (b64_groups r)))
      | _ \<Rightarrow> None)"
| "b64_groups _ = None"

definition b64_decode :: "string \<Rightarrow> string res" where
  "b64_decode s =
     (case b64_groups (filter (\<lambda>c. c \<noteq> CHR 0x0A \<and> c \<noteq> CHR 0x0D) s) of
        None \<Rightarrow> Err (External ''illegal base64 data'')
      | Some t \<Rightarrow> Ok t)"

lemma of_char_less [simp]: "of_char c < (256::nat)"
  by (metis of_char_of of_nat_of_char mod_less_divisor of_char_mod_256 zero_less_numeral)

lemma b64_val_char [simp]: "n < 64 \<Longrightarrow> b64_val (b64_char n) = Some n"
  by (auto simp: b64_val_def b64_char_def Let_def)

lemma of_char_b64_char:
  "n < 64 \<Longrightarrow> of_char (b64_char n) =
     (if n < 26 then 65 + n else if n < 52 then 71 + n else if n < 62 then n - 4
      else if n = 62 then 43 else 47 :: nat)"
  by (simp add: b64_char_def)

lemma b64_char_not_pad:
  assumes "n < 64"
  shows "b64_char n \<noteq> CHR ''=''" "b64_char n \<noteq> CHR 0x0A" "b64_char n \<noteq> CHR 0x0D"
proof -
  have "of_char (b64_char n) \<noteq> (61::nat)" "of_char (b64_char n) \<noteq> (10::nat)"
    "of_char (b64_char n) \<noteq> (13::nat)"
    using assms by (auto simp: of_char_b64_char)
  then show "b64_char n \<noteq> CHR ''=''" "b64_char n \<noteq> CHR 0x0A" "b64_char n \<noteq> CHR 0x0D"
    by auto
qed

lemma glue_div_mod: "q < m \<Longrightarrow> (p * m + q) div m = p" "q < m \<Longrightarrow> (p * m + q) mod m = (q::nat)"
  by simp_all

lemma b64_groups_encode [simp]: "b64_groups (b64_encode s) = Some s"
proof (induction s rule: b64_encode.induct)
  case (2 a)
  have "of_char a div 4 < (64::nat)" "of_char a mod 4 * 16 < (64::nat)"
    using of_char_less [of a] by linarith+
  moreover have "of_char a div 4 * 4 + of_char a mod 4 * 16 div 16 = (of_char a :: nat)"
    by simp
  ultimately show ?case by (simp add: Let_def)
next
  case (3 a b)
  have lt: "of_char a div 4 < (64::nat)" "of_char a mod 4 * 16 + of_char b div 16 < (64::nat)"
    "of_char b mod 16 * 4 < (64::nat)"
    using of_char_less [of a] of_char_less [of b] by linarith+
  have "of_char a div 4 * 4 + (of_char a mod 4 * 16 + of_char b div 16) div 16 = (of_char a :: nat)"
    "(of_char a mod 4 * 16 + of_char b div 16) mod 16 * 16 + of_char b mod 16 * 4 div 4
      = (of_char b :: nat)"
    using of_char_less [of b] glue_div_mod [of "of_char b div 16" 16 "of_char a mod 4"]
    by (simp_all add: less_mult_imp_div_less)
  with lt show ?case by (simp add: Let_def b64_char_not_pad)
next
  case (4 a b c r)
  have lt: "of_char a div 4 < (64::nat)" "of_char a mod 4 * 16 + of_char b div 16 < (64::nat)"
    "of_char b mod 16 * 4 + of_char c div 64 < (64::nat)" "of_char c mod 64 < (64::nat)"
    using of_char_less [of a] of_char_less [of b] of_char_less [of c] by linarith+
  have eqs: "of_char a div 4 * 4 + (of_char a mod 4 * 16 + of_char b div 16) div 16
      = (of_char a :: nat)"
    "(of_char a mod 4 * 16 + of_char b div 16) mod 16 * 16 +
      (of_char b mod 16 * 4 + of_char c div 64) div 4 = (of_char b :: nat)"
    "(of_char b mod 16 * 4 + of_char c div 64) mod 4 * 64 + of_char c mod 64 = (of_char c :: nat)"
    using of_char_less [of b] of_char_less [of c]
      glue_div_mod [of "of_char b div 16" 16 "of_char a mod 4"]
      glue_div_mod [of "of_char c div 64" 4 "of_char b mod 16"]
    by (simp_all add: less_mult_imp_div_less)
  with lt "4.IH" show ?case by (simp add: Let_def b64_char_not_pad)
qed simp

lemma b64_encode_no_newline:
  "c \<in> set (b64_encode s) \<Longrightarrow> c \<noteq> CHR 0x0A \<and> c \<noteq> CHR 0x0D"
proof (induction s rule: b64_encode.induct)
  case (2 a)
  have "of_char a div 4 < (64::nat)" "of_char a mod 4 * 16 < (64::nat)"
    using of_char_less [of a] by linarith+
  with 2 show ?case by (auto simp: Let_def b64_char_not_pad)
next
  case (3 a b)
  have "of_char a div 4 < (64::nat)" "of_char a mod 4 * 16 + of_char b div 16 < (64::nat)"
    "of_char b mod 16 * 4 < (64::nat)"
    using of_char_less [of a] of_char_less [of b] by linarith+
  with 3 show ?case by (auto simp: Let_def b64_char_not_pad)
next
  case (4 a b d r)
  have "of_char a div 4 < (64::nat)" "of_char a mod 4 * 16 + of_char b div 16 < (64::nat)"
    "of_char b mod 16 * 4 + of_char d div 64 < (64::nat)" "of_char d mod 64 < (64::nat)"
    using of_char_less [of a] of_char_less [of b] of_char_less [of d] by linarith+
  with 4 show ?case by (auto simp: Let_def b64_char_not_pad)
qed simp

lemma b64_decode_encode [simp]: "b64_decode (b64_encode s) = Ok s"
proof -
  have "filter (\<lambda>c. c \<noteq> CHR 0x0A \<and> c \<noteq> CHR 0x0D) (b64_encode s) = b64_encode s"
    by (rule filter_True) (blast dest: b64_encode_no_newline)
  then show ?thesis by (simp add: b64_decode_def)
qed

end
