(* ===== verification/Local_Node.thy ===== *)
theory Local_Node
  imports Net_Config Go_Base64
begin

text \<open>
  A node of a local network (\<^verbatim>\<open>local/node.go\<close>) and the helpers that prepare its start
  (\<^verbatim>\<open>local/helpers.go\<close>): ports, files, directories, entries of flags and config files.
\<close>

section \<open>node.go\<close>

text \<open>
  \<open>n_client\<close> is the host and port of the API client, \<open>n_process\<close> the index of the node's
  process in the table of processes, \<open>n_attachedPeers\<close> the IDs of the attached test peers.
\<close>

record localNode =
  n_name :: string
  n_nodeID :: string
  n_networkID :: "32 word"
  n_client :: "string \<times> 16 word"
  n_process :: nat
  n_apiPort :: "16 word"
  n_p2pPort :: "16 word"
  n_dataDir :: string
  n_dbDir :: string
  n_logsDir :: string
  n_pluginDir :: string
  n_config :: NodeConfig
  n_httpHost :: string
  n_attachedPeers :: "string list"
  n_paused :: bool

definition SendOutboundMessage ::
  "(string \<Rightarrow> string \<Rightarrow> 32 word \<Rightarrow> bool) \<Rightarrow> localNode \<Rightarrow> string \<Rightarrow> string \<Rightarrow> 32 word \<Rightarrow> bool res" where
  "SendOutboundMessage peer_Send node peerID content oper =
     (if peerID \<notin> set (n_attachedPeers node)
      then Err (Errorf ''peer with ID %s is not attached here'' [peerID])
      else Ok (peer_Send peerID content oper))"

definition GetURL :: "localNode \<Rightarrow> string" where
  "GetURL node =
     (if n_httpHost node = ''0.0.0.0'' \<or> n_httpHost node = ''.'' then ''0.0.0.0'' else ''127.0.0.1'')"

definition node_Status :: "localNode \<Rightarrow> world \<Rightarrow> Status" where
  "node_Status node w = proc_Status (n_process node) w"

definition GetBinaryPath :: "localNode \<Rightarrow> string" where
  "GetBinaryPath node = nc_BinaryPath (n_config node)"

definition GetConfigFile :: "localNode \<Rightarrow> string" where
  "GetConfigFile node = nc_ConfigFile (n_config node)"

definition flag_string :: "string \<Rightarrow> val option \<Rightarrow> string res" where
  "flag_string k v =
     (case v of
        None \<Rightarrow> Ok []
      | Some (VStr s) \<Rightarrow> Ok s
      | Some x \<Rightarrow> Err (Errorf ''unexpected type for %q expected string got %T'' [k, type_name x]))"

definition GetFlag :: "localNode \<Rightarrow> string \<Rightarrow> string res" where
  "GetFlag node k =
     (if nc_ConfigFile (n_config node) \<noteq> [] then
        bindR (unmarshal_map (nc_ConfigFile (n_config node))) (\<lambda>configFileMap.
          flag_string k (mget configFileMap k))
      else if nc_Flags (n_config node) \<noteq> None then flag_string k (mget (nc_Flags (n_config node)) k)
      else Ok [])"

section \<open>helpers.go\<close>

definition MaxPort :: nat where
  "MaxPort = 65535"

definition minPort :: nat where
  "minPort = 10000"

definition isFreePort :: "env \<Rightarrow> 16 word \<Rightarrow> (world, unit) prog" where
  "isFreePort e port =
     bindP tick (\<lambda>t. if os_portFree e t port then ret () else throw (External ''listen''))"

text \<open>
  The loop of \<^verbatim>\<open>getFreePort\<close>: the list holds the random numbers that are drawn before the
  timeout; \<^verbatim>\<open>rand.Intn(n)\<close> is the drawn number modulo \<open>n\<close>.
\<close>

definition draw_port :: "nat \<Rightarrow> 16 word" where
  "draw_port k = word_of_nat (k mod (MaxPort - minPort + 1) + minPort)"

fun try_ports :: "env \<Rightarrow> nat list \<Rightarrow> (world, 16 word) prog" where
  "try_ports e [] = throw (External ''context deadline exceeded'')"
| "try_ports e (k # ks) =
     catchP (bindP (isFreePort e (draw_port k)) (\<lambda>_. ret (draw_port k))) (\<lambda>_. try_ports e ks)"

definition getFreePort :: "env \<Rightarrow> (world, 16 word) prog" where
  "getFreePort e = bindP tick (\<lambda>t. try_ports e (os_draws e t))"

definition createFileAndWrite :: "env \<Rightarrow> string \<Rightarrow> string \<Rightarrow> (world, unit) prog" where
  "createFileAndWrite e path contents =
     bindP (os_MkdirAll e (filepath_Dir path)) (\<lambda>_. os_WriteFile e path contents)"

definition configFileName :: string where "configFileName = ''config.json''"
definition upgradeConfigFileName :: string where "upgradeConfigFileName = ''upgrade.json''"
definition stakingKeyFileName :: string where "stakingKeyFileName = ''staking.key''"
definition stakingCertFileName :: string where "stakingCertFileName = ''staking.crt''"
definition stakingSigningKeyFileName :: string where "stakingSigningKeyFileName = ''signer.key''"
definition genesisFileName :: string where "genesisFileName = ''genesis.json''"
definition chainConfigSubDir :: string where "chainConfigSubDir = ''chainConfigs''"
definition subnetConfigSubDir :: string where "subnetConfigSubDir = ''subnetConfigs''"

text \<open>The files of \<^verbatim>\<open>writeFiles\<close>: flag, path and contents (the flag's value is the path).\<close>

definition node_files ::
  "env \<Rightarrow> 32 word \<Rightarrow> string \<Rightarrow> string \<Rightarrow> NodeConfig \<Rightarrow> string \<Rightarrow> (string \<times> string \<times> string) list" where
  "node_files e networkID genesis nodeRootDir nodeConfig decodedStakingSigningKey =
     [(StakingTLSKeyPathKey e, filepath_Join [nodeRootDir, stakingKeyFileName], nc_StakingKey nodeConfig),
      (StakingCertPathKey e, filepath_Join [nodeRootDir, stakingCertFileName], nc_StakingCert nodeConfig),
      (StakingSignerKeyPathKey e, filepath_Join [nodeRootDir, stakingSigningKeyFileName],
       decodedStakingSigningKey)] @
     (if networkID \<noteq> LocalID e
      then [(GenesisConfigFileKey e, filepath_Join [nodeRootDir, genesisFileName], genesis)] else []) @
     (if nc_ConfigFile nodeConfig \<noteq> []
      then [(ConfigFileKey e, filepath_Join [nodeRootDir, configFileName], nc_ConfigFile nodeConfig)]
      else [])"

definition write_at :: "env \<Rightarrow> string \<Rightarrow> string \<Rightarrow> (world, unit) prog" where
  "write_at e path contents =
     wrapP ''couldn't write file at %q: %w'' [path] (createFileAndWrite e path contents)"

definition writeFiles ::
  "env \<Rightarrow> 32 word \<Rightarrow> string \<Rightarrow> string \<Rightarrow> NodeConfig \<Rightarrow> (world, string gmap) prog" where
  "writeFiles e networkID genesis nodeRootDir nodeConfig =
     bindP (liftR (b64_decode (nc_StakingSigningKey nodeConfig))) (\<lambda>decodedStakingSigningKey.
     bindP (foldP (\<lambda>(pathKey, path, contents) flags.
              bindP (write_at e path contents) (\<lambda>_. ret (AList.update pathKey path flags)))
            (node_files e networkID genesis nodeRootDir nodeConfig decodedStakingSigningKey) []) (\<lambda>flags.
     let chainConfigDir = filepath_Join [nodeRootDir, chainConfigSubDir];
         subnetConfigDir = filepath_Join [nodeRootDir, subnetConfigSubDir] in
     bindP (os_MkdirAll e chainConfigDir) (\<lambda>_.
     bindP (os_MkdirAll e subnetConfigDir) (\<lambda>_.
     bindP (forP (mrange (nc_ChainConfigFiles nodeConfig)) (\<lambda>(chainAlias, chainConfigFile).
              write_at e (filepath_Join [chainConfigDir, chainAlias, configFileName]) chainConfigFile)) (\<lambda>_.
     bindP (forP (mrange (nc_UpgradeConfigFiles nodeConfig)) (\<lambda>(chainAlias, chainUpgradeFile).
              write_at e (filepath_Join [chainConfigDir, chainAlias, upgradeConfigFileName])
                chainUpgradeFile)) (\<lambda>_.
     bindP (forP (mrange (nc_SubnetConfigFiles nodeConfig)) (\<lambda>(subnetID, subnetConfigFile).
              write_at e (filepath_Join [subnetConfigDir, subnetID @ ''.json'']) subnetConfigFile)) (\<lambda>_.
     ret (AList.update (SubnetConfigDirKey e) subnetConfigDir
            (AList.update (ChainConfigDirKey e) chainConfigDir flags)))))))))"

text \<open>
  The error of a value that is not a string prints the type of an outer variable \<^verbatim>\<open>entry\<close>, a
  string, and not the type of the value.
\<close>

definition getConfigEntry :: "val gomap \<Rightarrow> val gomap \<Rightarrow> string \<Rightarrow> string \<Rightarrow> string res" where
  "getConfigEntry nodeConfigFlags configFile flag defaultVal =
     (case mget nodeConfigFlags flag of
        Some (VStr entry) \<Rightarrow> Ok entry
      | Some _ \<Rightarrow> Err (Errorf ''expected node config flag %q to be string but got %T'' [flag, ''string''])
      | None \<Rightarrow>
          (case mget configFile flag of
             Some (VStr entry) \<Rightarrow> Ok entry
           | Some _ \<Rightarrow> Err (Errorf ''expected config file flag %q to be string but got %T'' [flag, ''string''])
           | None \<Rightarrow> Ok defaultVal))"

definition free_port :: "env \<Rightarrow> (world, 16 word) prog" where
  "free_port e = wrapP ''couldn't get free port: %w'' [] (getFreePort e)"

definition given_port :: "env \<Rightarrow> val gomap \<Rightarrow> val gomap \<Rightarrow> string \<Rightarrow> (world, 16 word) prog" where
  "given_port e flags configFile portKey =
     (case mget flags portKey of
        Some (VInt gotPort) \<Rightarrow> ret (uint16_of_int gotPort)
      | Some (VFloat m n) \<Rightarrow> ret (uint16_of_float m n)
      | Some v \<Rightarrow> throw (Errorf ''expected flag %q to be int/float64 but got %T'' [portKey, type_name v])
      | None \<Rightarrow>
          (case mget configFile portKey of
             Some (VFloat m n) \<Rightarrow> ret (uint16_of_float m n)
           | Some v \<Rightarrow> throw (Errorf ''expected flag %q to be float64 but got %T'' [portKey, type_name v])
           | None \<Rightarrow> free_port e))"

definition getPort ::
  "env \<Rightarrow> val gomap \<Rightarrow> val gomap \<Rightarrow> string \<Rightarrow> bool \<Rightarrow> (world, 16 word) prog" where
  "getPort e flags configFile portKey reassignIfUsed =
     bindP (given_port e flags configFile portKey) (\<lambda>port.
     bindP (if reassignIfUsed
            then catchP (bindP (isFreePort e port) (\<lambda>_. ret port)) (\<lambda>_. free_port e)
            else ret port) (\<lambda>port'.
     bindP (wrapP ''port %d is not free: %w'' [show_nat (unat port')] (isFreePort e port')) (\<lambda>_.
     ret port')))"

definition getNodeDir :: "string \<Rightarrow> string \<Rightarrow> string" where
  "getNodeDir rootDir nodeName = filepath_Join [rootDir, nodeName]"

definition makeNodeDir :: "env \<Rightarrow> string \<Rightarrow> string \<Rightarrow> (world, string) prog" where
  "makeNodeDir e rootDir nodeName =
     (let nodeRootDir = getNodeDir rootDir nodeName in
      bindP (catchP (os_Mkdir e nodeRootDir) (\<lambda>er.
               if errors_Is er ErrExist then ret ()
               else throw (Wrapf ''error creating temp dir %w'' [] er))) (\<lambda>_.
      ret nodeRootDir))"

definition addNetworkFlags :: "val gomap \<Rightarrow> val gomap \<Rightarrow> val gomap res" where
  "addNetworkFlags networkFlags nodeFlags = mput_missing (mrange networkFlags) nodeFlags"

section \<open>Lemmas\<close>

lemma isFreePort_eq:
  "isFreePort e p w =
     ((if os_portFree e (clock w) p then Ok () else Err (External ''listen'')),
      w\<lparr>clock := Suc (clock w)\<rparr>)"
  by (simp add: isFreePort_def ret_def throw_def)

lemma unat_draw_port: "unat (draw_port k) = k mod 55536 + 10000"
proof -
  have "k mod 55536 + 10000 < 65536"
    using mod_less_divisor [of 55536 k] by simp
  moreover have "unat (word_of_nat n :: 16 word) = n" if "n < 65536" for n
    using that by (simp add: unat_of_nat)
  ultimately show ?thesis unfolding draw_port_def MaxPort_def minPort_def
    by (simp del: of_nat_add)
qed

lemma draw_port_range: "10000 \<le> unat (draw_port k) \<and> unat (draw_port k) \<le> 65535"
  unfolding unat_draw_port using mod_less_divisor [of 55536 k] by simp

lemma try_ports_Ok:
  "try_ports e ks w = (Ok p, w') \<Longrightarrow>
     (\<exists>k \<in> set ks. p = draw_port k) \<and> clock w < clock w' \<and> os_portFree e (clock w' - 1) p \<and>
     procs w' = procs w"
proof (induction ks arbitrary: w)
  case (Cons k ks)
  show ?case
  proof (cases "os_portFree e (clock w) (draw_port k)")
    case True
    with Cons.prems show ?thesis
      by (auto simp: catchP_def bindP_def isFreePort_eq ret_def split: prod.splits)
  next
    case False
    with Cons.prems have "try_ports e ks (w\<lparr>clock := Suc (clock w)\<rparr>) = (Ok p, w')"
      by (simp add: catchP_def bindP_def isFreePort_eq)
    from Cons.IH [OF this] show ?thesis by auto
  qed
qed simp

text \<open>If one of the numbers drawn in time gives a port that stays free, a port is returned.\<close>

lemma try_ports_total:
  "k \<in> set ks \<Longrightarrow> (\<And>t. os_portFree e t (draw_port k)) \<Longrightarrow> \<exists>p w'. try_ports e ks w = (Ok p, w')"
proof (induction ks arbitrary: w)
  case (Cons j js)
  then show ?case
    by (cases "os_portFree e (clock w) (draw_port j)")
      (auto simp: catchP_def bindP_def isFreePort_eq ret_def)
qed simp

lemma getFreePort_Ok:
  "getFreePort e w = (Ok p, w') \<Longrightarrow>
     minPort \<le> unat p \<and> unat p \<le> MaxPort \<and> os_portFree e (clock w' - 1) p \<and> procs w' = procs w \<and>
     clock w < clock w'"
  unfolding getFreePort_def bindP_tick using draw_port_range
  by (auto dest!: try_ports_Ok simp: minPort_def MaxPort_def)

lemma getPort_Ok:
  "getPort e fl cf k b w = (Ok p, w') \<Longrightarrow> os_portFree e (clock w' - 1) p"
  unfolding getPort_def bindP_eq_Ok wrapP_eq_Ok by (auto simp: isFreePort_eq split: if_splits)

lemma getPort_given:
  "given_port e fl cf k w = (Ok p, w1) \<Longrightarrow> (\<And>t. os_portFree e t p) \<Longrightarrow>
   \<exists>w'. getPort e fl cf k b w = (Ok p, w')"
  by (cases b) (simp_all add: getPort_def bindP_def catchP_def wrapP_def isFreePort_eq ret_def)

section \<open>Properties\<close>

text \<open>
  C36. \<^verbatim>\<open>getFreePort\<close> returns a port between 10000 and 65535 (the conversion to \<^verbatim>\<open>uint16\<close> does not
  wrap) that was free at its last check, and it does return one whenever a number drawn
  before the timeout gives a port that is free.
\<close>

theorem getFreePort_correct:
  "(\<forall>p w'. getFreePort e w = (Ok p, w') \<longrightarrow>
      minPort \<le> unat p \<and> unat p \<le> MaxPort \<and> os_portFree e (clock w' - 1) p) \<and>
   ((\<exists>k \<in> set (os_draws e (clock w)). \<forall>t. os_portFree e t (draw_port k)) \<longrightarrow>
      (\<exists>p w'. getFreePort e w = (Ok p, w')))"
  using getFreePort_Ok [of e w] try_ports_total [of _ "os_draws e (clock w)" e]
  by (auto simp: getFreePort_def)

text \<open>
  \<^verbatim>\<open>getPort\<close>: a port it returns was free at its last check. A port given as a flag or in
  the config file that stays free is the one returned, a flag taking precedence over the
  config file, whether or not used ports are reassigned.
\<close>

theorem getPort_correct:
  "(\<forall>p w'. getPort e fl cf k b w = (Ok p, w') \<longrightarrow> os_portFree e (clock w' - 1) p) \<and>
   (\<forall>i. mget fl k = Some (VInt i) \<longrightarrow> (\<forall>t. os_portFree e t (uint16_of_int i)) \<longrightarrow>
      (\<exists>w'. getPort e fl cf k b w = (Ok (uint16_of_int i), w'))) \<and>
   (\<forall>m n. mget fl k = None \<longrightarrow> mget cf k = Some (VFloat m n) \<longrightarrow>
      (\<forall>t. os_portFree e t (uint16_of_float m n)) \<longrightarrow>
      (\<exists>w'. getPort e fl cf k b w = (Ok (uint16_of_float m n), w')))"
proof (intro conjI allI impI)
  show "os_portFree e (clock w' - 1) p" if "getPort e fl cf k b w = (Ok p, w')" for p w'
    using that by (rule getPort_Ok)
  show "\<exists>w'. getPort e fl cf k b w = (Ok (uint16_of_int i), w')"
    if "mget fl k = Some (VInt i)" "\<forall>t. os_portFree e t (uint16_of_int i)" for i
    using that by (intro getPort_given [of e fl cf k w _ w]) (simp_all add: given_port_def)
  show "\<exists>w'. getPort e fl cf k b w = (Ok (uint16_of_float m n), w')"
    if "mget fl k = None" "mget cf k = Some (VFloat m n)" "\<forall>t. os_portFree e t (uint16_of_float m n)"
    for m n
    using that by (intro getPort_given [of e fl cf k w _ w]) (simp_all add: given_port_def)
qed

theorem getFreePort_correct_witness:
  "\<exists>p w'. getFreePort demo_env demo_world = (Ok p, w') \<and> minPort \<le> unat p \<and> unat p \<le> MaxPort"
  using getFreePort_correct [of demo_env demo_world] by (auto simp: demo_env_def demo_world_def)

theorem getPort_correct_witness:
  "\<exists>w'. getPort demo_env (Some [(''http-port'', VInt 9650)]) (Some [(''http-port'', VFloat 1 0)])
     ''http-port'' False demo_world = (Ok 9650, w')"
  using getPort_correct [of demo_env "Some [(''http-port'', VInt 9650)]" "Some [(''http-port'', VFloat 1 0)]"
      "''http-port''" False demo_world]
  by (auto simp: demo_env_def uint16_of_int_def)

end
