(* ===== verification/Local_Network.thy ===== *)
theory Local_Network
  imports Local_Node
begin

text \<open>
  The local network (\<^verbatim>\<open>local/network.go\<close>) with the creator of node processes
  (\<^verbatim>\<open>local/node_process.go\<close>): adding, removing, pausing, resuming and restarting nodes, health,
  and stopping the network.

  The state is a pair of the network object and the world. A public method takes the lock for
  its whole run, so it is one step; \<^verbatim>\<open>Stop\<close> first closes \<^verbatim>\<open>onStopCh\<close> without the lock and then
  runs under it. The maps in the configurations of different nodes are taken to be different
  maps; a write to a map of a stored configuration is a write to the stored node.
\<close>

section \<open>State\<close>

record localNetwork =
  ln_networkID :: "32 word"
  ln_genesis :: string
  ln_colorPicker :: colorPicker
  ln_stopOnce :: bool
  ln_onStopCh :: bool
  ln_nextNodeSuffix :: "64 word"
  ln_nodes :: "localNode gmap"
  ln_bootstraps :: beacon_set
  ln_rootDir :: string
  ln_snapshotsDir :: string
  ln_flags :: "val gomap"
  ln_binaryPath :: string
  ln_chainConfigFiles :: "string gomap"
  ln_upgradeConfigFiles :: "string gomap"
  ln_subnetConfigFiles :: "string gomap"
  ln_reassignPortsIfUsed :: bool
  ln_subnetID2ElasticSubnetID :: "string gmap"

type_synonym net_state = "localNetwork \<times> world"

definition onW :: "(world, 'a) prog \<Rightarrow> (net_state, 'a) prog" where
  "onW m = zoomP snd (\<lambda>w s. (fst s, w)) m"

definition getL :: "(localNetwork \<Rightarrow> 'a) \<Rightarrow> (net_state, 'a) prog" where
  "getL f = gets (f \<circ> fst)"

definition modL :: "(localNetwork \<Rightarrow> localNetwork) \<Rightarrow> (net_state, unit) prog" where
  "modL f = modify (apfst f)"

definition snapshotPrefix :: string where "snapshotPrefix = ''anr-snapshot-''"
definition networkRootDirPrefix :: string where "networkRootDirPrefix = ''network''"
definition defaultDBSubdir :: string where "defaultDBSubdir = ''db''"
definition defaultLogsSubdir :: string where "defaultLogsSubdir = ''logs''"
definition defaultNodeNamePrefix :: string where "defaultNodeNamePrefix = ''node''"
definition RootDirPrefix :: string where "RootDirPrefix = ''network-runner-root-data''"
definition snapshotsRelPath :: string where
  "snapshotsRelPath = filepath_Join [''.netrunner'', ''snapshots'']"

definition defaultSnapshotsDir :: "env \<Rightarrow> string" where
  "defaultSnapshotsDir e = filepath_Join [os_homeDir e, snapshotsRelPath]"

section \<open>Creating a network\<close>

definition newNetwork :: "env \<Rightarrow> string \<Rightarrow> string \<Rightarrow> bool \<Rightarrow> (world, localNetwork) prog" where
  "newNetwork e rootDir snapshotsDir reassignPortsIfUsed =
     bindP (if rootDir = [] then
              (let anrRootDir = filepath_Join [os_tempDir e, RootDirPrefix] in
               bindP (os_MkdirAll e anrRootDir) (\<lambda>_.
               MkDirWithTimestamp e (filepath_Join [anrRootDir, networkRootDirPrefix])))
            else ret rootDir) (\<lambda>rootDir'.
     let snapshotsDir' = (if snapshotsDir = [] then defaultSnapshotsDir e else snapshotsDir) in
     bindP (os_MkdirAll e snapshotsDir') (\<lambda>_.
     ret \<lparr>ln_networkID = 0, ln_genesis = [], ln_colorPicker = NewColorPicker, ln_stopOnce = False,
          ln_onStopCh = False, ln_nextNodeSuffix = 1, ln_nodes = [], ln_bootstraps = [],
          ln_rootDir = rootDir', ln_snapshotsDir = snapshotsDir', ln_flags = None,
          ln_binaryPath = [], ln_chainConfigFiles = None, ln_upgradeConfigFiles = None,
          ln_subnetConfigFiles = None, ln_reassignPortsIfUsed = reassignPortsIfUsed,
          ln_subnetID2ElasticSubnetID = []\<rparr>))"

section \<open>Names\<close>

definition stopCalled :: "localNetwork \<Rightarrow> bool" where
  "stopCalled l \<longleftrightarrow> ln_onStopCh l"

definition isPausedNode :: "localNetwork \<Rightarrow> NodeConfig \<Rightarrow> bool" where
  "isPausedNode l nodeConfig =
     (case map_of (ln_nodes l) (nc_Name nodeConfig) of
        Some node \<Rightarrow> n_paused node
      | None \<Rightarrow> False)"

definition suffix_name :: "64 word \<Rightarrow> string" where
  "suffix_name k = defaultNodeNamePrefix @ show_nat (unat k)"

text \<open>
  The loop that looks for an unused name, with as many tries as there are nodes and one
  more, which is enough as long as the suffix does not wrap around.
\<close>

fun unused_suffix :: "nat \<Rightarrow> localNode gmap \<Rightarrow> 64 word \<Rightarrow> 64 word option" where
  "unused_suffix 0 nodes k = None"
| "unused_suffix (Suc f) nodes k =
     (if map_of nodes (suffix_name k) = None then Some k else unused_suffix f nodes (k + 1))"

definition setNodeName :: "NodeConfig \<Rightarrow> (net_state, NodeConfig) prog" where
  "setNodeName nodeConfig =
     bindP (if nc_Name nodeConfig = [] then
              bindP (getL (\<lambda>l. unused_suffix (Suc (length (ln_nodes l))) (ln_nodes l) (ln_nextNodeSuffix l)))
                (\<lambda>sfx.
                  (case sfx of
                     None \<Rightarrow> panic ''no unused node name''
                   | Some k \<Rightarrow>
                       bindP (modL (ln_nextNodeSuffix_update (\<lambda>_. k))) (\<lambda>_.
                       ret (nodeConfig\<lparr>nc_Name := suffix_name k\<rparr>))))
            else ret nodeConfig) (\<lambda>nc.
     bindP (getL (\<lambda>l. map_of (ln_nodes l) (nc_Name nc))) (\<lambda>old.
       (case old of
          Some node \<Rightarrow>
            if \<not> n_paused node then throw (Errorf ''repeated node name %q'' [nc_Name nc]) else ret nc
        | None \<Rightarrow> ret nc)))"

section \<open>Arguments of a node\<close>

record deprecatedFlagEsp =
  dfe_Version :: string
  dfe_OldName :: string
  dfe_NewName :: string
  dfe_ValueMap :: string

text \<open>The contents of \<^verbatim>\<open>local/deprecatedFlagsSupport.json\<close>.\<close>

definition deprecatedFlagsSupport :: "deprecatedFlagEsp list" where
  "deprecatedFlagsSupport =
     [\<lparr>dfe_Version = ''v1.9.6'', dfe_OldName = ''build-dir'', dfe_NewName = ''plugin-dir'',
       dfe_ValueMap = ''parent-dir''\<rparr>,
      \<lparr>dfe_Version = ''v1.9.6'', dfe_OldName = ''whitelisted-subnets'', dfe_NewName = ''track-subnets'',
       dfe_ValueMap = []\<rparr>]"

definition fix_flag :: "env \<Rightarrow> string \<Rightarrow> deprecatedFlagEsp \<Rightarrow> string gmap \<Rightarrow> string gmap" where
  "fix_flag e luxdVersion d flags =
     (if semver_Compare e luxdVersion (dfe_Version d) < 0 then
        (case map_of flags (dfe_NewName d) of
           None \<Rightarrow> flags
         | Some v \<Rightarrow>
             AList.delete (dfe_NewName d)
               (if v \<noteq> [] then
                  AList.update (dfe_OldName d)
                    (if dfe_ValueMap d = ''parent-dir'' then filepath_Dir (trim_suffix ''/'' v) else v)
                    flags
                else flags))
      else flags)"

definition getFlagsForLuxdVersion :: "env \<Rightarrow> string \<Rightarrow> string gmap \<Rightarrow> string gmap" where
  "getFlagsForLuxdVersion e luxdVersion givenFlags =
     fold (fix_flag e luxdVersion) deprecatedFlagsSupport givenFlags"

text \<open>\<open>FindStringSubmatch\<close> of the pattern \<^verbatim>\<open>\/([^ ]+)\<close>: the group of the leftmost match.\<close>

fun version_match :: "string \<Rightarrow> string option" where
  "version_match [] = None"
| "version_match (c # cs) =
     (if c = CHR ''/'' \<and> cs \<noteq> [] \<and> hd cs \<noteq> CHR '' '' then Some (takeWhile (\<lambda>x. x \<noteq> CHR '' '') cs)
      else version_match cs)"

definition GetNodeVersion :: "env \<Rightarrow> NodeConfig \<Rightarrow> (world, string) prog" where
  "GetNodeVersion e config = bindP tick (\<lambda>t. liftR (os_version e t (nc_BinaryPath config)))"

definition getNodeSemVer :: "env \<Rightarrow> NodeConfig \<Rightarrow> (world, string) prog" where
  "getNodeSemVer e nodeConfig =
     bindP (wrapP ''couldn't get node version with binary %q: %w'' [nc_BinaryPath nodeConfig]
              (GetNodeVersion e nodeConfig)) (\<lambda>out.
       (case version_match out of
          None \<Rightarrow> throw (Errorf ''invalid version output %q for binary %q: version pattern not found''
                    [out, nc_BinaryPath nodeConfig])
        | Some v \<Rightarrow> ret (''v'' @ v)))"

record buildArgsReturn =
  ba_args :: "string list"
  ba_apiPort :: "16 word"
  ba_p2pPort :: "16 word"
  ba_dataDir :: string
  ba_dbDir :: string
  ba_logsDir :: string
  ba_pluginDir :: string
  ba_httpHost :: string

text \<open>The flags the runner itself gives, then those of the written files, then those of the node.\<close>

definition runner_flags ::
  "env \<Rightarrow> localNetwork \<Rightarrow> string \<Rightarrow> string \<Rightarrow> string \<Rightarrow> 16 word \<Rightarrow> 16 word \<Rightarrow> string gmap" where
  "runner_flags e l dataDir dbDir logsDir apiPort p2pPort =
     fold (\<lambda>(k, v). AList.update k v)
       [(NetworkNameKey e, show_nat (unat (ln_networkID l))),
        (DataDirKey e, dataDir),
        (DBPathKey e, dbDir),
        (LogsDirKey e, logsDir),
        (HTTPPortKey e, show_nat (unat apiPort)),
        (StakingPortKey e, show_nat (unat p2pPort)),
        (BootstrapIPsKey e, beacon_IPsArg e (ln_bootstraps l)),
        (BootstrapIDsKey e, beacon_IDsArg e (ln_bootstraps l))] []"

definition node_flags :: "env \<Rightarrow> (string \<times> val) list \<Rightarrow> string gmap \<Rightarrow> string gmap" where
  "node_flags e given flags =
     fold (\<lambda>(flagName, flagVal) fs.
             if flagName = HTTPPortKey e \<or> flagName = StakingPortKey e then fs
             else AList.update flagName (fmt_v flagVal) fs) given flags"

definition flag_arg :: "string \<times> string \<Rightarrow> string" where
  "flag_arg kv = ''--'' @ fst kv @ ''='' @ snd kv"

definition buildArgs ::
  "env \<Rightarrow> string \<Rightarrow> val gomap \<Rightarrow> string \<Rightarrow> NodeConfig \<Rightarrow> (net_state, buildArgsReturn) prog" where
  "buildArgs e nodeSemVer configFile nodeDir nodeConfig =
     (let fl = nc_Flags nodeConfig in
      bindP (liftR (getConfigEntry fl configFile (HTTPHostKey e) [])) (\<lambda>httpHost.
      bindP (liftR (getConfigEntry fl configFile (DataDirKey e) nodeDir)) (\<lambda>dataDir.
      bindP (liftR (getConfigEntry fl configFile (PluginDirKey e) [])) (\<lambda>pluginDir.
      bindP (liftR (getConfigEntry fl configFile (DBPathKey e)
               (filepath_Join [dataDir, defaultDBSubdir]))) (\<lambda>dbDir.
      bindP (liftR (getConfigEntry fl configFile (LogsDirKey e)
               (filepath_Join [dataDir, defaultLogsSubdir]))) (\<lambda>logsDir.
      bindP (getL ln_reassignPortsIfUsed) (\<lambda>reassign.
      bindP (onW (getPort e fl configFile (HTTPPortKey e) reassign)) (\<lambda>apiPort.
      bindP (onW (getPort e fl configFile (StakingPortKey e) reassign)) (\<lambda>p2pPort.
      bindP (getL id) (\<lambda>l.
      bindP (onW (writeFiles e (ln_networkID l) (ln_genesis l) dataDir nodeConfig)) (\<lambda>fileFlags.
      let flags = node_flags e (mrange fl)
                    (fold (\<lambda>(k, v). AList.update k v) fileFlags
                       (runner_flags e l dataDir dbDir logsDir apiPort p2pPort)) in
      ret \<lparr>ba_args = map flag_arg (getFlagsForLuxdVersion e nodeSemVer flags),
           ba_apiPort = apiPort, ba_p2pPort = p2pPort, ba_dataDir = dataDir, ba_dbDir = dbDir,
           ba_logsDir = logsDir, ba_pluginDir = pluginDir, ba_httpHost = httpHost\<rparr>)))))))))))"

section \<open>Adding a node\<close>

definition redirect :: "env \<Rightarrow> bool \<Rightarrow> string \<Rightarrow> (world, unit) prog" where
  "redirect e wanted what =
     (if wanted then
        bindP tick (\<lambda>t.
          (case os_pipeErr e t of
             Some er \<Rightarrow> throw (Wrapf (''couldn't create '' @ what @ '' pipe: %w'') [] er)
           | None \<Rightarrow> ret ()))
      else ret ())"

definition NewNodeProcess :: "env \<Rightarrow> NodeConfig \<Rightarrow> string list \<Rightarrow> (net_state, nat) prog" where
  "NewNodeProcess e config args =
     bindP (zoomP (ln_colorPicker \<circ> fst) (\<lambda>c. apfst (ln_colorPicker_update (\<lambda>_. c))) NextColor) (\<lambda>color.
     bindP (onW (redirect e (nc_RedirectStdout config) ''stdout'')) (\<lambda>_.
     bindP (onW (redirect e (nc_RedirectStderr config) ''stderr'')) (\<lambda>_.
     onW (proc_new e (nc_Name config) (nc_BinaryPath config) args))))"

text \<open>Empty maps instead of nil ones, and the defaults of the network for what is not given.\<close>

definition node_defaults :: "localNetwork \<Rightarrow> NodeConfig \<Rightarrow> NodeConfig res" where
  "node_defaults l nc =
     bindR (mput_missing (mrange (ln_chainConfigFiles l)) (mmake (nc_ChainConfigFiles nc))) (\<lambda>ccf.
     bindR (mput_missing (mrange (ln_upgradeConfigFiles l)) (mmake (nc_UpgradeConfigFiles nc))) (\<lambda>ucf.
     bindR (mput_missing (mrange (ln_subnetConfigFiles l)) (mmake (nc_SubnetConfigFiles nc))) (\<lambda>scf.
     bindR (addNetworkFlags (ln_flags l) (mmake (nc_Flags nc))) (\<lambda>fl.
       Ok (nc\<lparr>nc_BinaryPath := (if nc_BinaryPath nc = [] then ln_binaryPath l else nc_BinaryPath nc),
              nc_ChainConfigFiles := ccf, nc_UpgradeConfigFiles := ucf, nc_SubnetConfigFiles := scf,
              nc_Flags := fl\<rparr>)))))"

definition stakingKeys :: "env \<Rightarrow> NodeConfig \<Rightarrow> (world, NodeConfig) prog" where
  "stakingKeys e nc =
     (if nc_StakingCert nc = [] \<or> nc_StakingKey nc = [] then
        bindP tick (\<lambda>t.
        bindP (liftR (wrapR ''couldn't generate staking Cert/Key: %w'' []
                 (staking_NewCertAndKeyBytes e t))) (\<lambda>(stakingCert, stakingKey).
        ret (nc\<lparr>nc_StakingCert := stakingCert, nc_StakingKey := stakingKey\<rparr>)))
      else ret nc)"

definition signingKey :: "env \<Rightarrow> NodeConfig \<Rightarrow> (world, NodeConfig) prog" where
  "signingKey e nc =
     (if nc_StakingSigningKey nc = [] then
        bindP tick (\<lambda>t.
        bindP (liftR (wrapR ''couldn't generate new signing key: %w'' [] (bls_NewSecretKey e t))) (\<lambda>keyBytes.
        ret (nc\<lparr>nc_StakingSigningKey := b64_encode keyBytes\<rparr>)))
      else ret nc)"

definition node_keys :: "env \<Rightarrow> NodeConfig \<Rightarrow> (world, NodeConfig) prog" where
  "node_keys e nc = bindP (stakingKeys e nc) (signingKey e)"

text \<open>The config file as a map, nil if none is given.\<close>

definition readConfigFile :: "NodeConfig \<Rightarrow> val gomap res" where
  "readConfigFile nc =
     (if nc_ConfigFile nc \<noteq> []
      then wrapR ''couldn't unmarshal config file: %w'' [] (unmarshal_map (nc_ConfigFile nc))
      else Ok None)"

text \<open>Once the node has its name: its directory, version, arguments and node ID.\<close>

definition describeNode ::
  "env \<Rightarrow> NodeConfig \<Rightarrow> (net_state, NodeConfig \<times> bool \<times> buildArgsReturn \<times> string) prog" where
  "describeNode e nc =
     bindP (getL (\<lambda>l. isPausedNode l nc)) (\<lambda>isPaused.
     bindP (getL ln_rootDir) (\<lambda>rootDir.
     bindP (onW (makeNodeDir e rootDir (nc_Name nc))) (\<lambda>nodeDir.
     bindP (liftR (readConfigFile nc)) (\<lambda>configFile.
     bindP (onW (getNodeSemVer e nc)) (\<lambda>nodeSemVer.
     bindP (buildArgs e nodeSemVer configFile nodeDir nc) (\<lambda>nodeData.
     bindP (liftR (wrapR ''couldn't get node ID: %w'' []
              (ToNodeID e (nc_StakingKey nc) (nc_StakingCert nc)))) (\<lambda>nodeID.
     ret (nc, isPaused, nodeData, nodeID))))))))"

text \<open>Everything \<^verbatim>\<open>addNode\<close> does before it starts the process.\<close>

definition prepareNode ::
  "env \<Rightarrow> NodeConfig \<Rightarrow> (net_state, NodeConfig \<times> bool \<times> buildArgsReturn \<times> string) prog" where
  "prepareNode e nodeConfig =
     bindP (getL id) (\<lambda>l.
     bindP (liftR (node_defaults l nodeConfig)) (\<lambda>nc1.
     bindP (onW (node_keys e nc1)) (\<lambda>nc2.
     bindP (setNodeName nc2) (describeNode e))))"

text \<open>The wrapper of the new node, as it is stored.\<close>

definition mkNode :: "NodeConfig \<Rightarrow> buildArgsReturn \<Rightarrow> string \<Rightarrow> nat \<Rightarrow> 32 word \<Rightarrow> localNode" where
  "mkNode nodeConfig nodeData nodeID nodeProcess networkID =
     \<lparr>n_name = nc_Name nodeConfig, n_nodeID = nodeID, n_networkID = networkID,
      n_client = (''localhost'', ba_apiPort nodeData), n_process = nodeProcess,
      n_apiPort = ba_apiPort nodeData, n_p2pPort = ba_p2pPort nodeData,
      n_dataDir = ba_dataDir nodeData, n_dbDir = ba_dbDir nodeData,
      n_logsDir = ba_logsDir nodeData, n_pluginDir = ba_pluginDir nodeData,
      n_config = nodeConfig, n_httpHost = ba_httpHost nodeData, n_attachedPeers = [],
      n_paused = False\<rparr>"

text \<open>A beacon is added to the bootstrap nodes unless it was only paused.\<close>

definition addBeacon :: "env \<Rightarrow> bool \<Rightarrow> localNode \<Rightarrow> (net_state, unit) prog" where
  "addBeacon e isPaused node =
     (if \<not> isPaused \<and> nc_IsBeacon (n_config node) then
        bindP (getL ln_bootstraps) (\<lambda>bs.
        bindP (liftR (beacon_Add e (n_nodeID node, n_p2pPort node) bs)) (\<lambda>bs'.
        modL (ln_bootstraps_update (\<lambda>_. bs'))))
      else ret ())"

text \<open>The rest of \<^verbatim>\<open>addNode\<close>: start the process, store the node, add it to the beacons.\<close>

definition launchNode ::
  "env \<Rightarrow> NodeConfig \<Rightarrow> bool \<Rightarrow> buildArgsReturn \<Rightarrow> string \<Rightarrow> (net_state, localNode) prog" where
  "launchNode e nodeConfig isPaused nodeData nodeID =
     bindP (wrapP ''couldn't create new node process with binary %q and args %v: %w''
              [nc_BinaryPath nodeConfig, join_with '' '' (ba_args nodeData)]
              (NewNodeProcess e nodeConfig (ba_args nodeData))) (\<lambda>nodeProcess.
     bindP (getL ln_networkID) (\<lambda>networkID.
     let node = mkNode nodeConfig nodeData nodeID nodeProcess networkID in
     bindP (modL (ln_nodes_update (AList.update (n_name node) node))) (\<lambda>_.
     bindP (addBeacon e isPaused node) (\<lambda>_. ret node))))"

definition addNode :: "env \<Rightarrow> NodeConfig \<Rightarrow> (net_state, localNode) prog" where
  "addNode e nodeConfig =
     bindP (prepareNode e nodeConfig) (\<lambda>(nc, isPaused, nodeData, nodeID).
       launchNode e nc isPaused nodeData nodeID)"

definition AddNode :: "env \<Rightarrow> NodeConfig \<Rightarrow> (net_state, localNode) prog" where
  "AddNode e nodeConfig =
     bindP (getL stopCalled) (\<lambda>stopped. if stopped then throw ErrStopped else addNode e nodeConfig)"

section \<open>Removing and stopping\<close>

definition node_not_found :: "string \<Rightarrow> err" where
  "node_not_found nodeName = Errorf ''node %q not found'' [nodeName]"

definition bad_exit :: "string \<Rightarrow> int \<Rightarrow> err" where
  "bad_exit nodeName exitCode =
     Errorf ''node %q exited with exit code: %d'' [nodeName, show_int exitCode]"

definition removeNode :: "env \<Rightarrow> string \<Rightarrow> (net_state, unit) prog" where
  "removeNode e nodeName =
     bindP (getL (\<lambda>l. map_of (ln_nodes l) nodeName)) (\<lambda>found.
       (case found of
          None \<Rightarrow> throw (node_not_found nodeName)
        | Some node \<Rightarrow>
            bindP (modL (ln_bootstraps_update (beacon_RemoveByID e (n_nodeID node)))) (\<lambda>_.
            bindP (modL (ln_nodes_update (AList.delete nodeName))) (\<lambda>_.
            if \<not> n_paused node then
              bindP (onW (proc_Stop e (n_process node))) (\<lambda>exitCode.
              if exitCode \<noteq> 0 then throw (bad_exit nodeName exitCode) else ret ())
            else ret ()))))"

definition RemoveNode :: "env \<Rightarrow> string \<Rightarrow> (net_state, unit) prog" where
  "RemoveNode e nodeName =
     bindP (getL stopCalled) (\<lambda>stopped. if stopped then throw ErrStopped else removeNode e nodeName)"

text \<open>\<^verbatim>\<open>stop\<close>: all nodes are removed, the errors are collected and do not end the loop.\<close>

definition stop_one :: "env \<Rightarrow> string \<Rightarrow> err option \<Rightarrow> (net_state, err option) prog" where
  "stop_one e nodeName errs =
     catchP (bindP (removeNode e nodeName) (\<lambda>_. ret errs)) (\<lambda>er. ret (wrappers_Errs_Add e er errs))"

definition net_stop :: "env \<Rightarrow> (net_state, unit) prog" where
  "net_stop e =
     bindP (getL (\<lambda>l. mkeys (ln_nodes l))) (\<lambda>names.
     bindP (foldP (stop_one e) names None) (\<lambda>errs.
       (case errs of None \<Rightarrow> ret () | Some er \<Rightarrow> throw er)))"

text \<open>The two parts of \<^verbatim>\<open>Stop\<close>: closing the channel, and the run under the lock.\<close>

definition stop_begin :: "(net_state, unit) prog" where
  "stop_begin = modL (\<lambda>l. l\<lparr>ln_stopOnce := True, ln_onStopCh := True\<rparr>)"

definition Stop :: "env \<Rightarrow> (net_state, unit) prog" where
  "Stop e =
     bindP (getL ln_stopOnce) (\<lambda>called.
       if called then throw ErrStopped else bindP stop_begin (\<lambda>_. net_stop e))"

section \<open>Pausing, resuming, restarting\<close>

definition pauseNode :: "env \<Rightarrow> string \<Rightarrow> (net_state, unit) prog" where
  "pauseNode e nodeName =
     bindP (getL (\<lambda>l. map_of (ln_nodes l) nodeName)) (\<lambda>found.
       (case found of
          None \<Rightarrow> throw (node_not_found nodeName)
        | Some node \<Rightarrow>
            if n_paused node then throw (Errorf ''node has been paused already'' [])
            else bindP (onW (proc_Stop e (n_process node))) (\<lambda>exitCode.
                 if exitCode \<noteq> 0 then throw (bad_exit nodeName exitCode)
                 else modL (ln_nodes_update (AList.update nodeName (node\<lparr>n_paused := True\<rparr>))))))"

definition PauseNode :: "env \<Rightarrow> string \<Rightarrow> (net_state, unit) prog" where
  "PauseNode e nodeName =
     bindP (getL stopCalled) (\<lambda>stopped. if stopped then throw ErrStopped else pauseNode e nodeName)"

text \<open>The flags that keep directories and ports of a node that is started again.\<close>

definition keep_flags :: "env \<Rightarrow> localNode \<Rightarrow> (string \<times> val) list" where
  "keep_flags e node =
     [(DataDirKey e, VStr (n_dataDir node)), (DBPathKey e, VStr (n_dbDir node)),
      (LogsDirKey e, VStr (n_logsDir node)), (HTTPPortKey e, VInt (uint (n_apiPort node))),
      (StakingPortKey e, VInt (uint (n_p2pPort node)))]"

text \<open>Writes to the maps of a node's configuration, which the stored node shares.\<close>

definition write_config :: "string \<Rightarrow> localNode \<Rightarrow> NodeConfig res \<Rightarrow> (net_state, NodeConfig) prog" where
  "write_config nodeName node r =
     bindP (liftR r) (\<lambda>nc.
     bindP (modL (ln_nodes_update (AList.update nodeName (node\<lparr>n_config := nc\<rparr>)))) (\<lambda>_. ret nc))"

definition resumeNode :: "env \<Rightarrow> string \<Rightarrow> (net_state, unit) prog" where
  "resumeNode e nodeName =
     bindP (getL (\<lambda>l. map_of (ln_nodes l) nodeName)) (\<lambda>found.
       (case found of
          None \<Rightarrow> throw (node_not_found nodeName)
        | Some node \<Rightarrow>
            if \<not> n_paused node then throw (Errorf ''node has not been paused'' [])
            else bindP (write_config nodeName node
                          (bindR (mput_all (keep_flags e node) (nc_Flags (n_config node))) (\<lambda>fl.
                             Ok ((n_config node)\<lparr>nc_Flags := fl\<rparr>)))) (\<lambda>nodeConfig.
                 bindP (addNode e nodeConfig) (\<lambda>_. ret ()))))"

definition ResumeNode :: "env \<Rightarrow> string \<Rightarrow> (net_state, unit) prog" where
  "ResumeNode e nodeName = resumeNode e nodeName"

definition restart_flags :: "env \<Rightarrow> localNode \<Rightarrow> string \<Rightarrow> string \<Rightarrow> (string \<times> val) list" where
  "restart_flags e node pluginDir trackSubnets =
     (if pluginDir \<noteq> [] then [(PluginDirKey e, VStr pluginDir)] else []) @
     (if trackSubnets \<noteq> [] then [(TrackSubnetsKey e, VStr trackSubnets)] else []) @
     keep_flags e node"

definition restartNode ::
  "env \<Rightarrow> string \<Rightarrow> string \<Rightarrow> string \<Rightarrow> string \<Rightarrow> string gomap \<Rightarrow> string gomap \<Rightarrow> string gomap \<Rightarrow>
   (net_state, unit) prog" where
  "restartNode e nodeName binaryPath pluginDir trackSubnets chainConfigs upgradeConfigs subnetConfigs =
     bindP (getL (\<lambda>l. map_of (ln_nodes l) nodeName)) (\<lambda>found.
       (case found of
          None \<Rightarrow> throw (node_not_found nodeName)
        | Some node \<Rightarrow>
            bindP (write_config nodeName node
              (bindR (mput_all (restart_flags e node pluginDir trackSubnets) (nc_Flags (n_config node))) (\<lambda>fl.
               bindR (mput_all (mrange chainConfigs) (nc_ChainConfigFiles (n_config node))) (\<lambda>ccf.
               bindR (mput_all (mrange upgradeConfigs) (nc_UpgradeConfigFiles (n_config node))) (\<lambda>ucf.
               bindR (mput_all (mrange subnetConfigs) (nc_SubnetConfigFiles (n_config node))) (\<lambda>scf.
               Ok ((n_config node)\<lparr>nc_Flags := fl, nc_ChainConfigFiles := ccf,
                     nc_UpgradeConfigFiles := ucf, nc_SubnetConfigFiles := scf\<rparr>))))))) (\<lambda>stored.
            let nodeConfig = (if binaryPath \<noteq> [] then stored\<lparr>nc_BinaryPath := binaryPath\<rparr> else stored) in
            bindP (if \<not> n_paused node then removeNode e nodeName else ret ()) (\<lambda>_.
            bindP (addNode e nodeConfig) (\<lambda>_. ret ())))))"

definition RestartNode ::
  "env \<Rightarrow> string \<Rightarrow> string \<Rightarrow> string \<Rightarrow> string \<Rightarrow> string gomap \<Rightarrow> string gomap \<Rightarrow> string gomap \<Rightarrow>
   (net_state, unit) prog" where
  "RestartNode e nodeName binaryPath pluginDir trackSubnets chainConfigs upgradeConfigs subnetConfigs =
     restartNode e nodeName binaryPath pluginDir trackSubnets chainConfigs upgradeConfigs subnetConfigs"

section \<open>Queries\<close>

definition GetNode :: "string \<Rightarrow> (net_state, localNode) prog" where
  "GetNode nodeName =
     bindP (getL stopCalled) (\<lambda>stopped.
       if stopped then throw ErrStopped
       else bindP (getL (\<lambda>l. map_of (ln_nodes l) nodeName)) (\<lambda>found.
            (case found of None \<Rightarrow> throw ErrNodeNotFound | Some node \<Rightarrow> ret node)))"

definition GetNodeNames :: "(net_state, string list) prog" where
  "GetNodeNames =
     bindP (getL stopCalled) (\<lambda>stopped.
       if stopped then throw ErrStopped else getL (\<lambda>l. mkeys (ln_nodes l)))"

definition GetAllNodes :: "(net_state, localNode gmap) prog" where
  "GetAllNodes =
     bindP (getL stopCalled) (\<lambda>stopped. if stopped then throw ErrStopped else getL ln_nodes)"

text \<open>
  The loop that polls one node; the list ends with the poll after which the context is done
  or the result is known.
\<close>

fun health_loop :: "string \<Rightarrow> poll list \<Rightarrow> unit res" where
  "health_loop nodeName [] =
     Err (Errorf ''node %q failed to become healthy within timeout, or network stopped'' [nodeName])"
| "health_loop nodeName (p # ps) =
     (if \<not> poll_running p then Err (Errorf ''node %q stopped unexpectedly'' [nodeName])
      else if poll_healthy p then Ok ()
      else if poll_ctx_done p then
        Err (Errorf ''node %q failed to become healthy within timeout, or network stopped'' [nodeName])
      else health_loop nodeName ps)"

text \<open>\<^verbatim>\<open>errGr.Wait\<close> gives the first error of the polled nodes, which are the ones not paused.\<close>

definition node_healthy :: "env \<Rightarrow> nat \<Rightarrow> world \<Rightarrow> localNode \<Rightarrow> unit res" where
  "node_healthy e t w node =
     health_loop (n_name node)
       (map (\<lambda>p. p\<lparr>poll_running := (poll_running p \<and> node_Status node w = Running)\<rparr>)
          (os_health e t (n_process node)))"

definition healthy :: "env \<Rightarrow> (net_state, unit) prog" where
  "healthy e =
     bindP (getL stopCalled) (\<lambda>stopped.
       if stopped then throw ErrStopped
       else bindP (onW tick) (\<lambda>t.
            bindP getS (\<lambda>(l, w).
            forP (filter (\<lambda>(_, node). \<not> n_paused node) (ln_nodes l)) (\<lambda>(_, node).
              liftR (node_healthy e t w node)))))"

definition Healthy :: "env \<Rightarrow> (net_state, unit) prog" where
  "Healthy e = healthy e"

section \<open>Loading a configuration\<close>

definition beacons_first :: "NodeConfig list \<Rightarrow> NodeConfig list" where
  "beacons_first ncs = filter nc_IsBeacon ncs @ filter (\<lambda>nc. \<not> nc_IsBeacon nc) ncs"

definition start_node :: "env \<Rightarrow> NodeConfig \<Rightarrow> (net_state, unit) prog" where
  "start_node e nodeConfig =
     catchP (bindP (addNode e nodeConfig) (\<lambda>_. ret ())) (\<lambda>er.
       bindP (catchP (net_stop e) (\<lambda>_. ret ())) (\<lambda>_.
       throw (Wrapf ''error adding node %s: %w'' [nc_Name nodeConfig] er)))"

definition loadConfig :: "env \<Rightarrow> NetConfig \<Rightarrow> (net_state, unit) prog" where
  "loadConfig e networkConfig =
     bindP (liftR (wrapR ''config failed validation: %w'' [] (NetConfig_Validate e networkConfig))) (\<lambda>_.
     bindP (modL (ln_genesis_update (\<lambda>_. cfg_Genesis networkConfig))) (\<lambda>_.
     bindP (liftR (wrapR ''couldn't get network ID from genesis: %w'' []
              (NetworkIDFromGenesis (cfg_Genesis networkConfig)))) (\<lambda>networkID.
     bindP (modL (\<lambda>l. l\<lparr>ln_networkID := networkID, ln_flags := cfg_Flags networkConfig,
              ln_binaryPath := cfg_BinaryPath networkConfig,
              ln_chainConfigFiles := mmake (cfg_ChainConfigFiles networkConfig),
              ln_upgradeConfigFiles := mmake (cfg_UpgradeConfigFiles networkConfig),
              ln_subnetConfigFiles := mmake (cfg_SubnetConfigFiles networkConfig)\<rparr>)) (\<lambda>_.
     forP (beacons_first (cfg_NodeConfigs networkConfig)) (start_node e)))))"

text \<open>\<^verbatim>\<open>NewNetwork\<close> returns the network also when loading the configuration failed.\<close>

definition NewNetwork ::
  "env \<Rightarrow> NetConfig \<Rightarrow> string \<Rightarrow> string \<Rightarrow> bool \<Rightarrow> world \<Rightarrow> unit res \<times> localNetwork option \<times> world" where
  "NewNetwork e networkConfig rootDir snapshotsDir reassignPortsIfUsed w =
     (case newNetwork e rootDir snapshotsDir reassignPortsIfUsed w of
        (Ok l, w1) \<Rightarrow>
          (case loadConfig e networkConfig (l, w1) of (r, l', w2) \<Rightarrow> (r, Some l', w2))
      | (Err er, w1) \<Rightarrow> (Err er, None, w1)
      | (Panic p, w1) \<Rightarrow> (Panic p, None, w1))"

end
