(* ===== verification/Network_Invariant.thy ===== *)
theory Network_Invariant
  imports Local_Network
begin

text \<open>
  The invariant of a local network and the lemmas about its operations: what preparing, launching
  and adding a node leaves in the tables, that every operation keeps the invariant, the network as
  a transition system whose steps are the methods in any order and the exits of processes, that
  stopping empties the network, that names are found, and what loading a configuration yields.
\<close>

section \<open>Lemmas\<close>

subsection \<open>Running code on a part of the state\<close>

lemma onW_eq [simp]: "onW m (l, w) = (case m w of (r, w') \<Rightarrow> (r, (l, w')))"
  by (simp add: onW_def zoomP_def split: prod.splits)

lemma onW_eq_iff: "onW m s = (r, t) \<longleftrightarrow> m (snd s) = (r, snd t) \<and> fst t = fst s"
  by (cases s; cases t) (auto split: prod.splits)

lemma getL_eq [simp]: "getL f s = (r, t) \<longleftrightarrow> r = Ok (f (fst s)) \<and> t = s"
  by (auto simp: getL_def)

lemma bindP_getL [simp]: "bindP (getL f) g s = g (f (fst s)) s"
  by (simp add: getL_def)

lemma modL_eq [simp]: "modL f s = (r, t) \<longleftrightarrow> r = Ok () \<and> t = (f (fst s), snd s)"
  by (cases s) (auto simp: modL_def)

lemma bindP_modL [simp]: "bindP (modL f) g s = g () (f (fst s), snd s)"
  by (cases s) (simp add: modL_def)

text \<open>The nodes and the processes, which most of the code leaves alone.\<close>

definition quiet :: "localNode gmap \<Rightarrow> nodeProcess list \<Rightarrow> net_state \<Rightarrow> bool" where
  "quiet ns ps s \<longleftrightarrow> ln_nodes (fst s) = ns \<and> procs (snd s) = ps"

lemma pres_getL [pres_intros]: "pres P (getL f)"
  by (simp add: getL_def pres_intros)

lemma pres_onW: "pres (same_procs ps) m \<Longrightarrow> pres (quiet ns ps) (onW m)"
  unfolding onW_def by (rule pres_zoomP [where Q = "same_procs ps"]) (auto simp: quiet_def same_procs_def)

lemma pres_modL_quiet: "(\<And>l. ln_nodes (f l) = ln_nodes l) \<Longrightarrow> pres (quiet ns ps) (modL f)"
  unfolding modL_def by (rule pres_modify) (auto simp: quiet_def)

lemma pres_try_ports [fs_pres]: "pres (same_procs ps) (try_ports e ks)"
  by (induction ks) (auto simp: isFreePort_def intro!: pres_intros fs_pres)

lemma pres_helpers [fs_pres]:
  "pres (same_procs ps) (isFreePort e p)"
  "pres (same_procs ps) (getFreePort e)"
  "pres (same_procs ps) (free_port e)"
  unfolding isFreePort_def getFreePort_def free_port_def by (intro pres_intros fs_pres)+

lemma pres_val_case [pres_intros]:
  assumes "\<And>i. pres P (fi i)" "\<And>m n. pres P (ff m n)" "pres P a" "\<And>b. pres P (fb b)" "\<And>s. pres P (fs s)"
    "\<And>w. pres P (fw w)" "\<And>vs. pres P (fa vs)" "\<And>kvs. pres P (fo kvs)"
  shows "pres P (case v of VNull \<Rightarrow> a | VBool b \<Rightarrow> fb b | VStr s \<Rightarrow> fs s | VInt i \<Rightarrow> fi i | VU16 w \<Rightarrow> fw w
    | VFloat m n \<Rightarrow> ff m n | VArr vs \<Rightarrow> fa vs | VObj kvs \<Rightarrow> fo kvs)"
  using assms by (cases v) auto

lemma pres_getPort [fs_pres]: "pres (same_procs ps) (getPort e fl cf k b)"
  unfolding getPort_def given_port_def by (intro pres_intros fs_pres)

lemma pres_prod_fun [pres_intros]:
  "(\<And>a b. x = (a, b) \<Longrightarrow> pres P (f a b acc)) \<Longrightarrow> pres P ((case x of (a, b) \<Rightarrow> f a b) acc)"
  by (cases x) auto

lemma pres_Let [pres_intros]: "(\<And>x. pres P (f x)) \<Longrightarrow> pres P (let x = v in f x)"
  by simp

lemma pres_files [fs_pres]:
  "pres (same_procs ps) (createFileAndWrite e p c)"
  "pres (same_procs ps) (write_at e p c)"
  unfolding write_at_def createFileAndWrite_def by (intro pres_intros fs_pres)+

lemma pres_writeFiles [fs_pres]: "pres (same_procs ps) (writeFiles e nid g d nc)"
  unfolding writeFiles_def by (intro pres_intros fs_pres)

lemma pres_makeNodeDir [fs_pres]: "pres (same_procs ps) (makeNodeDir e d n)"
  unfolding makeNodeDir_def by (intro pres_intros fs_pres)

lemma pres_keys [fs_pres]: "pres (same_procs ps) (node_keys e nc)"
  unfolding node_keys_def stakingKeys_def signingKey_def by (intro pres_intros fs_pres)

lemma pres_getNodeSemVer [fs_pres]: "pres (same_procs ps) (getNodeSemVer e nc)"
  unfolding getNodeSemVer_def GetNodeVersion_def by (intro pres_intros fs_pres)

lemma pres_redirect [fs_pres]: "pres (same_procs ps) (redirect e b s)"
  unfolding redirect_def by (intro pres_intros fs_pres)

lemma pres_setNodeName: "pres (quiet ns ps) (setNodeName nc)"
  unfolding setNodeName_def by (intro pres_intros pres_modL_quiet) simp

lemma pres_buildArgs: "pres (quiet ns ps) (buildArgs e v cf d nc)"
  unfolding buildArgs_def by (intro pres_intros pres_onW fs_pres)

lemma pres_prepareNode: "pres (quiet ns ps) (prepareNode e nc)"
  unfolding prepareNode_def describeNode_def
  by (intro pres_intros pres_onW fs_pres pres_setNodeName pres_buildArgs)


subsection \<open>Preparing a node\<close>

definition maps_made :: "NodeConfig \<Rightarrow> bool" where
  "maps_made nc \<longleftrightarrow> nc_Flags nc \<noteq> None \<and> nc_ChainConfigFiles nc \<noteq> None \<and>
     nc_UpgradeConfigFiles nc \<noteq> None \<and> nc_SubnetConfigFiles nc \<noteq> None"

lemma mmake_Some: "\<exists>xs. mmake m = Some xs \<and> map_of xs = mget m"
  by (cases m) (auto simp: fun_eq_iff)

lemma merge_made:
  "\<exists>ys. mput_missing src (mmake m) = Ok (Some ys) \<and> map_of ys = map_of src ++ mget m"
  using mmake_Some [of m] mput_missing_Some [of src] by metis

text \<open>Defaults are always merged; what the node itself gives takes precedence.\<close>

lemma node_defaults_Ok:
  "\<exists>nc'. node_defaults l nc = Ok nc' \<and> maps_made nc' \<and>
     mget (nc_Flags nc') = mget (ln_flags l) ++ mget (nc_Flags nc) \<and>
     mget (nc_ChainConfigFiles nc') = mget (ln_chainConfigFiles l) ++ mget (nc_ChainConfigFiles nc) \<and>
     mget (nc_UpgradeConfigFiles nc') = mget (ln_upgradeConfigFiles l) ++ mget (nc_UpgradeConfigFiles nc) \<and>
     mget (nc_SubnetConfigFiles nc') = mget (ln_subnetConfigFiles l) ++ mget (nc_SubnetConfigFiles nc) \<and>
     nc_Name nc' = nc_Name nc \<and> nc_IsBeacon nc' = nc_IsBeacon nc \<and> nc_ConfigFile nc' = nc_ConfigFile nc \<and>
     nc_StakingKey nc' = nc_StakingKey nc \<and> nc_StakingCert nc' = nc_StakingCert nc \<and>
     nc_StakingSigningKey nc' = nc_StakingSigningKey nc"
proof -
  have range: "map_of (mrange m) = mget m" for m :: "'a gomap"
    by (cases m) (auto simp: fun_eq_iff)
  obtain ccf ucf scf fl where
    "mput_missing (mrange (ln_chainConfigFiles l)) (mmake (nc_ChainConfigFiles nc)) = Ok (Some ccf)"
    "map_of ccf = map_of (mrange (ln_chainConfigFiles l)) ++ mget (nc_ChainConfigFiles nc)"
    "mput_missing (mrange (ln_upgradeConfigFiles l)) (mmake (nc_UpgradeConfigFiles nc)) = Ok (Some ucf)"
    "map_of ucf = map_of (mrange (ln_upgradeConfigFiles l)) ++ mget (nc_UpgradeConfigFiles nc)"
    "mput_missing (mrange (ln_subnetConfigFiles l)) (mmake (nc_SubnetConfigFiles nc)) = Ok (Some scf)"
    "map_of scf = map_of (mrange (ln_subnetConfigFiles l)) ++ mget (nc_SubnetConfigFiles nc)"
    "mput_missing (mrange (ln_flags l)) (mmake (nc_Flags nc)) = Ok (Some fl)"
    "map_of fl = map_of (mrange (ln_flags l)) ++ mget (nc_Flags nc)"
    using merge_made by metis
  then show ?thesis
    by (simp add: node_defaults_def addNetworkFlags_def maps_made_def range fun_eq_iff)
qed

lemma node_keys_Ok:
  assumes "node_keys e nc w = (Ok nc', w')"
  shows "\<exists>cert key sk.
    nc' = nc\<lparr>nc_StakingCert := cert, nc_StakingKey := key, nc_StakingSigningKey := sk\<rparr>"
  using assms
  by (cases nc) (auto simp: node_keys_def stakingKeys_def signingKey_def bindP_eq_Ok
      split: if_splits prod.splits)

lemma suffix_name_nonempty [simp]: "suffix_name k \<noteq> []"
  by (simp add: suffix_name_def)

lemma setNodeName_Ok:
  assumes "setNodeName nc s = (Ok nc', s')"
  shows "\<exists>nm. nc' = nc\<lparr>nc_Name := nm\<rparr> \<and> nm \<noteq> [] \<and> (nc_Name nc \<noteq> [] \<longrightarrow> nm = nc_Name nc) \<and>
    (case map_of (ln_nodes (fst s)) nm of None \<Rightarrow> True | Some node \<Rightarrow> n_paused node)"
  using assms
  by (cases nc) (auto simp: setNodeName_def bindP_eq_Ok split: if_splits option.splits)

lemma prepareNode_Ok:
  assumes "prepareNode e nc s = (Ok (nc', pz, d, nid), s')"
  shows "maps_made nc' \<and> nc_Name nc' \<noteq> [] \<and>
    mget (nc_Flags nc') = mget (ln_flags (fst s)) ++ mget (nc_Flags nc) \<and>
    (nc_Name nc \<noteq> [] \<longrightarrow> nc_Name nc' = nc_Name nc) \<and> nc_IsBeacon nc' = nc_IsBeacon nc \<and>
    (case map_of (ln_nodes (fst s)) (nc_Name nc') of None \<Rightarrow> \<not> pz | Some node \<Rightarrow> n_paused node \<and> pz)"
proof -
  from assms obtain nc1 nc2 w2 s3 where defs: "node_defaults (fst s) nc = Ok nc1"
    and keys: "node_keys e nc1 (snd s) = (Ok nc2, w2)"
    and name: "setNodeName nc2 (fst s, w2) = (Ok nc', s3)"
    and pz: "pz = isPausedNode (fst s3) nc'"
    by (auto simp: prepareNode_def describeNode_def bindP_eq_Ok onW_eq_iff)
  have "quiet (ln_nodes (fst s)) (procs w2) s3"
    using presD [OF pres_setNodeName _ name] by (simp add: quiet_def)
  then have nodes: "ln_nodes (fst s3) = ln_nodes (fst s)" by (simp add: quiet_def)
  obtain cert key sk where k:
    "nc2 = nc1\<lparr>nc_StakingCert := cert, nc_StakingKey := key, nc_StakingSigningKey := sk\<rparr>"
    using node_keys_Ok [OF keys] by blast
  obtain nm where nm: "nc' = nc2\<lparr>nc_Name := nm\<rparr>" "nm \<noteq> []" "nc_Name nc2 \<noteq> [] \<longrightarrow> nm = nc_Name nc2"
    "case map_of (ln_nodes (fst s)) nm of None \<Rightarrow> True | Some node \<Rightarrow> n_paused node"
    using setNodeName_Ok [OF name] by auto
  from nm(4) show ?thesis
    using node_defaults_Ok [of "fst s" nc] defs k nm(1-3) pz nodes
    by (auto simp: isPausedNode_def maps_made_def split: option.splits)
qed

subsection \<open>Adding a node\<close>

lemma quiet_NextColor:
  "pres (quiet ns ps)
     (zoomP (ln_colorPicker \<circ> fst) (\<lambda>c. apfst (ln_colorPicker_update (\<lambda>_. c))) NextColor)"
  by (rule presI) (auto simp: zoomP_eq quiet_def)

text \<open>A started process is the new last one; a failed start leaves the table as it was.\<close>

definition process_started :: "localNode gmap \<Rightarrow> nodeProcess list \<Rightarrow> nat res \<Rightarrow> net_state \<Rightarrow> bool" where
  "process_started ns ps r t \<longleftrightarrow>
     (case r of
        Ok pid \<Rightarrow> pid = length ps \<and> ln_nodes (fst t) = ns \<and>
          (\<exists>p. procs (snd t) = ps @ [p] \<and> np_ok p \<and> np_Status p = Running)
      | _ \<Rightarrow> quiet ns ps t)"

lemma hoare_proc_new: "hoare (quiet ns ps) (onW (proc_new e n b as)) (process_started ns ps)"
proof (rule hoareI)
  fix s r t
  assume "quiet ns ps s" "onW (proc_new e n b as) s = (r, t)"
  then show "process_started ns ps r t"
    using proc_new_Ok [of e n b as "snd s" _ "snd t"] proc_new_fail [of e n b as "snd s" r]
    by (cases r) (auto simp: process_started_def quiet_def onW_eq_iff)
qed

lemma hoare_NewNodeProcess: "hoare (quiet ns ps) (NewNodeProcess e nc as) (process_started ns ps)"
  unfolding NewNodeProcess_def
  by (intro hoare_pres_bindP quiet_NextColor pres_onW fs_pres hoare_proc_new)
    (simp_all add: process_started_def)

definition node_added ::
  "localNode gmap \<Rightarrow> nodeProcess list \<Rightarrow> NodeConfig \<Rightarrow> localNode \<Rightarrow> net_state \<Rightarrow> bool" where
  "node_added ns ps nc node t \<longleftrightarrow>
     ln_nodes (fst t) = AList.update (n_name node) node ns \<and>
     (\<exists>p. procs (snd t) = ps @ [p] \<and> np_ok p \<and> np_Status p = Running) \<and>
     n_process node = length ps \<and> \<not> n_paused node \<and> maps_made (n_config node) \<and>
     nc_Name (n_config node) = n_name node \<and> n_name node \<noteq> [] \<and>
     (nc_Name nc \<noteq> [] \<longrightarrow> n_name node = nc_Name nc) \<and>
     (case map_of ns (n_name node) of None \<Rightarrow> True | Some old \<Rightarrow> n_paused old)"

definition add_post ::
  "localNode gmap \<Rightarrow> nodeProcess list \<Rightarrow> NodeConfig \<Rightarrow> localNode res \<Rightarrow> net_state \<Rightarrow> bool" where
  "add_post ns ps nc r t \<longleftrightarrow>
     \<not> is_Ok r \<and> quiet ns ps t \<or> (\<exists>node. node_added ns ps nc node t \<and> (is_Ok r \<longrightarrow> r = Ok node))"

lemma pres_addBeacon: "pres (quiet ns ps) (addBeacon e pz node)"
  unfolding addBeacon_def by (intro pres_intros pres_modL_quiet) simp

definition launchable :: "localNode gmap \<Rightarrow> NodeConfig \<Rightarrow> NodeConfig \<Rightarrow> bool" where
  "launchable ns nc nc' \<longleftrightarrow> maps_made nc' \<and> nc_Name nc' \<noteq> [] \<and>
     (nc_Name nc \<noteq> [] \<longrightarrow> nc_Name nc' = nc_Name nc) \<and>
     (case map_of ns (nc_Name nc') of None \<Rightarrow> True | Some old \<Rightarrow> n_paused old)"

lemma hoare_launchNode:
  assumes "launchable ns nc nc'"
  shows "hoare (quiet ns ps) (launchNode e nc' pz d nid) (add_post ns ps nc)"
proof (rule hoareI)
  fix s r t
  assume q: "quiet ns ps s" and run: "launchNode e nc' pz d nid s = (r, t)"
  obtain q s1 where np: "NewNodeProcess e nc' (ba_args d) s = (q, s1)" by (rule prod.exhaust)
  have started: "process_started ns ps q s1" using hoareD [OF hoare_NewNodeProcess q np] .
  show "add_post ns ps nc r t"
  proof (cases q)
    case (Ok pid)
    let ?node = "mkNode nc' d nid pid (ln_networkID (fst s1))"
    let ?s2 = "(ln_nodes_update (AList.update (n_name ?node) ?node) (fst s1), snd s1)"
    obtain b s3 where beacon: "addBeacon e pz ?node ?s2 = (b, s3)" by (rule prod.exhaust)
    have "quiet (AList.update (n_name ?node) ?node ns) (procs (snd s1)) ?s2"
      using started Ok by (simp add: quiet_def process_started_def)
    from presD [OF pres_addBeacon this beacon]
    have "node_added ns ps nc ?node s3"
      using started Ok assms
      by (simp add: node_added_def process_started_def quiet_def launchable_def mkNode_def)
    moreover have "r = map_res (\<lambda>_. ?node) b" "t = s3"
      using run np Ok beacon
      by (auto simp: launchNode_def bindP_def wrapP_def Let_def ret_def split: res.splits prod.splits)
    ultimately show ?thesis by (cases b) (auto simp: add_post_def)
  next
    case (Err er)
    then show ?thesis using run np started
      by (auto simp: launchNode_def bindP_def wrapP_def process_started_def add_post_def)
  next
    case (Panic m)
    then show ?thesis using run np started
      by (auto simp: launchNode_def bindP_def wrapP_def process_started_def add_post_def)
  qed
qed

lemma hoare_addNode: "hoare (quiet ns ps) (addNode e nc) (add_post ns ps nc)"
proof (rule hoareI)
  fix s r t
  assume q: "quiet ns ps s" and run: "addNode e nc s = (r, t)"
  obtain x s1 where prep: "prepareNode e nc s = (x, s1)" by (rule prod.exhaust)
  have q1: "quiet ns ps s1" using presD [OF pres_prepareNode q prep] .
  show "add_post ns ps nc r t"
  proof (cases x)
    case (Ok y)
    obtain nc' pz d nid where y: "y = (nc', pz, d, nid)" by (cases y) auto
    have la: "launchable ns nc nc'"
      using prepareNode_Ok [of e nc s nc' pz d nid s1] prep Ok y q
      by (auto simp: launchable_def quiet_def split: option.splits)
    have "launchNode e nc' pz d nid s1 = (r, t)"
      using run prep Ok y by (simp add: addNode_def bindP_def)
    then show ?thesis using hoareD [OF hoare_launchNode [OF la] q1] by blast
  qed (use run prep q1 in \<open>auto simp: addNode_def bindP_def add_post_def\<close>)
qed

section \<open>The invariant of a network\<close>

text \<open>
  The nodes are stored under their own names with the maps of their configuration made;
  different nodes have different processes; the process of a paused node is stopped; and a
  process that is not stopped belongs to a node of the table: none is left behind.
\<close>

definition pid_live :: "nodeProcess list \<Rightarrow> nat \<Rightarrow> bool" where
  "pid_live ps pid \<longleftrightarrow> pid < length ps \<and> np_Status (ps ! pid) \<noteq> Stopped"

definition node_ok :: "string \<Rightarrow> localNode \<Rightarrow> nodeProcess list \<Rightarrow> bool" where
  "node_ok name node ps \<longleftrightarrow>
     n_name node = name \<and> nc_Name (n_config node) = name \<and> name \<noteq> [] \<and>
     maps_made (n_config node) \<and> n_process node < length ps \<and>
     (n_paused node \<longrightarrow> \<not> pid_live ps (n_process node))"

definition net_ok :: "localNode gmap \<Rightarrow> nodeProcess list \<Rightarrow> bool" where
  "net_ok ns ps \<longleftrightarrow>
     wf_gmap ns \<and> list_all np_ok ps \<and>
     (\<forall>name node. map_of ns name = Some node \<longrightarrow> node_ok name node ps) \<and>
     (\<forall>m n a b. map_of ns m = Some a \<longrightarrow> map_of ns n = Some b \<longrightarrow> n_process a = n_process b \<longrightarrow> m = n) \<and>
     (\<forall>pid. pid_live ps pid \<longrightarrow> (\<exists>name node. map_of ns name = Some node \<and> n_process node = pid))"

definition net_inv :: "net_state \<Rightarrow> bool" where
  "net_inv s \<longleftrightarrow> net_ok (ln_nodes (fst s)) (procs (snd s))"

lemma net_okI:
  assumes "wf_gmap ns" "list_all np_ok ps"
    and "\<And>name node. map_of ns name = Some node \<Longrightarrow> node_ok name node ps"
    and "\<And>m n a b. map_of ns m = Some a \<Longrightarrow> map_of ns n = Some b \<Longrightarrow> n_process a = n_process b \<Longrightarrow> m = n"
    and "\<And>pid. pid_live ps pid \<Longrightarrow> \<exists>name node. map_of ns name = Some node \<and> n_process node = pid"
  shows "net_ok ns ps"
  unfolding net_ok_def using assms by blast

lemma net_ok_wf: "net_ok ns ps \<Longrightarrow> wf_gmap ns" "net_ok ns ps \<Longrightarrow> list_all np_ok ps"
  by (simp_all add: net_ok_def)

lemma net_ok_inj:
  "net_ok ns ps \<Longrightarrow> map_of ns m = Some a \<Longrightarrow> map_of ns n = Some b \<Longrightarrow> n_process a = n_process b \<Longrightarrow> m = n"
  unfolding net_ok_def by blast

lemma net_ok_live:
  "net_ok ns ps \<Longrightarrow> pid_live ps pid \<Longrightarrow> \<exists>name node. map_of ns name = Some node \<and> n_process node = pid"
  unfolding net_ok_def by blast

lemma net_ok_node: "net_ok ns ps \<Longrightarrow> map_of ns name = Some node \<Longrightarrow> node_ok name node ps"
  by (simp add: net_ok_def)

lemma pid_live_snoc:
  "np_Status p = Running \<Longrightarrow> pid_live (ps @ [p]) pid \<longleftrightarrow> pid = length ps \<or> pid_live ps pid"
  by (auto simp: pid_live_def nth_append)

lemma net_ok_add:
  assumes ok: "net_ok ns ps" and add: "node_added ns ps nc node t"
  shows "net_inv t"
proof -
  obtain p where p: "procs (snd t) = ps @ [p]" "np_ok p" "np_Status p = Running"
    and t: "ln_nodes (fst t) = AList.update (n_name node) node ns" "n_process node = length ps"
    using add by (auto simp: node_added_def)
  have old: "node_ok m a (ps @ [p])" "n_process a < length ps" if "map_of ns m = Some a" for m a
    using net_ok_node [OF ok that] pid_live_snoc [OF p(3)] by (auto simp: node_ok_def)
  have new: "node_ok (n_name node) node (ps @ [p])"
    using add t by (simp add: node_added_def node_ok_def)
  have "net_ok (AList.update (n_name node) node ns) (ps @ [p])"
  proof (rule net_okI)
    fix pid
    assume live: "pid_live (ps @ [p]) pid"
    show "\<exists>m a. map_of (AList.update (n_name node) node ns) m = Some a \<and> n_process a = pid"
    proof (cases "pid = length ps")
      case True
      then show ?thesis using t by (intro exI [of _ "n_name node"] exI [of _ node]) simp
    next
      case False
      then have "pid_live ps pid" using live pid_live_snoc [OF p(3)] by simp
      then obtain m a where ma: "map_of ns m = Some a" "n_process a = pid"
        using net_ok_live [OF ok] by blast
      moreover have "m \<noteq> n_name node"
        using add ma net_ok_node [OF ok ma(1)] \<open>pid_live ps pid\<close>
        by (auto simp: node_added_def node_ok_def)
      ultimately show ?thesis by (intro exI [of _ m] exI [of _ a]) simp
    qed
  next
    fix m n a b
    assume "map_of (AList.update (n_name node) node ns) m = Some a"
      "map_of (AList.update (n_name node) node ns) n = Some b" "n_process a = n_process b"
    then show "m = n"
      using old(2) [of m a] old(2) [of n b] t(2) net_ok_inj [OF ok, of m a n b]
      by (simp split: if_splits)
  qed (use net_ok_wf [OF ok] p old new in \<open>auto split: if_splits\<close>)
  then show ?thesis by (simp add: net_inv_def t p)
qed

text \<open>Changing a node of the table without changing its process.\<close>

lemma net_ok_update:
  assumes ok: "net_ok ns ps" and node: "map_of ns name = Some node"
    and new: "node_ok name node' ps" "n_process node' = n_process node"
  shows "net_ok (AList.update name node' ns) ps"
proof (rule net_okI)
  have old: "\<exists>a'. map_of ns m = Some a' \<and> n_process a' = n_process a"
    if "map_of (AList.update name node' ns) m = Some a" for m a
    using that node new(2) by (cases "m = name") auto
  show "m = n" if "map_of (AList.update name node' ns) m = Some a"
    "map_of (AList.update name node' ns) n = Some b" "n_process a = n_process b" for m n a b
    using old [OF that(1)] old [OF that(2)] that(3) net_ok_inj [OF ok] by metis
next
  fix pid
  assume "pid_live ps pid"
  then obtain m a where "map_of ns m = Some a" "n_process a = pid"
    using net_ok_live [OF ok] by blast
  then show "\<exists>m a. map_of (AList.update name node' ns) m = Some a \<and> n_process a = pid"
    using node new(2) by (cases "m = name") auto
next
  show "node_ok m a ps" if "map_of (AList.update name node' ns) m = Some a" for m a
    using that net_ok_node [OF ok, of m a] new(1) by (cases "m = name") auto
qed (use net_ok_wf [OF ok] in simp_all)

text \<open>Stopping the process of a node.\<close>

lemma pid_live_stop:
  assumes "list_all np_ok ps" "k < length ps"
  shows "pid_live (ps[k := snd (np_Stop c (ps ! k))]) pid \<longleftrightarrow> pid_live ps pid \<and> pid \<noteq> k"
  using assms np.stop_stopped [of "ps ! k" c]
  by (cases "pid = k") (auto simp: pid_live_def list_all_length)

lemma net_ok_stop:
  assumes ok: "net_ok ns ps" and node: "map_of ns name = Some node"
  shows "net_ok ns (ps[n_process node := snd (np_Stop c (ps ! n_process node))])"
    and "\<not> pid_live (ps[n_process node := snd (np_Stop c (ps ! n_process node))]) (n_process node)"
proof -
  let ?ps = "ps[n_process node := snd (np_Stop c (ps ! n_process node))]"
  have k: "n_process node < length ps" using net_ok_node [OF ok node] by (simp add: node_ok_def)
  note live = pid_live_stop [OF net_ok_wf(2) [OF ok] k]
  show "net_ok ns ?ps"
  proof (rule net_okI)
    show "list_all np_ok ?ps"
      using net_ok_wf(2) [OF ok] k np.stop_ok by (auto simp: list_all_length nth_list_update)
    show "node_ok m a ?ps" if "map_of ns m = Some a" for m a
      using net_ok_node [OF ok that] live by (auto simp: node_ok_def)
  qed (use net_ok_wf(1) [OF ok] net_ok_inj [OF ok] net_ok_live [OF ok] live in auto)
  show "\<not> pid_live ?ps (n_process node)" using live by simp
qed

text \<open>Removing a node whose process is stopped.\<close>

lemma net_ok_delete:
  assumes ok: "net_ok ns ps" and dead: "\<And>node. map_of ns name = Some node \<Longrightarrow> \<not> pid_live ps (n_process node)"
  shows "net_ok (AList.delete name ns) ps"
proof (rule net_okI)
  fix pid
  assume live: "pid_live ps pid"
  then obtain m a where "map_of ns m = Some a" "n_process a = pid"
    using net_ok_live [OF ok] by blast
  then show "\<exists>m a. map_of (AList.delete name ns) m = Some a \<and> n_process a = pid"
    using dead live by (intro exI [of _ m] exI [of _ a]) auto
qed (use net_ok_wf [OF ok] net_ok_node [OF ok] net_ok_inj [OF ok] in \<open>auto split: if_splits\<close>)

lemma net_ok_remove:
  assumes ok: "net_ok ns ps" and node: "map_of ns name = Some node"
  shows "net_ok (AList.delete name ns) (ps[n_process node := snd (np_Stop c (ps ! n_process node))])"
  by (rule net_ok_delete) (use net_ok_stop [OF ok node] node in auto)

lemma net_ok_remove_paused:
  assumes ok: "net_ok ns ps" and node: "map_of ns name = Some node" and paused: "n_paused node"
  shows "net_ok (AList.delete name ns) ps"
  by (rule net_ok_delete) (use ok net_ok_node [OF ok node] node paused in \<open>auto simp: node_ok_def\<close>)

subsection \<open>Every operation keeps it\<close>

lemma pres_addNode: "pres net_inv (addNode e nc)"
proof (rule presI)
  fix s r t
  assume inv: "net_inv s" and run: "addNode e nc s = (r, t)"
  have "add_post (ln_nodes (fst s)) (procs (snd s)) nc r t"
    by (rule hoareD [OF hoare_addNode _ run]) (simp add: quiet_def)
  then show "net_inv t"
    using inv net_ok_add by (auto simp: add_post_def net_inv_def quiet_def)
qed

lemma proc_Stop_onW:
  "onW (proc_Stop e pid) (l, w) =
     (case np_Stop (os_exitCode e (clock w) pid) (procs w ! pid) of
        (c, p) \<Rightarrow> (Ok c, l, w\<lparr>clock := Suc (clock w), procs := (procs w)[pid := p]\<rparr>))"
  by (simp add: proc_Stop_eq split: prod.splits)

lemma removeNode_found:
  assumes "map_of (ln_nodes l) name = Some node" and "removeNode e name (l, w) = (r, t)"
  shows "ln_nodes (fst t) = AList.delete name (ln_nodes l) \<and>
    procs (snd t) = (if n_paused node then procs w else
      (procs w)[n_process node := snd (np_Stop (os_exitCode e (clock w) (n_process node)) (procs w ! n_process node))])"
  using assms
  by (auto simp: removeNode_def bindP_def proc_Stop_eq split: if_splits prod.splits)

lemma removeNode_missing:
  "map_of (ln_nodes l) name = None \<Longrightarrow> removeNode e name (l, w) = (Err (node_not_found name), (l, w))"
  by (simp add: removeNode_def throw_def)

lemma pres_removeNode: "pres net_inv (removeNode e name)"
proof (rule presI)
  fix s r t
  assume inv: "net_inv s" and run: "removeNode e name s = (r, t)"
  obtain l w where s: "s = (l, w)" by force
  show "net_inv t"
  proof (cases "map_of (ln_nodes l) name")
    case None
    then show ?thesis using inv run s by (simp add: removeNode_missing)
  next
    case (Some node)
    have ok: "net_ok (ln_nodes l) (procs w)" using inv s by (simp add: net_inv_def)
    show ?thesis
      using removeNode_found [OF Some, of e w r t] run s net_ok_remove [OF ok Some]
        net_ok_remove_paused [OF ok Some]
      by (simp add: net_inv_def)
  qed
qed

lemma pres_net_stop: "pres net_inv (net_stop e)"
  unfolding net_stop_def stop_one_def by (intro pres_intros pres_removeNode)

lemma pres_modL_inv: "(\<And>l. ln_nodes (f l) = ln_nodes l) \<Longrightarrow> pres net_inv (modL f)"
  unfolding modL_def by (rule pres_modify) (auto simp: net_inv_def)

lemma pres_Stop: "pres net_inv (Stop e)"
  unfolding Stop_def stop_begin_def by (intro pres_intros pres_net_stop pres_modL_inv) simp

lemma pres_pauseNode: "pres net_inv (pauseNode e name)"
proof (rule presI)
  fix s r t
  assume inv: "net_inv s" and run: "pauseNode e name s = (r, t)"
  obtain l w where s: "s = (l, w)" by force
  have ok: "net_ok (ln_nodes l) (procs w)" using inv s by (simp add: net_inv_def)
  show "net_inv t"
  proof (cases "map_of (ln_nodes l) name")
    case None
    then show ?thesis using inv run s by (simp add: pauseNode_def)
  next
    case (Some node)
    let ?ps = "(procs w)[n_process node :=
      snd (np_Stop (os_exitCode e (clock w) (n_process node)) (procs w ! n_process node))]"
    note stopped = net_ok_stop [OF ok Some, of "os_exitCode e (clock w) (n_process node)"]
    have "node_ok name (node\<lparr>n_paused := True\<rparr>) ?ps"
      using net_ok_node [OF stopped(1) Some] stopped(2) by (simp add: node_ok_def)
    from net_ok_update [OF stopped(1) Some this] show ?thesis
      using run s Some stopped(1) inv
      by (auto simp: pauseNode_def bindP_def net_inv_def proc_Stop_eq split: if_splits prod.splits)
  qed
qed

text \<open>Writing to the maps of a stored configuration.\<close>

lemma pres_write_config:
  assumes "map_of (ln_nodes (fst s)) name = Some node" and "net_inv s"
    and "\<And>nc. r = Ok nc \<Longrightarrow> maps_made nc \<and> nc_Name nc = name"
    and "write_config name node r s = (q, t)"
  shows "net_inv t"
proof (cases r)
  case (Ok nc)
  have ok: "net_ok (ln_nodes (fst s)) (procs (snd s))" using assms(2) by (simp add: net_inv_def)
  have "node_ok name (node\<lparr>n_config := nc\<rparr>) (procs (snd s))"
    using net_ok_node [OF ok assms(1)] assms(3) Ok by (simp add: node_ok_def)
  from net_ok_update [OF ok assms(1) this] show ?thesis
    using assms(4) Ok by (auto simp: write_config_def net_inv_def)
qed (use assms in \<open>auto simp: write_config_def\<close>)

lemma mput_all_made: "mput_all src m = Ok m' \<Longrightarrow> m \<noteq> None \<Longrightarrow> m' \<noteq> None"
  using mput_all_Some [of src "the m"] by (cases m) auto

lemma pres_resumeNode: "pres net_inv (resumeNode e name)"
proof (rule presI)
  fix s r t
  assume inv: "net_inv s" and run: "resumeNode e name s = (r, t)"
  show "net_inv t"
  proof (cases "map_of (ln_nodes (fst s)) name")
    case None
    then show ?thesis using inv run by (simp add: resumeNode_def)
  next
    case (Some node)
    have node: "node_ok name node (procs (snd s))"
      using inv Some net_ok_node by (simp add: net_inv_def)
    let ?r = "bindR (mput_all (keep_flags e node) (nc_Flags (n_config node))) (\<lambda>fl.
      Ok ((n_config node)\<lparr>nc_Flags := fl\<rparr>))"
    obtain q u where w: "write_config name node ?r s = (q, u)" by (rule prod.exhaust)
    have "maps_made nc \<and> nc_Name nc = name" if "?r = Ok nc" for nc
      using that node by (auto simp: node_ok_def maps_made_def dest: mput_all_made)
    from pres_write_config [OF Some inv this w] have "net_inv u" .
    then show ?thesis
      using run Some w inv presD [OF pres_addNode, of u]
      by (cases q) (auto simp: resumeNode_def bindP_def ret_def split: if_splits prod.splits res.splits)
  qed
qed

lemma pres_restartNode: "pres net_inv (restartNode e name bin pd ts cc uc sc)"
proof (rule presI)
  fix s r t
  assume inv: "net_inv s" and run: "restartNode e name bin pd ts cc uc sc s = (r, t)"
  show "net_inv t"
  proof (cases "map_of (ln_nodes (fst s)) name")
    case None
    then show ?thesis using inv run by (simp add: restartNode_def)
  next
    case (Some node)
    have node: "node_ok name node (procs (snd s))"
      using inv Some net_ok_node by (simp add: net_inv_def)
    let ?r = "bindR (mput_all (restart_flags e node pd ts) (nc_Flags (n_config node))) (\<lambda>fl.
       bindR (mput_all (mrange cc) (nc_ChainConfigFiles (n_config node))) (\<lambda>ccf.
       bindR (mput_all (mrange uc) (nc_UpgradeConfigFiles (n_config node))) (\<lambda>ucf.
       bindR (mput_all (mrange sc) (nc_SubnetConfigFiles (n_config node))) (\<lambda>scf.
       Ok ((n_config node)\<lparr>nc_Flags := fl, nc_ChainConfigFiles := ccf,
             nc_UpgradeConfigFiles := ucf, nc_SubnetConfigFiles := scf\<rparr>)))))"
    let ?rest = "\<lambda>stored. let nodeConfig = (if bin \<noteq> [] then stored\<lparr>nc_BinaryPath := bin\<rparr> else stored) in
            bindP (if \<not> n_paused node then removeNode e name else ret ()) (\<lambda>_.
            bindP (addNode e nodeConfig) (\<lambda>_. ret ()))"
    obtain q u where w: "write_config name node ?r s = (q, u)" by (rule prod.exhaust)
    have "maps_made nc \<and> nc_Name nc = name" if "?r = Ok nc" for nc
      using that node by (auto simp: node_ok_def maps_made_def dest: mput_all_made)
    from pres_write_config [OF Some inv this w] have "net_inv u" .
    moreover have "pres net_inv (?rest nc)" for nc
      by (intro pres_intros pres_removeNode pres_addNode)
    moreover have "bindP (write_config name node ?r) ?rest s = (r, t)"
      using run Some by (simp add: restartNode_def)
    ultimately show ?thesis using w presD [of net_inv "?rest _" u r t]
      by (cases q) (auto simp: bindP_def simp del: Let_def)
  qed
qed

lemma pres_start_node: "pres net_inv (start_node e nc)"
  unfolding start_node_def by (intro pres_intros pres_addNode pres_net_stop)

lemma pres_loadConfig: "pres net_inv (loadConfig e cfg)"
  unfolding loadConfig_def by (intro pres_intros pres_start_node pres_modL_inv) simp_all

lemma pres_public:
  "pres net_inv (AddNode e nc)" "pres net_inv (RemoveNode e name)" "pres net_inv (PauseNode e name)"
  "pres net_inv (ResumeNode e name)" "pres net_inv (RestartNode e name bin pd ts cc uc sc)"
  unfolding AddNode_def RemoveNode_def PauseNode_def ResumeNode_def RestartNode_def
  by (intro pres_intros pres_addNode pres_removeNode pres_pauseNode pres_resumeNode pres_restartNode)+

section \<open>A network as a transition system\<close>

text \<open>
  The methods of \<^verbatim>\<open>network.Network\<close> that change the state, and the two parts of \<^verbatim>\<open>Stop\<close> as steps
  of their own, between which other methods may run.
\<close>

datatype net_op =
    OpLoadConfig NetConfig
  | OpAddNode NodeConfig
  | OpRemoveNode string
  | OpPauseNode string
  | OpResumeNode string
  | OpRestartNode string string string string "string gomap" "string gomap" "string gomap"
  | OpStopBegin
  | OpStopLocked

fun run_op :: "env \<Rightarrow> net_op \<Rightarrow> net_state \<Rightarrow> net_state" where
  "run_op e (OpLoadConfig cfg) s = snd (loadConfig e cfg s)"
| "run_op e (OpAddNode nc) s = snd (AddNode e nc s)"
| "run_op e (OpRemoveNode n) s = snd (RemoveNode e n s)"
| "run_op e (OpPauseNode n) s = snd (PauseNode e n s)"
| "run_op e (OpResumeNode n) s = snd (ResumeNode e n s)"
| "run_op e (OpRestartNode n bin pd ts cc uc sc) s = snd (RestartNode e n bin pd ts cc uc sc s)"
| "run_op e OpStopBegin s = snd (stop_begin s)"
| "run_op e OpStopLocked s = snd (net_stop e s)"

inductive net_step :: "env \<Rightarrow> net_state \<Rightarrow> net_state \<Rightarrow> bool" for e :: env where
  call: "net_step e s (run_op e oper s)"
| process_exits: "pid < length (procs w) \<Longrightarrow>
    net_step e (l, w) (l, w\<lparr>procs := (procs w)[pid := snd (np_Stop c (procs w ! pid))]\<rparr>)"
| others: "procs w' = procs w \<Longrightarrow> net_step e (l, w) (l, w')"

definition net_init :: "env \<Rightarrow> net_state \<Rightarrow> bool" where
  "net_init e s \<longleftrightarrow>
     (\<exists>rootDir snapshotsDir reassign w. procs w = [] \<and>
        newNetwork e rootDir snapshotsDir reassign w = (Ok (fst s), snd s))"

lemma newNetwork_Ok:
  assumes "newNetwork e rd sd re w = (Ok l, w')"
  shows "ln_nodes l = [] \<and> procs w' = procs w \<and> \<not> ln_onStopCh l \<and> \<not> ln_stopOnce l"
proof -
  have "pres (same_procs (procs w)) (newNetwork e rd sd re)"
    unfolding newNetwork_def MkDirWithTimestamp_def by (intro pres_intros fs_pres)
  from presD [OF this _ assms] have "procs w' = procs w" by (simp add: same_procs_def)
  moreover have "ln_nodes l = [] \<and> \<not> ln_onStopCh l \<and> \<not> ln_stopOnce l"
    using assms by (auto simp: newNetwork_def bindP_eq_Ok Let_def)
  ultimately show ?thesis by simp
qed

lemma net_inv_empty: "ln_nodes (fst s) = [] \<Longrightarrow> procs (snd s) = [] \<Longrightarrow> net_inv s"
  by (simp add: net_inv_def net_ok_def pid_live_def)

lemma net_ok_exit:
  assumes ok: "net_ok ns ps" and k: "k < length ps"
  shows "net_ok ns (ps[k := snd (np_Stop c (ps ! k))])"
proof (rule net_okI)
  note live = pid_live_stop [OF net_ok_wf(2) [OF ok] k]
  show "list_all np_ok (ps[k := snd (np_Stop c (ps ! k))])"
    using net_ok_wf(2) [OF ok] k np.stop_ok by (auto simp: list_all_length nth_list_update)
  show "node_ok m a (ps[k := snd (np_Stop c (ps ! k))])" if "map_of ns m = Some a" for m a
    using net_ok_node [OF ok that] live by (auto simp: node_ok_def)
  show "\<exists>m a. map_of ns m = Some a \<and> n_process a = pid"
    if "pid_live (ps[k := snd (np_Stop c (ps ! k))]) pid" for pid
    using that live net_ok_live [OF ok] by blast
qed (use net_ok_wf(1) [OF ok] net_ok_inj [OF ok] in auto)

lemma pres_snd: "pres P m \<Longrightarrow> P s \<Longrightarrow> P (snd (m s))"
  by (simp add: pres_def)

lemma net_inv_op: "net_inv s \<Longrightarrow> net_inv (run_op e oper s)"
  by (cases oper)
    (simp_all add: stop_begin_def pres_snd [OF pres_loadConfig] pres_snd [OF pres_public(1)]
      pres_snd [OF pres_public(2)] pres_snd [OF pres_public(3)] pres_snd [OF pres_public(4)]
      pres_snd [OF pres_public(5)] pres_snd [OF pres_net_stop] pres_snd [OF pres_modL_inv])

interpretation network: inductive_invariant "net_init e" "net_step e" net_inv for e
proof
  show "net_inv s" if "net_init e s" for s
    using that by (auto simp: net_init_def intro!: net_inv_empty dest: newNetwork_Ok)
  show "net_inv t" if "net_inv s" "net_step e s t" for s t
    using that(2,1) by cases (auto simp: net_inv_op, auto simp: net_inv_def net_ok_exit)
qed

subsection \<open>Stopping\<close>

lemma stop_one_Ok:
  "\<exists>er t. stop_one e name errs s = (Ok er, t) \<and>
     ln_nodes (fst t) = AList.delete name (ln_nodes (fst s)) \<and> ln_onStopCh (fst t) = ln_onStopCh (fst s) \<and>
     ln_stopOnce (fst t) = ln_stopOnce (fst s)"
proof (cases "map_of (ln_nodes (fst s)) name")
  case None
  then show ?thesis
    by (cases s) (auto simp: stop_one_def catchP_def bindP_def removeNode_missing ret_def map_of_eq_None_iff)
next
  case (Some node)
  then show ?thesis
    by (cases s) (auto simp: stop_one_def removeNode_def catchP_def bindP_def ret_def throw_def proc_Stop_eq
        split: prod.splits)
qed

lemma stop_all_Ok:
  "\<exists>er t. foldP (stop_one e) names errs s = (Ok er, t) \<and>
     ln_nodes (fst t) = fold AList.delete names (ln_nodes (fst s)) \<and>
     ln_onStopCh (fst t) = ln_onStopCh (fst s) \<and> ln_stopOnce (fst t) = ln_stopOnce (fst s)"
proof (induction names arbitrary: errs s)
  case (Cons n ns)
  obtain er t where one: "stop_one e n errs s = (Ok er, t)"
    "ln_nodes (fst t) = AList.delete n (ln_nodes (fst s))"
    "ln_onStopCh (fst t) = ln_onStopCh (fst s)" "ln_stopOnce (fst t) = ln_stopOnce (fst s)"
    using stop_one_Ok [of e n errs s] by blast
  from Cons.IH [of er t] one show ?case by (auto simp: bindP_def)
qed simp

lemma fold_delete: "map_of (fold AList.delete names ns) = (map_of ns) |` (- set names)"
proof (induction names arbitrary: ns)
  case (Cons n names)
  then show ?case by (auto simp: restrict_map_def fun_eq_iff)
qed (simp add: restrict_map_def fun_eq_iff)

lemma net_stop_result:
  assumes "net_stop e s = (r, t)"
  shows "ln_nodes (fst t) = [] \<and> \<not> is_Panic r \<and> ln_onStopCh (fst t) = ln_onStopCh (fst s) \<and>
    ln_stopOnce (fst t) = ln_stopOnce (fst s)"
proof -
  let ?names = "mkeys (ln_nodes (fst s))"
  obtain er u where all: "foldP (stop_one e) ?names None s = (Ok er, u)"
    "ln_nodes (fst u) = fold AList.delete ?names (ln_nodes (fst s))"
    "ln_onStopCh (fst u) = ln_onStopCh (fst s)" "ln_stopOnce (fst u) = ln_stopOnce (fst s)"
    using stop_all_Ok [of e ?names None s] by blast
  have "map_of (ln_nodes (fst u)) = Map.empty"
    using alist.names_dom [of "ln_nodes (fst s)"]
    by (auto simp: all(2) fold_delete restrict_map_def fun_eq_iff)
  then have "ln_nodes (fst u) = []" by simp
  moreover have "t = u" "\<not> is_Panic r"
    using assms all(1) by (auto simp: net_stop_def bindP_simps(1) split: option.splits)
  ultimately show ?thesis using all by simp
qed

lemma net_inv_no_nodes: "net_inv s \<Longrightarrow> ln_nodes (fst s) = [] \<Longrightarrow> live_procs (snd s) = {}"
  by (auto simp: net_inv_def net_ok_def live_procs_def proc_Status_def pid_live_def)

subsection \<open>Names\<close>

lemma suffix_name_inject [simp]: "suffix_name j = suffix_name k \<longleftrightarrow> j = k"
  by (simp add: suffix_name_def word_unat_eq_iff)

lemma unused_suffix_Some:
  "unused_suffix f nodes k = Some j \<Longrightarrow> map_of nodes (suffix_name j) = None"
  by (induction f nodes k rule: unused_suffix.induct) (auto split: if_splits)

lemma unused_suffix_None:
  "unused_suffix f nodes k = None \<Longrightarrow> i < f \<Longrightarrow> map_of nodes (suffix_name (k + of_nat i)) \<noteq> None"
proof (induction f arbitrary: k i)
  case (Suc f)
  then show ?case
  proof (cases i)
    case (Suc j)
    then have "map_of nodes (suffix_name (k + 1 + of_nat j)) \<noteq> None"
      using Suc.prems Suc.IH [of "k + 1" j] by (auto split: if_splits)
    with Suc show ?thesis by (simp add: add.assoc)
  qed (auto split: if_splits)
qed simp

text \<open>More candidates than nodes: one of them is unused.\<close>

lemma unused_suffix_total:
  assumes "length nodes < 2 ^ 64"
  shows "unused_suffix (Suc (length nodes)) nodes k \<noteq> None"
proof
  assume none: "unused_suffix (Suc (length nodes)) nodes k = None"
  let ?name = "\<lambda>i. suffix_name (k + of_nat i)"
  have "inj_on ?name {..length nodes}"
  proof (rule inj_onI)
    fix x y
    assume "x \<in> {..length nodes}" "y \<in> {..length nodes}" "?name x = ?name y"
    then have "unat (of_nat x :: 64 word) = unat (of_nat y :: 64 word)"
      "x < 2 ^ 64" "y < 2 ^ 64" using assms by auto
    then show "x = y" by (simp add: unat_of_nat)
  qed
  then have "card (?name ` {..length nodes}) = Suc (length nodes)" by (simp add: card_image)
  moreover have "?name ` {..length nodes} \<subseteq> fst ` set nodes"
    using unused_suffix_None [OF none] by (auto simp: map_of_eq_None_iff less_Suc_eq_le)
  then have "card (?name ` {..length nodes}) \<le> length nodes"
    by (metis List.finite_set card_image_le card_length card_mono finite_imageI le_trans)
  ultimately show False by simp
qed

lemma setNodeName_total:
  assumes "length (ln_nodes (fst s)) < 2 ^ 64" and "nc_Name nc = []"
  shows "\<exists>k t. setNodeName nc s = (Ok (nc\<lparr>nc_Name := suffix_name k\<rparr>), t) \<and>
    map_of (ln_nodes (fst s)) (suffix_name k) = None \<and> ln_nodes (fst t) = ln_nodes (fst s)"
proof -
  obtain k where k: "unused_suffix (Suc (length (ln_nodes (fst s)))) (ln_nodes (fst s))
      (ln_nextNodeSuffix (fst s)) = Some k"
    using unused_suffix_total [OF assms(1)] by blast
  then show ?thesis using unused_suffix_Some [OF k] assms(2)
    by (intro exI [of _ k]) (simp add: setNodeName_def bindP_def getL_def gets_def modL_def modify_def ret_def
        del: unused_suffix.simps)
qed

subsection \<open>Loading a configuration\<close>

lemma start_node_Err:
  assumes "start_node e nc s = (Err er, t)"
  shows "ln_nodes (fst t) = []"
proof -
  obtain r u where add: "bindP (addNode e nc) (\<lambda>_. ret ()) s = (r, u)" by (rule prod.exhaust)
  obtain q v where stop: "net_stop e u = (q, v)" by (rule prod.exhaust)
  from assms add stop have "t = v"
    by (cases r; cases q) (auto simp: start_node_def catchP_def bindP_def ret_def throw_def)
  then show ?thesis using net_stop_result [OF stop] by simp
qed

lemma start_nodes_Err:
  "forP ncs (start_node e) s = (Err er, t) \<Longrightarrow> ln_nodes (fst t) = []"
  by (induction ncs arbitrary: s) (auto simp: bindP_eq_Err dest: start_node_Err)

lemma loadConfig_Err:
  assumes "loadConfig e cfg s = (Err er, t)" and "ln_nodes (fst s) = []"
  shows "ln_nodes (fst t) = []"
  using assms by (auto simp: loadConfig_def bindP_eq_Err dest: start_nodes_Err)

definition all_running :: "net_state \<Rightarrow> bool" where
  "all_running s \<longleftrightarrow> (\<forall>name node. map_of (ln_nodes (fst s)) name = Some node \<longrightarrow>
     \<not> n_paused node \<and> pid_live (procs (snd s)) (n_process node))"

text \<open>While no node is paused, a node that is added has a new name.\<close>

lemma addNode_counts:
  assumes "net_inv s" "all_running s" "addNode e nc s = (Ok node, t)"
  shows "net_inv t \<and> all_running t \<and> length (ln_nodes (fst t)) = Suc (length (ln_nodes (fst s)))"
proof -
  have "add_post (ln_nodes (fst s)) (procs (snd s)) nc (Ok node) t"
    by (rule hoareD [OF hoare_addNode _ assms(3)]) (simp add: quiet_def)
  then have add: "node_added (ln_nodes (fst s)) (procs (snd s)) nc node t"
    by (auto simp: add_post_def)
  then have "map_of (ln_nodes (fst s)) (n_name node) = None"
    using assms(2) by (auto simp: node_added_def all_running_def split: option.splits)
  moreover have "wf_gmap (ln_nodes (fst s))" using assms(1) by (simp add: net_inv_def net_ok_wf)
  ultimately have "length (ln_nodes (fst t)) = Suc (length (ln_nodes (fst s)))"
    using alist.count_put_new [of "ln_nodes (fst s)" "n_name node" node] add
    by (simp add: node_added_def mkeys_def)
  moreover have "all_running t"
    using add assms(2)
    by (auto simp: node_added_def all_running_def pid_live_snoc split: if_splits)
  moreover have "net_inv t" using presD [OF pres_addNode assms(1,3)] .
  ultimately show ?thesis by simp
qed

lemma start_nodes_Ok:
  "net_inv s \<Longrightarrow> all_running s \<Longrightarrow> forP ncs (start_node e) s = (Ok (), t) \<Longrightarrow>
   all_running t \<and> length (ln_nodes (fst t)) = length (ln_nodes (fst s)) + length ncs"
proof (induction ncs arbitrary: s)
  case (Cons nc ncs)
  then obtain u where one: "start_node e nc s = (Ok (), u)" and rest: "forP ncs (start_node e) u = (Ok (), t)"
    by (auto simp: bindP_eq_Ok)
  obtain node where "addNode e nc s = (Ok node, u)"
    using one by (auto simp: start_node_def catchP_def bindP_def ret_def throw_def
        split: prod.splits res.splits)
  from addNode_counts [OF Cons.prems(1,2) this] Cons.IH [OF _ _ rest] show ?case by simp
qed simp

lemma loadConfig_Ok:
  assumes "net_inv s" "ln_nodes (fst s) = []" "loadConfig e cfg s = (Ok (), t)"
  shows "all_running t \<and> length (ln_nodes (fst t)) = length (cfg_NodeConfigs cfg)"
proof -
  let ?u = "\<lambda>nid. ((ln_genesis_update (\<lambda>_. cfg_Genesis cfg) (fst s))\<lparr>ln_networkID := nid,
     ln_flags := cfg_Flags cfg, ln_binaryPath := cfg_BinaryPath cfg,
     ln_chainConfigFiles := mmake (cfg_ChainConfigFiles cfg),
     ln_upgradeConfigFiles := mmake (cfg_UpgradeConfigFiles cfg),
     ln_subnetConfigFiles := mmake (cfg_SubnetConfigFiles cfg)\<rparr>, snd s)"
  from assms(3) obtain nid where
    run: "forP (beacons_first (cfg_NodeConfigs cfg)) (start_node e) (?u nid) = (Ok (), t)"
    by (auto simp: loadConfig_def bindP_eq_Ok)
  have "length (beacons_first ncs) = length ncs" for ncs
    by (simp add: beacons_first_def sum_length_filter_compl)
  moreover have "net_inv (?u nid)" "all_running (?u nid)"
    using assms(1,2) by (simp_all add: net_inv_def all_running_def)
  ultimately show ?thesis using start_nodes_Ok [OF _ _ run] assms(2) by simp
qed

end
