(* ===== verification/Network_Theorems.thy ===== *)
theory Network_Theorems
  imports Network_Invariant "HOL-Library.Multiset"
begin

text \<open>
  The theorems about a local network. The first section shows that adding a node succeeds when
  every request to the operating system and the libraries does, which gives the networks the
  theorems are applied to.
\<close>

section \<open>Requests that all succeed\<close>

text \<open>
  An environment in which no request fails. With it, \<^verbatim>\<open>AddNode\<close> is shown to return a node, so
  that the theorems about what it returns are not empty.
\<close>

definition smooth :: "env \<Rightarrow> bool" where
  "smooth e \<longleftrightarrow>
     (\<forall>t p. os_portFree e t p) \<and> (\<forall>t. os_draws e t \<noteq> []) \<and> (\<forall>t p. os_fsErr e t p = None) \<and>
     (\<forall>t b as. os_exec e t b as = Ok ()) \<and> (\<forall>t. os_pipeErr e t = None) \<and>
     (\<forall>t b. \<exists>out. os_version e t b = Ok out \<and> version_match out \<noteq> None) \<and>
     (\<forall>t. is_Ok (staking_NewCertAndKeyBytes e t)) \<and> (\<forall>t. is_Ok (bls_NewSecretKey e t)) \<and>
     (\<forall>k c. is_Ok (nodeID_of_keypair e k c))"

definition succeeds :: "('s, 'a) prog \<Rightarrow> bool" where
  "succeeds m \<longleftrightarrow> (\<forall>s. \<exists>x t. m s = (Ok x, t))"

named_theorems succ_intros \<open>rules for code that returns a value\<close>

lemma succ_basic [succ_intros]: "succeeds (ret x)" "succeeds (modify f)" "succeeds (gets g)" "succeeds getS"
  by (auto simp: succeeds_def ret_def modify_def gets_def getS_def)

lemma succ_bindP [succ_intros]: "succeeds m \<Longrightarrow> (\<And>x. succeeds (f x)) \<Longrightarrow> succeeds (bindP m f)"
  unfolding succeeds_def bindP_eq_Ok by metis

lemma succ_liftR: "is_Ok r \<Longrightarrow> succeeds (liftR r)"
  by (auto simp: succeeds_def is_Ok_iff)

lemma succ_wrapP [succ_intros]: "succeeds m \<Longrightarrow> succeeds (wrapP f as m)"
  by (simp add: succeeds_def wrapP_eq_Ok)

lemma succ_catchP [succ_intros]: "succeeds m \<Longrightarrow> succeeds (catchP m h)"
  unfolding succeeds_def catchP_def by (metis (mono_tags, lifting) case_prod_conv res.simps(10))

lemma succ_if [succ_intros]:
  "(b \<Longrightarrow> succeeds m) \<Longrightarrow> (\<not> b \<Longrightarrow> succeeds n) \<Longrightarrow> succeeds (if b then m else n)"
  by simp

lemma succ_forP [succ_intros]: "(\<And>x. succeeds (body x)) \<Longrightarrow> succeeds (forP xs body)"
  by (induction xs) (auto intro!: succ_intros)

lemma succ_foldP [succ_intros]: "(\<And>x acc. succeeds (body x acc)) \<Longrightarrow> succeeds (foldP body xs acc)"
  by (induction xs arbitrary: acc) (auto intro!: succ_intros)

lemma succ_prod [succ_intros]: "(\<And>a b. succeeds (f a b)) \<Longrightarrow> succeeds (case x of (a, b) \<Rightarrow> f a b)"
  by (cases x) simp

lemma succ_prod_fun [succ_intros]:
  "(\<And>a b. succeeds (f a b acc)) \<Longrightarrow> succeeds ((case x of (a, b) \<Rightarrow> f a b) acc)"
  by (cases x) simp

lemma succ_Let [succ_intros]: "(\<And>x. succeeds (f x)) \<Longrightarrow> succeeds (let x = v in f x)"
  by simp

lemma succ_tick [succ_intros]: "succeeds tick"
  unfolding tick_def by (intro succ_intros)

lemma succ_onW [succ_intros]: "succeeds m \<Longrightarrow> succeeds (onW m)"
  by (fastforce simp: succeeds_def onW_eq_iff)

lemma succ_getL [succ_intros]: "succeeds (getL f)" "succeeds (modL f')"
  by (auto simp: succeeds_def)

lemma succ_fs_op: "smooth e \<Longrightarrow> succeeds m \<Longrightarrow> succeeds (fs_op e p m)"
  unfolding fs_op_def by (intro succ_intros) (auto simp: smooth_def)

lemma succ_fs:
  assumes "smooth e"
  shows "succeeds (os_MkdirAll e p)" "succeeds (os_WriteFile e p c)" "succeeds (createFileAndWrite e p c)"
    "succeeds (write_at e p c)"
  using assms unfolding os_MkdirAll_def os_WriteFile_def createFileAndWrite_def write_at_def
  by (intro succ_fs_op succ_intros; assumption)+

lemma succ_writeFiles:
  assumes "smooth e" "is_Ok (b64_decode (nc_StakingSigningKey nc))"
  shows "succeeds (writeFiles e nid g d nc)"
  unfolding writeFiles_def by (intro succ_intros succ_liftR succ_fs assms)

lemma succ_makeNodeDir: "smooth e \<Longrightarrow> succeeds (makeNodeDir e d n)"
proof -
  assume sm: "smooth e"
  have "succeeds (catchP (os_Mkdir e (getNodeDir d n)) (\<lambda>er.
      if errors_Is er ErrExist then ret () else throw (Wrapf ''error creating temp dir %w'' [] er)))"
    using sm by (auto simp: succeeds_def catchP_def os_Mkdir_def fs_op_def smooth_def throw_def ret_def
        modify_def ErrExist_def)
  then show ?thesis unfolding makeNodeDir_def Let_def by (intro succ_bindP succ_basic)
qed

lemma succ_ports:
  assumes "smooth e"
  shows "succeeds (isFreePort e p)" "succeeds (getFreePort e)" "succeeds (free_port e)"
proof -
  show free: "succeeds (isFreePort e p)" for p
    using assms by (simp add: succeeds_def isFreePort_eq smooth_def)
  have "succeeds (try_ports e (os_draws e t))" for t
    using assms by (cases "os_draws e t") (auto simp: smooth_def intro!: succ_intros free)
  then show "succeeds (getFreePort e)" unfolding getFreePort_def by (intro succ_intros)
  then show "succeeds (free_port e)" unfolding free_port_def by (intro succ_intros)
qed

text \<open>Flags and config file entries of the types the runner expects.\<close>

definition flags_typed :: "env \<Rightarrow> val gomap \<Rightarrow> bool" where
  "flags_typed e fl \<longleftrightarrow>
     (\<forall>k \<in> {HTTPHostKey e, DataDirKey e, PluginDirKey e, DBPathKey e, LogsDirKey e}.
        case mget fl k of None \<Rightarrow> True | Some v \<Rightarrow> as_string v \<noteq> None) \<and>
     (\<forall>k \<in> {HTTPPortKey e, StakingPortKey e}.
        case mget fl k of None \<Rightarrow> True | Some (VFloat m n) \<Rightarrow> True | _ \<Rightarrow> False)"

definition node_flags_typed :: "env \<Rightarrow> (string \<Rightarrow> val option) \<Rightarrow> bool" where
  "node_flags_typed e fl \<longleftrightarrow>
     (\<forall>k \<in> {HTTPHostKey e, DataDirKey e, PluginDirKey e, DBPathKey e, LogsDirKey e}.
        case fl k of None \<Rightarrow> True | Some v \<Rightarrow> as_string v \<noteq> None) \<and>
     (\<forall>k \<in> {HTTPPortKey e, StakingPortKey e}.
        case fl k of None \<Rightarrow> True | Some (VFloat m n) \<Rightarrow> True | Some (VInt i) \<Rightarrow> True | _ \<Rightarrow> False)"

lemma entry_Ok:
  assumes "node_flags_typed e (mget fl)" "flags_typed e cf"
    and "k \<in> {HTTPHostKey e, DataDirKey e, PluginDirKey e, DBPathKey e, LogsDirKey e}"
  shows "is_Ok (getConfigEntry fl cf k d)"
proof -
  have "case mget fl k of None \<Rightarrow> True | Some v \<Rightarrow> as_string v \<noteq> None"
    "case mget cf k of None \<Rightarrow> True | Some v \<Rightarrow> as_string v \<noteq> None"
    using assms by (auto simp: node_flags_typed_def flags_typed_def)
  then show ?thesis
    by (auto simp: getConfigEntry_def split: option.splits val.splits)
qed

lemma port_Ok:
  assumes "smooth e" "node_flags_typed e (mget fl)" "flags_typed e cf"
    and "k \<in> {HTTPPortKey e, StakingPortKey e}"
  shows "succeeds (getPort e fl cf k b)"
proof -
  have "case mget fl k of None \<Rightarrow> True | Some (VFloat m n) \<Rightarrow> True | Some (VInt i) \<Rightarrow> True | _ \<Rightarrow> False"
    "case mget cf k of None \<Rightarrow> True | Some (VFloat m n) \<Rightarrow> True | _ \<Rightarrow> False"
    using assms by (auto simp: node_flags_typed_def flags_typed_def)
  then have "succeeds (given_port e fl cf k)"
    using assms(1)
    by (auto simp: given_port_def split: option.splits val.splits intro!: succ_intros succ_ports)
  then show ?thesis unfolding getPort_def by (intro succ_intros succ_ports assms(1))
qed

lemma succ_buildArgs:
  assumes "smooth e" "node_flags_typed e (mget (nc_Flags nc))" "flags_typed e cf"
    and "is_Ok (b64_decode (nc_StakingSigningKey nc))"
  shows "succeeds (buildArgs e v cf d nc)"
  unfolding buildArgs_def Let_def
  by (intro succ_intros succ_liftR entry_Ok [OF assms(2,3)] port_Ok [OF assms(1,2,3)]
      succ_writeFiles assms) simp_all

lemma succ_node_keys: "smooth e \<Longrightarrow> succeeds (node_keys e nc)"
  unfolding node_keys_def stakingKeys_def signingKey_def
  by (intro succ_intros succ_liftR) (auto simp: smooth_def is_Ok_iff)

lemma node_keys_decodes:
  assumes "node_keys e nc w = (Ok nc', w')"
    and "nc_StakingSigningKey nc = [] \<or> is_Ok (b64_decode (nc_StakingSigningKey nc))"
  shows "is_Ok (b64_decode (nc_StakingSigningKey nc'))"
proof -
  obtain nc1 w1 where keys: "stakingKeys e nc w = (Ok nc1, w1)" "signingKey e nc1 w1 = (Ok nc', w')"
    using assms(1) by (auto simp: node_keys_def bindP_eq_Ok)
  have "nc_StakingSigningKey nc1 = nc_StakingSigningKey nc"
    using keys(1) by (auto simp: stakingKeys_def bindP_eq_Ok split: if_splits)
  then show ?thesis using keys(2) assms(2)
    by (auto simp: signingKey_def bindP_eq_Ok split: if_splits)
qed

lemma succ_getNodeSemVer: "smooth e \<Longrightarrow> succeeds (getNodeSemVer e nc)"
  unfolding succeeds_def
proof (intro allI)
  fix s :: world
  assume "smooth e"
  then obtain out v where "os_version e (clock s) (nc_BinaryPath nc) = Ok out" "version_match out = Some v"
    unfolding smooth_def by blast
  then show "\<exists>x t. getNodeSemVer e nc s = (Ok x, t)"
    by (simp add: getNodeSemVer_def GetNodeVersion_def bindP_def wrapP_def liftR_def ret_def)
qed

lemma succ_zoomP: "succeeds m \<Longrightarrow> succeeds (zoomP g p m)"
  by (fastforce simp: succeeds_def zoomP_eq)

lemma succ_proc_new: "smooth e \<Longrightarrow> succeeds (proc_new e n b as)"
  by (simp add: succeeds_def proc_new_def smooth_def newNodeProcess_started ret_def)

lemma succ_NewNodeProcess: "smooth e \<Longrightarrow> succeeds (NewNodeProcess e nc as)"
  unfolding NewNodeProcess_def redirect_def NextColor_def
  by (intro succ_intros succ_zoomP succ_proc_new) (auto simp: smooth_def intro!: succ_intros)

lemma succ_describeNode:
  assumes "smooth e" "readConfigFile nc = Ok cf" "flags_typed e cf"
    and "node_flags_typed e (mget (nc_Flags nc))" "is_Ok (b64_decode (nc_StakingSigningKey nc))"
  shows "succeeds (describeNode e nc)"
  unfolding describeNode_def assms(2) bindP_liftR
  by (intro succ_intros succ_liftR succ_makeNodeDir succ_getNodeSemVer succ_buildArgs assms)
    (use assms(1) in \<open>auto simp: smooth_def ToNodeID_def is_Ok_iff\<close>)

text \<open>
  A configuration with keys and flags that can be read, and one that also has no name, an unused
  one or that of a paused node.
\<close>

definition startable :: "env \<Rightarrow> val gomap \<Rightarrow> NodeConfig \<Rightarrow> bool" where
  "startable e flags nc \<longleftrightarrow>
     (nc_StakingSigningKey nc = [] \<or> is_Ok (b64_decode (nc_StakingSigningKey nc))) \<and>
     (\<exists>cf. readConfigFile nc = Ok cf \<and> flags_typed e cf) \<and>
     node_flags_typed e (mget flags ++ mget (nc_Flags nc))"

definition addable :: "env \<Rightarrow> localNetwork \<Rightarrow> NodeConfig \<Rightarrow> bool" where
  "addable e l nc \<longleftrightarrow> startable e (ln_flags l) nc \<and>
     (if nc_Name nc = [] then length (ln_nodes l) < 2 ^ 64
      else (case map_of (ln_nodes l) (nc_Name nc) of None \<Rightarrow> True | Some old \<Rightarrow> n_paused old))"

lemma readConfigFile_cong: "nc_ConfigFile a = nc_ConfigFile b \<Longrightarrow> readConfigFile a = readConfigFile b"
  by (simp add: readConfigFile_def)

lemma prepareNode_succeeds:
  assumes sm: "smooth e" and ok: "addable e (fst s) nc"
  shows "\<exists>x t. prepareNode e nc s = (Ok x, t)"
proof -
  obtain nc1 where defs: "node_defaults (fst s) nc = Ok nc1" and nc1: "nc_Name nc1 = nc_Name nc"
    "nc_ConfigFile nc1 = nc_ConfigFile nc" "nc_StakingSigningKey nc1 = nc_StakingSigningKey nc"
    "mget (nc_Flags nc1) = mget (ln_flags (fst s)) ++ mget (nc_Flags nc)"
    using node_defaults_Ok [of "fst s" nc] by auto
  obtain nc2 w2 where keys: "node_keys e nc1 (snd s) = (Ok nc2, w2)"
    using succ_node_keys [OF sm] unfolding succeeds_def by blast
  have nc2: "nc_Name nc2 = nc_Name nc" "nc_ConfigFile nc2 = nc_ConfigFile nc"
    "mget (nc_Flags nc2) = mget (ln_flags (fst s)) ++ mget (nc_Flags nc)"
    "is_Ok (b64_decode (nc_StakingSigningKey nc2))"
    using node_keys_Ok [OF keys] nc1 node_keys_decodes [OF keys] ok by (auto simp: addable_def startable_def)
  obtain nm s3 where sn: "setNodeName nc2 (fst s, w2) = (Ok (nc2\<lparr>nc_Name := nm\<rparr>), s3)"
  proof (cases "nc_Name nc = []")
    case True
    then show ?thesis using that setNodeName_total [of "(fst s, w2)" nc2] ok nc2
      by (auto simp: addable_def startable_def)
  next
    case False
    then have "setNodeName nc2 (fst s, w2) = (Ok (nc2\<lparr>nc_Name := nc_Name nc2\<rparr>), (fst s, w2))"
      using ok nc2 by (auto simp: setNodeName_def ret_def addable_def split: option.splits)
    then show ?thesis by (rule that)
  qed
  let ?nc = "nc2\<lparr>nc_Name := nm\<rparr>"
  obtain cf where "readConfigFile ?nc = Ok cf" "flags_typed e cf"
    using ok readConfigFile_cong [of ?nc nc] nc2(2) by (auto simp: addable_def startable_def)
  then have "succeeds (describeNode e ?nc)"
    using sm ok nc2 by (intro succ_describeNode) (simp_all add: addable_def startable_def)
  then obtain x t where "describeNode e ?nc s3 = (Ok x, t)" unfolding succeeds_def by blast
  then show ?thesis
    using defs keys sn
    by (intro exI [of _ x] exI [of _ t], cases s3) (auto simp: prepareNode_def bindP_eq_Ok onW_eq_iff)
qed

lemma addNode_succeeds:
  assumes sm: "smooth e" and ok: "addable e (fst s) nc"
    and beacon: "\<And>b bs. nc_IsBeacon nc \<Longrightarrow> is_Ok (beacon_Add e b bs)"
  shows "\<exists>node t. addNode e nc s = (Ok node, t)"
proof -
  obtain nc' pz d nid u where prep: "prepareNode e nc s = (Ok (nc', pz, d, nid), u)"
    using prepareNode_succeeds [OF sm ok] by auto
  have "succeeds (launchNode e nc' pz d nid)"
    unfolding launchNode_def Let_def addBeacon_def
    using prepareNode_Ok [OF prep]
    by (intro succ_intros succ_liftR succ_NewNodeProcess sm beacon) (simp add: mkNode_def)
  then obtain node t where "launchNode e nc' pz d nid u = (Ok node, t)" unfolding succeeds_def by blast
  with prep show ?thesis by (auto simp: addNode_def bindP_eq_Ok)
qed

lemma succ_newNetwork: "smooth e \<Longrightarrow> succeeds (newNetwork e rd sd re)"
  unfolding newNetwork_def MkDirWithTimestamp_def by (intro succ_intros succ_fs) assumption+

text \<open>Adding a node leaves the settings of the network alone.\<close>

definition settings :: "localNetwork \<Rightarrow> val gomap \<times> bool \<times> bool \<times> string \<times> bool" where
  "settings l = (ln_flags l, ln_stopOnce l, ln_onStopCh l, ln_rootDir l, ln_reassignPortsIfUsed l)"

lemma settings_modL: "(\<And>l. settings (f l) = settings l) \<Longrightarrow> pres (\<lambda>s. settings (fst s) = x) (modL f)"
  unfolding modL_def by (rule pres_modify) auto

lemma settings_onW: "pres (\<lambda>s. settings (fst s) = x) (onW m)"
  by (rule presI) (auto simp: onW_eq_iff)

lemma settings_NextColor: "pres (\<lambda>s. settings (fst s) = x)
    (zoomP (ln_colorPicker \<circ> fst) (\<lambda>c. apfst (ln_colorPicker_update (\<lambda>_. c))) NextColor)"
  by (rule presI) (auto simp: zoomP_eq settings_def)

lemma settings_setNodeName: "pres (\<lambda>s. settings (fst s) = x) (setNodeName nc)"
  unfolding setNodeName_def by (intro pres_intros settings_modL) (simp_all add: settings_def)

lemma settings_addNode: "pres (\<lambda>s. settings (fst s) = x) (addNode e nc)"
  unfolding addNode_def prepareNode_def describeNode_def launchNode_def NewNodeProcess_def addBeacon_def
    buildArgs_def
  by (intro pres_intros settings_onW settings_NextColor settings_modL settings_setNodeName)
    (simp_all add: settings_def)

lemma mset_beacons_first [simp]: "mset (beacons_first ncs) = mset ncs"
  by (simp add: beacons_first_def)

text \<open>Loading a configuration does not mark the network as stopped.\<close>

lemma stopOnce_modL:
  "(\<And>l. ln_stopOnce (f l) = ln_stopOnce l) \<Longrightarrow> pres (\<lambda>s. ln_stopOnce (fst s) = b) (modL f)"
  unfolding modL_def by (rule pres_modify) auto

lemma stopOnce_net_stop: "pres (\<lambda>s. ln_stopOnce (fst s) = b) (net_stop e)"
  by (rule presI) (auto dest: net_stop_result)

lemma loadConfig_stopOnce: "pres (\<lambda>s. ln_stopOnce (fst s) = b) (loadConfig e cfg)"
proof -
  have "pres (\<lambda>s. ln_stopOnce (fst s) = b) (addNode e nc)" for nc
  proof (rule presI)
    fix s r t
    assume b: "ln_stopOnce (fst s) = b" and add: "addNode e nc s = (r, t)"
    have "settings (fst t) = settings (fst s)" by (rule presD [OF settings_addNode _ add]) simp
    then show "ln_stopOnce (fst t) = b" using b by (simp add: settings_def)
  qed
  then show ?thesis unfolding loadConfig_def start_node_def
    by (intro pres_intros stopOnce_modL stopOnce_net_stop) simp_all
qed

lemma start_nodes_succeed:
  assumes sm: "smooth e" and beacons: "\<And>b bs. is_Ok (beacon_Add e b bs)"
  shows "distinct (map nc_Name ncs) \<Longrightarrow> (\<And>nc. nc \<in> set ncs \<Longrightarrow> nc_Name nc \<noteq> [] \<and> addable e (fst s) nc) \<Longrightarrow>
    \<exists>t. forP ncs (start_node e) s = (Ok (), t)"
proof (induction ncs arbitrary: s)
  case (Cons nc ncs)
  obtain node u where add: "addNode e nc s = (Ok node, u)"
    using addNode_succeeds [OF sm _ beacons] Cons.prems(2) by (metis list.set_intros(1))
  have "ln_flags (fst u) = ln_flags (fst s)"
    using presD [OF settings_addNode [of "settings (fst s)"] _ add] by (simp add: settings_def)
  moreover have "add_post (ln_nodes (fst s)) (procs (snd s)) nc (Ok node) u"
    by (rule hoareD [OF hoare_addNode _ add]) (simp add: quiet_def)
  then have "ln_nodes (fst u) = AList.update (nc_Name nc) node (ln_nodes (fst s))"
    using Cons.prems(2) by (auto simp: add_post_def node_added_def)
  ultimately have "\<exists>t. forP ncs (start_node e) u = (Ok (), t)"
    using Cons.prems by (intro Cons.IH) (auto simp: addable_def image_iff)
  moreover have "start_node e nc s = (Ok (), u)"
    using add by (simp add: start_node_def catchP_def bindP_def ret_def)
  ultimately show ?case by (simp add: bindP_def)
qed simp

lemma loadConfig_succeeds:
  assumes "smooth e" "\<And>b bs. is_Ok (beacon_Add e b bs)" and "ln_nodes (fst s) = []"
    and "NetConfig_Validate e cfg = Ok ()" "distinct (map nc_Name (cfg_NodeConfigs cfg))"
    and "\<And>nc. nc \<in> set (cfg_NodeConfigs cfg) \<Longrightarrow>
      nc_Name nc \<noteq> [] \<and> addable e ((fst s)\<lparr>ln_flags := cfg_Flags cfg\<rparr>) nc"
  shows "\<exists>t. loadConfig e cfg s = (Ok (), t)"
proof -
  obtain nid where nid: "NetworkIDFromGenesis (cfg_Genesis cfg) = Ok nid"
    using assms(4) by (auto simp: NetConfig_Validate_def split: if_splits res.splits)
  have "distinct (map nc_Name (beacons_first (cfg_NodeConfigs cfg)))"
    using assms(5) mset_eq_imp_distinct_iff [of "map nc_Name (beacons_first (cfg_NodeConfigs cfg))"
        "map nc_Name (cfg_NodeConfigs cfg)"] by simp
  then have "\<exists>t. forP (beacons_first (cfg_NodeConfigs cfg)) (start_node e) u = (Ok (), t)"
    if "ln_nodes (fst u) = []" "ln_flags (fst u) = cfg_Flags cfg" for u
    using assms(1-3,6) that
    by (intro start_nodes_succeed) (auto simp: beacons_first_def addable_def)
  then show ?thesis using assms(3,4) nid by (simp add: loadConfig_def)
qed

lemma NewNetwork_total:
  assumes "smooth e" "\<And>b bs. is_Ok (beacon_Add e b bs)"
    and "NetConfig_Validate e cfg = Ok ()" "distinct (map nc_Name (cfg_NodeConfigs cfg))"
    and "\<And>nc. nc \<in> set (cfg_NodeConfigs cfg) \<Longrightarrow> nc_Name nc \<noteq> [] \<and> startable e (cfg_Flags cfg) nc"
  shows "\<exists>l w'. NewNetwork e cfg rootDir snapshotsDir reassign w = (Ok (), Some l, w')"
proof -
  obtain l w1 where new: "newNetwork e rootDir snapshotsDir reassign w = (Ok l, w1)"
    using succ_newNetwork [OF assms(1)] unfolding succeeds_def by blast
  have "\<exists>t. loadConfig e cfg (l, w1) = (Ok (), t)"
    using assms newNetwork_Ok [OF new] by (intro loadConfig_succeeds) (auto simp: addable_def)
  with new show ?thesis by (auto simp: NewNetwork_def)
qed

text \<open>A name that a running node has is refused.\<close>

lemma addNode_repeated_name:
  assumes sm: "smooth e" and node: "map_of (ln_nodes (fst s)) (nc_Name nc) = Some node" "\<not> n_paused node"
    and name: "nc_Name nc \<noteq> []"
  shows "\<exists>t. addNode e nc s = (Err (Errorf ''repeated node name %q'' [nc_Name nc]), t)"
proof -
  obtain nc1 where defs: "node_defaults (fst s) nc = Ok nc1" "nc_Name nc1 = nc_Name nc"
    using node_defaults_Ok [of "fst s" nc] by auto
  obtain nc2 w2 where keys: "node_keys e nc1 (snd s) = (Ok nc2, w2)"
    using succ_node_keys [OF sm] unfolding succeeds_def by blast
  have nm: "nc_Name nc2 = nc_Name nc" using node_keys_Ok [OF keys] defs(2) by auto
  have "setNodeName nc2 (fst s, w2) = (Err (Errorf ''repeated node name %q'' [nc_Name nc]), (fst s, w2))"
    using node name nm by (simp add: setNodeName_def throw_def)
  then show ?thesis using defs keys
    by (auto simp: addNode_def prepareNode_def bindP_eq_Err onW_eq_iff)
qed

lemma loadConfig_repeated_name:
  assumes sm: "smooth e" and beacons: "\<And>b bs. is_Ok (beacon_Add e b bs)" and "ln_nodes (fst s) = []"
    and valid: "NetConfig_Validate e cfg = Ok ()"
    and ncs: "beacons_first (cfg_NodeConfigs cfg) = nc # nc' # rest" "nc_Name nc' = nc_Name nc"
    and nc: "nc_Name nc \<noteq> []" "startable e (cfg_Flags cfg) nc"
  shows "\<exists>er t. loadConfig e cfg s = (Err er, t)"
proof -
  obtain nid where nid: "NetworkIDFromGenesis (cfg_Genesis cfg) = Ok nid"
    using valid by (auto simp: NetConfig_Validate_def split: if_splits res.splits)
  have "\<exists>er t. forP (nc # nc' # rest) (start_node e) u = (Err er, t)"
    if u: "ln_nodes (fst u) = []" "ln_flags (fst u) = cfg_Flags cfg" for u
  proof -
    have "addable e (fst u) nc" using nc u by (simp add: addable_def)
    then obtain node v where add: "addNode e nc u = (Ok node, v)"
      using addNode_succeeds [OF sm _ beacons] by blast
    have "add_post (ln_nodes (fst u)) (procs (snd u)) nc (Ok node) v"
      by (rule hoareD [OF hoare_addNode _ add]) (simp add: quiet_def)
    then have "map_of (ln_nodes (fst v)) (nc_Name nc') = Some node" "\<not> n_paused node"
      using nc ncs(2) by (auto simp: add_post_def node_added_def)
    then obtain er x where rej: "addNode e nc' v = (Err er, x)"
      using addNode_repeated_name [OF sm] nc ncs(2) by metis
    obtain q y where "net_stop e x = (q, y)" by (rule prod.exhaust)
    with rej net_stop_result [OF this] have "\<exists>er t. start_node e nc' v = (Err er, t)"
      by (cases q) (auto simp: start_node_def catchP_def bindP_def ret_def throw_def)
    moreover have "start_node e nc u = (Ok (), v)"
      using add by (simp add: start_node_def catchP_def bindP_def ret_def)
    ultimately show ?thesis by (auto simp: bindP_def)
  qed
  then show ?thesis using assms(3) valid nid by (simp add: loadConfig_def ncs(1) del: forP.simps)
qed

section \<open>Properties\<close>

text \<open>
  C3. No process is left behind: whatever methods run in whatever order, also while \<^verbatim>\<open>Stop\<close> is
  between its two parts, whatever errors they meet and whenever processes exit on their own,
  a process that is still running belongs to exactly one node of the network, which is stored
  under its own name and not paused.
\<close>

theorem no_orphan_processes:
  assumes "reachable (net_init e) (net_step e) s" and "pid \<in> live_procs (snd s)"
  shows "\<exists>!node. \<exists>name. map_of (ln_nodes (fst s)) name = Some node \<and> n_name node = name \<and>
    n_process node = pid \<and> \<not> n_paused node"
proof -
  have ok: "net_ok (ln_nodes (fst s)) (procs (snd s))"
    using network.reachable_inv [OF assms(1)] by (simp add: net_inv_def)
  have live: "pid_live (procs (snd s)) pid"
    using assms(2) by (simp add: live_procs_def pid_live_def proc_Status_def)
  then obtain name node where "map_of (ln_nodes (fst s)) name = Some node" "n_process node = pid"
    using net_ok_live [OF ok] by blast
  note node = this
  have "n_name node = name \<and> \<not> n_paused node"
    using net_ok_node [OF ok node(1)] live node(2) by (auto simp: node_ok_def)
  moreover have "b = node" if "map_of (ln_nodes (fst s)) m = Some b" "n_process b = pid" for m b
    using net_ok_inj [OF ok that(1) node(1)] that node by simp
  ultimately show ?thesis using node by blast
qed


text \<open>
  After \<^verbatim>\<open>Stop\<close>, \<^verbatim>\<open>ResumeNode\<close> and \<^verbatim>\<open>RestartNode\<close> do not return \<open>ErrStopped\<close>, unlike what the
  interface \<^verbatim>\<open>network.Network\<close> says of \<^verbatim>\<open>ResumeNode\<close>: they report that the node is not found.
\<close>

theorem ResumeNode_after_Stop:
  assumes "\<not> ln_stopOnce (fst s)" and "Stop e s = (r, t)"
  shows "ResumeNode e n t = (Err (node_not_found n), t) \<and>
    RestartNode e n bin pd ts cc uc sc t = (Err (node_not_found n), t) \<and>
    node_not_found n \<noteq> ErrStopped"
  using assms net_stop_result [of e "((fst s)\<lparr>ln_stopOnce := True, ln_onStopCh := True\<rparr>, snd s)" r t]
  by (simp add: Stop_def stop_begin_def ResumeNode_def resumeNode_def RestartNode_def restartNode_def
      throw_def node_not_found_def ErrStopped_def)


text \<open>
  C23. A network that could not be created leaves nothing running: if loading the
  configuration fails, be it at the last of many nodes, all processes it has started are
  stopped and the network has no nodes.
\<close>

theorem NewNetwork_failure_leaves_no_process:
  assumes "procs w = []" and "NewNetwork e cfg rootDir snapshotsDir reassign w = (Err er, Some l, w')"
  shows "ln_nodes l = [] \<and> live_procs w' = {}"
proof -
  obtain l0 w0 where new: "newNetwork e rootDir snapshotsDir reassign w = (Ok l0, w0)"
    and load: "loadConfig e cfg (l0, w0) = (Err er, (l, w'))"
    using assms(2) by (auto simp: NewNetwork_def split: prod.splits res.splits)
  have inv: "net_inv (l0, w0)"
    using newNetwork_Ok [OF new] assms(1) by (intro net_inv_empty) simp_all
  have "ln_nodes l = []" using loadConfig_Err [OF load] newNetwork_Ok [OF new] by simp
  moreover have "net_inv (l, w')" using presD [OF pres_loadConfig inv load] .
  ultimately show ?thesis using net_inv_no_nodes [of "(l, w')"] by simp
qed

text \<open>
  A network that is created has one running node for every node configuration: names that
  are not given are generated without clashes, and repeated names make the creation fail.
\<close>

theorem NewNetwork_starts_all_nodes:
  assumes "procs w = []" and "NewNetwork e cfg rootDir snapshotsDir reassign w = (Ok (), Some l, w')"
  shows "length (ln_nodes l) = length (cfg_NodeConfigs cfg) \<and> distinct (mkeys (ln_nodes l)) \<and>
    (\<forall>(name, node) \<in> set (ln_nodes l).
       n_name node = name \<and> \<not> n_paused node \<and> n_process node \<in> live_procs w')"
proof -
  obtain l0 w0 where new: "newNetwork e rootDir snapshotsDir reassign w = (Ok l0, w0)"
    and load: "loadConfig e cfg (l0, w0) = (Ok (), (l, w'))"
    using assms(2) by (auto simp: NewNetwork_def split: prod.splits res.splits)
  have inv: "net_inv (l0, w0)"
    using newNetwork_Ok [OF new] assms(1) by (intro net_inv_empty) simp_all
  have res: "all_running (l, w')" "length (ln_nodes l) = length (cfg_NodeConfigs cfg)"
    using loadConfig_Ok [OF inv _ load] newNetwork_Ok [OF new] by simp_all
  have ok: "net_ok (ln_nodes l) (procs w')"
    using presD [OF pres_loadConfig inv load] by (simp add: net_inv_def)
  have "map_of (ln_nodes l) name = Some node" if "(name, node) \<in> set (ln_nodes l)" for name node
    using that net_ok_wf(1) [OF ok] by (simp add: wf_gmap_def)
  then show ?thesis
    using res net_ok_node [OF ok] net_ok_wf(1) [OF ok]
    by (fastforce simp: all_running_def node_ok_def wf_gmap_def mkeys_def live_procs_def pid_live_def
        proc_Status_def)
qed

text \<open>
  A node without a name gets an unused one: the search always ends (while there are fewer
  than \<open>2^64\<close> nodes) and the name it finds is the default prefix with a number and belongs to
  no node, paused ones included.
\<close>

theorem setNodeName_finds_unused_name:
  assumes "length (ln_nodes (fst s)) < 2 ^ 64" and "nc_Name nc = []"
  shows "\<exists>k t. setNodeName nc s = (Ok (nc\<lparr>nc_Name := suffix_name k\<rparr>), t) \<and>
    map_of (ln_nodes (fst s)) (suffix_name k) = None \<and> ln_nodes (fst t) = ln_nodes (fst s)"
  by (rule setNodeName_total [OF assms])

section \<open>The theorems at work\<close>

text \<open>A network of two nodes, one of them a beacon, in an environment where nothing fails.\<close>

definition demo_env2 :: env where
  "demo_env2 = demo_env\<lparr>beacon_Add := (\<lambda>b bs. Ok (bs @ [b]))\<rparr>"

definition demo_config2 :: NetConfig where
  "demo_config2 = demo_config [demo_node ''a'' True, demo_node ''b'' False]"

lemma demo_smooth: "smooth demo_env" "smooth demo_env2"
proof -
  have "version_match ''lux/1.10.0 [database=v1.4.5]'' \<noteq> None" by code_simp
  then show "smooth demo_env" "smooth demo_env2" by (auto simp: smooth_def demo_env2_def demo_env_def)
qed

definition demo_net0 :: localNetwork where
  "demo_net0 =
     \<lparr>ln_networkID = 0, ln_genesis = [], ln_colorPicker = NewColorPicker, ln_stopOnce = False,
      ln_onStopCh = False, ln_nextNodeSuffix = 1, ln_nodes = [], ln_bootstraps = [],
      ln_rootDir = ''/tmp/net'', ln_snapshotsDir = ''/tmp/snapshots'', ln_flags = None,
      ln_binaryPath = [], ln_chainConfigFiles = None, ln_upgradeConfigFiles = None,
      ln_subnetConfigFiles = None, ln_reassignPortsIfUsed = True,
      ln_subnetID2ElasticSubnetID = []\<rparr>"

definition demo_start :: net_state where
  "demo_start = (demo_net0, snd (newNetwork demo_env2 ''/tmp/net'' ''/tmp/snapshots'' True demo_world))"

definition demo_state :: net_state where
  "demo_state = run_op demo_env2 (OpLoadConfig demo_config2) demo_start"

lemma demo_startable: "startable demo_env2 (cfg_Flags demo_config2) (demo_node n b)"
  by (auto simp: startable_def demo_env2_def demo_config2_def demo_config_def demo_node_def demo_env_def
      readConfigFile_def flags_typed_def node_flags_typed_def map_add_def)

lemma demo_valid2: "NetConfig_Validate demo_env2 demo_config2 = Ok ()"
  by (simp add: NetConfig_Validate_def demo_config2_def demo_config_def demo_genesis_id demo_genesis_nonempty
      demo_node_def NodeConfig_Validate_def validateConfigFile_def)

lemma demo_nodes:
  "is_Ok (beacon_Add demo_env2 b bs)" "distinct (map nc_Name (cfg_NodeConfigs demo_config2))"
  "nc \<in> set (cfg_NodeConfigs demo_config2) \<Longrightarrow>
     nc_Name nc \<noteq> [] \<and> startable demo_env2 (cfg_Flags demo_config2) nc"
  using demo_startable by (auto simp: demo_env2_def demo_config2_def demo_config_def)
    (simp_all add: demo_node_def)


lemma demo_new: "newNetwork demo_env2 ''/tmp/net'' ''/tmp/snapshots'' True demo_world = (Ok demo_net0, snd demo_start)"
proof -
  obtain l w where new: "newNetwork demo_env2 ''/tmp/net'' ''/tmp/snapshots'' True demo_world = (Ok l, w)"
    using succ_newNetwork [OF demo_smooth(2)] unfolding succeeds_def by blast
  moreover have "l = demo_net0"
    using new by (auto simp: newNetwork_def bindP_eq_Ok Let_def demo_net0_def)
  ultimately show ?thesis by (simp add: demo_start_def)
qed

lemma demo_start_pair: "demo_start = (demo_net0, snd demo_start)"
  by (simp add: demo_start_def)

lemma demo_init: "net_init demo_env2 demo_start"
  unfolding net_init_def
proof (intro exI conjI)
  show "newNetwork demo_env2 ''/tmp/net'' ''/tmp/snapshots'' True demo_world =
      (Ok (fst demo_start), snd demo_start)"
    using demo_new by (simp add: demo_start_def)
qed (simp add: demo_world_def)

lemma demo_reachable: "reachable (net_init demo_env2) (net_step demo_env2) demo_state"
  unfolding demo_state_def using reach_init [of "net_init demo_env2", OF demo_init]
  by (rule reach_step) (rule net_step.call)

lemma demo_loaded: "loadConfig demo_env2 demo_config2 demo_start = (Ok (), demo_state)"
proof -
  have "\<exists>t. loadConfig demo_env2 demo_config2 demo_start = (Ok (), t)"
    using demo_smooth demo_nodes demo_valid2
    by (intro loadConfig_succeeds) (auto simp: addable_def demo_start_def demo_net0_def)
  then show ?thesis by (auto simp: demo_state_def)
qed

lemma demo_running: "all_running demo_state" "length (ln_nodes (fst demo_state)) = 2"
  using loadConfig_Ok [OF network.inv_init [OF demo_init] _ demo_loaded]
  by (simp_all add: demo_start_def demo_net0_def demo_config2_def demo_config_def)


lemma demo_live: "\<exists>pid. pid \<in> live_procs (snd demo_state)"
proof -
  obtain name node rest where "ln_nodes (fst demo_state) = (name, node) # rest"
    using demo_running(2) by (cases "ln_nodes (fst demo_state)") auto
  then have "pid_live (procs (snd demo_state)) (n_process node)"
    using demo_running(1) unfolding all_running_def by (metis map_of_Cons_code(2))
  then show ?thesis by (auto simp: live_procs_def pid_live_def proc_Status_def)
qed

theorem no_orphan_processes_witness:
  "\<exists>pid. pid \<in> live_procs (snd demo_state) \<and>
     (\<exists>!node. \<exists>name. map_of (ln_nodes (fst demo_state)) name = Some node \<and> n_name node = name \<and>
        n_process node = pid \<and> \<not> n_paused node)"
  using demo_live no_orphan_processes [OF demo_reachable] by blast

lemma demo_not_stopped: "\<not> ln_stopOnce (fst demo_state)"
proof -
  have "pres (\<lambda>s. ln_stopOnce (fst s) = False) (loadConfig demo_env2 demo_config2)"
    by (rule loadConfig_stopOnce)
  from presD [OF this _ demo_loaded] show ?thesis by (simp add: demo_start_def demo_net0_def)
qed


theorem ResumeNode_after_Stop_witness:
  "ResumeNode demo_env2 ''a'' (snd (Stop demo_env2 demo_state)) =
     (Err (node_not_found ''a''), snd (Stop demo_env2 demo_state))"
  using ResumeNode_after_Stop [OF demo_not_stopped, of demo_env2 "fst (Stop demo_env2 demo_state)"
      "snd (Stop demo_env2 demo_state)"]
  by simp

theorem NewNetwork_starts_all_nodes_witness:
  "\<exists>l w'. NewNetwork demo_env2 demo_config2 ''/tmp/net'' [] True demo_world = (Ok (), Some l, w') \<and>
     length (ln_nodes l) = 2 \<and> live_procs w' \<noteq> {}"
proof -
  obtain l w' where new: "NewNetwork demo_env2 demo_config2 ''/tmp/net'' [] True demo_world = (Ok (), Some l, w')"
    using NewNetwork_total [OF demo_smooth(2) demo_nodes(1) demo_valid2 demo_nodes(2,3)] by blast
  have "length (cfg_NodeConfigs demo_config2) = 2" by (simp add: demo_config2_def demo_config_def)
  with NewNetwork_starts_all_nodes [OF _ new] have "length (ln_nodes l) = 2"
    "\<forall>(name, node) \<in> set (ln_nodes l). n_process node \<in> live_procs w'"
    by (auto simp: demo_world_def)
  then show ?thesis using new by (cases "ln_nodes l") auto
qed

text \<open>Two nodes of the same name: the first is started, the second is rejected.\<close>

theorem NewNetwork_failure_leaves_no_process_witness:
  "\<exists>er l w'. NewNetwork demo_env2 (demo_config [demo_node ''a'' True, demo_node ''a'' False])
       ''/tmp/net'' ''/tmp/snapshots'' True demo_world = (Err er, Some l, w') \<and>
     ln_nodes l = [] \<and> live_procs w' = {}"
proof -
  let ?cfg = "demo_config [demo_node ''a'' True, demo_node ''a'' False]"
  have "NetConfig_Validate demo_env2 ?cfg = Ok ()"
    by (simp add: NetConfig_Validate_def demo_config_def demo_genesis_id demo_genesis_nonempty
        demo_node_def NodeConfig_Validate_def validateConfigFile_def)
  note valid = this
  have start: "startable demo_env2 (cfg_Flags ?cfg) (demo_node ''a'' True)"
    using demo_startable by (simp add: demo_config2_def demo_config_def)
  have name: "nc_Name (demo_node ''a'' b) = ''a''" for b by (simp add: demo_node_def)
  have order: "beacons_first (cfg_NodeConfigs ?cfg) = [demo_node ''a'' True, demo_node ''a'' False]"
    by (simp add: beacons_first_def demo_config_def demo_node_def)
  have none: "ln_nodes (fst demo_start) = []" by (simp add: demo_start_def demo_net0_def)
  obtain er t where "loadConfig demo_env2 ?cfg demo_start = (Err er, t)"
    using loadConfig_repeated_name [OF demo_smooth(2) demo_nodes(1) none valid order _ _ start]
    unfolding name by blast
  then have "NewNetwork demo_env2 ?cfg ''/tmp/net'' ''/tmp/snapshots'' True demo_world = (Err er, Some (fst t), snd t)"
    using demo_start_pair by (simp add: NewNetwork_def demo_new split: prod.split)
  with NewNetwork_failure_leaves_no_process [OF _ this] show ?thesis by (simp add: demo_world_def)
qed

theorem setNodeName_finds_unused_name_witness:
  "\<exists>k t. setNodeName ((demo_node [] False)) demo_state =
     (Ok ((demo_node [] False)\<lparr>nc_Name := suffix_name k\<rparr>), t) \<and>
     map_of (ln_nodes (fst demo_state)) (suffix_name k) = None"
  using setNodeName_finds_unused_name [of demo_state "demo_node [] False"] demo_running(2)
  by (auto simp: demo_node_def)

end
