(* ===== verification/Node_Lifecycle.thy ===== *)
theory Node_Lifecycle
  imports Network_Theorems
begin

text \<open>
  What each method of a local network does to its nodes: the effect of adding, removing, pausing,
  resuming and restarting a node on the node itself, on its process and on all other nodes, and
  the arguments a node process is started with.
\<close>

section \<open>Lemmas\<close>

lemma live_procs_iff: "pid \<in> live_procs w \<longleftrightarrow> pid_live (procs w) pid"
  by (simp add: live_procs_def pid_live_def proc_Status_def)

lemma bindP_onW_Ok: "m (snd s) = (Ok x, w) \<Longrightarrow> bindP (onW m) f s = f x (fst s, w)"
  by (cases s) (simp add: bindP_def)

lemma addNode_Ok:
  assumes "addNode e nc s = (Ok node, t)"
  obtains nc' pz d nid u where "prepareNode e nc s = (Ok (nc', pz, d, nid), u)" "n_config node = nc'"
    "node = mkNode nc' d nid (n_process node) (n_networkID node)"
    "node_added (ln_nodes (fst s)) (procs (snd s)) nc node t" "settings (fst t) = settings (fst s)"
proof -
  obtain nc' pz d nid u where prep: "prepareNode e nc s = (Ok (nc', pz, d, nid), u)"
    and la: "launchNode e nc' pz d nid u = (Ok node, t)"
    using assms by (auto simp: addNode_def bindP_eq_Ok)
  from la obtain pid nw where "node = mkNode nc' d nid pid nw"
    by (auto simp: launchNode_def bindP_eq_Ok Let_def)
  then have "n_config node = nc'" "node = mkNode nc' d nid (n_process node) (n_networkID node)"
    by (simp_all add: mkNode_def)
  moreover have "add_post (ln_nodes (fst s)) (procs (snd s)) nc (Ok node) t"
    by (rule hoareD [OF hoare_addNode _ assms]) (simp add: quiet_def)
  then have "node_added (ln_nodes (fst s)) (procs (snd s)) nc node t" by (auto simp: add_post_def)
  moreover have "settings (fst t) = settings (fst s)"
    by (rule presD [OF settings_addNode _ assms]) simp
  ultimately show thesis using that prep by blast
qed

lemma addNode_added:
  assumes "addNode e nc s = (Ok node, t)"
  shows "node_added (ln_nodes (fst s)) (procs (snd s)) nc node t"
  using assms by (rule addNode_Ok)

lemma node_added_running:
  assumes "node_added ns ps nc node t"
  shows "\<not> n_paused node" "pid_live (procs (snd t)) (n_process node)"
  using assms by (auto simp: node_added_def pid_live_snoc)

text \<open>What \<^verbatim>\<open>buildArgs\<close> returned comes from the flags and the config file.\<close>

lemma buildArgs_Ok:
  assumes "buildArgs e v cf dir nc s = (Ok ba, t)"
  shows "getConfigEntry (nc_Flags nc) cf (DataDirKey e) dir = Ok (ba_dataDir ba) \<and>
    getConfigEntry (nc_Flags nc) cf (DBPathKey e) (filepath_Join [ba_dataDir ba, defaultDBSubdir]) =
      Ok (ba_dbDir ba) \<and>
    getConfigEntry (nc_Flags nc) cf (LogsDirKey e) (filepath_Join [ba_dataDir ba, defaultLogsSubdir]) =
      Ok (ba_logsDir ba) \<and>
    (\<exists>w w'. getPort e (nc_Flags nc) cf (HTTPPortKey e) (ln_reassignPortsIfUsed (fst s)) w =
      (Ok (ba_apiPort ba), w')) \<and>
    (\<exists>w w'. getPort e (nc_Flags nc) cf (StakingPortKey e) (ln_reassignPortsIfUsed (fst s)) w =
      (Ok (ba_p2pPort ba), w'))"
  using assms by (fastforce simp: buildArgs_def bindP_eq_Ok Let_def onW_eq_iff)

lemma prepareNode_buildArgs:
  assumes "prepareNode e nc s = (Ok (nc', pz, d, nid), t)"
  obtains v cf dir u u' where "buildArgs e v cf dir nc' u = (Ok d, u')" "settings (fst u) = settings (fst s)"
    "readConfigFile nc' = Ok cf"
proof -
  from assms obtain nc2 w2 u where name: "setNodeName nc2 (fst s, w2) = (Ok nc', u)"
    and rest: "describeNode e nc' u = (Ok (nc', pz, d, nid), t)"
    by (auto simp: prepareNode_def describeNode_def bindP_eq_Ok onW_eq_iff)
  have "settings (fst u) = settings (fst s)"
    by (rule presD [OF settings_setNodeName _ name]) simp
  with rest that show thesis
    by (auto simp: describeNode_def bindP_eq_Ok onW_eq_iff)
qed


text \<open>A port that is given as a flag, as \<^verbatim>\<open>ResumeNode\<close> does, is used again.\<close>

lemma getPort_kept:
  assumes "getPort e fl cf k b w = (Ok p, w')" and "mget fl k = Some (VInt (uint q))"
    and "\<not> b \<or> (\<forall>t. os_portFree e t q)"
  shows "p = q"
proof -
  have q: "given_port e fl cf k w = (Ok q, w)"
    using assms(2) by (simp add: given_port_def ret_def uint16_of_int_def)
  show ?thesis
  proof (cases b)
    case True
    then show ?thesis using assms getPort_given [OF q, of b] by auto
  next
    case False
    then show ?thesis using assms(1) q by (auto simp: getPort_def bindP_eq_Ok)
  qed
qed

lemma entry_kept: "mget fl k = Some (VStr v) \<Longrightarrow> getConfigEntry fl cf k d = Ok v"
  by (simp add: getConfigEntry_def)

text \<open>A key that is written once by a loop over a map has the value written.\<close>

lemma mput_all_once:
  assumes "mput_all src (Some xs) = Ok fl" "distinct (map fst src)" "(k, v) \<in> set src"
  shows "mget fl k = Some v"
proof -
  obtain ys where "mput_all src (Some xs) = Ok (Some ys)" "map_of ys = map_of xs ++ map_of (rev src)"
    using mput_all_Some by blast
  moreover have "map_of (rev src) k = Some v"
    using assms(2,3) by (simp add: rev_map [symmetric])
  ultimately show ?thesis using assms(1) by (simp add: map_add_def)
qed

lemma keep_flags_keys: "distinct (flag_names e) \<Longrightarrow> distinct (map fst (keep_flags e node))"
  unfolding flag_names_def keep_flags_def by simp

lemma keep_flags_get:
  assumes "distinct (flag_names e)" "mput_all (keep_flags e node) (Some xs) = Ok fl"
  shows "mget fl (DataDirKey e) = Some (VStr (n_dataDir node))"
    "mget fl (DBPathKey e) = Some (VStr (n_dbDir node))"
    "mget fl (LogsDirKey e) = Some (VStr (n_logsDir node))"
    "mget fl (HTTPPortKey e) = Some (VInt (uint (n_apiPort node)))"
    "mget fl (StakingPortKey e) = Some (VInt (uint (n_p2pPort node)))"
  using mput_all_once [OF assms(2) keep_flags_keys [OF assms(1)]] by (simp_all add: keep_flags_def)

text \<open>A node that is started again with its kept flags has the directories and ports it had.\<close>

definition same_place :: "env \<Rightarrow> bool \<Rightarrow> localNode \<Rightarrow> localNode \<Rightarrow> bool" where
  "same_place e reassign old node \<longleftrightarrow>
     n_dataDir node = n_dataDir old \<and> n_dbDir node = n_dbDir old \<and> n_logsDir node = n_logsDir old \<and>
     (\<not> reassign \<or> (\<forall>t. os_portFree e t (n_apiPort old)) \<longrightarrow> n_apiPort node = n_apiPort old) \<and>
     (\<not> reassign \<or> (\<forall>t. os_portFree e t (n_p2pPort old)) \<longrightarrow> n_p2pPort node = n_p2pPort old)"

lemma addNode_same_place:
  assumes "distinct (flag_names e)" "mput_all (keep_flags e old) (Some xs) = Ok fl" "nc_Flags nc = fl"
    and add: "addNode e nc s = (Ok node, t)"
  shows "same_place e (ln_reassignPortsIfUsed (fst s)) old node"
proof -
  obtain nc' pz d nid u where prep: "prepareNode e nc s = (Ok (nc', pz, d, nid), u)"
    and node: "node = mkNode nc' d nid (n_process node) (n_networkID node)"
    using add by (rule addNode_Ok) blast
  obtain v cf dir u u' where "buildArgs e v cf dir nc' u = (Ok d, u')" and se: "settings (fst u) = settings (fst s)"
    using prepareNode_buildArgs [OF prep] by metis
  note args = buildArgs_Ok [OF this(1)]
  have fl: "mget (nc_Flags nc') k = Some x" if "mget fl k = Some x" for k x
    using prepareNode_Ok [OF prep] that assms(3) by (simp add: map_add_def)
  note kept = keep_flags_get [OF assms(1,2), THEN fl]
  have "n_dataDir node = ba_dataDir d" "n_dbDir node = ba_dbDir d" "n_logsDir node = ba_logsDir d"
    "n_apiPort node = ba_apiPort d" "n_p2pPort node = ba_p2pPort d"
    by (subst node, simp add: mkNode_def)+
  note fields = this
  have re: "ln_reassignPortsIfUsed (fst u) = ln_reassignPortsIfUsed (fst s)"
    using se by (simp add: settings_def)
  have dirs: "ba_dataDir d = n_dataDir old" "ba_dbDir d = n_dbDir old" "ba_logsDir d = n_logsDir old"
    using args kept(1-3) [THEN entry_kept] by simp_all
  obtain w1 w1' w2 w2' where
    "getPort e (nc_Flags nc') cf (HTTPPortKey e) (ln_reassignPortsIfUsed (fst s)) w1 = (Ok (ba_apiPort d), w1')"
    "getPort e (nc_Flags nc') cf (StakingPortKey e) (ln_reassignPortsIfUsed (fst s)) w2 = (Ok (ba_p2pPort d), w2')"
    using args unfolding re by blast
  note ports = getPort_kept [OF this(1) kept(4)] getPort_kept [OF this(2) kept(5)]
  show ?thesis unfolding same_place_def fields dirs using ports by blast
qed

lemma resumeNode_Ok:
  assumes inv: "net_inv s" and keys: "distinct (flag_names e)" and run: "resumeNode e n s = (Ok (), t)"
  obtains old node where "map_of (ln_nodes (fst s)) n = Some old" "n_paused old"
    "map_of (ln_nodes (fst t)) n = Some node" "\<not> n_paused node" "pid_live (procs (snd t)) (n_process node)"
    "same_place e (ln_reassignPortsIfUsed (fst s)) old node"
    "\<And>m. m \<noteq> n \<Longrightarrow> map_of (ln_nodes (fst t)) m = map_of (ln_nodes (fst s)) m"
proof -
  from run obtain old fl node where old: "map_of (ln_nodes (fst s)) n = Some old" "n_paused old"
    and fl: "mput_all (keep_flags e old) (nc_Flags (n_config old)) = Ok fl"
    and add: "addNode e ((n_config old)\<lparr>nc_Flags := fl\<rparr>)
      (ln_nodes_update (AList.update n (old\<lparr>n_config := (n_config old)\<lparr>nc_Flags := fl\<rparr>\<rparr>)) (fst s), snd s) =
        (Ok node, t)"
    by (auto simp: resumeNode_def write_config_def bindP_eq_Ok bindR_eq_Ok split: option.splits if_splits)
  have ok: "node_ok n old (procs (snd s))"
    using inv old(1) by (simp add: net_inv_def net_ok_node)
  then obtain xs where xs: "nc_Flags (n_config old) = Some xs" by (auto simp: node_ok_def maps_made_def)
  have "same_place e (ln_reassignPortsIfUsed (fst s)) old node"
    using addNode_same_place [OF keys fl [unfolded xs] _ add] by simp
  note place = this
  note added = addNode_added [OF add]
  have name: "n_name node = n" using added ok by (simp add: node_added_def node_ok_def)
  note run = node_added_running [OF added]
  have nodes: "map_of (ln_nodes (fst t)) = (map_of (ln_nodes (fst s)))(n \<mapsto> node)"
    using added name by (auto simp: node_added_def fun_eq_iff)
  show thesis using that [OF old _ run place] nodes by simp
qed

text \<open>Stopping a process ends it and no other.\<close>

lemma proc_Stop_live:
  assumes "proc_Stop e k w = (r, w')" "list_all np_ok (procs w)" "k < length (procs w)"
  shows "live_procs w' = live_procs w - {k}" "\<exists>c. r = Ok c"
proof -
  obtain c p where st: "np_Stop (os_exitCode e (clock w) k) (procs w ! k) = (c, p)" by (rule prod.exhaust)
  have "procs w' = (procs w)[k := p]" "r = Ok c" using assms(1) st by (auto simp: proc_Stop_eq)
  then show "live_procs w' = live_procs w - {k}" "\<exists>c. r = Ok c"
    using pid_live_stop [OF assms(2,3), of "os_exitCode e (clock w) k"] st
    by (simp_all add: live_procs_iff set_eq_iff)
qed

lemma removeNode_result:
  assumes inv: "net_inv s" and node: "map_of (ln_nodes (fst s)) n = Some node"
    and run: "removeNode e n s = (r, t)"
  shows "map_of (ln_nodes (fst t)) = (map_of (ln_nodes (fst s)))(n := None)"
    "live_procs (snd t) = live_procs (snd s) - {n_process node}"
    "r = Ok () \<or> (\<exists>c. c \<noteq> 0 \<and> \<not> n_paused node \<and> r = Err (bad_exit n c))"
proof -
  have ok: "node_ok n node (procs (snd s))" "list_all np_ok (procs (snd s))"
    using inv node by (simp_all add: net_inv_def net_ok_node net_ok_wf)
  have idle: "n_process node \<notin> live_procs (snd s)" if "n_paused node"
    using ok that by (simp add: node_ok_def live_procs_iff)
  obtain q w where st: "proc_Stop e (n_process node) (snd s) = (q, w)" by (rule prod.exhaust)
  obtain c where c: "q = Ok c" using proc_Stop_live(2) [OF st ok(2)] ok(1) by (auto simp: node_ok_def)
  have live: "live_procs w = live_procs (snd s) - {n_process node}"
    using proc_Stop_live(1) [OF st ok(2)] ok(1) by (simp add: node_ok_def)
  let ?l = "ln_nodes_update (AList.delete n) (ln_bootstraps_update (beacon_RemoveByID e (n_nodeID node)) (fst s))"
  have rt: "(r, t) = (if n_paused node then (Ok (), (?l, snd s))
      else (if c \<noteq> 0 then Err (bad_exit n c) else Ok (), (?l, w)))"
    using run node st c by (auto simp: removeNode_def bindP_onW_Ok ret_def throw_def split: if_splits)
  then show "map_of (ln_nodes (fst t)) = (map_of (ln_nodes (fst s)))(n := None)"
    "live_procs (snd t) = live_procs (snd s) - {n_process node}"
    "r = Ok () \<or> (\<exists>c. c \<noteq> 0 \<and> \<not> n_paused node \<and> r = Err (bad_exit n c))"
    using live idle by (auto simp: delete_conv' split: if_splits)
qed

lemma pauseNode_result:
  assumes inv: "net_inv s" and node: "map_of (ln_nodes (fst s)) n = Some node" "\<not> n_paused node"
    and run: "pauseNode e n s = (r, t)"
  shows "live_procs (snd t) = live_procs (snd s) - {n_process node}"
    "r = Ok () \<and> map_of (ln_nodes (fst t)) = (map_of (ln_nodes (fst s)))(n \<mapsto> node\<lparr>n_paused := True\<rparr>) \<or>
     (\<exists>c. c \<noteq> 0 \<and> r = Err (bad_exit n c)) \<and> ln_nodes (fst t) = ln_nodes (fst s)"
proof -
  have ok: "node_ok n node (procs (snd s))" "list_all np_ok (procs (snd s))"
    using inv node by (simp_all add: net_inv_def net_ok_node net_ok_wf)
  obtain q w where st: "proc_Stop e (n_process node) (snd s) = (q, w)" by (rule prod.exhaust)
  obtain c where c: "q = Ok c" using proc_Stop_live(2) [OF st ok(2)] ok(1) by (auto simp: node_ok_def)
  have live: "live_procs w = live_procs (snd s) - {n_process node}"
    using proc_Stop_live(1) [OF st ok(2)] ok(1) by (simp add: node_ok_def)
  have rt: "(r, t) = (if c \<noteq> 0 then (Err (bad_exit n c), (fst s, w))
      else (Ok (), (ln_nodes_update (AList.update n (node\<lparr>n_paused := True\<rparr>)) (fst s), w)))"
    using run node st c
    by (auto simp: pauseNode_def bindP_onW_Ok throw_def split: if_splits)
  then show "live_procs (snd t) = live_procs (snd s) - {n_process node}"
    "r = Ok () \<and> map_of (ln_nodes (fst t)) = (map_of (ln_nodes (fst s)))(n \<mapsto> node\<lparr>n_paused := True\<rparr>) \<or>
     (\<exists>c. c \<noteq> 0 \<and> r = Err (bad_exit n c)) \<and> ln_nodes (fst t) = ln_nodes (fst s)"
    using live by (auto simp: update_conv' split: if_splits)
qed

lemma pauseNode_flags: "pauseNode e n s = (Ok (), t) \<Longrightarrow> ln_flags (fst t) = ln_flags (fst s)"
  by (cases t) (auto simp: pauseNode_def bindP_eq_Ok onW_eq_iff split: if_splits option.splits)

text \<open>The configuration that is stored with a node can be started again.\<close>

lemma prepareNode_config:
  assumes "prepareNode e nc s = (Ok (nc', pz, d, nid), t)"
  shows "nc_ConfigFile nc' = nc_ConfigFile nc"
proof -
  from assms obtain nc1 nc2 w2 u where defs: "node_defaults (fst s) nc = Ok nc1"
    and keys: "node_keys e nc1 (snd s) = (Ok nc2, w2)" and name: "setNodeName nc2 (fst s, w2) = (Ok nc', u)"
    by (auto simp: prepareNode_def describeNode_def bindP_eq_Ok onW_eq_iff)
  show ?thesis
    using node_defaults_Ok [of "fst s" nc] defs node_keys_Ok [OF keys] setNodeName_Ok [OF name] by auto
qed

lemma buildArgs_signingKey:
  "buildArgs e v cf dir nc s = (Ok ba, t) \<Longrightarrow> is_Ok (b64_decode (nc_StakingSigningKey nc))"
  by (auto simp: buildArgs_def bindP_eq_Ok Let_def onW_eq_iff writeFiles_def)

lemma addNode_startable:
  assumes add: "addNode e nc s = (Ok node, t)" and start: "startable e (ln_flags (fst s)) nc"
  shows "startable e (ln_flags (fst t)) (n_config node)"
proof -
  obtain nc' pz d nid u where prep: "prepareNode e nc s = (Ok (nc', pz, d, nid), u)" "n_config node = nc'"
    "settings (fst t) = settings (fst s)"
    using add by (rule addNode_Ok) blast
  obtain v cf dir x x' where "buildArgs e v cf dir nc' x = (Ok d, x')"
    using prepareNode_buildArgs [OF prep(1)] by metis
  then have "is_Ok (b64_decode (nc_StakingSigningKey nc'))" by (rule buildArgs_signingKey)
  moreover have "readConfigFile nc' = readConfigFile nc"
    using prepareNode_config [OF prep(1)] by (rule readConfigFile_cong)
  moreover have "mget (ln_flags (fst t)) ++ mget (nc_Flags nc') = mget (ln_flags (fst s)) ++ mget (nc_Flags nc)"
    using prepareNode_Ok [OF prep(1)] prep(3) by (auto simp: settings_def map_add_def fun_eq_iff split: option.splits)
  ultimately show ?thesis using start prep(2) unfolding startable_def by simp
qed

lemma keep_flags_typed:
  assumes keys: "distinct (flag_names e)" and "mput_all (keep_flags e old) (Some xs) = Ok fl"
    and typed: "node_flags_typed e (g ++ mget (Some xs))"
  shows "node_flags_typed e (g ++ mget fl)"
proof -
  obtain ys where ys: "fl = Some ys" "map_of ys = map_of xs ++ map_of (rev (keep_flags e old))"
    using mput_all_Some [of "keep_flags e old" xs] assms(2) by auto
  have "map_of (rev (keep_flags e old)) (HTTPHostKey e) = None" "map_of (rev (keep_flags e old)) (PluginDirKey e) = None"
    using keys by (auto simp: flag_names_def keep_flags_def map_of_eq_None_iff)
  then have same: "(g ++ mget fl) k = (g ++ mget (Some xs)) k" if "k \<in> {HTTPHostKey e, PluginDirKey e}" for k
    using ys that by (auto simp: map_add_def)
  show ?thesis
    using typed same [of "HTTPHostKey e"] same [of "PluginDirKey e"] keep_flags_get [OF assms(1,2)]
    unfolding node_flags_typed_def by (simp add: map_add_def)
qed

lemma resumeNode_succeeds:
  assumes sm: "smooth e" and beacons: "\<And>b bs. is_Ok (beacon_Add e b bs)" and keys: "distinct (flag_names e)"
    and inv: "net_inv s" and old: "map_of (ln_nodes (fst s)) n = Some old" "n_paused old"
    and start: "startable e (ln_flags (fst s)) (n_config old)"
  shows "\<exists>t. resumeNode e n s = (Ok (), t)"
proof -
  have ok: "node_ok n old (procs (snd s))" using inv old(1) by (simp add: net_inv_def net_ok_node)
  then obtain xs where xs: "nc_Flags (n_config old) = Some xs" by (auto simp: node_ok_def maps_made_def)
  obtain fl where fl: "mput_all (keep_flags e old) (Some xs) = Ok fl" using mput_all_Some by blast
  let ?nc = "(n_config old)\<lparr>nc_Flags := fl\<rparr>"
  let ?s = "(ln_nodes_update (AList.update n (old\<lparr>n_config := ?nc\<rparr>)) (fst s), snd s)"
  have "startable e (ln_flags (fst s)) ?nc"
    using start keep_flags_typed [OF keys fl] xs readConfigFile_cong [of ?nc "n_config old"]
    by (simp add: startable_def)
  then have "addable e (fst ?s) ?nc" using ok old(2) by (simp add: addable_def node_ok_def)
  then obtain node t where "addNode e ?nc ?s = (Ok node, t)"
    using addNode_succeeds [OF sm _ beacons] by blast
  then have "resumeNode e n s = (Ok (), t)"
    using old xs fl by (cases t) (auto simp: resumeNode_def write_config_def bindP_eq_Ok ret_def)
  then show ?thesis ..
qed

subsection \<open>The arguments of a node process\<close>

text \<open>The value of a flag: the node's own flags come first, except for the two ports.\<close>

definition flag_value ::
  "env \<Rightarrow> NodeConfig \<Rightarrow> string gmap \<Rightarrow> string gmap \<Rightarrow> string \<Rightarrow> string option" where
  "flag_value e nc fileFlags runnerFlags k =
     (if k \<noteq> HTTPPortKey e \<and> k \<noteq> StakingPortKey e \<and> mget (nc_Flags nc) k \<noteq> None
      then map_option fmt_v (mget (nc_Flags nc) k)
      else (map_of runnerFlags ++ map_of fileFlags) k)"

lemma fold_update: "map_of (fold (\<lambda>(k, v). AList.update k v) xs ys) = map_of ys ++ map_of (rev xs)"
  by (induction xs arbitrary: ys) (auto simp: update_conv' map_add_def fun_eq_iff split: option.splits)

lemma fold_update_wf: "wf_gmap ys \<Longrightarrow> wf_gmap (fold (\<lambda>(k, v). AList.update k v) xs ys)"
  by (induction xs arbitrary: ys) (auto simp: wf_gmap_def distinct_update)

lemma node_flags_get:
  "distinct (map fst given) \<Longrightarrow>
   map_of (node_flags e given flags) k =
     (if k \<noteq> HTTPPortKey e \<and> k \<noteq> StakingPortKey e \<and> map_of given k \<noteq> None
      then map_option fmt_v (map_of given k) else map_of flags k)"
proof (induction given arbitrary: flags)
  case (Cons kv given)
  obtain a v where kv: "kv = (a, v)" by force
  then have "map_of given a = None" using Cons.prems by (simp add: map_of_eq_None_iff)
  then show ?case using Cons kv by (auto simp: node_flags_def update_conv')
qed (simp add: node_flags_def)

lemma node_flags_wf: "wf_gmap flags \<Longrightarrow> wf_gmap (node_flags e given flags)"
  by (induction given arbitrary: flags) (auto simp: node_flags_def wf_gmap_def distinct_update)

lemma foldP_Ok_inv:
  "foldP body xs acc s = (Ok y, t) \<Longrightarrow> I acc \<Longrightarrow>
   (\<And>x acc s y t. x \<in> set xs \<Longrightarrow> I acc \<Longrightarrow> body x acc s = (Ok y, t) \<Longrightarrow> I y) \<Longrightarrow> I y"
proof (induction xs arbitrary: acc s)
  case (Cons x xs)
  from Cons.prems(1) obtain z u where "body x acc s = (Ok z, u)" "foldP body xs z u = (Ok y, t)"
    by (auto simp: bindP_eq_Ok)
  with Cons show ?case by (metis list.set_intros)
qed auto

definition file_keys :: "env \<Rightarrow> string list" where
  "file_keys e = [StakingTLSKeyPathKey e, StakingCertPathKey e, StakingSignerKeyPathKey e,
     GenesisConfigFileKey e, ConfigFileKey e, ChainConfigDirKey e, SubnetConfigDirKey e]"

lemma writeFiles_keys:
  assumes "writeFiles e nid g d nc w = (Ok ff, w')"
  shows "dom (map_of ff) \<subseteq> set (file_keys e)"
proof -
  from assms obtain key flags w1 w2 where
    fold: "foldP (\<lambda>(pathKey, path, contents) flags.
        bindP (write_at e path contents) (\<lambda>_. ret (AList.update pathKey path flags)))
      (node_files e nid g d nc key) [] w1 = (Ok flags, w2)"
    and ff: "ff = AList.update (SubnetConfigDirKey e) (filepath_Join [d, subnetConfigSubDir])
      (AList.update (ChainConfigDirKey e) (filepath_Join [d, chainConfigSubDir]) flags)"
    by (auto simp: writeFiles_def bindP_eq_Ok Let_def)
  have keys: "fst ` set (node_files e nid g d nc key) \<subseteq> set (file_keys e)"
    by (auto simp: node_files_def file_keys_def)
  have "dom (map_of flags) \<subseteq> set (file_keys e)"
  proof (rule foldP_Ok_inv [OF fold, where I = "\<lambda>fl. dom (map_of fl) \<subseteq> set (file_keys e)"])
    fix x and acc fl :: "string gmap" and s t
    obtain a b c :: string where x: "x = (a, b, c)" by (rule prod_cases3)
    assume "x \<in> set (node_files e nid g d nc key)" "dom (map_of acc) \<subseteq> set (file_keys e)"
      "(case x of (pathKey, path, contents) \<Rightarrow> \<lambda>flags.
          bindP (write_at e path contents) (\<lambda>_. ret (AList.update pathKey path flags))) acc s = (Ok fl, t)"
    then show "dom (map_of fl) \<subseteq> set (file_keys e)"
      using keys x by (auto simp: bindP_eq_Ok update_conv' image_subset_iff)
  qed simp
  then show ?thesis unfolding ff by (auto simp: file_keys_def update_conv')
qed

lemma runner_flags_get:
  assumes "distinct (flag_names e)"
  shows "map_of (runner_flags e l dd db lg ap pp) (HTTPPortKey e) = Some (show_nat (unat ap))"
    "map_of (runner_flags e l dd db lg ap pp) (StakingPortKey e) = Some (show_nat (unat pp))"
    "map_of (runner_flags e l dd db lg ap pp) (DataDirKey e) = Some dd"
    "map_of (runner_flags e l dd db lg ap pp) (DBPathKey e) = Some db"
    "map_of (runner_flags e l dd db lg ap pp) (LogsDirKey e) = Some lg"
    "map_of (runner_flags e l dd db lg ap pp) (BootstrapIDsKey e) = Some (beacon_IDsArg e (ln_bootstraps l))"
  using assms unfolding runner_flags_def fold_update flag_names_def by simp_all

lemma file_keys_new:
  "distinct (flag_names e) \<Longrightarrow> k \<in> {HTTPPortKey e, StakingPortKey e, DataDirKey e, DBPathKey e, LogsDirKey e,
     BootstrapIDsKey e} \<Longrightarrow> k \<notin> set (file_keys e)"
  unfolding flag_names_def file_keys_def by auto

lemma buildArgs_flag_value:
  assumes "buildArgs e v cf dir nc s = (Ok ba, t)" "wf_gmap (mrange (nc_Flags nc))"
  obtains flags fileFlags where "ba_args ba = map flag_arg (getFlagsForLuxdVersion e v flags)"
    "wf_gmap flags" "dom (map_of fileFlags) \<subseteq> set (file_keys e)"
    "\<And>k. map_of flags k = flag_value e nc fileFlags
      (runner_flags e (fst s) (ba_dataDir ba) (ba_dbDir ba) (ba_logsDir ba) (ba_apiPort ba) (ba_p2pPort ba)) k"
proof -
  from assms(1) obtain w w' ff where files:
    "writeFiles e (ln_networkID (fst s)) (ln_genesis (fst s)) (ba_dataDir ba) nc w = (Ok ff, w')"
    and args: "ba_args ba = map flag_arg (getFlagsForLuxdVersion e v
      (node_flags e (mrange (nc_Flags nc)) (fold (\<lambda>(k, v). AList.update k v) ff
         (runner_flags e (fst s) (ba_dataDir ba) (ba_dbDir ba) (ba_logsDir ba) (ba_apiPort ba) (ba_p2pPort ba)))))"
    by (fastforce simp: buildArgs_def bindP_eq_Ok Let_def onW_eq_iff)
  let ?r = "runner_flags e (fst s) (ba_dataDir ba) (ba_dbDir ba) (ba_logsDir ba) (ba_apiPort ba) (ba_p2pPort ba)"
  have wf: "wf_gmap ?r" unfolding runner_flags_def by (rule fold_update_wf) (simp add: wf_gmap_def)
  show thesis
  proof (rule that [OF args node_flags_wf [OF fold_update_wf [OF wf]]])
    show "dom (map_of (rev ff)) \<subseteq> set (file_keys e)"
      using writeFiles_keys [OF files] by (simp add: dom_map_of_conv_image_fst)
    have "map_of (mrange (nc_Flags nc)) = mget (nc_Flags nc)" by (cases "nc_Flags nc") auto
    then show "map_of (node_flags e (mrange (nc_Flags nc)) (fold (\<lambda>(k, v). AList.update k v) ff ?r)) k =
        flag_value e nc (rev ff) ?r k" for k
      using node_flags_get [of "mrange (nc_Flags nc)"] assms(2)
      by (simp add: flag_value_def fold_update wf_gmap_def)
  qed
qed

lemma fix_flag_old:
  assumes "semver_Compare e v (dfe_Version d) < 0" "dfe_OldName d \<noteq> dfe_NewName d"
  shows "map_of (fix_flag e v d flags) = (map_of flags)
    (dfe_OldName d := (case map_of flags (dfe_NewName d) of
         Some x \<Rightarrow> if x \<noteq> [] then Some (if dfe_ValueMap d = ''parent-dir'' then filepath_Dir (trim_suffix ''/'' x) else x)
                   else map_of flags (dfe_OldName d)
       | None \<Rightarrow> map_of flags (dfe_OldName d)),
     dfe_NewName d := None)"
  using assms by (cases "map_of flags (dfe_NewName d)")
    (auto simp: fix_flag_def update_conv' delete_conv' fun_eq_iff)

lemma current_version_flags:
  "semver_Compare e v ''v1.9.6'' \<ge> 0 \<Longrightarrow> getFlagsForLuxdVersion e v flags = flags"
  by (simp add: getFlagsForLuxdVersion_def deprecatedFlagsSupport_def fix_flag_def)

section \<open>Properties\<close>

text \<open>
  C25. The effect of \<^verbatim>\<open>AddNode\<close>: the node it returns is the one \<^verbatim>\<open>GetNode\<close> returns under its name,
  which is the given name if there is one; the name was free or that of a paused node; the other
  nodes are as before; the node's process runs and no other process has changed; a flag of the
  network is used when the node does not give it.
\<close>

theorem AddNode_correct:
  assumes "AddNode e nc s = (Ok node, t)"
  shows "GetNode (n_name node) t = (Ok node, t) \<and>
    (nc_Name nc \<noteq> [] \<longrightarrow> n_name node = nc_Name nc) \<and>
    (\<forall>old. map_of (ln_nodes (fst s)) (n_name node) = Some old \<longrightarrow> n_paused old) \<and>
    (\<forall>m. m \<noteq> n_name node \<longrightarrow> map_of (ln_nodes (fst t)) m = map_of (ln_nodes (fst s)) m) \<and>
    live_procs (snd t) = insert (n_process node) (live_procs (snd s)) \<and>
    n_process node \<notin> live_procs (snd s) \<and>
    mget (nc_Flags (n_config node)) = mget (ln_flags (fst s)) ++ mget (nc_Flags nc)"
proof -
  have add: "addNode e nc s = (Ok node, t)" and run: "\<not> ln_onStopCh (fst s)"
    using assms by (auto simp: AddNode_def stopCalled_def split: if_splits)
  obtain nc' pz d nid u where prep: "prepareNode e nc s = (Ok (nc', pz, d, nid), u)" "n_config node = nc'"
    "settings (fst t) = settings (fst s)"
    using add by (rule addNode_Ok) blast
  note added = addNode_added [OF add]
  have "ln_onStopCh (fst t) = ln_onStopCh (fst s)" using prep(3) by (simp add: settings_def)
  then have "GetNode (n_name node) t = (Ok node, t)"
    using added run by (simp add: GetNode_def stopCalled_def node_added_def ret_def)
  moreover have "live_procs (snd t) = insert (n_process node) (live_procs (snd s))"
    "n_process node \<notin> live_procs (snd s)"
    using added by (auto simp: node_added_def live_procs_iff pid_live_snoc set_eq_iff)
      (auto simp: pid_live_def)
  ultimately show ?thesis
    using added prepareNode_Ok [OF prep(1)] prep(2)
    by (auto simp: node_added_def split: option.splits)
qed

text \<open>
  The effect of \<^verbatim>\<open>RemoveNode\<close> on a network that is not stopped: the node is gone, its process
  is stopped, all other nodes and processes are as before, whatever the exit code was. The only
  error is a nonzero exit code of a node that was running.
\<close>

theorem RemoveNode_correct:
  assumes "reachable (net_init e) (net_step e) s" "\<not> stopCalled (fst s)"
    and "map_of (ln_nodes (fst s)) n = Some node" "RemoveNode e n s = (r, t)"
  shows "map_of (ln_nodes (fst t)) = (map_of (ln_nodes (fst s)))(n := None) \<and>
    live_procs (snd t) = live_procs (snd s) - {n_process node} \<and>
    (r = Ok () \<or> (\<exists>c. c \<noteq> 0 \<and> \<not> n_paused node \<and> r = Err (bad_exit n c)))"
proof -
  have "removeNode e n s = (r, t)" using assms(2,4) by (simp add: RemoveNode_def)
  from removeNode_result [OF network.reachable_inv [OF assms(1)] assms(3) this]
  show ?thesis by simp
qed

text \<open>
  C26. The effect of \<^verbatim>\<open>PauseNode\<close> on a running node: its process is stopped and no other; on success
  the node stays in the network, marked as paused, and nothing else changes. If the process
  exits with a nonzero code there is an error and the node stays marked as running, although
  its process is stopped.
\<close>

theorem PauseNode_correct:
  assumes "reachable (net_init e) (net_step e) s" "\<not> stopCalled (fst s)"
    and "map_of (ln_nodes (fst s)) n = Some node" "\<not> n_paused node" "PauseNode e n s = (r, t)"
  shows "live_procs (snd t) = live_procs (snd s) - {n_process node} \<and>
    (r = Ok () \<and> map_of (ln_nodes (fst t)) = (map_of (ln_nodes (fst s)))(n \<mapsto> node\<lparr>n_paused := True\<rparr>) \<or>
     (\<exists>c. c \<noteq> 0 \<and> r = Err (bad_exit n c)) \<and> ln_nodes (fst t) = ln_nodes (fst s))"
proof -
  have "pauseNode e n s = (r, t)" using assms(2,5) by (simp add: PauseNode_def)
  from pauseNode_result [OF network.reachable_inv [OF assms(1)] assms(3,4) this]
  show ?thesis by simp
qed

text \<open>
  C27. The effect of \<^verbatim>\<open>ResumeNode\<close>: only a paused node is resumed; it runs again in a new process,
  under its name, with the data, database and log directories it had, and with the ports it had
  unless they are in use and used ports are reassigned; the other nodes are as before.
\<close>

theorem ResumeNode_correct:
  assumes "reachable (net_init e) (net_step e) s" "distinct (flag_names e)"
    and "ResumeNode e n s = (Ok (), t)"
  shows "\<exists>old node. map_of (ln_nodes (fst s)) n = Some old \<and> n_paused old \<and>
    map_of (ln_nodes (fst t)) n = Some node \<and> \<not> n_paused node \<and> n_process node \<in> live_procs (snd t) \<and>
    n_dataDir node = n_dataDir old \<and> n_dbDir node = n_dbDir old \<and> n_logsDir node = n_logsDir old \<and>
    (\<not> ln_reassignPortsIfUsed (fst s) \<longrightarrow> n_apiPort node = n_apiPort old \<and> n_p2pPort node = n_p2pPort old) \<and>
    ((\<forall>t. os_portFree e t (n_apiPort old)) \<longrightarrow> n_apiPort node = n_apiPort old) \<and>
    (\<forall>m. m \<noteq> n \<longrightarrow> map_of (ln_nodes (fst t)) m = map_of (ln_nodes (fst s)) m)"
proof -
  have "resumeNode e n s = (Ok (), t)" using assms(3) by (simp add: ResumeNode_def)
  from resumeNode_Ok [OF network.reachable_inv [OF assms(1)] assms(2) this]
  obtain old node where "map_of (ln_nodes (fst s)) n = Some old" "n_paused old"
    "map_of (ln_nodes (fst t)) n = Some node" "\<not> n_paused node" "pid_live (procs (snd t)) (n_process node)"
    "same_place e (ln_reassignPortsIfUsed (fst s)) old node"
    "\<And>m. m \<noteq> n \<Longrightarrow> map_of (ln_nodes (fst t)) m = map_of (ln_nodes (fst s)) m"
    by metis
  then show ?thesis unfolding same_place_def live_procs_iff by blast
qed



text \<open>
  The flags of a node older than version 1.9.6: the plugin directory is given as its parent under
  the old name, the tracked subnets under the old name, an empty value is left out, the new
  names are not used, and all other flags are as they were. A node of a current version gets
  the flags unchanged.
\<close>

theorem getFlagsForLuxdVersion_correct:
  "(semver_Compare e v ''v1.9.6'' \<ge> 0 \<longrightarrow> getFlagsForLuxdVersion e v flags = flags) \<and>
   (semver_Compare e v ''v1.9.6'' < 0 \<longrightarrow>
      map_of (getFlagsForLuxdVersion e v flags) = (map_of flags)
        (''build-dir'' := (case map_of flags ''plugin-dir'' of
             Some d \<Rightarrow> if d \<noteq> [] then Some (filepath_Dir (trim_suffix ''/'' d)) else map_of flags ''build-dir''
           | None \<Rightarrow> map_of flags ''build-dir''),
         ''whitelisted-subnets'' := (case map_of flags ''track-subnets'' of
             Some x \<Rightarrow> if x \<noteq> [] then Some x else map_of flags ''whitelisted-subnets''
           | None \<Rightarrow> map_of flags ''whitelisted-subnets''),
         ''plugin-dir'' := None, ''track-subnets'' := None))"
proof (intro conjI impI)
  assume "semver_Compare e v ''v1.9.6'' < 0"
  then show "map_of (getFlagsForLuxdVersion e v flags) = (map_of flags)
        (''build-dir'' := (case map_of flags ''plugin-dir'' of
             Some d \<Rightarrow> if d \<noteq> [] then Some (filepath_Dir (trim_suffix ''/'' d)) else map_of flags ''build-dir''
           | None \<Rightarrow> map_of flags ''build-dir''),
         ''whitelisted-subnets'' := (case map_of flags ''track-subnets'' of
             Some x \<Rightarrow> if x \<noteq> [] then Some x else map_of flags ''whitelisted-subnets''
           | None \<Rightarrow> map_of flags ''whitelisted-subnets''),
         ''plugin-dir'' := None, ''track-subnets'' := None)"
    by (simp add: getFlagsForLuxdVersion_def deprecatedFlagsSupport_def fix_flag_old fun_upd_twist
        cong: if_cong option.case_cong)
qed (rule current_version_flags)

theorem getFlagsForLuxdVersion_correct_witness:
  "map_of (getFlagsForLuxdVersion (demo_env\<lparr>semver_Compare := \<lambda>a b. - 1\<rparr>) ''v1.9.0''
     [(''plugin-dir'', ''/opt/lux/plugins/''), (''track-subnets'', ''s1'')]) ''build-dir'' = Some ''/opt/lux''"
proof -
  have "filepath_Dir (trim_suffix ''/'' ''/opt/lux/plugins/'') = ''/opt/lux''" by code_simp
  then show ?thesis
    using getFlagsForLuxdVersion_correct [of "demo_env\<lparr>semver_Compare := \<lambda>a b. - 1\<rparr>" "''v1.9.0''"
        "[(''plugin-dir'', ''/opt/lux/plugins/''), (''track-subnets'', ''s1'')]"]
    by simp
qed

section \<open>The theorems at work\<close>

text \<open>A node is added to a new network, then paused.\<close>

definition demo_one :: net_state where
  "demo_one = run_op demo_env2 (OpAddNode (demo_node ''a'' True)) demo_start"

definition demo_paused :: net_state where
  "demo_paused = run_op demo_env2 (OpPauseNode ''a'') demo_one"

lemma demo_flag_names: "distinct (flag_names demo_env2)"
  by (simp add: flag_names_def demo_env2_def demo_env_def)

lemma demo_startable0: "startable demo_env2 (ln_flags (fst demo_start)) (demo_node ''a'' True)"
  by (auto simp: startable_def demo_env2_def demo_start_def demo_net0_def demo_node_def demo_env_def
      readConfigFile_def flags_typed_def node_flags_typed_def map_add_def)

lemma demo_add: "\<exists>node. AddNode demo_env2 (demo_node ''a'' True) demo_start = (Ok node, demo_one)"
proof -
  have "addable demo_env2 (fst demo_start) (demo_node ''a'' True)"
    using demo_startable0 by (simp add: addable_def demo_node_def demo_start_def demo_net0_def)
  then obtain node t where "addNode demo_env2 (demo_node ''a'' True) demo_start = (Ok node, t)"
    using addNode_succeeds [OF demo_smooth(2) _ demo_nodes(1)] by blast
  moreover have "\<not> stopCalled (fst demo_start)" by (simp add: stopCalled_def demo_start_def demo_net0_def)
  ultimately show ?thesis by (simp add: AddNode_def demo_one_def)
qed

theorem AddNode_correct_witness:
  "\<exists>node. AddNode demo_env2 (demo_node ''a'' True) demo_start = (Ok node, demo_one) \<and>
     GetNode ''a'' demo_one = (Ok node, demo_one) \<and> n_process node \<in> live_procs (snd demo_one)"
proof -
  obtain node where add: "AddNode demo_env2 (demo_node ''a'' True) demo_start = (Ok node, demo_one)"
    using demo_add by blast
  have "n_name node = ''a''" using AddNode_correct [OF add] by (simp add: demo_node_def)
  then show ?thesis using add AddNode_correct [OF add] by auto
qed

lemma demo_one_facts:
  "reachable (net_init demo_env2) (net_step demo_env2) demo_one" "\<not> stopCalled (fst demo_one)"
  "\<exists>node. map_of (ln_nodes (fst demo_one)) ''a'' = Some node \<and> \<not> n_paused node \<and>
     startable demo_env2 (ln_flags (fst demo_one)) (n_config node) \<and>
     n_process node \<in> live_procs (snd demo_one)"
proof -
  show "reachable (net_init demo_env2) (net_step demo_env2) demo_one"
    unfolding demo_one_def using reach_init [of "net_init demo_env2", OF demo_init]
    by (rule reach_step) (rule net_step.call)
  obtain node where "AddNode demo_env2 (demo_node ''a'' True) demo_start = (Ok node, demo_one)"
    using demo_add by blast
  then have add: "addNode demo_env2 (demo_node ''a'' True) demo_start = (Ok node, demo_one)"
    by (simp add: AddNode_def stopCalled_def demo_start_def demo_net0_def)
  then have "settings (fst demo_one) = settings (fst demo_start)"
    by (rule presD [OF settings_addNode, rotated]) simp
  then show "\<not> stopCalled (fst demo_one)"
    by (simp add: settings_def stopCalled_def demo_start_def demo_net0_def)
  have name: "nc_Name (demo_node ''a'' True) = ''a''" by (simp add: demo_node_def)
  show "\<exists>node. map_of (ln_nodes (fst demo_one)) ''a'' = Some node \<and> \<not> n_paused node \<and>
     startable demo_env2 (ln_flags (fst demo_one)) (n_config node) \<and>
     n_process node \<in> live_procs (snd demo_one)"
    using addNode_added [OF add] node_added_running [OF addNode_added [OF add]] name
      addNode_startable [OF add demo_startable0]
    by (intro exI [of _ node]) (simp add: node_added_def live_procs_iff)
qed

theorem RemoveNode_correct_witness:
  "\<exists>node. map_of (ln_nodes (fst demo_one)) ''a'' = Some node \<and> n_process node \<in> live_procs (snd demo_one) \<and>
     map_of (ln_nodes (fst (snd (RemoveNode demo_env2 ''a'' demo_one)))) ''a'' = None \<and>
     n_process node \<notin> live_procs (snd (snd (RemoveNode demo_env2 ''a'' demo_one)))"
proof -
  obtain node where node: "map_of (ln_nodes (fst demo_one)) ''a'' = Some node"
    "n_process node \<in> live_procs (snd demo_one)"
    using demo_one_facts(3) by blast
  show ?thesis
    using RemoveNode_correct [OF demo_one_facts(1,2) node(1), of "fst (RemoveNode demo_env2 ''a'' demo_one)"
        "snd (RemoveNode demo_env2 ''a'' demo_one)"] node
    by (intro exI [of _ node]) simp
qed

lemma demo_pause: "PauseNode demo_env2 ''a'' demo_one = (Ok (), demo_paused)"
proof -
  obtain node where node: "map_of (ln_nodes (fst demo_one)) ''a'' = Some node" "\<not> n_paused node"
    "n_process node \<in> live_procs (snd demo_one)"
    using demo_one_facts(3) by blast
  have "list_all np_ok (procs (snd demo_one))"
    using network.reachable_inv [OF demo_one_facts(1)] by (simp add: net_inv_def net_ok_wf)
  with node(3) have np: "np_ok (procs (snd demo_one) ! n_process node)"
    "np_Status (procs (snd demo_one) ! n_process node) \<noteq> Stopped"
    by (auto simp: live_procs_iff pid_live_def list_all_length)
  have "os_exitCode demo_env2 t k = 0" for t k by (simp add: demo_env2_def demo_env_def)
  then have "\<exists>w. proc_Stop demo_env2 (n_process node) (snd demo_one) = (Ok 0, w)"
    using np by (auto simp: proc_Stop_eq np_Stop_running np_Status_def split: prod.splits)
  then obtain w where "proc_Stop demo_env2 (n_process node) (snd demo_one) = (Ok 0, w)" by blast
  then show ?thesis
    using node demo_one_facts(2) by (simp add: demo_paused_def PauseNode_def pauseNode_def bindP_onW_Ok modL_def
        modify_def)
qed

theorem PauseNode_correct_witness:
  "\<exists>node. map_of (ln_nodes (fst demo_one)) ''a'' = Some node \<and>
     map_of (ln_nodes (fst demo_paused)) ''a'' = Some (node\<lparr>n_paused := True\<rparr>) \<and>
     n_process node \<notin> live_procs (snd demo_paused)"
proof -
  obtain node where node: "map_of (ln_nodes (fst demo_one)) ''a'' = Some node" "\<not> n_paused node"
    using demo_one_facts(3) by blast
  show ?thesis
    using PauseNode_correct [OF demo_one_facts(1,2) node demo_pause] node
    by (intro exI [of _ node]) simp
qed


lemma demo_resume: "\<exists>t. ResumeNode demo_env2 ''a'' demo_paused = (Ok (), t)"
proof -
  obtain old where old: "map_of (ln_nodes (fst demo_one)) ''a'' = Some old" "\<not> n_paused old"
    "startable demo_env2 (ln_flags (fst demo_one)) (n_config old)"
    using demo_one_facts(3) by blast
  have inv: "net_inv demo_one" using network.reachable_inv [OF demo_one_facts(1)] .
  have pause: "pauseNode demo_env2 ''a'' demo_one = (Ok (), demo_paused)"
    using demo_pause demo_one_facts(2) by (simp add: PauseNode_def)
  have "ln_flags (fst demo_paused) = ln_flags (fst demo_one)"
    by (rule pauseNode_flags [OF pause])
  moreover have "map_of (ln_nodes (fst demo_paused)) ''a'' = Some (old\<lparr>n_paused := True\<rparr>)"
    using pauseNode_result(2) [OF inv old(1,2) pause] by auto
  ultimately have "\<exists>t. resumeNode demo_env2 ''a'' demo_paused = (Ok (), t)"
    using old(3) presD [OF pres_pauseNode inv pause]
    by (intro resumeNode_succeeds [OF demo_smooth(2) demo_nodes(1) demo_flag_names,
          where old = "old\<lparr>n_paused := True\<rparr>"]) simp_all
  then show ?thesis by (simp add: ResumeNode_def)
qed

theorem ResumeNode_correct_witness:
  "\<exists>t old node. ResumeNode demo_env2 ''a'' demo_paused = (Ok (), t) \<and>
     map_of (ln_nodes (fst demo_paused)) ''a'' = Some old \<and> n_paused old \<and>
     map_of (ln_nodes (fst t)) ''a'' = Some node \<and> n_process node \<in> live_procs (snd t) \<and>
     n_dbDir node = n_dbDir old"
proof -
  obtain t where t: "ResumeNode demo_env2 ''a'' demo_paused = (Ok (), t)" using demo_resume by blast
  have "reachable (net_init demo_env2) (net_step demo_env2) demo_paused"
    unfolding demo_paused_def using demo_one_facts(1) by (rule reach_step) (rule net_step.call)
  from ResumeNode_correct [OF this demo_flag_names t] show ?thesis using t by blast
qed


end
