(* ===== verification/Blockchain.thy ===== *)
theory Blockchain
  imports Node_Lifecycle
begin

text \<open>
  Subnets and blockchains of a local network (\<^verbatim>\<open>local/blockchain.go\<close>): creating them, adding and
  removing validators, and restarting the nodes that have to track a subnet.

  The clients of the node's APIs, the wallet and the clock are not part of the repository: what they
  answer is a field of \<open>chain_env\<close>, a function of a counter that every request advances. The state
  is that of the network with the log of the transactions that were issued. A wait loop is given the
  outcomes of its \<^verbatim>\<open>select\<close> statements as a list; a context that has a deadline makes it finite.
  Contexts are not modelled otherwise, and printing and logging are omitted.
\<close>

section \<open>Transactions and the environment\<close>

record Validator =
  v_NodeID :: string
  v_EndTime :: "64 word"

record SubnetValidatorTx =
  sv_NodeID :: string
  sv_Start :: "64 word"
  sv_End :: "64 word"
  sv_Wght :: "64 word"
  sv_Subnet :: string

text \<open>
  The transactions the wallet is asked to issue. The signer is the BLS key of a primary validator,
  none for a permissionless subnet validator.
\<close>

datatype tx =
    AddPermissionlessValidatorTx SubnetValidatorTx "string option" string "32 word"
  | AddSubnetValidatorTx SubnetValidatorTx
  | RemoveSubnetValidatorTx string string
  | TransformSubnetTx string string ElasticSubnetSpec
  | CreateSubnetTx
  | CreateAssetTx string string "8 word" "64 word"
  | ExportTx string "64 word"
  | ImportTx
  | CreateChainTx string

text \<open>What ends the wait of a loop: \<^verbatim>\<open>onStopCh\<close>, the context, or the timer.\<close>

datatype wait = OnStop | CtxDone err | Timer

record chain_env =
  GetCurrentValidators :: "nat \<Rightarrow> string \<Rightarrow> string \<Rightarrow> Validator list res"
  issueTx :: "nat \<Rightarrow> string \<Rightarrow> tx \<Rightarrow> string res"
  FetchState :: "nat \<Rightarrow> string \<Rightarrow> unit res"
  GetTx :: "nat \<Rightarrow> string \<Rightarrow> string \<Rightarrow> string res"
  txs_Parse :: "string \<Rightarrow> unit res"
  NewCreateChainTx :: "nat \<Rightarrow> string \<Rightarrow> string \<Rightarrow> string \<Rightarrow> string \<Rightarrow> string res"
  SignUnsigned :: "nat \<Rightarrow> string \<Rightarrow> string res"
  AcceptTx :: "nat \<Rightarrow> string \<Rightarrow> unit res"
  tx_ID :: "string \<Rightarrow> string"
  SecretKeyFromBytes :: "string \<Rightarrow> unit res"
  AliasChain :: "nat \<Rightarrow> string \<times> 16 word \<Rightarrow> string \<Rightarrow> string \<Rightarrow> unit res"
  LoadVMs :: "nat \<Rightarrow> string \<Rightarrow> string gmap res"
  time_Now :: "nat \<Rightarrow> int"
  waits :: "nat \<Rightarrow> wait list"
  PrimaryNetworkID :: string
  LUXAssetID :: string
  MinValidatorStake :: "64 word"
  PercentDenominator :: "32 word"
  EWOQ_Address :: string

type_synonym issued = "string \<times> tx \<times> string"
type_synonym chain_state = "net_state \<times> issued list"

definition onN :: "(net_state, 'a) prog \<Rightarrow> (chain_state, 'a) prog" where
  "onN m = zoomP fst (\<lambda>n s. (n, snd s)) m"

definition getN :: "(localNetwork \<Rightarrow> 'a) \<Rightarrow> (chain_state, 'a) prog" where
  "getN f = onN (getL f)"

definition ask :: "(nat \<Rightarrow> 'a res) \<Rightarrow> (chain_state, 'a) prog" where
  "ask f = bindP (onN (onW tick)) (\<lambda>t. liftR (f t))"

text \<open>\<^verbatim>\<open>xs[i]\<close>\<close>

definition at :: "'a list \<Rightarrow> nat \<Rightarrow> 'a res" where
  "at xs i = (if i < length xs then Ok (xs ! i) else Panic ''index out of range'')"

section \<open>Constants, times\<close>

text \<open>Durations are in nanoseconds, instants in nanoseconds since the Unix epoch.\<close>

definition second :: int where "second = 1000000000"
definition validationStartOffset :: int where "validationStartOffset = 20 * second"
definition permissionlessValidationStartOffset :: int where "permissionlessValidationStartOffset = 30 * second"
definition validationDuration :: int where "validationDuration = 365 * 24 * 3600 * second"
definition subnetValidatorsWeight :: "64 word" where "subnetValidatorsWeight = 1000"

definition errAborted :: err where "errAborted = New ''aborted''"

text \<open>\<^verbatim>\<open>uint64(t.Unix())\<close>, and that of the zero \<^verbatim>\<open>time.Time\<close>.\<close>

definition unix :: "int \<Rightarrow> 64 word" where
  "unix t = of_int (t div second)"

definition zero_time :: int where
  "zero_time = - 62135596800 * second"

definition now :: "chain_env \<Rightarrow> (chain_state, int) prog" where
  "now ce = ask (\<lambda>t. Ok (time_Now ce t))"

section \<open>Clients\<close>

record blockchainInfo =
  bi_chainName :: string
  bi_vmID :: string
  bi_subnetID :: string
  bi_blockchainID :: string

text \<open>\<^verbatim>\<open>getNode\<close>: the node with the least API port, among those that are not paused.\<close>

fun min_node :: "16 word \<Rightarrow> localNode option \<Rightarrow> localNode gmap \<Rightarrow> localNode option" where
  "min_node m node [] = node"
| "min_node m node ((name, n) # ns) =
     (if n_paused n then min_node m node ns
      else if n_apiPort n < m then min_node (n_apiPort n) (Some n) ns
      else min_node m node ns)"

definition chain_getNode :: "localNetwork \<Rightarrow> localNode option" where
  "chain_getNode l = min_node (of_nat MaxPort) None (ln_nodes l)"

definition node_uri :: "localNode \<Rightarrow> string" where
  "node_uri n = ''http://'' @ GetURL n @ '':'' @ show_nat (unat (n_apiPort n))"

text \<open>\<^verbatim>\<open>getClientURI\<close> dereferences the node it got, which may be nil.\<close>

definition getClientURI :: "(chain_state, string) prog" where
  "getClientURI =
     bindP (getN chain_getNode) (\<lambda>node.
       (case node of
          None \<Rightarrow> panic ''nil pointer dereference''
        | Some n \<Rightarrow> ret (node_uri n)))"

text \<open>A wallet by the nodes its clients talk to; \<^verbatim>\<open>reload\<close> replaces the P-chain client only.\<close>

record wallet =
  w_addr :: string
  w_pURI :: string
  w_xURI :: string
  w_txs :: "string list"

definition newWallet :: "chain_env \<Rightarrow> string \<Rightarrow> string list \<Rightarrow> (chain_state, wallet) prog" where
  "newWallet ce uri preloadTXs =
     bindP (ask (\<lambda>t. FetchState ce t uri)) (\<lambda>_.
     bindP (forP preloadTXs (\<lambda>txid.
              bindP (ask (\<lambda>t. GetTx ce t uri txid)) (\<lambda>txBytes.
              liftR (txs_Parse ce txBytes)))) (\<lambda>_.
     ret \<lparr>w_addr = EWOQ_Address ce, w_pURI = uri, w_xURI = uri, w_txs = preloadTXs\<rparr>))"

definition wallet_reload :: "string \<Rightarrow> wallet \<Rightarrow> wallet" where
  "wallet_reload uri w = w\<lparr>w_pURI := uri\<rparr>"

definition issue :: "chain_env \<Rightarrow> string \<Rightarrow> tx \<Rightarrow> (chain_state, string) prog" where
  "issue ce uri t =
     bindP (ask (\<lambda>k. issueTx ce k uri t)) (\<lambda>txID.
     bindP (modify (apsnd (\<lambda>txs. txs @ [(uri, t, txID)]))) (\<lambda>_. ret txID))"

definition tx_error :: "string \<Rightarrow> string \<Rightarrow> string list \<Rightarrow> (chain_state, 'a) prog \<Rightarrow> (chain_state, 'a) prog" where
  "tx_error fmt name args m = wrapP fmt (name # args) m"

section \<open>Validators\<close>

definition validatorIDs :: "Validator list \<Rightarrow> string set" where
  "validatorIDs vs = set (map v_NodeID vs)"

text \<open>\<^verbatim>\<open>primaryValidatorsEndtime\<close>: the last entry of a node counts, the zero time stands for none.\<close>

definition endtime :: "Validator list \<Rightarrow> string \<Rightarrow> 64 word" where
  "endtime vs nodeID =
     (case map_of (rev (map (\<lambda>v. (v_NodeID v, v_EndTime v)) vs)) nodeID of
        Some t \<Rightarrow> t
      | None \<Rightarrow> unix zero_time)"

definition add_primary :: "env \<Rightarrow> chain_env \<Rightarrow> wallet \<Rightarrow> Validator list \<Rightarrow> string \<times> localNode \<Rightarrow> (chain_state, unit) prog" where
  "add_primary e ce w vdrs = (\<lambda>(nodeName, node).
     (let nodeID = n_nodeID node in
      if nodeID \<in> validatorIDs vdrs then ret ()
      else bindP (liftR (b64_decode (nc_StakingSigningKey (n_config node)))) (\<lambda>blsKeyBytes.
           bindP (liftR (SecretKeyFromBytes ce blsKeyBytes)) (\<lambda>_.
           bindP (now ce) (\<lambda>t1.
           bindP (now ce) (\<lambda>t2.
           bindP (tx_error ''P-Wallet Tx Error %s %w, node ID %s'' ''IssueAddPermissionlessValidatorTx'' [nodeID]
                    (issue ce (w_pURI w) (AddPermissionlessValidatorTx
                       \<lparr>sv_NodeID = nodeID, sv_Start = unix (t1 + validationStartOffset),
                        sv_End = unix (t2 + validationDuration), sv_Wght = MinValidatorStake ce,
                        sv_Subnet = ids_Empty e\<rparr>
                       (Some blsKeyBytes) (LUXAssetID ce) (10 * 10000)))) (\<lambda>_.
           ret ())))))))"

definition addPrimaryValidators :: "env \<Rightarrow> chain_env \<Rightarrow> string \<Rightarrow> wallet \<Rightarrow> (chain_state, unit) prog" where
  "addPrimaryValidators e ce platformCli w =
     bindP (ask (\<lambda>t. GetCurrentValidators ce t platformCli (PrimaryNetworkID ce))) (\<lambda>vdrs.
     bindP (getN ln_nodes) (\<lambda>nodes.
     forP nodes (add_primary e ce w vdrs)))"

definition getXChainAssetID :: "chain_env \<Rightarrow> wallet \<Rightarrow> string \<Rightarrow> string \<Rightarrow> 64 word \<Rightarrow> (chain_state, string) prog" where
  "getXChainAssetID ce w tokenName tokenSymbol maxSupply =
     issue ce (w_xURI w) (CreateAssetTx tokenName tokenSymbol 9 maxSupply)"

definition exportXChainToPChain :: "chain_env \<Rightarrow> wallet \<Rightarrow> string \<Rightarrow> 64 word \<Rightarrow> (chain_state, unit) prog" where
  "exportXChainToPChain ce w subnetAssetID assetAmount =
     bindP (issue ce (w_xURI w) (ExportTx subnetAssetID assetAmount)) (\<lambda>_. ret ())"

definition importPChainFromXChain :: "chain_env \<Rightarrow> wallet \<Rightarrow> (chain_state, unit) prog" where
  "importPChainFromXChain ce w = bindP (issue ce (w_pURI w) ImportTx) (\<lambda>_. ret ())"

definition createSubnets :: "chain_env \<Rightarrow> 32 word \<Rightarrow> wallet \<Rightarrow> (chain_state, string list) prog" where
  "createSubnets ce numSubnets w =
     foldP (\<lambda>i subnetIDs.
       bindP (tx_error ''P-Wallet Tx Error %s %w'' ''IssueCreateSubnetTx'' []
                (issue ce (w_pURI w) CreateSubnetTx)) (\<lambda>subnetID.
       ret (subnetIDs @ [subnetID]))) [0..<unat numSubnets] []"

definition not_in_network :: "string \<Rightarrow> err" where
  "not_in_network nodeName = Errorf ''participant node %s is not in network nodes'' [nodeName]"

definition the_participant :: "string \<Rightarrow> (chain_state, localNode) prog" where
  "the_participant nodeName =
     bindP (getN (\<lambda>l. map_of (ln_nodes l) nodeName)) (\<lambda>found.
       (case found of None \<Rightarrow> throw (not_in_network nodeName) | Some node \<Rightarrow> ret node))"

definition add_subnet_validator ::
  "env \<Rightarrow> chain_env \<Rightarrow> wallet \<Rightarrow> string \<Rightarrow> Validator list \<Rightarrow> Validator list \<Rightarrow> string \<Rightarrow> (chain_state, unit) prog" where
  "add_subnet_validator e ce w subnetID primary subnetVs nodeName =
     bindP (the_participant nodeName) (\<lambda>node.
     let nodeID = n_nodeID node in
     if nodeID \<in> validatorIDs subnetVs then ret ()
     else bindP (now ce) (\<lambda>t.
          bindP (tx_error ''P-Wallet Tx Error %s %w, node ID %s, subnetID %s'' ''IssueAddSubnetValidatorTx''
                   [nodeID, ids_String e subnetID]
                   (issue ce (w_pURI w) (AddSubnetValidatorTx
                      \<lparr>sv_NodeID = nodeID, sv_Start = unix (t + validationStartOffset),
                       sv_End = endtime primary nodeID, sv_Wght = subnetValidatorsWeight,
                       sv_Subnet = subnetID\<rparr>))) (\<lambda>_. ret ())))"

definition addSubnetValidators ::
  "env \<Rightarrow> chain_env \<Rightarrow> string \<Rightarrow> wallet \<Rightarrow> string list \<Rightarrow> SubnetSpec list \<Rightarrow> (chain_state, unit) prog" where
  "addSubnetValidators e ce platformCli w subnetIDs subnetSpecs =
     forP (List.enumerate 0 subnetIDs) (\<lambda>(i, subnetID).
       bindP (ask (\<lambda>t. GetCurrentValidators ce t platformCli (PrimaryNetworkID ce))) (\<lambda>primary.
       bindP (ask (\<lambda>t. GetCurrentValidators ce t platformCli subnetID)) (\<lambda>subnetVs.
       bindP (liftR (at subnetSpecs i)) (\<lambda>spec.
       forP (ss_Participants spec) (add_subnet_validator e ce w subnetID primary subnetVs)))))"

section \<open>Waiting\<close>

text \<open>One turn of a wait loop: done, or what the \<^verbatim>\<open>select\<close> gives; a list that ends is a deadline that passed.\<close>

definition ErrDeadlineExceeded :: err where
  "ErrDeadlineExceeded = External ''context deadline exceeded''"

fun wait_until :: "(chain_state, bool) prog \<Rightarrow> wait list \<Rightarrow> (chain_state, unit) prog" where
  "wait_until check [] =
     bindP check (\<lambda>ready. if ready then ret () else throw ErrDeadlineExceeded)"
| "wait_until check (x # xs) =
     bindP check (\<lambda>ready.
       if ready then ret ()
       else (case x of
               OnStop \<Rightarrow> throw errAborted
             | CtxDone er \<Rightarrow> throw er
             | Timer \<Rightarrow> wait_until check xs))"

definition wait_loop :: "chain_env \<Rightarrow> (chain_state, bool) prog \<Rightarrow> (chain_state, unit) prog" where
  "wait_loop ce check = bindP (ask (\<lambda>t. Ok (waits ce t))) (wait_until check)"

definition primary_ready :: "chain_env \<Rightarrow> string \<Rightarrow> (chain_state, bool) prog" where
  "primary_ready ce platformCli =
     bindP (ask (\<lambda>t. GetCurrentValidators ce t platformCli (PrimaryNetworkID ce))) (\<lambda>vs.
     getN (\<lambda>l. list_all (\<lambda>(_, node). n_nodeID node \<in> validatorIDs vs) (ln_nodes l)))"

definition waitPrimaryValidators :: "chain_env \<Rightarrow> string \<Rightarrow> (chain_state, unit) prog" where
  "waitPrimaryValidators ce platformCli = wait_loop ce (primary_ready ce platformCli)"

text \<open>The inner loop: all participants are looked up, also after one that is not ready.\<close>

fun participants_ready :: "Validator list \<Rightarrow> string list \<Rightarrow> bool \<Rightarrow> (chain_state, bool) prog" where
  "participants_ready vs [] ready = ret ready"
| "participants_ready vs (nodeName # names) ready =
     bindP (the_participant nodeName) (\<lambda>node.
     participants_ready vs names (ready \<and> n_nodeID node \<in> validatorIDs vs))"

fun subnets_ready :: "chain_env \<Rightarrow> string \<Rightarrow> SubnetSpec list \<Rightarrow> (nat \<times> string) list \<Rightarrow> (chain_state, bool) prog" where
  "subnets_ready ce platformCli subnetSpecs [] = ret True"
| "subnets_ready ce platformCli subnetSpecs ((i, subnetID) # rest) =
     bindP (ask (\<lambda>t. GetCurrentValidators ce t platformCli subnetID)) (\<lambda>vs.
     bindP (liftR (at subnetSpecs i)) (\<lambda>spec.
     bindP (participants_ready vs (ss_Participants spec) True) (\<lambda>ready.
     if \<not> ready then ret False else subnets_ready ce platformCli subnetSpecs rest)))"

definition waitSubnetValidators ::
  "chain_env \<Rightarrow> string \<Rightarrow> string list \<Rightarrow> SubnetSpec list \<Rightarrow> (chain_state, unit) prog" where
  "waitSubnetValidators ce platformCli subnetIDs subnetSpecs =
     wait_loop ce (subnets_ready ce platformCli subnetSpecs (List.enumerate 0 subnetIDs))"

definition getSubnetValidatorsNodenames :: "env \<Rightarrow> chain_env \<Rightarrow> string \<Rightarrow> (chain_state, string list) prog" where
  "getSubnetValidatorsNodenames e ce subnetID =
     bindP getClientURI (\<lambda>clientURI.
     bindP (ask (\<lambda>t. GetCurrentValidators ce t clientURI subnetID)) (\<lambda>vs.
     bindP (getN ln_nodes) (\<lambda>nodes.
     let nodeNames = concat (map (\<lambda>v. map fst (filter (\<lambda>(_, node). v_NodeID v = n_nodeID node) nodes)) vs) in
     if length nodeNames \<noteq> length vs
     then throw (Errorf ''not all validators for subnet %s are present in network'' [ids_String e subnetID])
     else ret nodeNames)))"

definition log_ready :: "env \<Rightarrow> string \<Rightarrow> (chain_state, bool) prog" where
  "log_ready e p = catchP (bindP (onN (onW (os_Stat e p))) (\<lambda>_. ret True)) (\<lambda>_. ret False)"

definition wait_log :: "env \<Rightarrow> chain_env \<Rightarrow> blockchainInfo \<Rightarrow> string \<Rightarrow> (chain_state, unit) prog" where
  "wait_log e ce chainInfo nodeName =
     bindP (getN (\<lambda>l. map_of (ln_nodes l) nodeName)) (\<lambda>found.
       (case found of
          None \<Rightarrow> panic ''nil pointer dereference''
        | Some node \<Rightarrow>
            if n_paused node then ret ()
            else wait_loop ce (log_ready e
                   (filepath_Join [n_logsDir node, ids_String e (bi_blockchainID chainInfo) @ ''.log'']))))"

definition waitForCustomChainsReady :: "env \<Rightarrow> chain_env \<Rightarrow> blockchainInfo list \<Rightarrow> (chain_state, unit) prog" where
  "waitForCustomChainsReady e ce chainInfos =
     bindP (onN (healthy e)) (\<lambda>_.
     forP chainInfos (\<lambda>chainInfo.
       bindP (getSubnetValidatorsNodenames e ce (bi_subnetID chainInfo)) (\<lambda>nodeNames.
       forP nodeNames (wait_log e ce chainInfo))))"

section \<open>Restarting nodes that track subnets\<close>

text \<open>The subnets a node tracks, and whether it has to be restarted.\<close>

definition track_added :: "string \<Rightarrow> PermissionlessValidatorSpec list \<Rightarrow> string list \<times> bool \<Rightarrow> string list \<times> bool" where
  "track_added nodeName validatorSpecs acc =
     fold (\<lambda>spec (tracked, needsRestart).
             if pvs_NodeName spec = nodeName then (List.insert (pvs_SubnetID spec) tracked, True)
             else (tracked, needsRestart)) validatorSpecs acc"

definition track_removed :: "string \<Rightarrow> RemoveSubnetValidatorSpec list \<Rightarrow> string list \<times> bool \<Rightarrow> string list \<times> bool" where
  "track_removed nodeName removeSpecs acc =
     fold (\<lambda>spec. fold (\<lambda>toRemoveNode (tracked, needsRestart).
             if toRemoveNode = nodeName then (removeAll (rsv_SubnetID spec) tracked, True)
             else (tracked, needsRestart)) (rsv_NodeNames spec)) removeSpecs acc"

definition track_new ::
  "env \<Rightarrow> string \<Rightarrow> SubnetSpec list \<Rightarrow> string list \<Rightarrow> string list \<times> bool \<Rightarrow> (string list \<times> bool) res" where
  "track_new e nodeName subnetSpecs subnetIDs acc =
     foldR (\<lambda>(i, subnetID) acc.
       bindR (at subnetSpecs i) (\<lambda>spec.
       Ok (fold (\<lambda>participant (tracked, needsRestart).
             if participant = nodeName then (List.insert (ids_String e subnetID) tracked, True)
             else (tracked, needsRestart)) (ss_Participants spec) acc))) (List.enumerate 0 subnetIDs) acc"

definition slice :: "'a list option \<Rightarrow> 'a list" where
  "slice xs = (case xs of None \<Rightarrow> [] | Some ys \<Rightarrow> ys)"

definition previous_tracked :: "env \<Rightarrow> localNode \<Rightarrow> string list res" where
  "previous_tracked e node =
     (case mget (nc_Flags (n_config node)) (TrackSubnetsKey e) of
        None \<Rightarrow> Ok []
      | Some v \<Rightarrow>
          (case as_string v of
             None \<Rightarrow> Err (Errorf ''expected node config %s to have type string obtained %T''
                       [TrackSubnetsKey e, type_name v])
           | Some s \<Rightarrow> Ok (if s = [] then [] else remdups (split_on (CHR '','') s))))"

definition tracked_by ::
  "env \<Rightarrow> string list \<Rightarrow> SubnetSpec list option \<Rightarrow> PermissionlessValidatorSpec list option \<Rightarrow>
   RemoveSubnetValidatorSpec list option \<Rightarrow> string \<Rightarrow> localNode \<Rightarrow> (string list \<times> bool) res" where
  "tracked_by e subnetIDs subnetSpecs validatorSpecs removeSpecs nodeName node =
     bindR (previous_tracked e node) (\<lambda>previous.
     track_new e nodeName (slice subnetSpecs) subnetIDs
       (track_removed (n_name node) (slice removeSpecs)
          (track_added (n_name node) (slice validatorSpecs) (previous, False))))"

text \<open>The flag is written to the map of the stored node, also if the node is not restarted.\<close>

definition track_one ::
  "env \<Rightarrow> string list \<Rightarrow> SubnetSpec list option \<Rightarrow> PermissionlessValidatorSpec list option \<Rightarrow>
   RemoveSubnetValidatorSpec list option \<Rightarrow> string \<Rightarrow> (net_state, localNode \<times> bool) prog" where
  "track_one e subnetIDs subnetSpecs validatorSpecs removeSpecs nodeName =
     bindP (getL (\<lambda>l. map_of (ln_nodes l) nodeName)) (\<lambda>found.
       (case found of
          None \<Rightarrow> panic ''nil pointer dereference''
        | Some node \<Rightarrow>
            bindP (liftR (tracked_by e subnetIDs subnetSpecs validatorSpecs removeSpecs nodeName node))
              (\<lambda>(tracked, needs).
            bindP (write_config nodeName node
                     (bindR (mput (TrackSubnetsKey e) (VStr (join_with '','' (sort tracked)))
                               (nc_Flags (n_config node))) (\<lambda>fl.
                      Ok ((n_config node)\<lparr>nc_Flags := fl\<rparr>)))) (\<lambda>_.
            ret (node, needs)))))"

definition restart_one ::
  "env \<Rightarrow> string list \<Rightarrow> SubnetSpec list option \<Rightarrow> PermissionlessValidatorSpec list option \<Rightarrow>
   RemoveSubnetValidatorSpec list option \<Rightarrow> string set \<Rightarrow> string \<Rightarrow> (net_state, unit) prog" where
  "restart_one e subnetIDs subnetSpecs validatorSpecs removeSpecs nodesToRestart nodeName =
     bindP (track_one e subnetIDs subnetSpecs validatorSpecs removeSpecs nodeName) (\<lambda>(node, needs).
     let needsRestart = (needs \<or> subnetSpecs \<noteq> None \<and> nodeName \<in> nodesToRestart) in
     if \<not> needsRestart then ret ()
     else if n_paused node then ret ()
     else restartNode e nodeName [] [] [] None None None)"

definition restartNodes ::
  "env \<Rightarrow> string list \<Rightarrow> SubnetSpec list option \<Rightarrow> PermissionlessValidatorSpec list option \<Rightarrow>
   RemoveSubnetValidatorSpec list option \<Rightarrow> string set \<Rightarrow> (net_state, unit) prog" where
  "restartNodes e subnetIDs subnetSpecs validatorSpecs removeValidatorSpecs nodesToRestart =
     (if (subnetSpecs \<noteq> None \<and> validatorSpecs \<noteq> None) \<or> (subnetSpecs \<noteq> None \<and> removeValidatorSpecs \<noteq> None) \<or>
         (validatorSpecs \<noteq> None \<and> removeValidatorSpecs \<noteq> None)
      then throw (New (''only one type of spec between subnet specs, add permissionless validator specs and '' @
                       ''remove validator specs can be supplied at one time''))
      else bindP (getL (\<lambda>l. sort (mkeys (ln_nodes l)))) (\<lambda>nodeNames.
           bindP (forP nodeNames (restart_one e subnetIDs subnetSpecs validatorSpecs removeValidatorSpecs
                    nodesToRestart)) (\<lambda>_.
           healthy e)))"

section \<open>Configuration files of subnets and chains\<close>

text \<open>Writes to a map of the configuration of a stored node.\<close>

definition update_config :: "string \<Rightarrow> (NodeConfig \<Rightarrow> NodeConfig res) \<Rightarrow> (chain_state, unit) prog" where
  "update_config nodeName f =
     bindP (the_participant nodeName) (\<lambda>node.
     bindP (onN (write_config nodeName node (f (n_config node)))) (\<lambda>_. ret ()))"

definition put_subnet_config :: "string \<Rightarrow> string \<Rightarrow> NodeConfig \<Rightarrow> NodeConfig res" where
  "put_subnet_config k v nc =
     bindR (mput k v (nc_SubnetConfigFiles nc)) (\<lambda>m. Ok (nc\<lparr>nc_SubnetConfigFiles := m\<rparr>))"

definition put_chain_config :: "string \<Rightarrow> string \<Rightarrow> NodeConfig \<Rightarrow> NodeConfig res" where
  "put_chain_config k v nc =
     bindR (mput k v (nc_ChainConfigFiles nc)) (\<lambda>m. Ok (nc\<lparr>nc_ChainConfigFiles := m\<rparr>))"

definition put_upgrade_config :: "string \<Rightarrow> string \<Rightarrow> NodeConfig \<Rightarrow> NodeConfig res" where
  "put_upgrade_config k v nc =
     bindR (mput k v (nc_UpgradeConfigFiles nc)) (\<lambda>m. Ok (nc\<lparr>nc_UpgradeConfigFiles := m\<rparr>))"

definition setSubnetConfigFiles :: "env \<Rightarrow> string list \<Rightarrow> SubnetSpec list \<Rightarrow> (chain_state, unit) prog" where
  "setSubnetConfigFiles e subnetIDs subnetSpecs =
     forP (List.enumerate 0 subnetIDs) (\<lambda>(i, subnetID).
       bindP (liftR (at subnetSpecs i)) (\<lambda>spec.
         (case ss_SubnetConfig spec of
            None \<Rightarrow> ret ()
          | Some subnetConfig \<Rightarrow>
              forP (ss_Participants spec) (\<lambda>nodeName.
                update_config nodeName (put_subnet_config (ids_String e subnetID) subnetConfig)))))"

definition subnet_id_of :: "env \<Rightarrow> BlockchainSpec \<Rightarrow> string res" where
  "subnet_id_of e spec =
     (case bs_SubnetID spec of
        None \<Rightarrow> Panic ''nil pointer dereference''
      | Some s \<Rightarrow> ids_FromString e s)"

definition spec_participants ::
  "env \<Rightarrow> chain_env \<Rightarrow> string \<Rightarrow> string list \<Rightarrow> SubnetSpec list \<Rightarrow> (chain_state, string list) prog" where
  "spec_participants e ce chainSubnetID subnetIDs subnetSpecs =
     bindP (liftR (foldR (\<lambda>(j, newSubnetID) participants.
               if chainSubnetID = newSubnetID
               then bindR (at subnetSpecs j) (\<lambda>spec. Ok (ss_Participants spec))
               else Ok participants) (List.enumerate 0 subnetIDs) [])) (\<lambda>participants.
     if participants = [] then getSubnetValidatorsNodenames e ce chainSubnetID else ret participants)"

definition node_chain_config :: "BlockchainSpec \<Rightarrow> string \<Rightarrow> string" where
  "node_chain_config spec nodeName =
     (case mget (bs_PerNodeChainConfig spec) nodeName of
        Some cfg \<Rightarrow> cfg
      | None \<Rightarrow> (case bs_ChainConfig spec of Some cfg \<Rightarrow> cfg | None \<Rightarrow> []))"

definition set_chain_files ::
  "env \<Rightarrow> chain_env \<Rightarrow> string list \<Rightarrow> string list \<Rightarrow> SubnetSpec list \<Rightarrow> nat \<times> BlockchainSpec \<Rightarrow> string set \<Rightarrow>
   (chain_state, string set) prog" where
  "set_chain_files e ce blockchainTxs subnetIDs subnetSpecs = (\<lambda>(i, spec) nodesToRestart.
     bindP (liftR (subnet_id_of e spec)) (\<lambda>chainSubnetID.
     bindP (spec_participants e ce chainSubnetID subnetIDs subnetSpecs) (\<lambda>participants.
     bindP (liftR (at blockchainTxs i)) (\<lambda>tx.
     let chainAlias = ids_String e (tx_ID ce tx) in
     bindP (if bs_ChainConfig spec \<noteq> None \<or> mrange (bs_PerNodeChainConfig spec) \<noteq> []
            then foldP (\<lambda>nodeName restart.
                   bindP (update_config nodeName (put_chain_config chainAlias (node_chain_config spec nodeName))) (\<lambda>_.
                   ret (insert nodeName restart))) participants nodesToRestart
            else ret nodesToRestart) (\<lambda>restart1.
       (case bs_NetworkUpgrade spec of
          None \<Rightarrow> ret restart1
        | Some upgrade \<Rightarrow>
            foldP (\<lambda>nodeName restart.
              bindP (update_config nodeName (put_upgrade_config chainAlias upgrade)) (\<lambda>_.
              ret (insert nodeName restart))) participants restart1))))))"

definition setBlockchainConfigFiles ::
  "env \<Rightarrow> chain_env \<Rightarrow> BlockchainSpec list \<Rightarrow> string list \<Rightarrow> string list \<Rightarrow> SubnetSpec list \<Rightarrow>
   (chain_state, string set) prog" where
  "setBlockchainConfigFiles e ce chainSpecs blockchainTxs subnetIDs subnetSpecs =
     foldP (set_chain_files e ce blockchainTxs subnetIDs subnetSpecs) (List.enumerate 0 chainSpecs) {}"

section \<open>Creating chains\<close>

definition reloadVMPlugins :: "chain_env \<Rightarrow> (chain_state, unit) prog" where
  "reloadVMPlugins ce =
     bindP (getN ln_nodes) (\<lambda>nodes.
     forP nodes (\<lambda>(_, node).
       if n_paused node then ret ()
       else bindP (ask (\<lambda>t. LoadVMs ce t (node_uri node))) (\<lambda>failedVMs.
            if failedVMs \<noteq> []
            then throw (Errorf ''%d VMs failed to load: %v'' [show_nat (length failedVMs), join_with '' '' (map fst failedVMs)])
            else ret ())))"

definition createBlockchainTxs ::
  "env \<Rightarrow> chain_env \<Rightarrow> BlockchainSpec list \<Rightarrow> (chain_state, string list) prog" where
  "createBlockchainTxs e ce chainSpecs =
     foldP (\<lambda>spec blockchainTxs.
       bindP (liftR (VMID e (bs_VMName spec))) (\<lambda>vmID.
       bindP (liftR (subnet_id_of e spec)) (\<lambda>subnetID.
       bindP (wrapP ''failure generating create blockchain tx: %w'' []
                (ask (\<lambda>t. NewCreateChainTx ce t subnetID (bs_Genesis spec) vmID (bs_VMName spec)))) (\<lambda>utx.
       bindP (wrapP ''failure signing create blockchain tx: %w'' [] (ask (\<lambda>t. SignUnsigned ce t utx))) (\<lambda>tx.
       bindP (wrapP ''failure accepting create blockchain tx UTXOs: %w'' [] (ask (\<lambda>t. AcceptTx ce t tx))) (\<lambda>_.
       ret (blockchainTxs @ [tx]))))))) chainSpecs []"

definition createBlockchains ::
  "env \<Rightarrow> chain_env \<Rightarrow> BlockchainSpec list \<Rightarrow> string list \<Rightarrow> wallet \<Rightarrow> (chain_state, unit) prog" where
  "createBlockchains e ce chainSpecs blockchainTxs w =
     forP (List.enumerate 0 chainSpecs) (\<lambda>(i, spec).
       bindP (liftR (VMID e (bs_VMName spec))) (\<lambda>vmID.
       bindP (liftR (at blockchainTxs i)) (\<lambda>tx.
       bindP (tx_error ''P-Wallet Tx Error %s %w, blockchainID %s'' ''IssueCreateBlockchainTx''
                [ids_String e (tx_ID ce tx)] (issue ce (w_pURI w) (CreateChainTx tx))) (\<lambda>blockchainID.
       if blockchainID \<noteq> tx_ID ce tx
       then throw (Errorf ''failure issuing create blockchain: txID differs from blockchainID'' [])
       else ret ()))))"

section \<open>Subnets\<close>

text \<open>\<^verbatim>\<open>node.Config{Name: nodeName}\<close>\<close>

definition named_config :: "string \<Rightarrow> NodeConfig" where
  "named_config nodeName =
     \<lparr>nc_Name = nodeName, nc_IsBeacon = False, nc_StakingKey = [], nc_StakingCert = [],
      nc_StakingSigningKey = [], nc_ConfigFile = [], nc_ChainConfigFiles = None,
      nc_UpgradeConfigFiles = None, nc_SubnetConfigFiles = None, nc_Flags = None, nc_BinaryPath = [],
      nc_RedirectStdout = False, nc_RedirectStderr = False\<rparr>"

definition add_participant :: "env \<Rightarrow> string \<Rightarrow> (net_state, unit) prog" where
  "add_participant e nodeName =
     bindP (getL (\<lambda>l. map_of (ln_nodes l) nodeName)) (\<lambda>found.
       if found = None then bindP (addNode e (named_config nodeName)) (\<lambda>_. ret ()) else ret ())"

definition add_participants :: "env \<Rightarrow> SubnetSpec list \<Rightarrow> (net_state, unit) prog" where
  "add_participants e subnetSpecs =
     forP subnetSpecs (\<lambda>spec. forP (ss_Participants spec) (add_participant e))"

text \<open>No participants given: all nodes take part.\<close>

definition default_participants :: "localNetwork \<Rightarrow> SubnetSpec list \<Rightarrow> SubnetSpec list" where
  "default_participants l subnetSpecs =
     map (\<lambda>spec. if ss_Participants spec = [] then spec\<lparr>ss_Participants := sort (mkeys (ln_nodes l))\<rparr> else spec)
       subnetSpecs"

text \<open>The steps that installing subnets and installing chains share: up to the new subnets.\<close>

definition provision_subnets ::
  "env \<Rightarrow> chain_env \<Rightarrow> string \<Rightarrow> wallet \<Rightarrow> SubnetSpec list \<Rightarrow> (chain_state, string list) prog" where
  "provision_subnets e ce platformCli w subnetSpecs =
     bindP (onN (add_participants e subnetSpecs)) (\<lambda>_.
     bindP (onN (healthy e)) (\<lambda>_.
     bindP (addPrimaryValidators e ce platformCli w) (\<lambda>_.
     bindP (createSubnets ce (of_nat (length subnetSpecs)) w) (\<lambda>subnetIDs.
     bindP (setSubnetConfigFiles e subnetIDs subnetSpecs) (\<lambda>_. ret subnetIDs)))))"

definition installSubnets :: "env \<Rightarrow> chain_env \<Rightarrow> SubnetSpec list \<Rightarrow> (chain_state, string list) prog" where
  "installSubnets e ce specs =
     bindP getClientURI (\<lambda>clientURI.
     bindP (newWallet ce clientURI []) (\<lambda>w.
     bindP (getN (\<lambda>l. default_participants l specs)) (\<lambda>subnetSpecs.
     bindP (provision_subnets e ce clientURI w subnetSpecs) (\<lambda>subnetIDs.
     bindP (waitPrimaryValidators ce clientURI) (\<lambda>_.
     bindP (addSubnetValidators e ce clientURI w subnetIDs subnetSpecs) (\<lambda>_.
     bindP (onN (restartNodes e subnetIDs (Some subnetSpecs) None None {})) (\<lambda>_.
     bindP (waitSubnetValidators ce clientURI subnetIDs subnetSpecs) (\<lambda>_.
     ret subnetIDs))))))))"

definition CreateSubnets :: "env \<Rightarrow> chain_env \<Rightarrow> SubnetSpec list \<Rightarrow> (chain_state, string list) prog" where
  "CreateSubnets e ce subnetSpecs = installSubnets e ce subnetSpecs"

section \<open>Blockchains\<close>

definition preload_txs :: "env \<Rightarrow> BlockchainSpec list \<Rightarrow> string list res" where
  "preload_txs e chainSpecs =
     mapR (ids_FromString e) (concat (map (\<lambda>spec. case bs_SubnetID spec of None \<Rightarrow> [] | Some s \<Rightarrow> [s]) chainSpecs))"

definition new_subnet_specs :: "BlockchainSpec list \<Rightarrow> SubnetSpec list" where
  "new_subnet_specs chainSpecs =
     concat (map (\<lambda>spec.
       if bs_SubnetID spec = None
       then [case bs_SubnetSpec spec of None \<Rightarrow> \<lparr>ss_Participants = [], ss_SubnetConfig = None\<rparr> | Some s \<Rightarrow> s]
       else []) chainSpecs)"

text \<open>The created subnets are given, in order, to the chains that have none.\<close>

fun assign_subnets :: "env \<Rightarrow> string list \<Rightarrow> BlockchainSpec list \<Rightarrow> BlockchainSpec list res" where
  "assign_subnets e subnetIDs [] = Ok []"
| "assign_subnets e subnetIDs (spec # specs) =
     (if bs_SubnetID spec = None
      then (case subnetIDs of
              [] \<Rightarrow> Panic ''index out of range''
            | s # ss \<Rightarrow> bindR (assign_subnets e ss specs) (\<lambda>rest.
                        Ok (spec\<lparr>bs_SubnetID := Some (ids_String e s)\<rparr> # rest)))
      else bindR (assign_subnets e subnetIDs specs) (\<lambda>rest. Ok (spec # rest)))"

definition chain_info :: "env \<Rightarrow> chain_env \<Rightarrow> string list \<Rightarrow> nat \<times> BlockchainSpec \<Rightarrow> blockchainInfo res" where
  "chain_info e ce blockchainTxs = (\<lambda>(i, spec).
     bindR (VMID e (bs_VMName spec)) (\<lambda>vmID.
     bindR (subnet_id_of e spec) (\<lambda>subnetID.
     bindR (at blockchainTxs i) (\<lambda>tx.
     Ok \<lparr>bi_chainName = bs_VMName spec, bi_vmID = vmID, bi_subnetID = subnetID, bi_blockchainID = tx_ID ce tx\<rparr>))))"

definition installCustomChains ::
  "env \<Rightarrow> chain_env \<Rightarrow> BlockchainSpec list \<Rightarrow> (chain_state, blockchainInfo list) prog" where
  "installCustomChains e ce specs =
     bindP getClientURI (\<lambda>clientURI.
     bindP (liftR (preload_txs e specs)) (\<lambda>preloadTXs.
     bindP (newWallet ce clientURI preloadTXs) (\<lambda>w.
     bindP (getN (\<lambda>l. default_participants l (new_subnet_specs specs))) (\<lambda>subnetSpecs.
     bindP (provision_subnets e ce clientURI w subnetSpecs) (\<lambda>subnetIDs.
     bindP (liftR (assign_subnets e subnetIDs specs)) (\<lambda>chainSpecs.
     bindP (waitPrimaryValidators ce clientURI) (\<lambda>_.
     bindP (addSubnetValidators e ce clientURI w subnetIDs subnetSpecs) (\<lambda>_.
     bindP (createBlockchainTxs e ce chainSpecs) (\<lambda>blockchainTxs.
     bindP (setBlockchainConfigFiles e ce chainSpecs blockchainTxs subnetIDs subnetSpecs) (\<lambda>nodesToRestart.
     bindP (if subnetSpecs \<noteq> [] \<or> nodesToRestart \<noteq> {}
            then bindP (onN (restartNodes e subnetIDs (Some subnetSpecs) None None nodesToRestart)) (\<lambda>_.
                 bindP getClientURI (\<lambda>clientURI'. ret (wallet_reload clientURI' w)))
            else ret w) (\<lambda>w'.
     bindP (reloadVMPlugins ce) (\<lambda>_.
     bindP (waitSubnetValidators ce clientURI subnetIDs subnetSpecs) (\<lambda>_.
     bindP (createBlockchains e ce chainSpecs blockchainTxs w') (\<lambda>_.
     liftR (mapR (chain_info e ce blockchainTxs) (List.enumerate 0 chainSpecs))))))))))))))))"

definition RegisterBlockchainAliases ::
  "env \<Rightarrow> chain_env \<Rightarrow> blockchainInfo list \<Rightarrow> BlockchainSpec list \<Rightarrow> (chain_state, unit) prog" where
  "RegisterBlockchainAliases e ce chainInfos chainSpecs =
     forP (List.enumerate 0 chainSpecs) (\<lambda>(i, spec).
       if bs_BlockchainAlias spec = [] then ret ()
       else bindP (liftR (at chainInfos i)) (\<lambda>info.
            bindP (getN ln_nodes) (\<lambda>nodes.
            forP nodes (\<lambda>(nodeName, node).
              if n_paused node then ret ()
              else wrapP ''failure to register blockchain alias %v on node %v: %w'' [bs_BlockchainAlias spec, nodeName]
                     (ask (\<lambda>t. AliasChain ce t (n_client node) (ids_String e (bi_blockchainID info))
                        (bs_BlockchainAlias spec)))))))"

definition CreateBlockchains :: "env \<Rightarrow> chain_env \<Rightarrow> BlockchainSpec list \<Rightarrow> (chain_state, string list) prog" where
  "CreateBlockchains e ce chainSpecs =
     bindP (installCustomChains e ce chainSpecs) (\<lambda>chainInfos.
     bindP (waitForCustomChainsReady e ce chainInfos) (\<lambda>_.
     bindP (RegisterBlockchainAliases e ce chainInfos chainSpecs) (\<lambda>_.
     ret (map bi_blockchainID chainInfos))))"

section \<open>Validators of existing subnets\<close>

definition remove_validator ::
  "env \<Rightarrow> chain_env \<Rightarrow> wallet \<Rightarrow> string \<Rightarrow> Validator list \<Rightarrow> string \<Rightarrow> (chain_state, unit) prog" where
  "remove_validator e ce w subnetID vs nodeName =
     bindP (getN (\<lambda>l. map_of (ln_nodes l) nodeName)) (\<lambda>found.
       (case found of
          None \<Rightarrow> throw (Errorf ''node %s is not in network nodes'' [nodeName])
        | Some node \<Rightarrow>
            if n_nodeID node \<notin> validatorIDs vs
            then throw (Errorf ''node %s is currently not a subnet validator of subnet %s''
                   [nodeName, ids_String e subnetID])
            else bindP (tx_error ''P-Wallet Tx Error %s %w, node ID %s, subnetID %s'' ''IssueRemoveSubnetValidatorTx''
                          [n_nodeID node, ids_String e subnetID]
                          (issue ce (w_pURI w) (RemoveSubnetValidatorTx (n_nodeID node) subnetID))) (\<lambda>_. ret ())))"

definition removeSubnetValidators ::
  "env \<Rightarrow> chain_env \<Rightarrow> RemoveSubnetValidatorSpec list \<Rightarrow> (chain_state, unit) prog" where
  "removeSubnetValidators e ce removeSubnetSpecs =
     bindP getClientURI (\<lambda>clientURI.
     bindP (liftR (mapR (\<lambda>spec. ids_FromString e (rsv_SubnetID spec)) removeSubnetSpecs)) (\<lambda>preloadTXs.
     bindP (newWallet ce clientURI preloadTXs) (\<lambda>w.
     bindP (forP removeSubnetSpecs (\<lambda>spec.
              bindP (liftR (ids_FromString e (rsv_SubnetID spec))) (\<lambda>subnetID.
              bindP (ask (\<lambda>t. GetCurrentValidators ce t clientURI subnetID)) (\<lambda>vs.
              forP (rsv_NodeNames spec) (remove_validator e ce w subnetID vs))))) (\<lambda>_.
     onN (restartNodes e [] None None (Some removeSubnetSpecs) {})))))"

definition RemoveSubnetValidators ::
  "env \<Rightarrow> chain_env \<Rightarrow> RemoveSubnetValidatorSpec list \<Rightarrow> (chain_state, unit) prog" where
  "RemoveSubnetValidators e ce specs = removeSubnetValidators e ce specs"

text \<open>\<^verbatim>\<open>StartTime\<close> is \<open>None\<close> for the zero time; the end time is computed from the given start time.\<close>

definition start_time :: "chain_env \<Rightarrow> PermissionlessValidatorSpec \<Rightarrow> (chain_state, 64 word) prog" where
  "start_time ce spec =
     (case pvs_StartTime spec of
        None \<Rightarrow> bindP (now ce) (\<lambda>t. ret (unix (t + permissionlessValidationStartOffset)))
      | Some s \<Rightarrow> ret (unix s))"

definition end_time :: "PermissionlessValidatorSpec \<Rightarrow> Validator list \<Rightarrow> string \<Rightarrow> 64 word" where
  "end_time spec vs nodeID =
     (if pvs_StakeDuration spec = 0 then endtime vs nodeID
      else unix ((case pvs_StartTime spec of None \<Rightarrow> zero_time | Some s \<Rightarrow> s) + pvs_StakeDuration spec))"

definition add_permissionless ::
  "env \<Rightarrow> chain_env \<Rightarrow> wallet \<Rightarrow> Validator list \<Rightarrow> PermissionlessValidatorSpec \<Rightarrow> (chain_state, unit) prog" where
  "add_permissionless e ce w vs spec =
     bindP (getN (\<lambda>l. map_of (ln_nodes l) (pvs_NodeName spec))) (\<lambda>found.
       (case found of
          None \<Rightarrow> panic ''nil pointer dereference''
        | Some node \<Rightarrow>
            bindP (liftR (ids_FromString e (pvs_SubnetID spec))) (\<lambda>subnetID.
            bindP (liftR (ids_FromString e (pvs_AssetID spec))) (\<lambda>assetID.
            bindP (start_time ce spec) (\<lambda>startTime.
            bindP (issue ce (w_pURI w) (AddPermissionlessValidatorTx
                     \<lparr>sv_NodeID = n_nodeID node, sv_Start = startTime,
                      sv_End = end_time spec vs (n_nodeID node), sv_Wght = pvs_StakedAmount spec,
                      sv_Subnet = subnetID\<rparr> None assetID (PercentDenominator ce))) (\<lambda>_.
            ret ()))))))"

definition addPermissionlessValidators ::
  "env \<Rightarrow> chain_env \<Rightarrow> PermissionlessValidatorSpec list \<Rightarrow> (chain_state, unit) prog" where
  "addPermissionlessValidators e ce validatorSpecs =
     bindP getClientURI (\<lambda>clientURI.
     bindP (liftR (mapR (\<lambda>spec. ids_FromString e (pvs_SubnetID spec)) validatorSpecs)) (\<lambda>preloadTXs.
     bindP (newWallet ce clientURI preloadTXs) (\<lambda>w.
     bindP (onN (forP validatorSpecs (\<lambda>spec. add_participant e (pvs_NodeName spec)))) (\<lambda>_.
     bindP (onN (healthy e)) (\<lambda>_.
     bindP (addPrimaryValidators e ce clientURI w) (\<lambda>_.
     bindP (waitPrimaryValidators ce clientURI) (\<lambda>_.
     bindP (ask (\<lambda>t. GetCurrentValidators ce t clientURI (PrimaryNetworkID ce))) (\<lambda>vs.
     bindP (forP validatorSpecs (add_permissionless e ce w vs)) (\<lambda>_.
     onN (restartNodes e [] None (Some validatorSpecs) None {}))))))))))"

definition AddPermissionlessValidators ::
  "env \<Rightarrow> chain_env \<Rightarrow> PermissionlessValidatorSpec list \<Rightarrow> (chain_state, unit) prog" where
  "AddPermissionlessValidators e ce specs = addPermissionlessValidators e ce specs"

section \<open>Elastic subnets\<close>

definition elastic_ids :: "env \<Rightarrow> ElasticSubnetSpec list \<Rightarrow> string list res" where
  "elastic_ids e specs =
     mapR (\<lambda>spec. case ess_SubnetID spec of
                    None \<Rightarrow> Err (New ''elastic subnet spec has no subnet ID'')
                  | Some s \<Rightarrow> ids_FromString e s) specs"

definition transform_one ::
  "env \<Rightarrow> chain_env \<Rightarrow> wallet \<Rightarrow> ElasticSubnetSpec \<Rightarrow> string list \<times> string list \<Rightarrow>
   (chain_state, string list \<times> string list) prog" where
  "transform_one e ce w spec = (\<lambda>(elasticSubnetIDs, assetIDs).
     bindP (getXChainAssetID ce w (ess_AssetName spec) (ess_AssetSymbol spec) (ess_MaxSupply spec)) (\<lambda>subnetAssetID.
     bindP (exportXChainToPChain ce w subnetAssetID (ess_MaxSupply spec)) (\<lambda>_.
     bindP (importPChainFromXChain ce w) (\<lambda>_.
     bindP (liftR (case ess_SubnetID spec of
                     None \<Rightarrow> Panic ''nil pointer dereference'' | Some s \<Rightarrow> ids_FromString e s)) (\<lambda>subnetID.
     bindP (issue ce (w_pURI w) (TransformSubnetTx subnetID subnetAssetID spec)) (\<lambda>transformSubnetTxID.
     bindP (onN (modL (ln_subnetID2ElasticSubnetID_update (AList.update subnetID transformSubnetTxID)))) (\<lambda>_.
     ret (elasticSubnetIDs @ [transformSubnetTxID], assetIDs @ [subnetAssetID]))))))))"

definition transformToElasticSubnets ::
  "env \<Rightarrow> chain_env \<Rightarrow> ElasticSubnetSpec list \<Rightarrow> (chain_state, string list \<times> string list) prog" where
  "transformToElasticSubnets e ce elasticSubnetSpecs =
     bindP getClientURI (\<lambda>clientURI.
     bindP (liftR (elastic_ids e elasticSubnetSpecs)) (\<lambda>preloadTXs.
     bindP (newWallet ce clientURI preloadTXs) (\<lambda>w.
     foldP (transform_one e ce w) elasticSubnetSpecs ([], []))))"

definition TransformSubnet ::
  "env \<Rightarrow> chain_env \<Rightarrow> ElasticSubnetSpec list \<Rightarrow> (chain_state, string list \<times> string list) prog" where
  "TransformSubnet e ce specs = transformToElasticSubnets e ce specs"

definition GetElasticSubnetID :: "env \<Rightarrow> string \<Rightarrow> (chain_state, string) prog" where
  "GetElasticSubnetID e subnetID =
     bindP (getN (\<lambda>l. map_of (ln_subnetID2ElasticSubnetID l) subnetID)) (\<lambda>found.
       (case found of
          None \<Rightarrow> throw (Errorf ''subnetID not found on map: %s'' [ids_String e subnetID])
        | Some elasticSubnetID \<Rightarrow> ret elasticSubnetID))"

end
