(* ===== verification/Default_Config.thy ===== *)
theory Default_Config
  imports Node_Lifecycle
begin

text \<open>
  The default configuration: the genesis of the local network (\<^verbatim>\<open>network/genesis.go\<close>), the default
  network of five nodes that \<^verbatim>\<open>init\<close> of \<^verbatim>\<open>local/network.go\<close> reads from the embedded directory,
  its extension to any number of nodes, and the genesis of a new network (\<^verbatim>\<open>network/config.go\<close>).

  The embedded files are a function from paths to contents. The in-place writes to nested maps
  of the genesis are updates of the tree.
\<close>

section \<open>The local genesis\<close>

definition field :: "string \<Rightarrow> val gomap \<Rightarrow> val" where
  "field k m = (case mget m k of None \<Rightarrow> VNull | Some v \<Rightarrow> v)"

text \<open>The first argument is the chain configuration of the \<^verbatim>\<open>coreth\<close> package.\<close>

definition LoadLocalGenesis :: "val \<Rightarrow> string \<Rightarrow> val gomap res" where
  "LoadLocalGenesis LuxLocalChainConfig genesisBytes =
     bindR (unmarshal_map genesisBytes) (\<lambda>genesisMap.
       (case field ''cChainGenesis'' genesisMap of
          VObj cChainGenesisMap \<Rightarrow>
            mput ''cChainGenesis''
              (VStr (json_marshal (VObj (AList.update ''config'' LuxLocalChainConfig cChainGenesisMap))))
              genesisMap
        | v \<Rightarrow> Err (Errorf
            ''expected field 'cChainGenesis' of genesisMap to be a map[string]interface{}, but it failed with type %T''
            [type_name v])))"

text \<open>\<^verbatim>\<open>init\<close> of \<^verbatim>\<open>network/config.go\<close>: the genesis of the C-Chain as a map.\<close>

definition init_cChainConfig :: "val \<Rightarrow> string \<Rightarrow> val gomap res" where
  "init_cChainConfig LuxLocalChainConfig genesisBytes =
     (case LoadLocalGenesis LuxLocalChainConfig genesisBytes of
        Ok genesisMap \<Rightarrow>
          (case field ''cChainGenesis'' genesisMap of
             VStr cChainConfigStr \<Rightarrow>
               (case unmarshal_map cChainConfigStr of Ok m \<Rightarrow> Ok m | _ \<Rightarrow> Panic ''json'')
           | v \<Rightarrow> Panic ''expected cChainGenesis to be a string'')
      | _ \<Rightarrow> Panic ''genesis'')"

section \<open>The default network\<close>

definition DefaultNumNodes :: nat where "DefaultNumNodes = 5"
definition genesisLocktimeStartimeDelta :: int where "genesisLocktimeStartimeDelta = 2836800"

definition set_locktime :: "int \<Rightarrow> val \<Rightarrow> val res" where
  "set_locktime lockTime schedIntf =
     (case schedIntf of
        VObj sched \<Rightarrow>
          Ok (VObj (if map_of sched ''locktime'' \<noteq> None
                    then AList.update ''locktime'' (VFloat lockTime 0) sched else sched))
      | _ \<Rightarrow> Panic ''unexpected type for unlockSchedule elem in genesis'')"

definition set_alloc_locktimes :: "int \<Rightarrow> val \<Rightarrow> val res" where
  "set_alloc_locktimes lockTime allocIntf =
     (case allocIntf of
        VObj alloc \<Rightarrow>
          (case map_of alloc ''unlockSchedule'' of
             Some (VArr unlockSchedule) \<Rightarrow>
               bindR (mapR (set_locktime lockTime) unlockSchedule) (\<lambda>scheds.
                 Ok (VObj (AList.update ''unlockSchedule'' (VArr scheds) alloc)))
           | _ \<Rightarrow> Panic ''could not get unlockSchedule in allocation'')
      | _ \<Rightarrow> Panic ''unexpected type for allocation in genesis'')"

definition set_genesis_times :: "int \<Rightarrow> val gomap \<Rightarrow> val gomap res" where
  "set_genesis_times startTime genesisMap0 =
     bindR (mput ''startTime'' (VFloat startTime 0) genesisMap0) (\<lambda>genesisMap.
       (case field ''allocations'' genesisMap of
          VArr allocations \<Rightarrow>
            bindR (mapR (set_alloc_locktimes (startTime + genesisLocktimeStartimeDelta)) allocations) (\<lambda>allocs.
              mput ''allocations'' (VArr allocs) genesisMap)
        | _ \<Rightarrow> Panic ''could not get allocations in genesis''))"

type_synonym embedded = "string \<Rightarrow> string option"

definition fs_ReadFile :: "embedded \<Rightarrow> string \<Rightarrow> string res" where
  "fs_ReadFile configsDir name =
     (case configsDir name of Some c \<Rightarrow> Ok c | None \<Rightarrow> Panic ''file does not exist'')"

fun or_panic :: "'a res \<Rightarrow> 'a res" where
  "or_panic (Err er) = Panic ''init''"
| "or_panic r = r"

text \<open>\<^verbatim>\<open>json.Unmarshal(flagsBytes, &flags)\<close> into a map that was made before.\<close>

definition read_flags :: "embedded \<Rightarrow> string \<Rightarrow> val gomap res" where
  "read_flags configsDir name =
     bindR (fs_ReadFile configsDir name) (\<lambda>flagsBytes. or_panic (unmarshal_map flagsBytes))"

definition node_file :: "nat \<Rightarrow> string \<Rightarrow> string" where
  "node_file i name = ''node'' @ show_nat (Suc i) @ ''/'' @ name"

definition default_node :: "embedded \<Rightarrow> nat \<Rightarrow> NodeConfig res" where
  "default_node configsDir i =
     bindR (read_flags configsDir (node_file i ''flags.json'')) (\<lambda>flags.
     bindR (fs_ReadFile configsDir (node_file i ''staking.key'')) (\<lambda>stakingKey.
     bindR (fs_ReadFile configsDir (node_file i ''staking.crt'')) (\<lambda>stakingCert.
     bindR (fs_ReadFile configsDir (node_file i ''signer.key'')) (\<lambda>stakingSigningKey.
     Ok \<lparr>nc_Name = [], nc_IsBeacon = True, nc_StakingKey = stakingKey, nc_StakingCert = stakingCert,
         nc_StakingSigningKey = b64_encode stakingSigningKey, nc_ConfigFile = [],
         nc_ChainConfigFiles = None, nc_UpgradeConfigFiles = None, nc_SubnetConfigFiles = None,
         nc_Flags = flags, nc_BinaryPath = [], nc_RedirectStdout = False, nc_RedirectStderr = False\<rparr>))))"

definition init_defaultNetworkConfig ::
  "val \<Rightarrow> string \<Rightarrow> embedded \<Rightarrow> int \<Rightarrow> NetConfig res" where
  "init_defaultNetworkConfig LuxLocalChainConfig genesisBytes configsDir startTime =
     bindR (or_panic (LoadLocalGenesis LuxLocalChainConfig genesisBytes)) (\<lambda>genesisMap0.
     bindR (set_genesis_times startTime genesisMap0) (\<lambda>genesisMap.
     bindR (read_flags configsDir ''flags.json'') (\<lambda>flags.
     bindR (fs_ReadFile configsDir ''cchain_config.json'') (\<lambda>cChainConfig.
     bindR (mapR (default_node configsDir) [0..<DefaultNumNodes]) (\<lambda>nodeConfigs.
     Ok \<lparr>cfg_Genesis = json_marshal (VObj (mrange genesisMap)), cfg_NodeConfigs = nodeConfigs,
         cfg_Flags = flags, cfg_BinaryPath = [],
         cfg_ChainConfigFiles = Some [(''C'', cChainConfig)],
         cfg_UpgradeConfigFiles = Some [], cfg_SubnetConfigFiles = Some []\<rparr>)))))"

text \<open>The copies of the maps are of no consequence for values; only the binary path changes.\<close>

definition NewDefaultConfig :: "NetConfig \<Rightarrow> string \<Rightarrow> NetConfig" where
  "NewDefaultConfig defaultNetworkConfig binaryPath = defaultNetworkConfig\<lparr>cfg_BinaryPath := binaryPath\<rparr>"

definition NewDefaultNetwork ::
  "env \<Rightarrow> NetConfig \<Rightarrow> string \<Rightarrow> bool \<Rightarrow> world \<Rightarrow> unit res \<times> localNetwork option \<times> world" where
  "NewDefaultNetwork e defaultNetworkConfig binaryPath reassignPortsIfUsed =
     NewNetwork e (NewDefaultConfig defaultNetworkConfig binaryPath) [] [] reassignPortsIfUsed"

text \<open>The ports of the last default node: the first argument says what is missing.\<close>

definition ref_port :: "string \<Rightarrow> string \<Rightarrow> NodeConfig \<Rightarrow> int res" where
  "ref_port what key refNodeConfig =
     (case mget (nc_Flags refNodeConfig) key of
        None \<Rightarrow> Err (Errorf (''could not get last standard '' @ what @ '' port from config'') [])
      | Some (VFloat m n) \<Rightarrow> Ok (trunc_dec m n)
      | Some v \<Rightarrow> Err (Errorf ''expected float64 for last standard api port, got %T'' [type_name v]))"

definition added_node ::
  "env \<Rightarrow> NodeConfig \<Rightarrow> int \<Rightarrow> int \<Rightarrow> nat \<Rightarrow> (world, NodeConfig) prog" where
  "added_node e refNodeConfig refAPIPort refStakingPort i =
     bindP tick (\<lambda>t.
     bindP (liftR (wrapR ''couldn't generate staking Cert/Key: %w'' [] (staking_NewCertAndKeyBytes e t)))
       (\<lambda>(stakingCert, stakingKey).
     ret (refNodeConfig\<lparr>nc_StakingKey := stakingKey, nc_StakingCert := stakingCert,
       nc_Flags := Some [(HTTPPortKey e, VInt (refAPIPort + (int i + 1) * 2)),
                         (StakingPortKey e, VInt (refStakingPort + (int i + 1) * 2))]\<rparr>)))"

definition NewDefaultConfigNNodes ::
  "env \<Rightarrow> NetConfig \<Rightarrow> string \<Rightarrow> 32 word \<Rightarrow> (world, NetConfig) prog" where
  "NewDefaultConfigNNodes e defaultNetworkConfig binaryPath numNodes =
     (let netConfig = NewDefaultConfig defaultNetworkConfig binaryPath;
          nodes = cfg_NodeConfigs netConfig in
      if length nodes < unat numNodes then
        if nodes = [] then panic ''index out of range [-1]''
        else
          bindP (liftR (ref_port ''api'' (HTTPPortKey e) (last nodes))) (\<lambda>refAPIPort.
          bindP (liftR (ref_port ''staking'' (StakingPortKey e) (last nodes))) (\<lambda>refStakingPort.
          bindP (foldP (\<lambda>i acc. bindP (added_node e (last nodes) refAPIPort refStakingPort i) (\<lambda>nc. ret (acc @ [nc])))
                   [0..<unat numNodes - length nodes] []) (\<lambda>added.
          ret (netConfig\<lparr>cfg_NodeConfigs := nodes @ added\<rparr>))))
      else ret (netConfig\<lparr>cfg_NodeConfigs := take (unat numNodes) nodes\<rparr>))"

section \<open>The genesis of a new network\<close>

text \<open>
  The structs of \<^verbatim>\<open>github.com/luxdefi/node/genesis\<close>, and the functions of the packages that format
  addresses and generate random ones.
\<close>

record AddrAndBalance =
  ab_Addr :: string
  ab_Balance :: int

record UnparsedAllocation =
  ua_ETHAddr :: string
  ua_LUXAddr :: string
  ua_InitialAmount :: "64 word"
  ua_UnlockSchedule :: "(64 word \<times> 64 word) list"

record UnparsedStaker =
  us_NodeID :: string
  us_RewardAddress :: string
  us_DelegationFee :: "32 word"

record UnparsedConfig =
  uc_NetworkID :: "32 word"
  uc_Allocations :: "UnparsedAllocation list"
  uc_StartTime :: "64 word"
  uc_InitialStakeDuration :: "64 word"
  uc_InitialStakeDurationOffset :: "64 word"
  uc_InitialStakedFunds :: "string list"
  uc_InitialStakers :: "UnparsedStaker list"
  uc_CChainGenesis :: string
  uc_Message :: string

record gen_env =
  TestnetID :: "32 word"
  MainnetID :: "32 word"
  GetHRP :: "32 word \<Rightarrow> string"
  address_Format :: "string \<Rightarrow> string \<Rightarrow> string \<Rightarrow> string"
  ids_GenerateTestShortID :: "nat \<Rightarrow> string"
  ShortID_Hex :: "string \<Rightarrow> string"
  MegaLux :: "64 word"
  time_now :: "nat \<Rightarrow> int"

definition nullETHAddr :: string where
  "nullETHAddr = ''0x0000000000000000000000000000000000000000''"

fun show_hex :: "nat \<Rightarrow> string" where
  "show_hex n = (if n < 16 then [hex_digit n] else show_hex (n div 16) @ [hex_digit (n mod 16)])"

definition show_hex_int :: "int \<Rightarrow> string" where
  "show_hex_int i = (if i < 0 then ''-'' @ show_hex (nat (- i)) else show_hex (nat i))"

definition xchain_alloc :: "gen_env \<Rightarrow> 32 word \<Rightarrow> 64 word \<Rightarrow> int \<Rightarrow> AddrAndBalance \<Rightarrow> UnparsedAllocation" where
  "xchain_alloc g networkID stake now xChainBal =
     \<lparr>ua_ETHAddr = nullETHAddr,
      ua_LUXAddr = address_Format g ''X'' (GetHRP g networkID) (ab_Addr xChainBal),
      ua_InitialAmount = word_of_int (ab_Balance xChainBal),
      ua_UnlockSchedule = [(stake, word_of_int (now + 7 * 24 * 3600))]\<rparr>"

definition cchain_alloc :: "gen_env \<Rightarrow> AddrAndBalance \<Rightarrow> (string \<times> val) list \<Rightarrow> (string \<times> val) list" where
  "cchain_alloc g cChainBal =
     AList.update (''0x'' @ ShortID_Hex g (ab_Addr cChainBal))
       (VObj [(''balance'', VStr (''0x'' @ show_hex_int (ab_Balance cChainBal)))])"

text \<open>The result before it is marshalled; \<open>t\<close> numbers the requests for times and random addresses.\<close>

definition NewLuxGenesis ::
  "env \<Rightarrow> gen_env \<Rightarrow> val gomap \<Rightarrow> nat \<Rightarrow> 32 word \<Rightarrow> AddrAndBalance list \<Rightarrow> AddrAndBalance list \<Rightarrow> string list \<Rightarrow>
   UnparsedConfig res" where
  "NewLuxGenesis e g cChainConfig t networkID xChainBalances cChainBalances genesisVdrs =
     (if networkID \<in> {TestnetID g, MainnetID g, LocalID e}
      then Err (New ''network ID can't be mainnet, testnet or local network ID'')
      else if genesisVdrs = [] then Err (New ''no genesis validators provided'')
      else if length xChainBalances + length cChainBalances = 0 then Err (New ''no genesis balances given'')
      else
        let genesisVdrStakeAddr = address_Format g ''X'' (GetHRP g networkID) (ids_GenerateTestShortID g t);
            stake = word_of_nat (length genesisVdrs) * MegaLux g;
            rewardAddr = address_Format g ''X'' (GetHRP g networkID) (ids_GenerateTestShortID g (Suc t)) in
        bindR (mput ''alloc'' (VObj (fold (cchain_alloc g) cChainBalances [])) cChainConfig) (\<lambda>localCChainConfig.
        Ok \<lparr>uc_NetworkID = networkID,
            uc_Allocations =
              \<lparr>ua_ETHAddr = nullETHAddr, ua_LUXAddr = genesisVdrStakeAddr, ua_InitialAmount = 0,
               ua_UnlockSchedule = [(stake, 0)]\<rparr> #
              map (\<lambda>b. xchain_alloc g networkID stake (time_now g t) b) xChainBalances,
            uc_StartTime = word_of_int (time_now g t),
            uc_InitialStakeDuration = 31536000, uc_InitialStakeDurationOffset = 5400,
            uc_InitialStakedFunds = [genesisVdrStakeAddr],
            uc_InitialStakers = map (\<lambda>v. \<lparr>us_NodeID = v, us_RewardAddress = rewardAddr,
                                         us_DelegationFee = 10000\<rparr>) genesisVdrs,
            uc_CChainGenesis = json_marshal (VObj (mrange localCChainConfig)),
            uc_Message = ''hello world''\<rparr>))"

section \<open>Lemmas\<close>

lemma parsed_put: "parsed (VObj kvs) \<Longrightarrow> parsed v \<Longrightarrow> parsed (VObj (AList.update k v kvs))"
proof -
  have "set (AList.update k v kvs) \<subseteq> insert (k, v) (set kvs)" by (induction kvs) auto
  then show "parsed (VObj kvs) \<Longrightarrow> parsed v \<Longrightarrow> ?thesis"
    by (auto simp: parsed_VObj_iff distinct_update)
qed

lemma parsed_get: "parsed (VObj kvs) \<Longrightarrow> map_of kvs k = Some v \<Longrightarrow> parsed v"
  by (auto simp: parsed_VObj_iff dest!: map_of_SomeD)

lemma parsed_float: "parsed (VFloat t 0)"
  by (simp add: parsed_def)

lemma parsed_mapR:
  assumes "mapR f vs = Ok ws" "list_all parsed vs" "\<And>v w. f v = Ok w \<Longrightarrow> parsed v \<Longrightarrow> parsed w"
  shows "list_all parsed ws"
  using assms(1,2) unfolding mapR_eq_Ok
  by (induction rule: list_all2_induct) (auto intro: assms(3))

lemma parsed_set_locktime: "set_locktime t v = Ok w \<Longrightarrow> parsed v \<Longrightarrow> parsed w"
  by (auto simp: set_locktime_def parsed_put parsed_float split: val.splits)

lemma parsed_set_alloc:
  assumes "set_alloc_locktimes t v = Ok w" "parsed v"
  shows "parsed w"
proof -
  obtain alloc us scheds where v: "v = VObj alloc" "map_of alloc ''unlockSchedule'' = Some (VArr us)"
    and scheds: "mapR (set_locktime t) us = Ok scheds"
    and w: "w = VObj (AList.update ''unlockSchedule'' (VArr scheds) alloc)"
    using assms(1) by (auto simp: set_alloc_locktimes_def split: val.splits option.splits)
  have "list_all parsed us" using parsed_get [OF _ v(2)] assms(2) v(1) by (simp add: parsed_VArr)
  then have "list_all parsed scheds" by (rule parsed_mapR [OF scheds]) (rule parsed_set_locktime)
  then show ?thesis using assms(2) v(1) w by (simp add: parsed_put parsed_VArr)
qed

lemma set_genesis_times_Ok:
  assumes "set_genesis_times t m = Ok m'"
  obtains kvs allocs allocs' where "m = Some kvs" "map_of (AList.update ''startTime'' (VFloat t 0) kvs) ''allocations'' = Some (VArr allocs)"
    "mapR (set_alloc_locktimes (t + genesisLocktimeStartimeDelta)) allocs = Ok allocs'"
    "m' = Some (AList.update ''allocations'' (VArr allocs') (AList.update ''startTime'' (VFloat t 0) kvs))"
  using assms by (cases m) (auto simp: set_genesis_times_def field_def split: val.splits option.splits)

lemma parsed_set_genesis_times:
  assumes "set_genesis_times t (Some kvs) = Ok (Some kvs')" "parsed (VObj kvs)"
  shows "parsed (VObj kvs')"
proof -
  obtain allocs allocs' where
    a: "map_of (AList.update ''startTime'' (VFloat t 0) kvs) ''allocations'' = Some (VArr allocs)"
    "mapR (set_alloc_locktimes (t + genesisLocktimeStartimeDelta)) allocs = Ok allocs'"
    "kvs' = AList.update ''allocations'' (VArr allocs') (AList.update ''startTime'' (VFloat t 0) kvs)"
    using assms(1) by (rule set_genesis_times_Ok) auto
  have start: "parsed (VObj (AList.update ''startTime'' (VFloat t 0) kvs))"
    using assms(2) by (simp add: parsed_put parsed_float)
  then have "list_all parsed allocs" using parsed_get [OF _ a(1)] by (simp add: parsed_VArr)
  then have "list_all parsed allocs'" by (rule parsed_mapR [OF a(2)]) (rule parsed_set_alloc)
  then show ?thesis using start a(3) by (simp add: parsed_put parsed_VArr)
qed

lemma LoadLocalGenesis_Ok:
  assumes "LoadLocalGenesis c g = Ok m"
  obtains kvs s where "unmarshal_map g = Ok (Some kvs)" "m = Some (AList.update ''cChainGenesis'' (VStr s) kvs)"
proof -
  obtain m0 where m0: "unmarshal_map g = Ok m0" using assms by (auto simp: LoadLocalGenesis_def)
  then show thesis using assms that
    by (cases "field ''cChainGenesis'' m0") (auto simp: LoadLocalGenesis_def)
qed

lemma or_panic_Ok [simp]: "or_panic r = Ok x \<longleftrightarrow> r = Ok x"
  by (cases r) auto

lemma init_Ok:
  assumes "init_defaultNetworkConfig c g dir t = Ok cfg"
  obtains kvs s m where "unmarshal_map g = Ok (Some kvs)"
    "set_genesis_times t (Some (AList.update ''cChainGenesis'' (VStr s) kvs)) = Ok (Some m)"
    "cfg_Genesis cfg = json_marshal (VObj m)"
    "list_all2 (\<lambda>i nc. default_node dir i = Ok nc) [0..<DefaultNumNodes] (cfg_NodeConfigs cfg)"
proof -
  from assms obtain m0 m ncs where load: "LoadLocalGenesis c g = Ok m0" and times: "set_genesis_times t m0 = Ok m"
    and ncs: "mapR (default_node dir) [0..<DefaultNumNodes] = Ok ncs"
    and cfg: "cfg_Genesis cfg = json_marshal (VObj (mrange m))" "cfg_NodeConfigs cfg = ncs"
    by (auto simp: init_defaultNetworkConfig_def)
  obtain kvs s where "unmarshal_map g = Ok (Some kvs)" "m0 = Some (AList.update ''cChainGenesis'' (VStr s) kvs)"
    using load by (rule LoadLocalGenesis_Ok)
  moreover obtain m' where "m = Some m'" using times by (rule set_genesis_times_Ok) auto
  ultimately show thesis using that times ncs cfg by (simp add: mapR_eq_Ok)
qed

lemma default_node_beacon: "default_node dir i = Ok nc \<Longrightarrow> nc_IsBeacon nc"
  by (auto simp: default_node_def)

text \<open>The genesis of the default network, read back.\<close>

lemma init_genesis_read:
  assumes "init_defaultNetworkConfig c g dir t = Ok cfg"
  obtains kvs s m m' where "unmarshal_map g = Ok (Some kvs)"
    "set_genesis_times t (Some (AList.update ''cChainGenesis'' (VStr s) kvs)) = Ok (Some m)"
    "unmarshal_map (cfg_Genesis cfg) = Ok (Some m')" "\<forall>k. map_of m' k = map_option canon (map_of m k)"
proof -
  obtain kvs s m where init: "unmarshal_map g = Ok (Some kvs)"
    "set_genesis_times t (Some (AList.update ''cChainGenesis'' (VStr s) kvs)) = Ok (Some m)"
    "cfg_Genesis cfg = json_marshal (VObj m)"
    using assms by (rule init_Ok)
  have "parsed (VObj (AList.update ''cChainGenesis'' (VStr s) kvs))"
    using unmarshal_map_parsed [OF init(1)] by (simp add: parsed_put parsed_basic)
  then have "parsed (VObj m)" by (rule parsed_set_genesis_times [OF init(2)])
  from unmarshal_marshal [OF this] show thesis using that init by auto
qed

lemma added_nodes_Ok:
  "foldP (\<lambda>i acc. bindP (added_node e nc a p i) (\<lambda>x. ret (acc @ [x]))) is acc w = (Ok ys, w') \<Longrightarrow>
   \<exists>zs. ys = acc @ zs \<and> list_all2 (\<lambda>i z. \<exists>u u'. added_node e nc a p i u = (Ok z, u')) is zs"
proof (induction "is" arbitrary: acc w)
  case (Cons i "is")
  then obtain z u where "added_node e nc a p i w = (Ok z, u)"
    "foldP (\<lambda>i acc. bindP (added_node e nc a p i) (\<lambda>x. ret (acc @ [x]))) is (acc @ [z]) u = (Ok ys, w')"
    by (auto simp: bindP_eq_Ok)
  moreover from Cons.IH [OF this(2)] obtain zs where "ys = (acc @ [z]) @ zs"
    "list_all2 (\<lambda>i z. \<exists>u u'. added_node e nc a p i u = (Ok z, u')) is zs" by blast
  ultimately show ?case by (intro exI [of _ "z # zs"]) auto
qed simp

lemma added_node_Ok:
  "added_node e nc a p i w = (Ok x, w') \<Longrightarrow>
   nc_Flags x = Some [(HTTPPortKey e, VInt (a + (int i + 1) * 2)), (StakingPortKey e, VInt (p + (int i + 1) * 2))] \<and>
   nc_StakingSigningKey x = nc_StakingSigningKey nc \<and> nc_IsBeacon x = nc_IsBeacon nc \<and>
   nc_Name x = nc_Name nc \<and> nc_ConfigFile x = nc_ConfigFile nc"
  by (auto simp: added_node_def bindP_eq_Ok split: prod.splits)

lemma succ_NewDefaultConfigNNodes:
  assumes "cfg_NodeConfigs def \<noteq> []" "\<And>t. is_Ok (staking_NewCertAndKeyBytes e t)"
    and "mget (nc_Flags (last (cfg_NodeConfigs def))) (HTTPPortKey e) = Some (VFloat m k)"
    and "mget (nc_Flags (last (cfg_NodeConfigs def))) (StakingPortKey e) = Some (VFloat m' k')"
  shows "succeeds (NewDefaultConfigNNodes e def bin n)"
proof -
  have "succeeds (added_node e nc a p i)" for nc a p i
    unfolding added_node_def
    by (intro succ_intros succ_liftR) (use assms(2) in \<open>auto simp: is_Ok_iff\<close>)
  then show ?thesis
    unfolding NewDefaultConfigNNodes_def Let_def using assms(1,3,4)
    by (intro succ_intros succ_liftR) (auto simp: NewDefaultConfig_def ref_port_def)
qed

section \<open>Properties\<close>


text \<open>
  C39. A default configuration for any number of nodes: it has exactly that many; up to the number of
  default nodes they are the default nodes, and the nodes that are added have the HTTP and staking
  ports that follow those of the last default node in steps of two, which makes them pairwise
  different. All added nodes have the signing key of the last default node.
\<close>

theorem NewDefaultConfigNNodes_correct:
  assumes "NewDefaultConfigNNodes e def bin n w = (Ok cfg, w')"
  shows "\<exists>added. cfg_NodeConfigs cfg = take (unat n) (cfg_NodeConfigs def) @ added \<and>
    length (cfg_NodeConfigs cfg) = unat n \<and> cfg_BinaryPath cfg = bin \<and>
    cfg_Genesis cfg = cfg_Genesis def \<and> cfg_Flags cfg = cfg_Flags def \<and>
    (added \<noteq> [] \<longrightarrow> (\<exists>a p. ref_port ''api'' (HTTPPortKey e) (last (cfg_NodeConfigs def)) = Ok a \<and>
       ref_port ''staking'' (StakingPortKey e) (last (cfg_NodeConfigs def)) = Ok p \<and>
       (\<forall>i < length added.
          nc_Flags (added ! i) = Some [(HTTPPortKey e, VInt (a + 2 * int (i + 1))),
            (StakingPortKey e, VInt (p + 2 * int (i + 1)))] \<and>
          nc_StakingSigningKey (added ! i) = nc_StakingSigningKey (last (cfg_NodeConfigs def)))))"
proof (cases "length (cfg_NodeConfigs def) < unat n")
  case True
  let ?ns = "cfg_NodeConfigs def"
  from assms True obtain a p added u u' where ports: "ref_port ''api'' (HTTPPortKey e) (last ?ns) = Ok a"
    "ref_port ''staking'' (StakingPortKey e) (last ?ns) = Ok p"
    and fold: "foldP (\<lambda>i acc. bindP (added_node e (last ?ns) a p i) (\<lambda>nc. ret (acc @ [nc])))
      [0..<unat n - length ?ns] [] u = (Ok added, u')"
    and cfg: "cfg = (NewDefaultConfig def bin)\<lparr>cfg_NodeConfigs := ?ns @ added\<rparr>"
    by (auto simp: NewDefaultConfigNNodes_def Let_def NewDefaultConfig_def bindP_eq_Ok split: if_splits)
  have all: "list_all2 (\<lambda>i z. \<exists>u u'. added_node e (last ?ns) a p i u = (Ok z, u'))
      [0..<unat n - length ?ns] added"
    using added_nodes_Ok [OF fold] by simp
  then have len: "length added = unat n - length ?ns" by (auto dest: list_all2_lengthD)
  have "nc_Flags (added ! i) = Some [(HTTPPortKey e, VInt (a + 2 * int (i + 1))),
      (StakingPortKey e, VInt (p + 2 * int (i + 1)))] \<and>
      nc_StakingSigningKey (added ! i) = nc_StakingSigningKey (last ?ns)" if "i < length added" for i
    using list_all2_nthD2 [OF all that] that len by (auto dest!: added_node_Ok)
  then show ?thesis using True cfg len ports
    by (intro exI [of _ added]) (simp add: NewDefaultConfig_def)
next
  case False
  then show ?thesis using assms
    by (intro exI [of _ "[]"]) (auto simp: NewDefaultConfigNNodes_def Let_def NewDefaultConfig_def)
qed

text \<open>
  It is returned: when the last default node gives its two ports as JSON numbers and keys can be
  generated, a configuration for any number of nodes is returned.
\<close>

theorem NewDefaultConfigNNodes_total:
  assumes "cfg_NodeConfigs def \<noteq> []" "\<And>t. is_Ok (staking_NewCertAndKeyBytes e t)"
    and "mget (nc_Flags (last (cfg_NodeConfigs def))) (HTTPPortKey e) = Some (VFloat m k)"
    and "mget (nc_Flags (last (cfg_NodeConfigs def))) (StakingPortKey e) = Some (VFloat m' k')"
  shows "\<exists>cfg w'. NewDefaultConfigNNodes e def bin n w = (Ok cfg, w')"
  using succ_NewDefaultConfigNNodes [OF assms] unfolding succeeds_def by blast


section \<open>The theorems at work\<close>

definition demo_embedded :: embedded where
  "demo_embedded name =
     (if has_suffix ''.json'' name then Some ''{\"http-port\": 9650, \"staking-port\": 9651}'' else Some name)"

definition demo_default :: NetConfig where
  "demo_default = demo_config [(demo_node [] True)\<lparr>nc_Flags := Some [(''http-port'', VFloat 9650 0),
     (''staking-port'', VFloat 9651 0)], nc_StakingSigningKey := ''c2lnbmVy''\<rparr>]"

definition demo_genesis_map :: "(string \<times> val) list" where
  "demo_genesis_map = [(''allocations'', VArr [VObj [(''unlockSchedule'',
       VArr [VObj [(''locktime'', VFloat 1633824000 0)], VObj []])]]),
     (''cChainGenesis'', VObj [(''config'', VObj [])]), (''networkID'', VFloat 1337 0)]"

definition demo_local_genesis :: string where
  "demo_local_genesis = json_marshal (VObj demo_genesis_map)"

lemma demo_json:
  "json_value demo_local_genesis = Some (VObj demo_genesis_map)"
  "json_value ''{\"http-port\": 9650, \"staking-port\": 9651}'' =
     Some (VObj [(''http-port'', VFloat 9650 0), (''staking-port'', VFloat 9651 0)])"
proof -
  have "canon (VObj demo_genesis_map) = VObj demo_genesis_map" by code_simp
  then show "json_value demo_local_genesis = Some (VObj demo_genesis_map)"
    using json_value_marshal [of "VObj demo_genesis_map"]
    by (simp add: demo_local_genesis_def) (simp add: demo_genesis_map_def)
qed code_simp

lemma has_suffix_append: "has_suffix s (xs @ s)"
  by (simp add: has_suffix_def has_prefix_append)

lemma demo_read_flags: "read_flags demo_embedded (name @ ''.json'') =
    Ok (Some [(''http-port'', VFloat 9650 0), (''staking-port'', VFloat 9651 0)])"
  by (simp add: read_flags_def fs_ReadFile_def demo_embedded_def has_suffix_append unmarshal_map_def demo_json(2))

lemma demo_default_node: "is_Ok (default_node demo_embedded i)"
proof -
  have "node_file i ''flags.json'' = node_file i ''flags'' @ ''.json''" by (simp add: node_file_def)
  then have "is_Ok (read_flags demo_embedded (node_file i ''flags.json''))" by (simp add: demo_read_flags)
  moreover have "is_Ok (fs_ReadFile demo_embedded name)" for name
    by (simp add: fs_ReadFile_def demo_embedded_def)
  ultimately show ?thesis by (simp add: default_node_def is_Ok_iff) blast
qed

lemma mapR_is_Ok: "(\<And>x. is_Ok (f x)) \<Longrightarrow> is_Ok (mapR f xs)"
  by (induction xs) (auto simp: is_Ok_iff)

lemma demo_default_init: "is_Ok (init_defaultNetworkConfig (VObj []) demo_local_genesis demo_embedded 1700000000)"
proof -
  have "is_Ok (fs_ReadFile demo_embedded ''cchain_config.json'')"
    by (simp add: fs_ReadFile_def demo_embedded_def)
  moreover have "is_Ok (mapR (default_node demo_embedded) [0..<DefaultNumNodes])"
    by (rule mapR_is_Ok [OF demo_default_node])
  moreover have "is_Ok (read_flags demo_embedded ''flags.json'')"
    using demo_read_flags [of "''flags''"] by simp
  ultimately show ?thesis
    by (auto simp: is_Ok_iff init_defaultNetworkConfig_def LoadLocalGenesis_def unmarshal_map_def demo_json(1)
        demo_genesis_map_def field_def set_genesis_times_def set_alloc_locktimes_def set_locktime_def)
qed


lemma demo_ports:
  "mget (nc_Flags (last (cfg_NodeConfigs demo_default))) (HTTPPortKey demo_env) = Some (VFloat 9650 0)"
  "mget (nc_Flags (last (cfg_NodeConfigs demo_default))) (StakingPortKey demo_env) = Some (VFloat 9651 0)"
  "cfg_NodeConfigs demo_default \<noteq> []" "is_Ok (staking_NewCertAndKeyBytes demo_env t)"
  by (simp_all add: demo_default_def demo_config_def demo_env_def)

theorem NewDefaultConfigNNodes_total_witness:
  "\<exists>cfg w'. NewDefaultConfigNNodes demo_env demo_default ''luxd'' 3 demo_world = (Ok cfg, w')"
  by (rule NewDefaultConfigNNodes_total [OF demo_ports(3,4,1,2)])

theorem NewDefaultConfigNNodes_correct_witness:
  "\<exists>cfg w'. NewDefaultConfigNNodes demo_env demo_default ''luxd'' 3 demo_world = (Ok cfg, w') \<and>
     length (cfg_NodeConfigs cfg) = 3 \<and>
     nc_Flags (cfg_NodeConfigs cfg ! 2) = Some [(''http-port'', VInt 9654), (''staking-port'', VInt 9655)]"
proof -
  have one: "length (cfg_NodeConfigs demo_default) = 1" by (simp add: demo_default_def demo_config_def)
  have "succeeds (NewDefaultConfigNNodes demo_env demo_default ''luxd'' 3)"
    using demo_ports by (intro succ_NewDefaultConfigNNodes)
  then obtain cfg w' where run: "NewDefaultConfigNNodes demo_env demo_default ''luxd'' 3 demo_world = (Ok cfg, w')"
    unfolding succeeds_def by blast
  from NewDefaultConfigNNodes_correct [OF run] obtain added where
    cfg: "cfg_NodeConfigs cfg = take 3 (cfg_NodeConfigs demo_default) @ added" "length (cfg_NodeConfigs cfg) = 3"
    and added: "added \<noteq> [] \<longrightarrow> (\<exists>a p. ref_port ''api'' ''http-port'' (last (cfg_NodeConfigs demo_default)) = Ok a \<and>
       ref_port ''staking'' ''staking-port'' (last (cfg_NodeConfigs demo_default)) = Ok p \<and>
       (\<forall>i < length added. nc_Flags (added ! i) = Some [(''http-port'', VInt (a + 2 * int (i + 1))),
            (''staking-port'', VInt (p + 2 * int (i + 1)))]))"
    by (auto simp: demo_env_def)
  have len: "length added = 2" using cfg one by simp
  then have "nc_Flags (added ! 1) = Some [(''http-port'', VInt 9654), (''staking-port'', VInt 9655)]"
    using added demo_ports by (auto simp: ref_port_def demo_env_def)
  then show ?thesis using run cfg one by (auto simp: nth_append)
qed

definition demo_gen :: gen_env where
  "demo_gen = \<lparr>TestnetID = 5, MainnetID = 1, GetHRP = (\<lambda>_. ''custom''),
     address_Format = (\<lambda>c h a. c @ ''-'' @ h @ a), ids_GenerateTestShortID = show_nat, ShortID_Hex = id,
     MegaLux = 1000, time_now = (\<lambda>_. 1700000000)\<rparr>"


end
