(* ===== verification/Snapshot.thy ===== *)
theory Snapshot
  imports Default_Config
begin

text \<open>
  Snapshots of a network (\<^verbatim>\<open>local/snapshot.go\<close>): saving one, loading one, removing one and listing
  them, with the JSON encoding of the configuration structs.

  A field of a struct is found under its name in any (ASCII) case, as \<^verbatim>\<open>encoding/json\<close> does. Texts in
  which several keys name the same field are read by the last of them; the texts \<^verbatim>\<open>SaveSnapshot\<close>
  writes have each key once. The errors \<^verbatim>\<open>encoding/json\<close> reports are one error.
\<close>

section \<open>The JSON form of the configuration\<close>

definition flags_val :: "val gomap \<Rightarrow> val" where
  "flags_val m = (case m of None \<Rightarrow> VNull | Some kvs \<Rightarrow> canon (VObj kvs))"

definition strings_val :: "string gomap \<Rightarrow> val" where
  "strings_val m = (case m of None \<Rightarrow> VNull | Some kvs \<Rightarrow> VObj (sort_key fst (map (\<lambda>(k, s). (k, VStr s)) kvs)))"

definition node_val :: "NodeConfig \<Rightarrow> val" where
  "node_val c = VObj
     [(''name'', VStr (nc_Name c)), (''isBeacon'', VBool (nc_IsBeacon c)),
      (''stakingKey'', VStr (nc_StakingKey c)), (''stakingCert'', VStr (nc_StakingCert c)),
      (''stakingSigningKey'', VStr (nc_StakingSigningKey c)), (''configFile'', VStr (nc_ConfigFile c)),
      (''chainConfigFiles'', strings_val (nc_ChainConfigFiles c)),
      (''upgradeConfigFiles'', strings_val (nc_UpgradeConfigFiles c)),
      (''subnetConfigFiles'', strings_val (nc_SubnetConfigFiles c)),
      (''flags'', flags_val (nc_Flags c)), (''binaryPath'', VStr (nc_BinaryPath c)),
      (''redirectStdout'', VBool (nc_RedirectStdout c)), (''redirectStderr'', VBool (nc_RedirectStderr c))]"

definition net_val :: "NetConfig \<Rightarrow> val" where
  "net_val c = VObj
     [(''genesis'', VStr (cfg_Genesis c)), (''nodeConfigs'', VArr (map node_val (cfg_NodeConfigs c))),
      (''flags'', flags_val (cfg_Flags c)), (''binaryPath'', VStr (cfg_BinaryPath c)),
      (''chainConfigFiles'', strings_val (cfg_ChainConfigFiles c)),
      (''upgradeConfigFiles'', strings_val (cfg_UpgradeConfigFiles c)),
      (''subnetConfigFiles'', strings_val (cfg_SubnetConfigFiles c))]"

definition lower :: "char \<Rightarrow> char" where
  "lower c = (let n = of_char c :: nat in if 65 \<le> n \<and> n \<le> 90 then char_of (n + 32) else c)"

definition jfield :: "string \<Rightarrow> (string \<times> val) list \<Rightarrow> val" where
  "jfield name kvs =
     (case map_of (rev (map (\<lambda>(k, v). (map lower k, v)) kvs)) (map lower name) of None \<Rightarrow> VNull | Some v \<Rightarrow> v)"

fun get_str :: "val \<Rightarrow> string res" where
  "get_str (VStr s) = Ok s"
| "get_str VNull = Ok []"
| "get_str _ = Err json_error"

fun get_bool :: "val \<Rightarrow> bool res" where
  "get_bool (VBool b) = Ok b"
| "get_bool VNull = Ok False"
| "get_bool _ = Err json_error"

fun get_flags :: "val \<Rightarrow> val gomap res" where
  "get_flags (VObj kvs) = Ok (Some kvs)"
| "get_flags VNull = Ok None"
| "get_flags _ = Err json_error"

fun get_strings :: "val \<Rightarrow> string gomap res" where
  "get_strings (VObj kvs) =
     bindR (mapR (\<lambda>(k, v). bindR (get_str v) (\<lambda>s. Ok (k, s))) kvs) (\<lambda>m. Ok (Some m))"
| "get_strings VNull = Ok None"
| "get_strings _ = Err json_error"

fun get_fields :: "val \<Rightarrow> (string \<times> val) list res" where
  "get_fields (VObj kvs) = Ok kvs"
| "get_fields VNull = Ok []"
| "get_fields _ = Err json_error"

fun get_array :: "val \<Rightarrow> val list res" where
  "get_array (VArr vs) = Ok vs"
| "get_array VNull = Ok []"
| "get_array _ = Err json_error"

definition get_node :: "val \<Rightarrow> NodeConfig res" where
  "get_node v =
     bindR (get_fields v) (\<lambda>kvs.
     bindR (get_str (jfield ''name'' kvs)) (\<lambda>name.
     bindR (get_bool (jfield ''isBeacon'' kvs)) (\<lambda>isBeacon.
     bindR (get_str (jfield ''stakingKey'' kvs)) (\<lambda>stakingKey.
     bindR (get_str (jfield ''stakingCert'' kvs)) (\<lambda>stakingCert.
     bindR (get_str (jfield ''stakingSigningKey'' kvs)) (\<lambda>stakingSigningKey.
     bindR (get_str (jfield ''configFile'' kvs)) (\<lambda>configFile.
     bindR (get_strings (jfield ''chainConfigFiles'' kvs)) (\<lambda>chainConfigFiles.
     bindR (get_strings (jfield ''upgradeConfigFiles'' kvs)) (\<lambda>upgradeConfigFiles.
     bindR (get_strings (jfield ''subnetConfigFiles'' kvs)) (\<lambda>subnetConfigFiles.
     bindR (get_flags (jfield ''flags'' kvs)) (\<lambda>flags.
     bindR (get_str (jfield ''binaryPath'' kvs)) (\<lambda>binaryPath.
     bindR (get_bool (jfield ''redirectStdout'' kvs)) (\<lambda>redirectStdout.
     bindR (get_bool (jfield ''redirectStderr'' kvs)) (\<lambda>redirectStderr.
     Ok \<lparr>nc_Name = name, nc_IsBeacon = isBeacon, nc_StakingKey = stakingKey, nc_StakingCert = stakingCert,
         nc_StakingSigningKey = stakingSigningKey, nc_ConfigFile = configFile,
         nc_ChainConfigFiles = chainConfigFiles, nc_UpgradeConfigFiles = upgradeConfigFiles,
         nc_SubnetConfigFiles = subnetConfigFiles, nc_Flags = flags, nc_BinaryPath = binaryPath,
         nc_RedirectStdout = redirectStdout, nc_RedirectStderr = redirectStderr\<rparr>))))))))))))))"

definition get_net :: "val \<Rightarrow> NetConfig res" where
  "get_net v =
     bindR (get_fields v) (\<lambda>kvs.
     bindR (get_str (jfield ''genesis'' kvs)) (\<lambda>genesis.
     bindR (get_array (jfield ''nodeConfigs'' kvs)) (\<lambda>vs.
     bindR (mapR get_node vs) (\<lambda>nodeConfigs.
     bindR (get_flags (jfield ''flags'' kvs)) (\<lambda>flags.
     bindR (get_str (jfield ''binaryPath'' kvs)) (\<lambda>binaryPath.
     bindR (get_strings (jfield ''chainConfigFiles'' kvs)) (\<lambda>chainConfigFiles.
     bindR (get_strings (jfield ''upgradeConfigFiles'' kvs)) (\<lambda>upgradeConfigFiles.
     bindR (get_strings (jfield ''subnetConfigFiles'' kvs)) (\<lambda>subnetConfigFiles.
     Ok \<lparr>cfg_Genesis = genesis, cfg_NodeConfigs = nodeConfigs, cfg_Flags = flags,
         cfg_BinaryPath = binaryPath, cfg_ChainConfigFiles = chainConfigFiles,
         cfg_UpgradeConfigFiles = upgradeConfigFiles, cfg_SubnetConfigFiles = subnetConfigFiles\<rparr>)))))))))"

definition unmarshal_net :: "string \<Rightarrow> NetConfig res" where
  "unmarshal_net s = (case json_value s of None \<Rightarrow> Err json_error | Some v \<Rightarrow> get_net v)"

text \<open>\<^verbatim>\<open>NetworkState\<close> has the one field \<^verbatim>\<open>subnetID2ElasticSubnetID\<close>.\<close>

record NetworkState =
  ns_SubnetID2ElasticSubnetID :: "string gomap"

definition state_val :: "NetworkState \<Rightarrow> val" where
  "state_val st = VObj [(''subnetID2ElasticSubnetID'', strings_val (ns_SubnetID2ElasticSubnetID st))]"

definition unmarshal_state :: "string \<Rightarrow> NetworkState res" where
  "unmarshal_state s =
     (case json_value s of
        None \<Rightarrow> Err json_error
      | Some v \<Rightarrow>
          bindR (get_fields v) (\<lambda>kvs.
          bindR (get_strings (jfield ''subnetID2ElasticSubnetID'' kvs)) (\<lambda>m.
          Ok \<lparr>ns_SubnetID2ElasticSubnetID = m\<rparr>)))"

section \<open>Deprecated flags\<close>

definition deprecatedBuildDirKey :: string where "deprecatedBuildDirKey = ''build-dir''"
definition deprecatedWhitelistedSubnetsKey :: string where
  "deprecatedWhitelistedSubnetsKey = ''whitelisted-subnets''"

definition fix_deprecated ::
  "string \<Rightarrow> string \<Rightarrow> (string \<Rightarrow> string) \<Rightarrow> val gomap \<Rightarrow> val gomap res" where
  "fix_deprecated oldKey newKey conv flags =
     (case mget flags oldKey of
        None \<Rightarrow> Ok flags
      | Some vIntf \<Rightarrow>
          (case as_string vIntf of
             None \<Rightarrow> Err (Errorf ''expected %q to be of type string but got %T'' [oldKey, type_name vIntf])
           | Some v \<Rightarrow>
               bindR (if v \<noteq> [] then mput newKey (VStr (conv v)) flags else Ok flags) (\<lambda>flags'.
               Ok (mdel oldKey flags'))))"

definition fixDeprecatedLuxdFlags :: "env \<Rightarrow> val gomap \<Rightarrow> val gomap res" where
  "fixDeprecatedLuxdFlags e flags =
     bindR (fix_deprecated deprecatedWhitelistedSubnetsKey (TrackSubnetsKey e) id flags) (\<lambda>flags'.
     fix_deprecated deprecatedBuildDirKey (PluginDirKey e) (\<lambda>v. filepath_Join [v, ''plugins'']) flags')"

section \<open>Saving\<close>

definition dircopy :: "env \<Rightarrow> string \<Rightarrow> string \<Rightarrow> (world, unit) prog" where
  "dircopy e src dst =
     bindP tick (\<lambda>t.
     bindP (gets files) (\<lambda>fs.
     bindP (liftR (dircopy_Copy e t src dst fs)) (\<lambda>fs'. modify (\<lambda>w. w\<lparr>files := fs'\<rparr>))))"

definition snapshot_dir :: "localNetwork \<Rightarrow> string \<Rightarrow> string" where
  "snapshot_dir l snapshotName = filepath_Join [ln_snapshotsDir l, snapshotPrefix @ snapshotName]"

text \<open>The configuration of a node as it is saved: its current ports, no data and log directories.\<close>

definition saved_ports :: "env \<Rightarrow> localNode \<Rightarrow> NodeConfig res" where
  "saved_ports e node =
     bindR (mput_all [(HTTPPortKey e, VU16 (n_apiPort node)), (StakingPortKey e, VU16 (n_p2pPort node))]
              (nc_Flags (n_config node))) (\<lambda>flags. Ok ((n_config node)\<lparr>nc_Flags := flags\<rparr>))"

definition saved_dirs :: "env \<Rightarrow> NodeConfig \<Rightarrow> NodeConfig res" where
  "saved_dirs e nc =
     bindR (if nc_ConfigFile nc \<noteq> [] then SetJSONKey (nc_ConfigFile nc) (LogsDirKey e) []
            else Ok (nc_ConfigFile nc)) (\<lambda>configFile.
     Ok (nc\<lparr>nc_ConfigFile := configFile,
            nc_Flags := mdel (LogsDirKey e) (mdel (DataDirKey e) (nc_Flags nc))\<rparr>))"

definition saved_config :: "env \<Rightarrow> localNetwork \<Rightarrow> NodeConfig list \<Rightarrow> NetConfig" where
  "saved_config e l nodesConfig =
     \<lparr>cfg_Genesis = ln_genesis l, cfg_NodeConfigs = nodesConfig,
      cfg_Flags = mdel (LogsDirKey e) (mdel (DataDirKey e) (ln_flags l)),
      cfg_BinaryPath = ln_binaryPath l, cfg_ChainConfigFiles = ln_chainConfigFiles l,
      cfg_UpgradeConfigFiles = ln_upgradeConfigFiles l, cfg_SubnetConfigFiles = ln_subnetConfigFiles l\<rparr>"

definition save_db :: "env \<Rightarrow> localNetwork \<Rightarrow> string gmap \<Rightarrow> string \<Rightarrow> NodeConfig \<Rightarrow> (world, unit) prog" where
  "save_db e l nodesDBDir snapshotDBDir nodeConfig =
     (case map_of nodesDBDir (nc_Name nodeConfig) of
        None \<Rightarrow> throw (Errorf ''failure obtaining db path for node %q'' [nc_Name nodeConfig])
      | Some sourceDBDir \<Rightarrow>
          wrapP ''failure saving node %q db dir: %w'' [nc_Name nodeConfig]
            (dircopy e (filepath_Join [sourceDBDir, NetworkName e (ln_networkID l)])
               (filepath_Join [filepath_Join [snapshotDBDir, nc_Name nodeConfig],
                  NetworkName e (ln_networkID l)])))"

text \<open>What is written once the network is stopped.\<close>

definition write_snapshot ::
  "env \<Rightarrow> localNetwork \<Rightarrow> string \<Rightarrow> string gmap \<Rightarrow> NodeConfig list \<Rightarrow> (world, unit) prog" where
  "write_snapshot e l snapshotDir nodesDBDir nodesConfig =
     (let snapshotDBDir = filepath_Join [snapshotDir, defaultDBSubdir] in
      bindP (os_MkdirAll e snapshotDBDir) (\<lambda>_.
      bindP (forP nodesConfig (save_db e l nodesDBDir snapshotDBDir)) (\<lambda>_.
      bindP (createFileAndWrite e (filepath_Join [snapshotDir, ''network.json''])
               (json_indent (net_val (saved_config e l nodesConfig)))) (\<lambda>_.
      createFileAndWrite e (filepath_Join [snapshotDir, ''state.json''])
        (json_indent (state_val \<lparr>ns_SubnetID2ElasticSubnetID =
           Some (fold (\<lambda>(s, el). AList.update (ids_String e s) (ids_String e el))
                   (ln_subnetID2ElasticSubnetID l) [])\<rparr>))))))"

definition SaveSnapshot :: "env \<Rightarrow> string \<Rightarrow> (net_state, string) prog" where
  "SaveSnapshot e snapshotName =
     bindP (getL id) (\<lambda>l.
     if stopCalled l then throw ErrStopped
     else if snapshotName = [] then throw (Errorf ''invalid snapshotName %q'' [snapshotName])
     else
       let snapshotDir = snapshot_dir l snapshotName in
       bindP (catchP (bindP (onW (os_Stat e snapshotDir)) (\<lambda>_. ret True)) (\<lambda>_. ret False)) (\<lambda>exists.
       if exists then throw (Errorf ''snapshot %q already exists'' [snapshotName])
       else
         bindP (liftR (mapR (saved_ports e \<circ> snd) (ln_nodes l))) (\<lambda>nodesConfig0.
         bindP (liftR (mapR (saved_dirs e) nodesConfig0)) (\<lambda>nodesConfig.
         let nodesDBDir = map (\<lambda>(name, node). (name, n_dbDir node)) (ln_nodes l) in
         bindP (net_stop e) (\<lambda>_.
         bindP (getL id) (\<lambda>l'.
         bindP (onW (write_snapshot e l' snapshotDir nodesDBDir nodesConfig)) (\<lambda>_. ret snapshotDir)))))))"

section \<open>Loading\<close>

definition ErrSnapshotNotFound :: err where
  "ErrSnapshotNotFound = New ''snapshot not found''"

definition stat_snapshot :: "env \<Rightarrow> string \<Rightarrow> string \<Rightarrow> (world, unit) prog" where
  "stat_snapshot e snapshotDir snapshotName =
     catchP (os_Stat e snapshotDir) (\<lambda>er.
       if errors_Is er ErrNotExist then throw ErrSnapshotNotFound
       else throw (Wrapf ''failure accessing snapshot %q: %w'' [snapshotName] er))"

definition fix_node :: "env \<Rightarrow> NodeConfig \<Rightarrow> NodeConfig res" where
  "fix_node e nc = bindR (fixDeprecatedLuxdFlags e (nc_Flags nc)) (\<lambda>fl. Ok (nc\<lparr>nc_Flags := fl\<rparr>))"

definition add_flags :: "val gomap \<Rightarrow> NodeConfig \<Rightarrow> NodeConfig res" where
  "add_flags flags nc = bindR (mput_all (mrange flags) (nc_Flags nc)) (\<lambda>fl. Ok (nc\<lparr>nc_Flags := fl\<rparr>))"

definition load_db :: "env \<Rightarrow> string \<Rightarrow> string \<Rightarrow> NodeConfig \<Rightarrow> (world, NodeConfig) prog" where
  "load_db e rootDir snapshotDBDir nc =
     (let targetDBDir = filepath_Join [filepath_Join [rootDir, nc_Name nc], defaultDBSubdir] in
      bindP (wrapP ''failure loading node %q db dir: %w'' [nc_Name nc]
               (dircopy e (filepath_Join [snapshotDBDir, nc_Name nc]) targetDBDir)) (\<lambda>_.
      bindP (liftR (mput (DBPathKey e) (VStr targetDBDir) (nc_Flags nc))) (\<lambda>fl.
      ret (nc\<lparr>nc_Flags := fl\<rparr>))))"

definition replace_binary :: "string \<Rightarrow> NodeConfig \<Rightarrow> NodeConfig" where
  "replace_binary binaryPath nc = (if binaryPath \<noteq> [] then nc\<lparr>nc_BinaryPath := binaryPath\<rparr> else nc)"

definition replace_plugin :: "env \<Rightarrow> string \<Rightarrow> NodeConfig \<Rightarrow> NodeConfig res" where
  "replace_plugin e pluginDir nc =
     (if pluginDir \<noteq> []
      then bindR (mput (PluginDirKey e) (VStr pluginDir) (nc_Flags nc)) (\<lambda>fl. Ok (nc\<lparr>nc_Flags := fl\<rparr>))
      else Ok nc)"

definition add_configs :: "string gomap \<Rightarrow> string gomap \<Rightarrow> string gomap \<Rightarrow> NodeConfig \<Rightarrow> NodeConfig res" where
  "add_configs chainConfigs upgradeConfigs subnetConfigs nc =
     bindR (mput_all (mrange chainConfigs) (mmake (nc_ChainConfigFiles nc))) (\<lambda>ccf.
     bindR (mput_all (mrange upgradeConfigs) (mmake (nc_UpgradeConfigFiles nc))) (\<lambda>ucf.
     bindR (mput_all (mrange subnetConfigs) (mmake (nc_SubnetConfigFiles nc))) (\<lambda>scf.
     Ok (nc\<lparr>nc_ChainConfigFiles := ccf, nc_UpgradeConfigFiles := ucf, nc_SubnetConfigFiles := scf\<rparr>))))"

definition put_elastic :: "env \<Rightarrow> string \<times> string \<Rightarrow> string gmap \<Rightarrow> string gmap res" where
  "put_elastic e kv m =
     bindR (ids_FromString e (fst kv)) (\<lambda>subnetID.
     bindR (ids_FromString e (snd kv)) (\<lambda>elasticSubnetID. Ok (AList.update subnetID elasticSubnetID m)))"

text \<open>The loop stores what it has read also when it ends with an error.\<close>

fun load_elastic :: "env \<Rightarrow> (string \<times> string) list \<Rightarrow> (net_state, unit) prog" where
  "load_elastic e [] = ret ()"
| "load_elastic e (kv # kvs) =
     bindP (getL ln_subnetID2ElasticSubnetID) (\<lambda>m.
     bindP (liftR (put_elastic e kv m)) (\<lambda>m'.
     bindP (modL (ln_subnetID2ElasticSubnetID_update (\<lambda>_. m'))) (\<lambda>_. load_elastic e kvs)))"

definition load_state :: "env \<Rightarrow> string \<Rightarrow> (net_state, unit) prog" where
  "load_state e snapshotDir =
     bindP (catchP (bindP (onW (os_ReadFile e (filepath_Join [snapshotDir, ''state.json'']))) (\<lambda>s. ret (Some s)))
              (\<lambda>er. if errors_Is er ErrNotExist then ret None
                    else throw (Wrapf ''failure reading network state file from snapshot: %w'' [] er))) (\<lambda>found.
       (case found of
          None \<Rightarrow> ret ()
        | Some networkStateJSON \<Rightarrow>
            bindP (liftR (wrapR ''failure unmarshaling network state from snapshot: %w'' []
                     (unmarshal_state networkStateJSON))) (\<lambda>networkState.
            bindP (modL (ln_subnetID2ElasticSubnetID_update (\<lambda>_. []))) (\<lambda>_.
            load_elastic e (mrange (ns_SubnetID2ElasticSubnetID networkState))))))"

definition load_nodes ::
  "env \<Rightarrow> string \<Rightarrow> string \<Rightarrow> string \<Rightarrow> string \<Rightarrow> string gomap \<Rightarrow> string gomap \<Rightarrow> string gomap \<Rightarrow> val gomap \<Rightarrow>
   NodeConfig list \<Rightarrow> (world, NodeConfig list) prog" where
  "load_nodes e rootDir snapshotDBDir binaryPath pluginDir chainConfigs upgradeConfigs subnetConfigs flags ncs =
     bindP (liftR (mapR (fix_node e) ncs)) (\<lambda>ncs1.
     bindP (liftR (mapR (add_flags flags) ncs1)) (\<lambda>ncs2.
     bindP (foldP (\<lambda>nc acc. bindP (load_db e rootDir snapshotDBDir nc) (\<lambda>nc'. ret (acc @ [nc']))) ncs2 []) (\<lambda>ncs3.
     bindP (liftR (mapR (replace_plugin e pluginDir) (map (replace_binary binaryPath) ncs3))) (\<lambda>ncs4.
     liftR (mapR (add_configs chainConfigs upgradeConfigs subnetConfigs) ncs4)))))"

definition loadSnapshot ::
  "env \<Rightarrow> string \<Rightarrow> string \<Rightarrow> string \<Rightarrow> string gomap \<Rightarrow> string gomap \<Rightarrow> string gomap \<Rightarrow> val gomap \<Rightarrow>
   (net_state, unit) prog" where
  "loadSnapshot e snapshotName binaryPath pluginDir chainConfigs upgradeConfigs subnetConfigs flags =
     bindP (getL id) (\<lambda>l.
     let snapshotDir = snapshot_dir l snapshotName;
         snapshotDBDir = filepath_Join [snapshotDir, defaultDBSubdir] in
     bindP (onW (stat_snapshot e snapshotDir snapshotName)) (\<lambda>_.
     bindP (onW (wrapP ''failure reading network config file from snapshot: %w'' []
              (os_ReadFile e (filepath_Join [snapshotDir, ''network.json''])))) (\<lambda>networkConfigJSON.
     bindP (liftR (wrapR ''failure unmarshaling network config from snapshot: %w'' []
              (unmarshal_net networkConfigJSON))) (\<lambda>networkConfig.
     bindP (liftR (fixDeprecatedLuxdFlags e (cfg_Flags networkConfig))) (\<lambda>netFlags.
     bindP (onW (load_nodes e (ln_rootDir l) snapshotDBDir binaryPath pluginDir chainConfigs upgradeConfigs
                   subnetConfigs flags (cfg_NodeConfigs networkConfig))) (\<lambda>ncs.
     bindP (load_state e snapshotDir) (\<lambda>_.
     loadConfig e (networkConfig\<lparr>cfg_Flags := netFlags, cfg_NodeConfigs := ncs\<rparr>))))))))"

definition NewNetworkFromSnapshot ::
  "env \<Rightarrow> string \<Rightarrow> string \<Rightarrow> string \<Rightarrow> string \<Rightarrow> string \<Rightarrow> string gomap \<Rightarrow> string gomap \<Rightarrow> string gomap \<Rightarrow> val gomap \<Rightarrow>
   bool \<Rightarrow> world \<Rightarrow> unit res \<times> localNetwork option \<times> world" where
  "NewNetworkFromSnapshot e snapshotName rootDir snapshotsDir binaryPath pluginDir chainConfigs upgradeConfigs
     subnetConfigs flags reassignPortsIfUsed w =
     (case newNetwork e rootDir snapshotsDir reassignPortsIfUsed w of
        (Ok l, w1) \<Rightarrow>
          (case loadSnapshot e snapshotName binaryPath pluginDir chainConfigs upgradeConfigs subnetConfigs flags
             (l, w1) of (r, l', w2) \<Rightarrow> (r, Some l', w2))
      | (Err er, w1) \<Rightarrow> (Err er, None, w1)
      | (Panic p, w1) \<Rightarrow> (Panic p, None, w1))"

section \<open>Removing and listing\<close>

definition RemoveSnapshot :: "env \<Rightarrow> string \<Rightarrow> (net_state, unit) prog" where
  "RemoveSnapshot e snapshotName =
     bindP (getL (\<lambda>l. snapshot_dir l snapshotName)) (\<lambda>snapshotDir.
     bindP (onW (stat_snapshot e snapshotDir snapshotName)) (\<lambda>_.
     onW (wrapP ''failure removing snapshot path %q: %w'' [snapshotDir] (os_RemoveAll e snapshotDir))))"

definition GetSnapshotNames :: "env \<Rightarrow> (net_state, string list) prog" where
  "GetSnapshotNames e =
     bindP (getL ln_snapshotsDir) (\<lambda>snapshotsDir.
     bindP (onW (catchP (os_Stat e snapshotsDir) (\<lambda>er.
              if errors_Is er ErrNotExist
              then throw (Errorf ''snapshots dir %q does not exists'' [snapshotsDir])
              else throw (Wrapf ''failure accessing snapshots dir %q: %w'' [snapshotsDir] er)))) (\<lambda>_.
     bindP (onW (Glob_prefix snapshotsDir snapshotPrefix)) (\<lambda>matches.
     ret (map (\<lambda>m. trim_prefix snapshotPrefix (filepath_Base m)) matches))))"

end
