(* ===== verification/Server_Network.thy ===== *)
theory Server_Network
  imports Blockchain Default_Config Snapshot
begin

text \<open>
  The network as the server keeps it (\<^verbatim>\<open>server/network.go\<close>): it builds the configuration of a request,
  creates the local network, and keeps what the server tells its clients about nodes, subnets and
  chains.

  A method holds the lock throughout, so it is one program on the state: the server's network, the
  operating system, and the log of issued transactions. The field \<open>lc_nw\<close> is the network of
  \<^verbatim>\<open>local\<close>, \<open>None\<close> for nil. What the node APIs answer is a field of \<open>api_env\<close> or of \<open>chain_env\<close>; the
  contexts that bound a method are part of those answers. Printing and logging are omitted.
\<close>

section \<open>Data\<close>

record NodeInfo =
  ni_Name :: string
  ni_ExecPath :: string
  ni_Uri :: string
  ni_Id :: string
  ni_LogDir :: string
  ni_DbDir :: string
  ni_PluginDir :: string
  ni_WhitelistedSubnets :: string
  ni_Config :: string
  ni_Paused :: bool

record CustomChainInfo =
  cc_ChainName :: string
  cc_VmId :: string
  cc_SubnetId :: string
  cc_ChainId :: string

record SubnetParticipants =
  sp_NodeNames :: "string list"

record SubnetInfo =
  si_IsElastic :: bool
  si_ElasticSubnetId :: string
  si_SubnetParticipants :: SubnetParticipants

record chainInfo =
  ch_info :: CustomChainInfo
  ch_subnetID :: string
  ch_blockchainID :: string

record localNetworkOptions =
  opt_execPath :: string
  opt_rootDataDir :: string
  opt_numNodes :: "32 word"
  opt_trackSubnets :: string
  opt_redirectNodesOutput :: bool
  opt_globalNodeConfig :: string
  opt_pluginDir :: string
  opt_customNodeConfigs :: "string gomap"
  opt_chainConfigs :: "string gomap"
  opt_upgradeConfigs :: "string gomap"
  opt_subnetConfigs :: "string gomap"
  opt_snapshotsDir :: string
  opt_reassignPortsIfUsed :: bool
  opt_dynamicPorts :: bool

record lcNetwork =
  lc_execPath :: string
  lc_pluginDir :: string
  lc_cfg :: NetConfig
  lc_nw :: "localNetwork option"
  lc_nodeInfos :: "NodeInfo gmap"
  lc_options :: localNetworkOptions
  lc_customChainIDToInfo :: "chainInfo gmap"
  lc_stopOnce :: bool
  lc_subnets :: "SubnetInfo gmap"
  lc_prometheusConfPath :: string

text \<open>What the P-chain says of a blockchain, and the services the server calls.\<close>

record APIBlockchain =
  ab_ID :: string
  ab_Name :: string
  ab_SubnetID :: string
  ab_VMID :: string

record api_env =
  GetBlockchains :: "nat \<Rightarrow> string \<Rightarrow> APIBlockchain list res"
  GetSubnets :: "nat \<Rightarrow> string \<Rightarrow> string list res"
  GetCurrentSupply :: "nat \<Rightarrow> string \<Rightarrow> string \<Rightarrow> unit res"
  logFactory_Make :: "nat \<Rightarrow> string \<Rightarrow> unit res"
  peer_Attach :: "nat \<Rightarrow> string \<Rightarrow> string res"
  peer_Send :: "nat \<Rightarrow> string \<Rightarrow> string \<Rightarrow> 32 word \<Rightarrow> bool"
  net_Listen :: "string \<Rightarrow> unit res"
  time_Parse :: "string \<Rightarrow> int res"
  os_Getpid :: int

type_synonym lc_state = "lcNetwork \<times> world \<times> issued list"

definition onS :: "(world, 'a) prog \<Rightarrow> ('s \<times> world \<times> issued list, 'a) prog" where
  "onS m = zoomP (\<lambda>(s, w, txs). w) (\<lambda>w (s, _, txs). (s, w, txs)) m"

definition getC :: "('s \<Rightarrow> 'a) \<Rightarrow> ('s \<times> world \<times> issued list, 'a) prog" where
  "getC f = gets (\<lambda>s. f (fst s))"

definition modC :: "('s \<Rightarrow> 's) \<Rightarrow> ('s \<times> world \<times> issued list, unit) prog" where
  "modC f = modify (apfst f)"

definition askS :: "(nat \<Rightarrow> 'a res) \<Rightarrow> ('s \<times> world \<times> issued list, 'a) prog" where
  "askS f = bindP (onS tick) (\<lambda>t. liftR (f t))"

text \<open>A call on \<^verbatim>\<open>lc.nw\<close>.\<close>

definition on_nw :: "(chain_state, 'a) prog \<Rightarrow> (lc_state, 'a) prog" where
  "on_nw m = (\<lambda>(lc, w, txs).
     (case lc_nw lc of
        None \<Rightarrow> (Panic ''nil pointer dereference'', (lc, w, txs))
      | Some l \<Rightarrow> (case m ((l, w), txs) of (r, ((l', w'), txs')) \<Rightarrow> (r, (lc\<lparr>lc_nw := Some l'\<rparr>, w', txs')))))"

section \<open>Creating the network\<close>

text \<open>\<^verbatim>\<open>network.Config{}\<close>\<close>

definition zero_config :: NetConfig where
  "zero_config = \<lparr>cfg_Genesis = [], cfg_NodeConfigs = [], cfg_Flags = None, cfg_BinaryPath = [],
     cfg_ChainConfigFiles = None, cfg_UpgradeConfigFiles = None, cfg_SubnetConfigFiles = None\<rparr>"

definition newLocalNetwork :: "api_env \<Rightarrow> localNetworkOptions \<Rightarrow> nat \<Rightarrow> lcNetwork res" where
  "newLocalNetwork ae opts t =
     bindR (logFactory_Make ae t (opt_rootDataDir opts)) (\<lambda>_.
     Ok \<lparr>lc_execPath = opt_execPath opts, lc_pluginDir = opt_pluginDir opts, lc_cfg = zero_config, lc_nw = None,
         lc_nodeInfos = [], lc_options = opts, lc_customChainIDToInfo = [], lc_stopOnce = False,
         lc_subnets = [], lc_prometheusConfPath = []\<rparr>)"

text \<open>\<^verbatim>\<open>json.Unmarshal\<close> into a map variable, if there is something to unmarshal.\<close>

definition optional_map :: "string \<Rightarrow> val gomap res" where
  "optional_map s = (if s = [] then Ok None else unmarshal_map s)"

definition custom_config :: "lcNetwork \<Rightarrow> string \<Rightarrow> val gomap res" where
  "custom_config lc nodeName =
     (case mget (opt_customNodeConfigs (lc_options lc)) nodeName of
        None \<Rightarrow> Ok None
      | Some s \<Rightarrow> optional_map s)"

definition config_node :: "env \<Rightarrow> lcNetwork \<Rightarrow> nat \<times> NodeConfig \<Rightarrow> NodeConfig res" where
  "config_node e lc = (\<lambda>(i, nc).
     (let opts = lc_options lc; nodeName = ''node'' @ show_nat (i + 1) in
      bindR (mput_all (mrange (opt_chainConfigs opts)) (nc_ChainConfigFiles nc)) (\<lambda>ccf.
      bindR (mput_all (mrange (opt_upgradeConfigs opts)) (nc_UpgradeConfigFiles nc)) (\<lambda>ucf.
      bindR (mput_all (mrange (opt_subnetConfigs opts)) (nc_SubnetConfigFiles nc)) (\<lambda>scf.
      let flags = (if nc_Flags nc = None then Some [] else nc_Flags nc);
          flags1 = (if opt_dynamicPorts opts then mdel (StakingPortKey e) (mdel (HTTPPortKey e) flags) else flags) in
      bindR (if opt_trackSubnets opts \<noteq> [] then mput (TrackSubnetsKey e) (VStr (opt_trackSubnets opts)) flags1
             else Ok flags1) (\<lambda>flags2.
      bindR (custom_config lc nodeName) (\<lambda>customNodeConfig.
      bindR (mput_all (mrange customNodeConfig) flags2) (\<lambda>flags3.
      Ok (nc\<lparr>nc_Name := nodeName, nc_ChainConfigFiles := ccf, nc_UpgradeConfigFiles := ucf,
             nc_SubnetConfigFiles := scf, nc_Flags := flags3, nc_BinaryPath := lc_execPath lc,
             nc_RedirectStdout := opt_redirectNodesOutput opts,
             nc_RedirectStderr := opt_redirectNodesOutput opts\<rparr>))))))))) "

definition createConfig :: "env \<Rightarrow> NetConfig \<Rightarrow> (lc_state, unit) prog" where
  "createConfig e defaultNetworkConfig =
     bindP (getC id) (\<lambda>lc.
     bindP (onS (NewDefaultConfigNNodes e defaultNetworkConfig (opt_execPath (lc_options lc))
                   (opt_numNodes (lc_options lc)))) (\<lambda>cfg.
     bindP (liftR (optional_map (opt_globalNodeConfig (lc_options lc)))) (\<lambda>globalConfig.
     bindP (liftR (mput_all (mrange globalConfig) (cfg_Flags cfg))) (\<lambda>flags.
     bindP (liftR (if lc_pluginDir lc \<noteq> [] then mput (PluginDirKey e) (VStr (lc_pluginDir lc)) flags
                   else Ok flags)) (\<lambda>flags1.
     bindP (liftR (mapR (config_node e lc) (List.enumerate 0 (cfg_NodeConfigs cfg)))) (\<lambda>ncs.
     modC (lc_cfg_update (\<lambda>_. cfg\<lparr>cfg_Flags := flags1, cfg_NodeConfigs := ncs\<rparr>))))))))"

text \<open>\<^verbatim>\<open>lc.nw\<close> is set only if the network was created without an error.\<close>

definition set_nw :: "(world \<Rightarrow> unit res \<times> localNetwork option \<times> world) \<Rightarrow> (lc_state, unit) prog" where
  "set_nw create = (\<lambda>(lc, w, txs).
     (case create w of
        (Ok _, nw, w') \<Rightarrow> (Ok (), (lc\<lparr>lc_nw := nw\<rparr>, w', txs))
      | (r, _, w') \<Rightarrow> (r, (lc, w', txs))))"

section \<open>What is known of the nodes\<close>

definition nl :: string where "nl = [CHR 0x0A]"

definition prometheusConfFname :: string where
  "prometheusConfFname = ''prometheus.yaml''"

definition prometheusConfCommon :: string where
  "prometheusConfCommon = concat (map (\<lambda>line. line @ nl)
     [''global:'',
      ''  scrape_interval: 15s'',
      ''  evaluation_interval: 15s'',
      ''scrape_configs:'',
      ''  - job_name: prometheus'',
      ''    static_configs:'',
      ''      - targets: '',
      ''        - localhost:9090'',
      ''  - job_name: node-machine'',
      ''    static_configs:'',
      ''     - targets: '',
      ''       - localhost:9100'',
      ''       labels:'',
      ''         alias: machine'',
      ''  - job_name: node'',
      ''    metrics_path: /ext/metrics'',
      ''    static_configs:'',
      ''      - targets:''])"

definition prometheusConf :: "NodeInfo gmap \<Rightarrow> string" where
  "prometheusConf infos =
     prometheusConfCommon @ concat (map (\<lambda>(_, nodeInfo).
       if ni_Paused nodeInfo then [] else ''        - '' @ trim_prefix ''http://'' (ni_Uri nodeInfo) @ nl) infos)"

text \<open>\<^verbatim>\<open>os.Create\<close> leaves an empty file, which is then written.\<close>

definition generatePrometheusConf :: "env \<Rightarrow> (lc_state, unit) prog" where
  "generatePrometheusConf e =
     bindP (modC (\<lambda>lc. if lc_prometheusConfPath lc = []
              then lc\<lparr>lc_prometheusConfPath :=
                     filepath_Join [opt_rootDataDir (lc_options lc), prometheusConfFname]\<rparr>
              else lc)) (\<lambda>_.
     bindP (getC id) (\<lambda>lc.
     bindP (onS (os_WriteFile e (lc_prometheusConfPath lc) [])) (\<lambda>_.
     onS (os_WriteFile e (lc_prometheusConfPath lc) (prometheusConf (lc_nodeInfos lc))))))"

definition node_info :: "localNode \<Rightarrow> string \<Rightarrow> NodeInfo" where
  "node_info node trackSubnets =
     \<lparr>ni_Name = n_name node, ni_ExecPath = GetBinaryPath node, ni_Uri = node_uri node, ni_Id = n_nodeID node,
      ni_LogDir = n_logsDir node, ni_DbDir = n_dbDir node, ni_PluginDir = n_pluginDir node,
      ni_WhitelistedSubnets = trackSubnets, ni_Config = GetConfigFile node, ni_Paused = n_paused node\<rparr>"

definition put_node_info :: "env \<Rightarrow> string \<times> localNode \<Rightarrow> (lc_state, unit) prog" where
  "put_node_info e = (\<lambda>(name, node).
     bindP (liftR (GetFlag node (TrackSubnetsKey e))) (\<lambda>trackSubnets.
     modC (\<lambda>lc. lc\<lparr>lc_nodeInfos := AList.update name (node_info node trackSubnets) (lc_nodeInfos lc),
                    lc_execPath := (if lc_execPath lc = [] then GetBinaryPath node else lc_execPath lc),
                    lc_pluginDir := (if lc_pluginDir lc = [] then n_pluginDir node else lc_pluginDir lc)\<rparr>)))"

definition updateNodeInfo :: "env \<Rightarrow> (lc_state, unit) prog" where
  "updateNodeInfo e =
     bindP (on_nw (onN GetAllNodes)) (\<lambda>nodes.
     bindP (modC (lc_nodeInfos_update (\<lambda>_. []))) (\<lambda>_.
     bindP (forP nodes (put_node_info e)) (\<lambda>_.
     generatePrometheusConf e)))"

definition UpdateNodeInfo :: "env \<Rightarrow> (lc_state, unit) prog" where
  "UpdateNodeInfo e = updateNodeInfo e"

section \<open>What is known of subnets and chains\<close>

text \<open>The node's API client, by its URI (\<^verbatim>\<open>api.NewAPIClient\<close>).\<close>

definition client_uri :: "localNode \<Rightarrow> string" where
  "client_uri node = ''http://'' @ fst (n_client node) @ '':'' @ show_nat (unat (snd (n_client node)))"

definition names_of :: "NodeInfo gmap \<Rightarrow> Validator list \<Rightarrow> string list" where
  "names_of infos vs = concat (map (\<lambda>v. map fst (filter (\<lambda>(_, info). ni_Id info = v_NodeID v) infos)) vs)"

definition chain_record :: "env \<Rightarrow> APIBlockchain \<Rightarrow> chainInfo" where
  "chain_record e b =
     \<lparr>ch_info = \<lparr>cc_ChainName = ab_Name b, cc_VmId = ids_String e (ab_VMID b),
         cc_SubnetId = ids_String e (ab_SubnetID b), cc_ChainId = ids_String e (ab_ID b)\<rparr>,
      ch_subnetID = ab_SubnetID b, ch_blockchainID = ab_ID b\<rparr>"

definition put_chain :: "env \<Rightarrow> APIBlockchain \<Rightarrow> (lc_state, unit) prog" where
  "put_chain e b =
     (if ab_Name b = ''C-Chain'' \<or> ab_Name b = ''X-Chain'' then ret ()
      else modC (lc_customChainIDToInfo_update (AList.update (ab_ID b) (chain_record e b))))"

definition elastic_id :: "env \<Rightarrow> api_env \<Rightarrow> string \<Rightarrow> string \<Rightarrow> (lc_state, bool \<times> string) prog" where
  "elastic_id e ae client subnetID =
     bindP (catchP (bindP (askS (\<lambda>t. GetCurrentSupply ae t client subnetID)) (\<lambda>_. ret True)) (\<lambda>_. ret False)) (\<lambda>isElastic.
     if isElastic then bindP (on_nw (GetElasticSubnetID e subnetID)) (\<lambda>i. ret (True, i))
     else ret (False, ids_Empty e))"

definition put_subnet :: "env \<Rightarrow> chain_env \<Rightarrow> api_env \<Rightarrow> string \<Rightarrow> string \<Rightarrow> (lc_state, unit) prog" where
  "put_subnet e ce ae client subnetIDStr =
     bindP (liftR (ids_FromString e subnetIDStr)) (\<lambda>subnetID.
     bindP (askS (\<lambda>t. GetCurrentValidators ce t client subnetID)) (\<lambda>vdrs.
     bindP (elastic_id e ae client subnetID) (\<lambda>(isElastic, elasticSubnetID).
     modC (\<lambda>lc. lc\<lparr>lc_subnets := AList.update subnetIDStr
       \<lparr>si_IsElastic = isElastic, si_ElasticSubnetId = ids_String e elasticSubnetID,
        si_SubnetParticipants = \<lparr>sp_NodeNames = names_of (lc_nodeInfos lc) vdrs\<rparr>\<rparr> (lc_subnets lc)\<rparr>))))"

definition check_chain :: "env \<Rightarrow> chain_env \<Rightarrow> string \<Rightarrow> string \<times> chainInfo \<Rightarrow> (lc_state, unit) prog" where
  "check_chain e ce client = (\<lambda>(chainID, info).
     bindP (askS (\<lambda>t. GetCurrentValidators ce t client (ch_subnetID info))) (\<lambda>vs.
     bindP (getC lc_nodeInfos) (\<lambda>infos.
     if length (names_of infos vs) \<noteq> length vs
     then throw (Errorf ''not all subnet validators are in network for subnet %s'' [ids_String e (ch_subnetID info)])
     else ret ())))"

definition updateSubnetInfo :: "env \<Rightarrow> chain_env \<Rightarrow> api_env \<Rightarrow> (lc_state, unit) prog" where
  "updateSubnetInfo e ce ae =
     bindP (on_nw (onN GetAllNodes)) (\<lambda>nodes.
       (case min_node (of_nat MaxPort) None nodes of
          None \<Rightarrow> panic ''nil pointer dereference''
        | Some node \<Rightarrow>
            let client = client_uri node in
            bindP (askS (\<lambda>t. GetBlockchains ae t client)) (\<lambda>blockchains.
            bindP (forP blockchains (put_chain e)) (\<lambda>_.
            bindP (askS (\<lambda>t. GetSubnets ae t client)) (\<lambda>subnets.
            bindP (forP (map (ids_String e) (filter (\<lambda>s. s \<noteq> PlatformChainID e) subnets)) (put_subnet e ce ae client)) (\<lambda>_.
            bindP (getC lc_customChainIDToInfo) (\<lambda>chains.
            forP chains (check_chain e ce client))))))))"

definition awaitHealthyAndUpdateNetworkInfo :: "env \<Rightarrow> chain_env \<Rightarrow> api_env \<Rightarrow> (lc_state, unit) prog" where
  "awaitHealthyAndUpdateNetworkInfo e ce ae =
     bindP (on_nw (onN (Healthy e))) (\<lambda>_.
     bindP (updateNodeInfo e) (\<lambda>_.
     updateSubnetInfo e ce ae))"

definition AwaitHealthyAndUpdateNetworkInfo :: "env \<Rightarrow> chain_env \<Rightarrow> api_env \<Rightarrow> (lc_state, unit) prog" where
  "AwaitHealthyAndUpdateNetworkInfo e ce ae = awaitHealthyAndUpdateNetworkInfo e ce ae"

section \<open>Operations\<close>

definition lc_Start :: "env \<Rightarrow> chain_env \<Rightarrow> api_env \<Rightarrow> NetConfig \<Rightarrow> (lc_state, unit) prog" where
  "lc_Start e ce ae defaultNetworkConfig =
     bindP (createConfig e defaultNetworkConfig) (\<lambda>_.
     bindP (getC id) (\<lambda>lc.
     bindP (set_nw (NewNetwork e (lc_cfg lc) (opt_rootDataDir (lc_options lc)) (opt_snapshotsDir (lc_options lc))
                      (opt_reassignPortsIfUsed (lc_options lc)))) (\<lambda>_.
     bindP (updateNodeInfo e) (\<lambda>_.
     awaitHealthyAndUpdateNetworkInfo e ce ae))))"

text \<open>The operations on subnets and chains run between two such updates.\<close>

definition updated :: "env \<Rightarrow> chain_env \<Rightarrow> api_env \<Rightarrow> (chain_state, 'a) prog \<Rightarrow> (lc_state, 'a) prog" where
  "updated e ce ae m =
     bindP (awaitHealthyAndUpdateNetworkInfo e ce ae) (\<lambda>_.
     bindP (on_nw m) (\<lambda>x.
     bindP (awaitHealthyAndUpdateNetworkInfo e ce ae) (\<lambda>_. ret x)))"

definition CreateChains :: "env \<Rightarrow> chain_env \<Rightarrow> api_env \<Rightarrow> BlockchainSpec list \<Rightarrow> (lc_state, string list) prog" where
  "CreateChains e ce ae chainSpecs =
     (if chainSpecs = [] then ret [] else updated e ce ae (CreateBlockchains e ce chainSpecs))"

definition lc_AddPermissionlessValidators ::
  "env \<Rightarrow> chain_env \<Rightarrow> api_env \<Rightarrow> PermissionlessValidatorSpec list \<Rightarrow> (lc_state, unit) prog" where
  "lc_AddPermissionlessValidators e ce ae validatorSpecs =
     (if validatorSpecs = [] then ret () else updated e ce ae (AddPermissionlessValidators e ce validatorSpecs))"

definition lc_RemoveSubnetValidator ::
  "env \<Rightarrow> chain_env \<Rightarrow> api_env \<Rightarrow> RemoveSubnetValidatorSpec list \<Rightarrow> (lc_state, unit) prog" where
  "lc_RemoveSubnetValidator e ce ae validatorSpecs =
     (if validatorSpecs = [] then ret () else updated e ce ae (RemoveSubnetValidators e ce validatorSpecs))"

definition TransformSubnets ::
  "env \<Rightarrow> chain_env \<Rightarrow> api_env \<Rightarrow> ElasticSubnetSpec list \<Rightarrow> (lc_state, string list \<times> string list) prog" where
  "TransformSubnets e ce ae elasticSubnetSpecs =
     (if elasticSubnetSpecs = [] then ret ([], []) else updated e ce ae (TransformSubnet e ce elasticSubnetSpecs))"

definition lc_CreateSubnets :: "env \<Rightarrow> chain_env \<Rightarrow> api_env \<Rightarrow> SubnetSpec list \<Rightarrow> (lc_state, string list) prog" where
  "lc_CreateSubnets e ce ae subnetSpecs =
     (if subnetSpecs = [] then ret [] else updated e ce ae (CreateSubnets e ce subnetSpecs))"

definition lc_LoadSnapshot :: "env \<Rightarrow> string \<Rightarrow> (lc_state, unit) prog" where
  "lc_LoadSnapshot e snapshotName =
     bindP (getC id) (\<lambda>lc.
     let opts = lc_options lc in
     bindP (liftR (optional_map (opt_globalNodeConfig opts))) (\<lambda>globalNodeConfig.
     bindP (set_nw (NewNetworkFromSnapshot e snapshotName (opt_rootDataDir opts) (opt_snapshotsDir opts)
                      (lc_execPath lc) (lc_pluginDir lc) (opt_chainConfigs opts) (opt_upgradeConfigs opts)
                      (opt_subnetConfigs opts) globalNodeConfig (opt_reassignPortsIfUsed opts))) (\<lambda>_.
     updateNodeInfo e)))"

text \<open>\<^verbatim>\<open>Stop\<close>: the error of the network is printed.\<close>

definition lc_Stop :: "env \<Rightarrow> (lc_state, unit) prog" where
  "lc_Stop e =
     bindP (getC id) (\<lambda>lc.
     if lc_stopOnce lc then ret ()
     else bindP (modC (lc_stopOnce_update (\<lambda>_. True))) (\<lambda>_.
          if lc_nw lc = None then ret () else catchP (on_nw (onN (Stop e))) (\<lambda>_. ret ())))"

end
