(* ===== verification/Cluster_Info.thy ===== *)
theory Cluster_Info
  imports Server_Network
begin

text \<open>
  The cluster information the server gives its clients, and its copy by way of JSON
  (\<^verbatim>\<open>server/utils.go\<close>, the message types of \<^verbatim>\<open>rpcpb/rpc.pb.go\<close>).
\<close>

section \<open>Cluster information\<close>

record AttachedPeerInfo =
  ap_Id :: string

record ClusterInfo =
  ci_NodeNames :: "string list"
  ci_NodeInfos :: "NodeInfo gomap"
  ci_Pid :: "32 word"
  ci_RootDataDir :: string
  ci_Healthy :: bool
  ci_AttachedPeerInfos :: "AttachedPeerInfo list gomap"
  ci_CustomChainsHealthy :: bool
  ci_CustomChains :: "CustomChainInfo gomap"
  ci_Subnets :: "SubnetInfo gomap"

definition new_ClusterInfo :: "32 word \<Rightarrow> string \<Rightarrow> ClusterInfo" where
  "new_ClusterInfo pid rootDataDir =
     \<lparr>ci_NodeNames = [], ci_NodeInfos = None, ci_Pid = pid, ci_RootDataDir = rootDataDir, ci_Healthy = False,
      ci_AttachedPeerInfos = None, ci_CustomChainsHealthy = False, ci_CustomChains = None, ci_Subnets = None\<rparr>"

text \<open>
  \<^verbatim>\<open>json.Marshal\<close> and \<^verbatim>\<open>json.Unmarshal\<close> of the generated types, by their tags: fields that are empty are
  left out, bytes are in base64, the keys of a map are sorted.
\<close>

definition str_field :: "string \<Rightarrow> string \<Rightarrow> (string \<times> val) list" where
  "str_field k s = (if s = [] then [] else [(k, VStr s)])"

definition bool_field :: "string \<Rightarrow> bool \<Rightarrow> (string \<times> val) list" where
  "bool_field k b = (if b then [(k, VBool True)] else [])"

definition strs_field :: "string \<Rightarrow> string list \<Rightarrow> (string \<times> val) list" where
  "strs_field k xs = (if xs = [] then [] else [(k, VArr (map VStr xs))])"

definition map_field :: "string \<Rightarrow> ('v \<Rightarrow> val) \<Rightarrow> 'v gomap \<Rightarrow> (string \<times> val) list" where
  "map_field k f m = (if mrange m = [] then [] else [(k, VObj (sort_key fst (map (\<lambda>(x, v). (x, f v)) (mrange m))))])"

definition NodeInfo_val :: "NodeInfo \<Rightarrow> val" where
  "NodeInfo_val n = VObj (str_field ''name'' (ni_Name n) @ str_field ''exec_path'' (ni_ExecPath n) @
     str_field ''uri'' (ni_Uri n) @ str_field ''id'' (ni_Id n) @ str_field ''log_dir'' (ni_LogDir n) @
     str_field ''db_dir'' (ni_DbDir n) @ str_field ''plugin_dir'' (ni_PluginDir n) @
     str_field ''whitelisted_subnets'' (ni_WhitelistedSubnets n) @ str_field ''config'' (b64_encode (ni_Config n)) @
     bool_field ''paused'' (ni_Paused n))"

definition CustomChainInfo_val :: "CustomChainInfo \<Rightarrow> val" where
  "CustomChainInfo_val c = VObj (str_field ''chain_name'' (cc_ChainName c) @ str_field ''vm_id'' (cc_VmId c) @
     str_field ''subnet_id'' (cc_SubnetId c) @ str_field ''chain_id'' (cc_ChainId c))"

definition SubnetInfo_val :: "SubnetInfo \<Rightarrow> val" where
  "SubnetInfo_val s = VObj (bool_field ''is_elastic'' (si_IsElastic s) @
     str_field ''elastic_subnet_id'' (si_ElasticSubnetId s) @
     [(''subnet_participants'', VObj (strs_field ''node_names'' (sp_NodeNames (si_SubnetParticipants s))))])"

definition peers_val :: "AttachedPeerInfo list \<Rightarrow> val" where
  "peers_val ps = VObj (if ps = [] then [] else [(''peers'', VArr (map (\<lambda>p. VObj (str_field ''id'' (ap_Id p))) ps))])"

definition ClusterInfo_val :: "ClusterInfo \<Rightarrow> val" where
  "ClusterInfo_val c = VObj (strs_field ''node_names'' (ci_NodeNames c) @
     map_field ''node_infos'' NodeInfo_val (ci_NodeInfos c) @
     (if ci_Pid c = 0 then [] else [(''pid'', VInt (sint (ci_Pid c)))]) @
     str_field ''root_data_dir'' (ci_RootDataDir c) @ bool_field ''healthy'' (ci_Healthy c) @
     map_field ''attached_peer_infos'' peers_val (ci_AttachedPeerInfos c) @
     bool_field ''custom_chains_healthy'' (ci_CustomChainsHealthy c) @
     map_field ''custom_chains'' CustomChainInfo_val (ci_CustomChains c) @
     map_field ''subnets'' SubnetInfo_val (ci_Subnets c))"

fun get_int32 :: "val \<Rightarrow> 32 word res" where
  "get_int32 (VFloat m d) =
     (if d = 0 \<and> - (2 ^ 31) \<le> m \<and> m < 2 ^ 31 then Ok (of_int m) else Err json_error)"
| "get_int32 VNull = Ok 0"
| "get_int32 _ = Err json_error"

definition get_strs :: "val \<Rightarrow> string list res" where
  "get_strs v = bindR (get_array v) (mapR get_str)"

definition get_bytes :: "val \<Rightarrow> string res" where
  "get_bytes v = bindR (get_str v) b64_decode"

fun get_map :: "(val \<Rightarrow> 'v res) \<Rightarrow> val \<Rightarrow> 'v gomap res" where
  "get_map f (VObj kvs) = bindR (mapR (\<lambda>(k, v). bindR (f v) (\<lambda>x. Ok (k, x))) kvs) (\<lambda>m. Ok (Some m))"
| "get_map f VNull = Ok None"
| "get_map f _ = Err json_error"

definition get_NodeInfo :: "val \<Rightarrow> NodeInfo res" where
  "get_NodeInfo v =
     bindR (get_fields v) (\<lambda>kvs.
     bindR (get_str (jfield ''name'' kvs)) (\<lambda>name.
     bindR (get_str (jfield ''exec_path'' kvs)) (\<lambda>execPath.
     bindR (get_str (jfield ''uri'' kvs)) (\<lambda>uri.
     bindR (get_str (jfield ''id'' kvs)) (\<lambda>i.
     bindR (get_str (jfield ''log_dir'' kvs)) (\<lambda>logDir.
     bindR (get_str (jfield ''db_dir'' kvs)) (\<lambda>dbDir.
     bindR (get_str (jfield ''plugin_dir'' kvs)) (\<lambda>pluginDir.
     bindR (get_str (jfield ''whitelisted_subnets'' kvs)) (\<lambda>whitelisted.
     bindR (get_bytes (jfield ''config'' kvs)) (\<lambda>config.
     bindR (get_bool (jfield ''paused'' kvs)) (\<lambda>paused.
     Ok \<lparr>ni_Name = name, ni_ExecPath = execPath, ni_Uri = uri, ni_Id = i, ni_LogDir = logDir, ni_DbDir = dbDir,
         ni_PluginDir = pluginDir, ni_WhitelistedSubnets = whitelisted, ni_Config = config, ni_Paused = paused\<rparr>)))))))))))"

definition get_CustomChainInfo :: "val \<Rightarrow> CustomChainInfo res" where
  "get_CustomChainInfo v =
     bindR (get_fields v) (\<lambda>kvs.
     bindR (get_str (jfield ''chain_name'' kvs)) (\<lambda>chainName.
     bindR (get_str (jfield ''vm_id'' kvs)) (\<lambda>vmId.
     bindR (get_str (jfield ''subnet_id'' kvs)) (\<lambda>subnetId.
     bindR (get_str (jfield ''chain_id'' kvs)) (\<lambda>chainId.
     Ok \<lparr>cc_ChainName = chainName, cc_VmId = vmId, cc_SubnetId = subnetId, cc_ChainId = chainId\<rparr>)))))"

definition get_SubnetInfo :: "val \<Rightarrow> SubnetInfo res" where
  "get_SubnetInfo v =
     bindR (get_fields v) (\<lambda>kvs.
     bindR (get_bool (jfield ''is_elastic'' kvs)) (\<lambda>isElastic.
     bindR (get_str (jfield ''elastic_subnet_id'' kvs)) (\<lambda>elasticSubnetId.
     bindR (get_fields (jfield ''subnet_participants'' kvs)) (\<lambda>participants.
     bindR (get_strs (jfield ''node_names'' participants)) (\<lambda>nodeNames.
     Ok \<lparr>si_IsElastic = isElastic, si_ElasticSubnetId = elasticSubnetId,
         si_SubnetParticipants = \<lparr>sp_NodeNames = nodeNames\<rparr>\<rparr>)))))"

definition get_peers :: "val \<Rightarrow> AttachedPeerInfo list res" where
  "get_peers v =
     bindR (get_fields v) (\<lambda>kvs.
     bindR (get_array (jfield ''peers'' kvs)) (\<lambda>vs.
     mapR (\<lambda>p. bindR (get_fields p) (\<lambda>fs. bindR (get_str (jfield ''id'' fs)) (\<lambda>i. Ok \<lparr>ap_Id = i\<rparr>))) vs))"

definition get_ClusterInfo :: "val \<Rightarrow> ClusterInfo res" where
  "get_ClusterInfo v =
     bindR (get_fields v) (\<lambda>kvs.
     bindR (get_strs (jfield ''node_names'' kvs)) (\<lambda>nodeNames.
     bindR (get_map get_NodeInfo (jfield ''node_infos'' kvs)) (\<lambda>nodeInfos.
     bindR (get_int32 (jfield ''pid'' kvs)) (\<lambda>pid.
     bindR (get_str (jfield ''root_data_dir'' kvs)) (\<lambda>rootDataDir.
     bindR (get_bool (jfield ''healthy'' kvs)) (\<lambda>healthy.
     bindR (get_map get_peers (jfield ''attached_peer_infos'' kvs)) (\<lambda>peers.
     bindR (get_bool (jfield ''custom_chains_healthy'' kvs)) (\<lambda>chainsHealthy.
     bindR (get_map get_CustomChainInfo (jfield ''custom_chains'' kvs)) (\<lambda>chains.
     bindR (get_map get_SubnetInfo (jfield ''subnets'' kvs)) (\<lambda>subnets.
     Ok \<lparr>ci_NodeNames = nodeNames, ci_NodeInfos = nodeInfos, ci_Pid = pid, ci_RootDataDir = rootDataDir,
         ci_Healthy = healthy, ci_AttachedPeerInfos = peers, ci_CustomChainsHealthy = chainsHealthy,
         ci_CustomChains = chains, ci_Subnets = subnets\<rparr>))))))))))"

definition struct_text :: "val \<Rightarrow> string" where
  "struct_text v = jtext (\<lambda>_. []) '':'' 0 v"

definition deepCopy :: "ClusterInfo option \<Rightarrow> ClusterInfo res" where
  "deepCopy i =
     (case json_value (struct_text (case i of None \<Rightarrow> VNull | Some c \<Rightarrow> ClusterInfo_val c)) of
        None \<Rightarrow> Err json_error
      | Some v \<Rightarrow> get_ClusterInfo v)"

section \<open>A check on the cluster information\<close>

text \<open>\<^verbatim>\<open>VerifySubnetHasCorrectParticipants\<close> of \<^verbatim>\<open>utils/utils.go\<close>: every given node validates the subnet. The other direction
  is not checked.\<close>

definition VerifySubnetHasCorrectParticipants :: "string list \<Rightarrow> ClusterInfo option \<Rightarrow> string \<Rightarrow> bool" where
  "VerifySubnetHasCorrectParticipants subnetParticipants cluster subnetID =
     (case cluster of
        None \<Rightarrow> False
      | Some c \<Rightarrow>
          let participatingNodeNames =
                (case mget (ci_Subnets c) subnetID of None \<Rightarrow> [] | Some s \<Rightarrow> sp_NodeNames (si_SubnetParticipants s)) in
          list_all (\<lambda>node. list_ex (\<lambda>subnetValidator. subnetValidator = node) participatingNodeNames) subnetParticipants)"

end
