(* ===== verification/Server.thy ===== *)
theory Server
  imports Cluster_Info
begin

text \<open>
  The control service (\<^verbatim>\<open>server/server.go\<close>): the server holds at most one network and answers requests
  about it. A handler holds the server's lock, so it is one program on the state: the server, the
  operating system and the log of issued transactions.

  A handler that returns an error returns no response. The map of subnets that \<^verbatim>\<open>updateClusterInfo\<close>
  stores in the cluster information is the map the network keeps and goes on writing to:
  \<open>sv_sharedSubnets\<close> says that they are the same. The channel \<^verbatim>\<open>asyncErrCh\<close> holds at most one error.
  The gRPC server, the gateway and the status streams are not modelled.
\<close>

section \<open>The server\<close>

record server =
  sv_RedirectNodesOutput :: bool
  sv_SnapshotsDir :: string
  sv_clusterInfo :: "ClusterInfo option"
  sv_network :: "lcNetwork option"
  sv_asyncErrCh :: "err option"
  sv_sharedSubnets :: bool

type_synonym sv_state = "server \<times> world \<times> issued list"

definition DefaultNodes :: "32 word" where "DefaultNodes = 5"
definition MinNodes :: "32 word" where "MinNodes = 1"
definition RPCVersion :: "32 word" where "RPCVersion = 1"
definition StakingMinimumLeadTime :: int where "StakingMinimumLeadTime = 25 * second"

definition ErrInvalidVMName :: err where "ErrInvalidVMName = New ''invalid VM name''"
definition ErrInvalidPort :: err where "ErrInvalidPort = New ''invalid port''"
definition ErrNotEnoughNodesForStart :: err where
  "ErrNotEnoughNodesForStart = New ''not enough nodes specified for start''"
definition ErrAlreadyBootstrapped :: err where "ErrAlreadyBootstrapped = New ''already bootstrapped''"
definition ErrNotBootstrapped :: err where "ErrNotBootstrapped = New ''not bootstrapped''"
definition ErrNoBlockchainSpec :: err where "ErrNoBlockchainSpec = New ''no blockchain spec was provided''"
definition ErrNoSubnetID :: err where "ErrNoSubnetID = New ''subnetID is missing''"
definition ErrNoElasticSubnetSpec :: err where
  "ErrNoElasticSubnetSpec = New ''no elastic subnet spec was provided''"
definition ErrNoValidatorSpec :: err where "ErrNoValidatorSpec = New ''no validator spec was provided''"

text \<open>\<^verbatim>\<open>New\<close>: a server without a network.\<close>

definition server_New :: "api_env \<Rightarrow> string \<Rightarrow> string \<Rightarrow> bool \<Rightarrow> string \<Rightarrow> server res" where
  "server_New ae port gwPort redirectNodesOutput snapshotsDir =
     (if port = [] \<or> gwPort = [] then Err ErrInvalidPort
      else bindR (net_Listen ae port) (\<lambda>_.
           Ok \<lparr>sv_RedirectNodesOutput = redirectNodesOutput, sv_SnapshotsDir = snapshotsDir, sv_clusterInfo = None,
               sv_network = None, sv_asyncErrCh = None, sv_sharedSubnets = False\<rparr>))"

section \<open>Access to the state\<close>

text \<open>A call on \<^verbatim>\<open>s.network\<close>; what it writes to a shared map of subnets is seen in the cluster information.\<close>

definition share_subnets :: "lcNetwork \<Rightarrow> server \<Rightarrow> server" where
  "share_subnets lc s =
     (if sv_sharedSubnets s
      then s\<lparr>sv_clusterInfo := map_option (ci_Subnets_update (\<lambda>_. Some (lc_subnets lc))) (sv_clusterInfo s)\<rparr>
      else s)"

definition onLC :: "(lc_state, 'a) prog \<Rightarrow> (sv_state, 'a) prog" where
  "onLC m = (\<lambda>(s, w, txs).
     (case sv_network s of
        None \<Rightarrow> (Panic ''nil pointer dereference'', (s, w, txs))
      | Some lc \<Rightarrow>
          (case m (lc, w, txs) of (r, (lc', w', txs')) \<Rightarrow>
             (r, (share_subnets lc' (s\<lparr>sv_network := Some lc'\<rparr>), w', txs')))))"

definition on_net :: "(chain_state, 'a) prog \<Rightarrow> (sv_state, 'a) prog" where
  "on_net m = onLC (on_nw m)"

text \<open>A write to a field of \<^verbatim>\<open>s.clusterInfo\<close>, and the copy that is returned.\<close>

definition modCI :: "(ClusterInfo \<Rightarrow> ClusterInfo) \<Rightarrow> (sv_state, unit) prog" where
  "modCI f =
     bindP (getC sv_clusterInfo) (\<lambda>info.
       (case info of
          None \<Rightarrow> panic ''nil pointer dereference''
        | Some c \<Rightarrow> modC (sv_clusterInfo_update (\<lambda>_. Some (f c)))))"

definition copy_info :: "(sv_state, ClusterInfo) prog" where
  "copy_info = bindP (getC sv_clusterInfo) (\<lambda>info. liftR (deepCopy info))"

definition bootstrapped :: "(sv_state, 'a) prog \<Rightarrow> (sv_state, 'a) prog" where
  "bootstrapped m =
     bindP (getC sv_network) (\<lambda>n. if n = None then throw ErrNotBootstrapped else m)"

definition not_bootstrapped :: "(sv_state, 'a) prog \<Rightarrow> (sv_state, 'a) prog" where
  "not_bootstrapped m =
     bindP (getC sv_network) (\<lambda>n. if n \<noteq> None then throw ErrAlreadyBootstrapped else m)"

text \<open>\<^verbatim>\<open>if err := m; err != nil { h(err); return err }\<close>\<close>

definition on_error :: "('s, 'a) prog \<Rightarrow> (err \<Rightarrow> ('s, unit) prog) \<Rightarrow> ('s, 'a) prog" where
  "on_error m h = catchP m (\<lambda>er. bindP (h er) (\<lambda>_. throw er))"

section \<open>Keeping the cluster information\<close>

definition info_of_nodes :: "lcNetwork \<Rightarrow> ClusterInfo \<Rightarrow> ClusterInfo" where
  "info_of_nodes lc c = c\<lparr>ci_NodeNames := sort (mkeys (lc_nodeInfos lc)), ci_NodeInfos := Some (lc_nodeInfos lc)\<rparr>"

definition update_nodes :: "(sv_state, unit) prog" where
  "update_nodes =
     bindP (getC sv_network) (\<lambda>n.
       (case n of None \<Rightarrow> panic ''nil pointer dereference'' | Some lc \<Rightarrow> modCI (info_of_nodes lc)))"

definition cluster_of :: "env \<Rightarrow> lcNetwork \<Rightarrow> ClusterInfo \<Rightarrow> ClusterInfo" where
  "cluster_of e lc c = (info_of_nodes lc c)\<lparr>ci_Healthy := True, ci_CustomChainsHealthy := True,
     ci_CustomChains := Some (fold (\<lambda>(chainID, i). AList.update (ids_String e chainID) (ch_info i))
       (lc_customChainIDToInfo lc) []),
     ci_Subnets := Some (lc_subnets lc)\<rparr>"

definition updateClusterInfo :: "env \<Rightarrow> (sv_state, unit) prog" where
  "updateClusterInfo e =
     bindP (getC sv_network) (\<lambda>n.
       (case n of
          None \<Rightarrow> ret ()
        | Some lc \<Rightarrow> bindP (modCI (cluster_of e lc)) (\<lambda>_. modC (sv_sharedSubnets_update (\<lambda>_. True)))))"

definition set_unhealthy :: "ClusterInfo \<Rightarrow> ClusterInfo" where
  "set_unhealthy c = c\<lparr>ci_Healthy := False, ci_CustomChainsHealthy := False\<rparr>"

text \<open>
  A previous error is taken out of the channel, so that sending one does not block. Nobody writes to
  the map of subnets of a network that is dropped.
\<close>

definition stopAndRemoveNetwork :: "env \<Rightarrow> err option \<Rightarrow> (sv_state, unit) prog" where
  "stopAndRemoveNetwork e er =
     bindP (modC (sv_asyncErrCh_update (\<lambda>_. er))) (\<lambda>_.
     bindP (getC sv_network) (\<lambda>n.
     bindP (if n \<noteq> None then onLC (lc_Stop e) else ret ()) (\<lambda>_.
     modC (\<lambda>s. s\<lparr>sv_clusterInfo := map_option set_unhealthy (sv_clusterInfo s), sv_network := None,
                  sv_sharedSubnets := False\<rparr>))))"

text \<open>What \<^verbatim>\<open>Run\<close> does with the network once the listeners have returned.\<close>

definition Run_close :: "env \<Rightarrow> (sv_state, unit) prog" where
  "Run_close e =
     bindP (getC sv_network) (\<lambda>n. if n \<noteq> None then stopAndRemoveNetwork e None else ret ())"

section \<open>Specifications in requests\<close>

record rpc_SubnetSpec =
  rs_Participants :: "string list"
  rs_SubnetConfig :: string

record rpc_BlockchainSpec =
  rb_VmName :: string
  rb_Genesis :: string
  rb_SubnetId :: "string option"
  rb_SubnetSpec :: "rpc_SubnetSpec option"
  rb_ChainConfig :: string
  rb_NetworkUpgrade :: string
  rb_BlockchainAlias :: string
  rb_PerNodeChainConfig :: string

record rpc_ElasticSubnetSpec =
  re_SubnetId :: string
  re_AssetName :: string
  re_AssetSymbol :: string
  re_InitialSupply :: "64 word"
  re_MaxSupply :: "64 word"
  re_MinConsumptionRate :: "64 word"
  re_MaxConsumptionRate :: "64 word"
  re_MinValidatorStake :: "64 word"
  re_MaxValidatorStake :: "64 word"
  re_MinStakeDuration :: "64 word"
  re_MaxStakeDuration :: "64 word"
  re_MinDelegationFee :: "32 word"
  re_MinDelegatorStake :: "64 word"
  re_MaxValidatorWeightFactor :: "32 word"
  re_UptimeRequirement :: "32 word"

record rpc_PermissionlessValidatorSpec =
  rp_SubnetId :: string
  rp_NodeName :: string
  rp_StakedTokenAmount :: "64 word"
  rp_AssetId :: string
  rp_StartTime :: string
  rp_StakeDuration :: "64 word"

record rpc_RemoveSubnetValidatorSpec =
  rr_SubnetId :: string
  rr_NodeNames :: "string list"

text \<open>\<^verbatim>\<open>time.Duration(n) * time.Hour\<close>, at 64 bits.\<close>

definition hours :: "64 word \<Rightarrow> int" where
  "hours n = sint (n * 3600000000000)"

definition readFileOrString :: "env \<Rightarrow> string \<Rightarrow> (sv_state, string) prog" where
  "readFileOrString e conf = catchP (onS (os_ReadFile e conf)) (\<lambda>_. ret conf)"

definition read_optional :: "env \<Rightarrow> string \<Rightarrow> (sv_state, string option) prog" where
  "read_optional e conf =
     (if conf = [] then ret None else bindP (readFileOrString e conf) (\<lambda>b. ret (Some b)))"

definition getNetworkElasticSubnetSpec :: "rpc_ElasticSubnetSpec \<Rightarrow> ElasticSubnetSpec" where
  "getNetworkElasticSubnetSpec spec =
     \<lparr>ess_SubnetID = Some (re_SubnetId spec), ess_AssetName = re_AssetName spec, ess_AssetSymbol = re_AssetSymbol spec,
      ess_InitialSupply = re_InitialSupply spec, ess_MaxSupply = re_MaxSupply spec,
      ess_MinConsumptionRate = re_MinConsumptionRate spec, ess_MaxConsumptionRate = re_MaxConsumptionRate spec,
      ess_MinValidatorStake = re_MinValidatorStake spec, ess_MaxValidatorStake = re_MaxValidatorStake spec,
      ess_MinStakeDuration = hours (re_MinStakeDuration spec), ess_MaxStakeDuration = hours (re_MaxStakeDuration spec),
      ess_MinDelegationFee = re_MinDelegationFee spec, ess_MinDelegatorStake = re_MinDelegatorStake spec,
      ess_MaxValidatorWeightFactor = ucast (re_MaxValidatorWeightFactor spec),
      ess_UptimeRequirement = re_UptimeRequirement spec\<rparr>"

definition getPermissionlessValidatorSpec ::
  "chain_env \<Rightarrow> api_env \<Rightarrow> rpc_PermissionlessValidatorSpec \<Rightarrow> (sv_state, PermissionlessValidatorSpec) prog" where
  "getPermissionlessValidatorSpec ce ae spec =
     bindP (if rp_StartTime spec = [] then ret None
            else bindP (liftR (time_Parse ae (rp_StartTime spec))) (\<lambda>startTime.
                 bindP (askS (\<lambda>t. Ok (time_Now ce t))) (\<lambda>now.
                 if startTime < now + StakingMinimumLeadTime
                 then throw (Errorf ''time should be at least %s in the future for validator spec of %s''
                        [''25s'', rp_NodeName spec])
                 else ret (Some startTime)))) (\<lambda>startTime.
     ret \<lparr>pvs_SubnetID = rp_SubnetId spec, pvs_AssetID = rp_AssetId spec, pvs_NodeName = rp_NodeName spec,
          pvs_StakedAmount = rp_StakedTokenAmount spec, pvs_StartTime = startTime,
          pvs_StakeDuration = hours (rp_StakeDuration spec)\<rparr>)"

definition getRemoveSubnetValidatorSpec :: "rpc_RemoveSubnetValidatorSpec \<Rightarrow> RemoveSubnetValidatorSpec" where
  "getRemoveSubnetValidatorSpec spec = \<lparr>rsv_NodeNames = rr_NodeNames spec, rsv_SubnetID = rr_SubnetId spec\<rparr>"

definition per_node_configs :: "env \<Rightarrow> string \<Rightarrow> (sv_state, string gomap) prog" where
  "per_node_configs e conf =
     (if conf = [] then ret (Some [])
      else bindP (readFileOrString e conf) (\<lambda>bytes.
           bindP (liftR (unmarshal_map bytes)) (\<lambda>m.
           ret (Some (map (\<lambda>(nodeName, cfg). (nodeName, json_marshal cfg)) (mrange m))))))"

definition getNetworkBlockchainSpec ::
  "env \<Rightarrow> rpc_BlockchainSpec \<Rightarrow> bool \<Rightarrow> string \<Rightarrow> (sv_state, BlockchainSpec) prog" where
  "getNetworkBlockchainSpec e spec isNewEmptyNetwork pluginDir =
     (if isNewEmptyNetwork \<and> rb_SubnetId spec \<noteq> None
      then throw (New ''blockchain subnet id must be nil if starting a new empty network'')
      else
        bindP (catchP (liftR (VMID e (rb_VmName spec))) (\<lambda>_. throw ErrInvalidVMName)) (\<lambda>vmID.
        bindP (if pluginDir \<noteq> [] then onS (CheckPluginPath e (filepath_Join [pluginDir, ids_String e vmID]))
               else ret ()) (\<lambda>_.
        bindP (readFileOrString e (rb_Genesis spec)) (\<lambda>genesisBytes.
        bindP (read_optional e (rb_ChainConfig spec)) (\<lambda>chainConfigBytes.
        bindP (read_optional e (rb_NetworkUpgrade spec)) (\<lambda>networkUpgradeBytes.
        bindP (case rb_SubnetSpec spec of None \<Rightarrow> ret None | Some s \<Rightarrow> read_optional e (rs_SubnetConfig s)) (\<lambda>subnetConfigBytes.
        bindP (per_node_configs e (rb_PerNodeChainConfig spec)) (\<lambda>perNodeChainConfig.
        ret \<lparr>bs_VMName = rb_VmName spec, bs_Genesis = genesisBytes, bs_SubnetID = rb_SubnetId spec,
             bs_SubnetSpec = map_option (\<lambda>s. \<lparr>ss_Participants = rs_Participants s, ss_SubnetConfig = subnetConfigBytes\<rparr>)
               (rb_SubnetSpec spec),
             bs_ChainConfig = chainConfigBytes, bs_NetworkUpgrade = networkUpgradeBytes,
             bs_BlockchainAlias = rb_BlockchainAlias spec, bs_PerNodeChainConfig = perNodeChainConfig\<rparr>))))))))"

definition getNetworkSubnetSpec :: "env \<Rightarrow> rpc_SubnetSpec \<Rightarrow> (sv_state, SubnetSpec) prog" where
  "getNetworkSubnetSpec e spec =
     bindP (read_optional e (rs_SubnetConfig spec)) (\<lambda>subnetConfigBytes.
     ret \<lparr>ss_Participants = rs_Participants spec, ss_SubnetConfig = subnetConfigBytes\<rparr>)"

definition mapP :: "('a \<Rightarrow> ('s, 'b) prog) \<Rightarrow> 'a list \<Rightarrow> ('s, 'b list) prog" where
  "mapP f xs = foldP (\<lambda>x acc. bindP (f x) (\<lambda>y. ret (acc @ [y]))) xs []"

text \<open>The subnets of a request must be known.\<close>

definition known_subnets :: "(sv_state, string list) prog" where
  "known_subnets =
     bindP (getC sv_clusterInfo) (\<lambda>info.
       (case info of
          None \<Rightarrow> panic ''nil pointer dereference''
        | Some c \<Rightarrow> ret (map fst (mrange (ci_Subnets c)))))"

definition check_subnet :: "string list \<Rightarrow> string \<Rightarrow> (sv_state, unit) prog" where
  "check_subnet known subnetID =
     (if subnetID = [] then throw ErrNoSubnetID
      else if subnetID \<notin> set known then throw (Errorf ''subnet id %q does not exist'' [subnetID])
      else ret ())"

definition check_elastic :: "string list \<Rightarrow> ElasticSubnetSpec \<Rightarrow> (sv_state, unit) prog" where
  "check_elastic known spec =
     (case ess_SubnetID spec of
        None \<Rightarrow> throw ErrNoSubnetID
      | Some subnetID \<Rightarrow>
          if subnetID \<notin> set known then throw (Errorf ''subnet id %q does not exist'' [subnetID]) else ret ())"

definition check_chain_subnet :: "string list \<Rightarrow> BlockchainSpec \<Rightarrow> (sv_state, unit) prog" where
  "check_chain_subnet known spec =
     (case bs_SubnetID spec of
        None \<Rightarrow> ret ()
      | Some subnetID \<Rightarrow>
          if subnetID \<notin> set known then throw (Errorf ''subnet id %q does not exits'' [subnetID]) else ret ())"

section \<open>Requests about the network as a whole\<close>

record StartRequest =
  st_ExecPath :: string
  st_NumNodes :: "32 word option"
  st_WhitelistedSubnets :: string
  st_GlobalNodeConfig :: string
  st_RootDataDir :: string
  st_PluginDir :: string
  st_BlockchainSpecs :: "rpc_BlockchainSpec list"
  st_CustomNodeConfigs :: "string gomap"
  st_ChainConfigs :: "string gomap"
  st_UpgradeConfigs :: "string gomap"
  st_ReassignPortsIfUsed :: bool
  st_DynamicPorts :: bool
  st_SubnetConfigs :: "string gomap"

definition root_data_dir :: "env \<Rightarrow> string \<Rightarrow> (sv_state, string) prog" where
  "root_data_dir e rootDataDir =
     bindP (if rootDataDir = []
            then (let d = filepath_Join [os_tempDir e, RootDirPrefix] in
                  bindP (onS (os_MkdirAll e d)) (\<lambda>_. ret d))
            else ret rootDataDir) (\<lambda>d.
     onS (MkDirWithTimestamp e (filepath_Join [d, networkRootDirPrefix])))"

definition start_options :: "server \<Rightarrow> StartRequest \<Rightarrow> 32 word \<Rightarrow> string \<Rightarrow> localNetworkOptions" where
  "start_options s req numNodes rootDataDir =
     \<lparr>opt_execPath = st_ExecPath req, opt_rootDataDir = rootDataDir, opt_numNodes = numNodes,
      opt_trackSubnets = st_WhitelistedSubnets req, opt_redirectNodesOutput = sv_RedirectNodesOutput s,
      opt_globalNodeConfig = st_GlobalNodeConfig req, opt_pluginDir = st_PluginDir req,
      opt_customNodeConfigs = st_CustomNodeConfigs req, opt_chainConfigs = st_ChainConfigs req,
      opt_upgradeConfigs = st_UpgradeConfigs req, opt_subnetConfigs = st_SubnetConfigs req,
      opt_snapshotsDir = sv_SnapshotsDir s, opt_reassignPortsIfUsed = st_ReassignPortsIfUsed req,
      opt_dynamicPorts = st_DynamicPorts req\<rparr>"

definition set_clusterInfo :: "ClusterInfo \<Rightarrow> (sv_state, unit) prog" where
  "set_clusterInfo c = modC (\<lambda>s. s\<lparr>sv_clusterInfo := Some c, sv_sharedSubnets := False\<rparr>)"

definition new_network :: "api_env \<Rightarrow> localNetworkOptions \<Rightarrow> (sv_state, unit) prog" where
  "new_network ae opts =
     bindP (askS (newLocalNetwork ae opts)) (\<lambda>lc. modC (sv_network_update (\<lambda>_. Some lc)))"

definition sv_Start ::
  "env \<Rightarrow> chain_env \<Rightarrow> api_env \<Rightarrow> NetConfig \<Rightarrow> StartRequest \<Rightarrow> (sv_state, ClusterInfo \<times> string list) prog" where
  "sv_Start e ce ae defaultNetworkConfig req =
     not_bootstrapped (
       let numNodes = (case st_NumNodes req of None \<Rightarrow> DefaultNodes | Some n \<Rightarrow> n) in
       if numNodes < MinNodes then throw ErrNotEnoughNodesForStart
       else
         bindP (onS (CheckExecPath e (st_ExecPath req))) (\<lambda>_.
         bindP (mapP (\<lambda>spec. getNetworkBlockchainSpec e spec True (st_PluginDir req)) (st_BlockchainSpecs req)) (\<lambda>chainSpecs.
         bindP (root_data_dir e (st_RootDataDir req)) (\<lambda>rootDataDir.
         let numNodes' = (if mrange (st_CustomNodeConfigs req) \<noteq> [] then of_nat (length (mrange (st_CustomNodeConfigs req)))
                          else numNodes) in
         bindP (set_clusterInfo (new_ClusterInfo (of_int (os_Getpid ae)) rootDataDir)) (\<lambda>_.
         bindP (getC id) (\<lambda>s.
         bindP (new_network ae (start_options s req numNodes' rootDataDir)) (\<lambda>_.
         bindP (on_error (onLC (lc_Start e ce ae defaultNetworkConfig)) (\<lambda>_. stopAndRemoveNetwork e None)) (\<lambda>_.
         bindP (on_error (onLC (CreateChains e ce ae chainSpecs)) (\<lambda>er. stopAndRemoveNetwork e (Some er))) (\<lambda>chainIDs.
         bindP (updateClusterInfo e) (\<lambda>_.
         bindP copy_info (\<lambda>clusterInfo.
         ret (clusterInfo, map (ids_String e) chainIDs))))))))))))"

record LoadSnapshotRequest =
  ls_SnapshotName :: string
  ls_ExecPath :: string
  ls_PluginDir :: string
  ls_RootDataDir :: string
  ls_ChainConfigs :: "string gomap"
  ls_UpgradeConfigs :: "string gomap"
  ls_GlobalNodeConfig :: string
  ls_ReassignPortsIfUsed :: bool
  ls_SubnetConfigs :: "string gomap"

definition load_options :: "server \<Rightarrow> LoadSnapshotRequest \<Rightarrow> string \<Rightarrow> localNetworkOptions" where
  "load_options s req rootDataDir =
     \<lparr>opt_execPath = ls_ExecPath req, opt_rootDataDir = rootDataDir, opt_numNodes = 0,
      opt_trackSubnets = [], opt_redirectNodesOutput = False,
      opt_globalNodeConfig = ls_GlobalNodeConfig req, opt_pluginDir = ls_PluginDir req,
      opt_customNodeConfigs = None, opt_chainConfigs = ls_ChainConfigs req,
      opt_upgradeConfigs = ls_UpgradeConfigs req, opt_subnetConfigs = ls_SubnetConfigs req,
      opt_snapshotsDir = sv_SnapshotsDir s, opt_reassignPortsIfUsed = ls_ReassignPortsIfUsed req,
      opt_dynamicPorts = False\<rparr>"

definition sv_LoadSnapshot ::
  "env \<Rightarrow> chain_env \<Rightarrow> api_env \<Rightarrow> LoadSnapshotRequest \<Rightarrow> (sv_state, ClusterInfo) prog" where
  "sv_LoadSnapshot e ce ae req =
     not_bootstrapped (
       bindP (root_data_dir e (ls_RootDataDir req)) (\<lambda>rootDataDir.
       bindP (getC id) (\<lambda>s.
       bindP (new_network ae (load_options s req rootDataDir)) (\<lambda>_.
       bindP (set_clusterInfo (new_ClusterInfo (of_int (os_Getpid ae)) rootDataDir)) (\<lambda>_.
       bindP (on_error (onLC (lc_LoadSnapshot e (ls_SnapshotName req))) (\<lambda>_. stopAndRemoveNetwork e None)) (\<lambda>_.
       bindP (on_error (onLC (AwaitHealthyAndUpdateNetworkInfo e ce ae)) (\<lambda>er. stopAndRemoveNetwork e (Some er))) (\<lambda>_.
       bindP (updateClusterInfo e) (\<lambda>_.
       copy_info))))))))"

definition sv_Ping :: "api_env \<Rightarrow> (sv_state, 32 word) prog" where
  "sv_Ping ae = ret (of_int (os_Getpid ae))"

definition sv_RPCVersion :: "(sv_state, 32 word) prog" where
  "sv_RPCVersion = ret RPCVersion"

text \<open>The case of \<^verbatim>\<open>WaitForHealthy\<close> that receives the error in the channel.\<close>

definition async_turn :: "(err \<Rightarrow> err \<Rightarrow> err) \<Rightarrow> err \<Rightarrow> (sv_state, (ClusterInfo option \<times> err option) option) prog" where
  "async_turn multierr_Append er =
     bindP (modC (sv_asyncErrCh_update (\<lambda>_. None))) (\<lambda>_.
     catchP (bindP copy_info (\<lambda>i. ret (Some (Some i, Some er))))
       (\<lambda>copyErr. throw (multierr_Append er copyErr)))"

text \<open>One turn of the loop of \<^verbatim>\<open>WaitForHealthy\<close>: \<open>None\<close> if it sleeps and goes on. The arguments say whether the
  context is done, and which case is taken if there is an error in the channel as well.\<close>

definition WaitForHealthy_turn ::
  "(err \<Rightarrow> err \<Rightarrow> err) \<Rightarrow> err option \<Rightarrow> bool \<Rightarrow> (sv_state, (ClusterInfo option \<times> err option) option) prog" where
  "WaitForHealthy_turn multierr_Append ctxErr takeCtx =
     bindP (getC id) (\<lambda>s.
       (case sv_clusterInfo s of
          None \<Rightarrow> throw ErrNotBootstrapped
        | Some c \<Rightarrow>
            if ci_CustomChainsHealthy c then bindP copy_info (\<lambda>i. ret (Some (Some i, None)))
            else
              (case (sv_asyncErrCh s, ctxErr) of
                 (Some er, None) \<Rightarrow> async_turn multierr_Append er
               | (Some er, Some x) \<Rightarrow>
                   if takeCtx then bindP copy_info (\<lambda>i. ret (Some (Some i, Some x)))
                   else async_turn multierr_Append er
               | (None, Some x) \<Rightarrow> bindP copy_info (\<lambda>i. ret (Some (Some i, Some x)))
               | (None, None) \<Rightarrow> if sv_network s = None then throw ErrNotBootstrapped else ret None)))"

definition Health :: "env \<Rightarrow> chain_env \<Rightarrow> api_env \<Rightarrow> (sv_state, ClusterInfo) prog" where
  "Health e ce ae =
     bootstrapped (
       bindP (onLC (AwaitHealthyAndUpdateNetworkInfo e ce ae)) (\<lambda>_.
       bindP update_nodes (\<lambda>_.
       bindP (modCI (ci_Healthy_update (\<lambda>_. True))) (\<lambda>_. copy_info))))"

definition URIs :: "(sv_state, string list) prog" where
  "URIs =
     bootstrapped (
       bindP (getC sv_clusterInfo) (\<lambda>info.
         (case info of
            None \<Rightarrow> panic ''nil pointer dereference''
          | Some c \<Rightarrow> ret (sort (map (\<lambda>(_, nodeInfo). ni_Uri nodeInfo) (mrange (ci_NodeInfos c)))))))"

definition sv_Status :: "(sv_state, ClusterInfo option) prog" where
  "sv_Status = bootstrapped (getC sv_clusterInfo)"

definition sv_Stop :: "env \<Rightarrow> (sv_state, ClusterInfo option) prog" where
  "sv_Stop e = bindP (stopAndRemoveNetwork e None) (\<lambda>_. getC sv_clusterInfo)"

section \<open>Requests about subnets and chains\<close>

definition sv_CreateBlockchains ::
  "env \<Rightarrow> chain_env \<Rightarrow> api_env \<Rightarrow> rpc_BlockchainSpec list \<Rightarrow> (sv_state, ClusterInfo \<times> string list) prog" where
  "sv_CreateBlockchains e ce ae specs =
     bootstrapped (
       if specs = [] then throw ErrNoBlockchainSpec
       else
         bindP (getC (\<lambda>s. case sv_network s of None \<Rightarrow> [] | Some lc \<Rightarrow> lc_pluginDir lc)) (\<lambda>pluginDir.
         bindP (mapP (\<lambda>spec. getNetworkBlockchainSpec e spec False pluginDir) specs) (\<lambda>chainSpecs.
         bindP known_subnets (\<lambda>known.
         bindP (forP chainSpecs (check_chain_subnet known)) (\<lambda>_.
         bindP (modCI set_unhealthy) (\<lambda>_.
         bindP (on_error (onLC (CreateChains e ce ae chainSpecs)) (\<lambda>er. stopAndRemoveNetwork e (Some er))) (\<lambda>chainIDs.
         bindP (updateClusterInfo e) (\<lambda>_.
         bindP copy_info (\<lambda>clusterInfo.
         ret (clusterInfo, map (ids_String e) chainIDs))))))))))"

definition AddPermissionlessValidator ::
  "env \<Rightarrow> chain_env \<Rightarrow> api_env \<Rightarrow> rpc_PermissionlessValidatorSpec list \<Rightarrow> (sv_state, ClusterInfo) prog" where
  "AddPermissionlessValidator e ce ae specs =
     bootstrapped (
       if specs = [] then throw ErrNoValidatorSpec
       else
         bindP (mapP (getPermissionlessValidatorSpec ce ae) specs) (\<lambda>validatorSpecList.
         bindP known_subnets (\<lambda>known.
         bindP (forP validatorSpecList (\<lambda>spec. check_subnet known (pvs_SubnetID spec))) (\<lambda>_.
         bindP (modCI set_unhealthy) (\<lambda>_.
         bindP (on_error (onLC (lc_AddPermissionlessValidators e ce ae validatorSpecList)) (\<lambda>_. updateClusterInfo e)) (\<lambda>_.
         bindP (updateClusterInfo e) (\<lambda>_.
         copy_info)))))))"

definition RemoveSubnetValidator ::
  "env \<Rightarrow> chain_env \<Rightarrow> api_env \<Rightarrow> rpc_RemoveSubnetValidatorSpec list \<Rightarrow> (sv_state, ClusterInfo) prog" where
  "RemoveSubnetValidator e ce ae specs =
     bootstrapped (
       if specs = [] then throw ErrNoValidatorSpec
       else
         let validatorSpecList = map getRemoveSubnetValidatorSpec specs in
         bindP known_subnets (\<lambda>known.
         bindP (forP validatorSpecList (\<lambda>spec. check_subnet known (rsv_SubnetID spec))) (\<lambda>_.
         bindP (modCI set_unhealthy) (\<lambda>_.
         bindP (on_error (onLC (lc_RemoveSubnetValidator e ce ae validatorSpecList)) (\<lambda>_. updateClusterInfo e)) (\<lambda>_.
         bindP (updateClusterInfo e) (\<lambda>_.
         copy_info))))))"

definition TransformElasticSubnets ::
  "env \<Rightarrow> chain_env \<Rightarrow> api_env \<Rightarrow> rpc_ElasticSubnetSpec list \<Rightarrow>
   (sv_state, ClusterInfo \<times> string list \<times> string list) prog" where
  "TransformElasticSubnets e ce ae specs =
     bootstrapped (
       if specs = [] then throw ErrNoElasticSubnetSpec
       else
         let elasticSubnetSpecList = map getNetworkElasticSubnetSpec specs in
         bindP known_subnets (\<lambda>known.
         bindP (forP elasticSubnetSpecList (check_elastic known)) (\<lambda>_.
         bindP (modCI set_unhealthy) (\<lambda>_.
         bindP (on_error (onLC (TransformSubnets e ce ae elasticSubnetSpecList)) (\<lambda>_. updateClusterInfo e)) (\<lambda>(txIDs, assetIDs).
         bindP (updateClusterInfo e) (\<lambda>_.
         bindP copy_info (\<lambda>clusterInfo.
         ret (clusterInfo, map (ids_String e) txIDs, map (ids_String e) assetIDs))))))))"

definition sv_CreateSubnets ::
  "env \<Rightarrow> chain_env \<Rightarrow> api_env \<Rightarrow> rpc_SubnetSpec list \<Rightarrow> (sv_state, ClusterInfo \<times> string list) prog" where
  "sv_CreateSubnets e ce ae specs =
     bootstrapped (
       bindP (mapP (getNetworkSubnetSpec e) specs) (\<lambda>subnetSpecs.
       bindP (modCI set_unhealthy) (\<lambda>_.
       bindP (on_error (onLC (lc_CreateSubnets e ce ae subnetSpecs)) (\<lambda>er. stopAndRemoveNetwork e (Some er))) (\<lambda>subnetIDs.
       bindP (updateClusterInfo e) (\<lambda>_.
       bindP copy_info (\<lambda>clusterInfo.
       ret (clusterInfo, map (ids_String e) subnetIDs)))))))"

section \<open>Requests about nodes\<close>

record AddNodeRequest =
  an_Name :: string
  an_ExecPath :: string
  an_NodeConfig :: string
  an_ChainConfigs :: "string gomap"
  an_UpgradeConfigs :: "string gomap"
  an_SubnetConfigs :: "string gomap"
  an_PluginDir :: string

definition request_node :: "env \<Rightarrow> bool \<Rightarrow> AddNodeRequest \<Rightarrow> NodeConfig res" where
  "request_node e redirectOutput req =
     bindR (if an_NodeConfig req = [] then Ok (Some []) else unmarshal_map (an_NodeConfig req)) (\<lambda>nodeFlags.
     bindR (if an_PluginDir req \<noteq> [] then mput (PluginDirKey e) (VStr (an_PluginDir req)) nodeFlags
            else Ok nodeFlags) (\<lambda>nodeFlags'.
     Ok ((named_config (an_Name req))\<lparr>nc_Flags := nodeFlags', nc_BinaryPath := an_ExecPath req,
         nc_RedirectStdout := redirectOutput, nc_RedirectStderr := redirectOutput, nc_ChainConfigFiles := an_ChainConfigs req,
         nc_UpgradeConfigFiles := an_UpgradeConfigs req, nc_SubnetConfigFiles := an_SubnetConfigs req\<rparr>)))"

text \<open>The handlers on one node: the call on the network, then the nodes' part of the cluster information.\<close>

definition node_request :: "env \<Rightarrow> (net_state, 'a) prog \<Rightarrow> (sv_state, unit) prog" where
  "node_request e m =
     bindP (on_net (onN m)) (\<lambda>_.
     bindP (onLC (UpdateNodeInfo e)) (\<lambda>_.
     update_nodes))"

definition sv_AddNode :: "env \<Rightarrow> AddNodeRequest \<Rightarrow> (sv_state, ClusterInfo) prog" where
  "sv_AddNode e req =
     bootstrapped (
       bindP (getC sv_RedirectNodesOutput) (\<lambda>redirectOutput.
       bindP (liftR (request_node e redirectOutput req)) (\<lambda>nodeConfig.
       bindP (node_request e (AddNode e nodeConfig)) (\<lambda>_. copy_info))))"

definition sv_RemoveNode :: "env \<Rightarrow> string \<Rightarrow> (sv_state, ClusterInfo) prog" where
  "sv_RemoveNode e name = bootstrapped (bindP (node_request e (RemoveNode e name)) (\<lambda>_. copy_info))"

record RestartNodeRequest =
  rn_Name :: string
  rn_ExecPath :: string
  rn_WhitelistedSubnets :: string
  rn_ChainConfigs :: "string gomap"
  rn_UpgradeConfigs :: "string gomap"
  rn_SubnetConfigs :: "string gomap"
  rn_PluginDir :: string

definition sv_RestartNode :: "env \<Rightarrow> RestartNodeRequest \<Rightarrow> (sv_state, ClusterInfo) prog" where
  "sv_RestartNode e req =
     bootstrapped (
       bindP (node_request e (RestartNode e (rn_Name req) (rn_ExecPath req) (rn_PluginDir req)
                (rn_WhitelistedSubnets req) (rn_ChainConfigs req) (rn_UpgradeConfigs req) (rn_SubnetConfigs req))) (\<lambda>_.
       copy_info))"

definition sv_PauseNode :: "env \<Rightarrow> string \<Rightarrow> (sv_state, ClusterInfo option) prog" where
  "sv_PauseNode e name =
     bootstrapped (bindP (node_request e (PauseNode e name)) (\<lambda>_. getC sv_clusterInfo))"

definition sv_ResumeNode :: "env \<Rightarrow> string \<Rightarrow> (sv_state, ClusterInfo option) prog" where
  "sv_ResumeNode e name =
     bootstrapped (bindP (node_request e (ResumeNode e name)) (\<lambda>_. getC sv_clusterInfo))"

text \<open>
  \<^verbatim>\<open>AttachPeer\<close> of a node: starting the peer is a request to the node library, the peer is then stored
  in the node.
\<close>

definition node_AttachPeer :: "api_env \<Rightarrow> string \<Rightarrow> (chain_state, string) prog" where
  "node_AttachPeer ae nodeName =
     bindP (onN (GetNode nodeName)) (\<lambda>node.
     bindP (ask (\<lambda>t. peer_Attach ae t nodeName)) (\<lambda>peerID.
     bindP (onN (modL (ln_nodes_update (AList.update nodeName
              (node\<lparr>n_attachedPeers := List.insert peerID (n_attachedPeers node)\<rparr>))))) (\<lambda>_.
     ret peerID)))"

definition add_peer :: "string \<Rightarrow> AttachedPeerInfo \<Rightarrow> ClusterInfo \<Rightarrow> ClusterInfo" where
  "add_peer nodeName peer c =
     (let m = mrange (ci_AttachedPeerInfos c) in
      c\<lparr>ci_AttachedPeerInfos := Some (AList.update nodeName
          ((case map_of m nodeName of None \<Rightarrow> [] | Some ps \<Rightarrow> ps) @ [peer]) m)\<rparr>)"

definition sv_AttachPeer :: "api_env \<Rightarrow> string \<Rightarrow> (sv_state, ClusterInfo \<times> AttachedPeerInfo) prog" where
  "sv_AttachPeer ae nodeName =
     bootstrapped (
       bindP (on_net (node_AttachPeer ae nodeName)) (\<lambda>newPeerID.
       bindP (modCI (add_peer nodeName \<lparr>ap_Id = newPeerID\<rparr>)) (\<lambda>_.
       bindP copy_info (\<lambda>clusterInfo.
       ret (clusterInfo, \<lparr>ap_Id = newPeerID\<rparr>)))))"

definition sv_SendOutboundMessage ::
  "api_env \<Rightarrow> string \<Rightarrow> string \<Rightarrow> string \<Rightarrow> 32 word \<Rightarrow> (sv_state, bool) prog" where
  "sv_SendOutboundMessage ae nodeName peerID bytes oper =
     bootstrapped (
       bindP (on_net (onN (GetNode nodeName))) (\<lambda>node.
       askS (\<lambda>t. SendOutboundMessage (peer_Send ae t) node peerID bytes oper)))"

section \<open>Requests about snapshots\<close>

definition sv_SaveSnapshot :: "env \<Rightarrow> string \<Rightarrow> (sv_state, string) prog" where
  "sv_SaveSnapshot e snapshotName =
     bootstrapped (
       bindP (on_net (onN (SaveSnapshot e snapshotName))) (\<lambda>snapshotPath.
       bindP (stopAndRemoveNetwork e None) (\<lambda>_. ret snapshotPath)))"

definition sv_RemoveSnapshot :: "env \<Rightarrow> string \<Rightarrow> (sv_state, unit) prog" where
  "sv_RemoveSnapshot e snapshotName = bootstrapped (on_net (onN (RemoveSnapshot e snapshotName)))"

definition sv_GetSnapshotNames :: "env \<Rightarrow> (sv_state, string list) prog" where
  "sv_GetSnapshotNames e = bootstrapped (on_net (onN (GetSnapshotNames e)))"

section \<open>Errors of the transport\<close>

datatype code = Canceled | DeadlineExceeded | Unavailable | Unknown | OtherCode nat

text \<open>The status of an error, \<open>None\<close> if it has none (\<^verbatim>\<open>status.FromError\<close>).\<close>

definition isClientCanceled :: "err option \<Rightarrow> (code \<times> string) option \<Rightarrow> bool" where
  "isClientCanceled ctxErr st =
     (ctxErr \<noteq> None \<or>
      (case st of
         None \<Rightarrow> False
       | Some (c, msg) \<Rightarrow>
           (case c of
              Canceled \<Rightarrow> True
            | DeadlineExceeded \<Rightarrow> True
            | Unavailable \<Rightarrow> msg = ''client disconnected'' \<or>
                (has_prefix ''stream error: '' msg \<and> has_suffix ''; CANCEL'' msg)
            | _ \<Rightarrow> False)))"

definition IsServerError :: "code \<times> string \<Rightarrow> string \<Rightarrow> bool" where
  "IsServerError st serverError \<longleftrightarrow> fst st = Unknown \<and> snd st = serverError"

end
