(* ===== verification/Requests.thy ===== *)
theory Requests
  imports Server
begin

text \<open>
  The requests of the protocol and the handlers that serve them (\<^verbatim>\<open>ControlServiceServer\<close> of
  \<^verbatim>\<open>rpcpb/rpc_grpc.pb.go\<close>), without their responses.

  \<^verbatim>\<open>WaitForHealthy\<close> releases the lock between the turns of its loop, so a turn is a request of its own; it
  comes with the state of its context at that turn.
\<close>

datatype request =
    ReqPing
  | ReqRPCVersion
  | ReqStart StartRequest
  | ReqWaitForHealthy "err option" bool
  | ReqCreateBlockchains "rpc_BlockchainSpec list"
  | ReqAddPermissionlessValidator "rpc_PermissionlessValidatorSpec list"
  | ReqRemoveSubnetValidator "rpc_RemoveSubnetValidatorSpec list"
  | ReqTransformElasticSubnets "rpc_ElasticSubnetSpec list"
  | ReqCreateSubnets "rpc_SubnetSpec list"
  | ReqHealth
  | ReqURIs
  | ReqStatus
  | ReqAddNode AddNodeRequest
  | ReqRemoveNode string
  | ReqRestartNode RestartNodeRequest
  | ReqPauseNode string
  | ReqResumeNode string
  | ReqStop
  | ReqAttachPeer string
  | ReqSendOutboundMessage string string string "32 word"
  | ReqLoadSnapshot LoadSnapshotRequest
  | ReqSaveSnapshot string
  | ReqRemoveSnapshot string
  | ReqGetSnapshotNames

definition no_response :: "('s, 'a) prog \<Rightarrow> ('s, unit) prog" where
  "no_response m = bindP m (\<lambda>_. ret ())"

fun handle ::
  "env \<Rightarrow> chain_env \<Rightarrow> api_env \<Rightarrow> (err \<Rightarrow> err \<Rightarrow> err) \<Rightarrow> NetConfig \<Rightarrow> request \<Rightarrow> (sv_state, unit) prog" where
  "handle e ce ae ap def ReqPing = no_response (sv_Ping ae)"
| "handle e ce ae ap def ReqRPCVersion = no_response sv_RPCVersion"
| "handle e ce ae ap def (ReqStart r) = no_response (sv_Start e ce ae def r)"
| "handle e ce ae ap def (ReqWaitForHealthy c b) = no_response (WaitForHealthy_turn ap c b)"
| "handle e ce ae ap def (ReqCreateBlockchains specs) = no_response (sv_CreateBlockchains e ce ae specs)"
| "handle e ce ae ap def (ReqAddPermissionlessValidator specs) = no_response (AddPermissionlessValidator e ce ae specs)"
| "handle e ce ae ap def (ReqRemoveSubnetValidator specs) = no_response (RemoveSubnetValidator e ce ae specs)"
| "handle e ce ae ap def (ReqTransformElasticSubnets specs) = no_response (TransformElasticSubnets e ce ae specs)"
| "handle e ce ae ap def (ReqCreateSubnets specs) = no_response (sv_CreateSubnets e ce ae specs)"
| "handle e ce ae ap def ReqHealth = no_response (Health e ce ae)"
| "handle e ce ae ap def ReqURIs = no_response URIs"
| "handle e ce ae ap def ReqStatus = no_response sv_Status"
| "handle e ce ae ap def (ReqAddNode r) = no_response (sv_AddNode e r)"
| "handle e ce ae ap def (ReqRemoveNode n) = no_response (sv_RemoveNode e n)"
| "handle e ce ae ap def (ReqRestartNode r) = no_response (sv_RestartNode e r)"
| "handle e ce ae ap def (ReqPauseNode n) = no_response (sv_PauseNode e n)"
| "handle e ce ae ap def (ReqResumeNode n) = no_response (sv_ResumeNode e n)"
| "handle e ce ae ap def ReqStop = no_response (sv_Stop e)"
| "handle e ce ae ap def (ReqAttachPeer n) = no_response (sv_AttachPeer ae n)"
| "handle e ce ae ap def (ReqSendOutboundMessage n p b oper) = no_response (sv_SendOutboundMessage ae n p b oper)"
| "handle e ce ae ap def (ReqLoadSnapshot r) = no_response (sv_LoadSnapshot e ce ae r)"
| "handle e ce ae ap def (ReqSaveSnapshot n) = no_response (sv_SaveSnapshot e n)"
| "handle e ce ae ap def (ReqRemoveSnapshot n) = no_response (sv_RemoveSnapshot e n)"
| "handle e ce ae ap def ReqGetSnapshotNames = no_response (sv_GetSnapshotNames e)"

end
