(* ===== verification/Client.thy ===== *)
theory Client
  imports Requests
begin

text \<open>
  The client of the control service (\<^verbatim>\<open>client/client.go\<close>): each call builds a request from its arguments and
  options and hands it to the generated stub. The calls are functions from their arguments to the
  request.

  The fields of a request are what its getters return at the server, so that a nil pointer to a string
  reads as the empty string and one to a bool as false.
\<close>

section \<open>Options\<close>

record Op =
  op_numNodes :: "32 word"
  op_execPath :: string
  op_trackSubnets :: string
  op_globalNodeConfig :: string
  op_rootDataDir :: string
  op_pluginDir :: string
  op_blockchainSpecs :: "rpc_BlockchainSpec list"
  op_customNodeConfigs :: "string gomap"
  op_numSubnets :: "32 word"
  op_chainConfigs :: "string gomap"
  op_upgradeConfigs :: "string gomap"
  op_subnetConfigs :: "string gomap"
  op_reassignPortsIfUsed :: bool
  op_dynamicPorts :: bool

text \<open>\<^verbatim>\<open>&Op{}\<close>\<close>

definition zero_Op :: Op where
  "zero_Op = \<lparr>op_numNodes = 0, op_execPath = [], op_trackSubnets = [], op_globalNodeConfig = [], op_rootDataDir = [],
     op_pluginDir = [], op_blockchainSpecs = [], op_customNodeConfigs = None, op_numSubnets = 0, op_chainConfigs = None,
     op_upgradeConfigs = None, op_subnetConfigs = None, op_reassignPortsIfUsed = False, op_dynamicPorts = False\<rparr>"

type_synonym OpOption = "Op \<Rightarrow> Op"

definition applyOpts :: "OpOption list \<Rightarrow> Op \<Rightarrow> Op" where
  "applyOpts opts oper = fold (\<lambda>opt. opt) opts oper"

definition WithGlobalNodeConfig :: "string \<Rightarrow> OpOption" where
  "WithGlobalNodeConfig nodeConfig = op_globalNodeConfig_update (\<lambda>_. nodeConfig)"

definition WithNumNodes :: "32 word \<Rightarrow> OpOption" where
  "WithNumNodes numNodes = op_numNodes_update (\<lambda>_. numNodes)"

definition WithExecPath :: "string \<Rightarrow> OpOption" where
  "WithExecPath execPath = op_execPath_update (\<lambda>_. execPath)"

definition WithWhitelistedSubnets :: "string \<Rightarrow> OpOption" where
  "WithWhitelistedSubnets trackSubnets = op_trackSubnets_update (\<lambda>_. trackSubnets)"

definition WithTrackSubnets :: "string \<Rightarrow> OpOption" where
  "WithTrackSubnets trackSubnets = op_trackSubnets_update (\<lambda>_. trackSubnets)"

definition WithRootDataDir :: "string \<Rightarrow> OpOption" where
  "WithRootDataDir rootDataDir = op_rootDataDir_update (\<lambda>_. rootDataDir)"

definition WithPluginDir :: "string \<Rightarrow> OpOption" where
  "WithPluginDir pluginDir = op_pluginDir_update (\<lambda>_. pluginDir)"

definition WithBlockchainSpecs :: "rpc_BlockchainSpec list \<Rightarrow> OpOption" where
  "WithBlockchainSpecs blockchainSpecs = op_blockchainSpecs_update (\<lambda>_. blockchainSpecs)"

definition WithChainConfigs :: "string gomap \<Rightarrow> OpOption" where
  "WithChainConfigs chainConfigs = op_chainConfigs_update (\<lambda>_. chainConfigs)"

definition WithUpgradeConfigs :: "string gomap \<Rightarrow> OpOption" where
  "WithUpgradeConfigs upgradeConfigs = op_upgradeConfigs_update (\<lambda>_. upgradeConfigs)"

definition WithSubnetConfigs :: "string gomap \<Rightarrow> OpOption" where
  "WithSubnetConfigs subnetConfigs = op_subnetConfigs_update (\<lambda>_. subnetConfigs)"

definition WithCustomNodeConfigs :: "string gomap \<Rightarrow> OpOption" where
  "WithCustomNodeConfigs customNodeConfigs = op_customNodeConfigs_update (\<lambda>_. customNodeConfigs)"

definition WithNumSubnets :: "32 word \<Rightarrow> OpOption" where
  "WithNumSubnets numSubnets = op_numSubnets_update (\<lambda>_. numSubnets)"

definition WithReassignPortsIfUsed :: "bool \<Rightarrow> OpOption" where
  "WithReassignPortsIfUsed reassignPortsIfUsed = op_reassignPortsIfUsed_update (\<lambda>_. reassignPortsIfUsed)"

definition WithDynamicPorts :: "bool \<Rightarrow> OpOption" where
  "WithDynamicPorts dynamicPorts = op_dynamicPorts_update (\<lambda>_. dynamicPorts)"

lemmas option_defs =
  WithGlobalNodeConfig_def WithNumNodes_def WithExecPath_def WithWhitelistedSubnets_def WithTrackSubnets_def
  WithRootDataDir_def WithPluginDir_def WithBlockchainSpecs_def WithChainConfigs_def WithUpgradeConfigs_def
  WithSubnetConfigs_def WithCustomNodeConfigs_def WithNumSubnets_def WithReassignPortsIfUsed_def WithDynamicPorts_def

section \<open>Calls about the network as a whole\<close>

text \<open>\<^verbatim>\<open>&rpcpb.StartRequest{}\<close> and the other messages without a field set.\<close>

definition zero_StartRequest :: StartRequest where
  "zero_StartRequest = \<lparr>st_ExecPath = [], st_NumNodes = None, st_WhitelistedSubnets = [], st_GlobalNodeConfig = [],
     st_RootDataDir = [], st_PluginDir = [], st_BlockchainSpecs = [], st_CustomNodeConfigs = None, st_ChainConfigs = None,
     st_UpgradeConfigs = None, st_ReassignPortsIfUsed = False, st_DynamicPorts = False, st_SubnetConfigs = None\<rparr>"

definition zero_LoadSnapshotRequest :: LoadSnapshotRequest where
  "zero_LoadSnapshotRequest = \<lparr>ls_SnapshotName = [], ls_ExecPath = [], ls_PluginDir = [], ls_RootDataDir = [],
     ls_ChainConfigs = None, ls_UpgradeConfigs = None, ls_GlobalNodeConfig = [], ls_ReassignPortsIfUsed = False,
     ls_SubnetConfigs = None\<rparr>"

definition zero_AddNodeRequest :: AddNodeRequest where
  "zero_AddNodeRequest = \<lparr>an_Name = [], an_ExecPath = [], an_NodeConfig = [], an_ChainConfigs = None,
     an_UpgradeConfigs = None, an_SubnetConfigs = None, an_PluginDir = []\<rparr>"

definition zero_RestartNodeRequest :: RestartNodeRequest where
  "zero_RestartNodeRequest = \<lparr>rn_Name = [], rn_ExecPath = [], rn_WhitelistedSubnets = [], rn_ChainConfigs = None,
     rn_UpgradeConfigs = None, rn_SubnetConfigs = None, rn_PluginDir = []\<rparr>"

definition client_Ping :: request where "client_Ping = ReqPing"
definition client_RPCVersion :: request where "client_RPCVersion = ReqRPCVersion"

definition client_Start :: "string \<Rightarrow> OpOption list \<Rightarrow> request" where
  "client_Start execPath opts =
     (let ret = applyOpts opts (zero_Op\<lparr>op_numNodes := of_nat DefaultNumNodes\<rparr>);
          req = zero_StartRequest\<lparr>st_ExecPath := execPath, st_NumNodes := Some (op_numNodes ret),
                  st_ChainConfigs := op_chainConfigs ret, st_UpgradeConfigs := op_upgradeConfigs ret,
                  st_SubnetConfigs := op_subnetConfigs ret\<rparr>;
          req = (if op_trackSubnets ret \<noteq> [] then req\<lparr>st_WhitelistedSubnets := op_trackSubnets ret\<rparr> else req);
          req = (if op_rootDataDir ret \<noteq> [] then req\<lparr>st_RootDataDir := op_rootDataDir ret\<rparr> else req);
          req = (if op_pluginDir ret \<noteq> [] then req\<lparr>st_PluginDir := op_pluginDir ret\<rparr> else req);
          req = (if length (op_blockchainSpecs ret) > 0 then req\<lparr>st_BlockchainSpecs := op_blockchainSpecs ret\<rparr> else req);
          req = (if op_globalNodeConfig ret \<noteq> [] then req\<lparr>st_GlobalNodeConfig := op_globalNodeConfig ret\<rparr> else req);
          req = (if op_customNodeConfigs ret \<noteq> None then req\<lparr>st_CustomNodeConfigs := op_customNodeConfigs ret\<rparr> else req)
      in ReqStart (req\<lparr>st_ReassignPortsIfUsed := op_reassignPortsIfUsed ret, st_DynamicPorts := op_dynamicPorts ret\<rparr>))"

definition client_CreateBlockchains :: "rpc_BlockchainSpec list \<Rightarrow> request" where
  "client_CreateBlockchains blockchainSpecs = ReqCreateBlockchains blockchainSpecs"

definition client_CreateSubnets :: "rpc_SubnetSpec list \<Rightarrow> request" where
  "client_CreateSubnets subnetSpecs = ReqCreateSubnets subnetSpecs"

definition client_TransformElasticSubnets :: "rpc_ElasticSubnetSpec list \<Rightarrow> request" where
  "client_TransformElasticSubnets elasticSubnetSpecs = ReqTransformElasticSubnets elasticSubnetSpecs"

definition client_AddPermissionlessValidator :: "rpc_PermissionlessValidatorSpec list \<Rightarrow> request" where
  "client_AddPermissionlessValidator validatorSpec = ReqAddPermissionlessValidator validatorSpec"

definition client_RemoveSubnetValidator :: "rpc_RemoveSubnetValidatorSpec list \<Rightarrow> request" where
  "client_RemoveSubnetValidator validatorSpec = ReqRemoveSubnetValidator validatorSpec"

definition client_Health :: request where "client_Health = ReqHealth"

definition client_WaitForHealthy :: "err option \<Rightarrow> bool \<Rightarrow> request" where
  "client_WaitForHealthy ctxErr takeCtx = ReqWaitForHealthy ctxErr takeCtx"

definition client_URIs :: request where "client_URIs = ReqURIs"
definition client_Status :: request where "client_Status = ReqStatus"
definition client_Stop :: request where "client_Stop = ReqStop"

section \<open>Calls about nodes\<close>

definition client_AddNode :: "string \<Rightarrow> string \<Rightarrow> OpOption list \<Rightarrow> request" where
  "client_AddNode name execPath opts =
     (let ret = applyOpts opts zero_Op;
          req = zero_AddNodeRequest\<lparr>an_Name := name, an_ExecPath := execPath, an_NodeConfig := op_globalNodeConfig ret,
                  an_ChainConfigs := op_chainConfigs ret, an_UpgradeConfigs := op_upgradeConfigs ret,
                  an_SubnetConfigs := op_subnetConfigs ret\<rparr>
      in ReqAddNode (if op_pluginDir ret \<noteq> [] then req\<lparr>an_PluginDir := op_pluginDir ret\<rparr> else req))"

definition client_RemoveNode :: "string \<Rightarrow> request" where "client_RemoveNode name = ReqRemoveNode name"
definition client_PauseNode :: "string \<Rightarrow> request" where "client_PauseNode name = ReqPauseNode name"
definition client_ResumeNode :: "string \<Rightarrow> request" where "client_ResumeNode name = ReqResumeNode name"

definition client_RestartNode :: "string \<Rightarrow> OpOption list \<Rightarrow> request" where
  "client_RestartNode name opts =
     (let ret = applyOpts opts zero_Op;
          req = zero_RestartNodeRequest\<lparr>rn_Name := name\<rparr>;
          req = (if op_execPath ret \<noteq> [] then req\<lparr>rn_ExecPath := op_execPath ret\<rparr> else req);
          req = (if op_pluginDir ret \<noteq> [] then req\<lparr>rn_PluginDir := op_pluginDir ret\<rparr> else req);
          req = (if op_trackSubnets ret \<noteq> [] then req\<lparr>rn_WhitelistedSubnets := op_trackSubnets ret\<rparr> else req)
      in ReqRestartNode (req\<lparr>rn_ChainConfigs := op_chainConfigs ret, rn_UpgradeConfigs := op_upgradeConfigs ret,
           rn_SubnetConfigs := op_subnetConfigs ret\<rparr>))"

definition client_AttachPeer :: "string \<Rightarrow> request" where "client_AttachPeer nodeName = ReqAttachPeer nodeName"

definition client_SendOutboundMessage :: "string \<Rightarrow> string \<Rightarrow> 32 word \<Rightarrow> string \<Rightarrow> request" where
  "client_SendOutboundMessage nodeName peerID oper msgBody = ReqSendOutboundMessage nodeName peerID msgBody oper"

section \<open>Calls about snapshots\<close>

definition client_SaveSnapshot :: "string \<Rightarrow> request" where
  "client_SaveSnapshot snapshotName = ReqSaveSnapshot snapshotName"

definition client_LoadSnapshot :: "string \<Rightarrow> OpOption list \<Rightarrow> request" where
  "client_LoadSnapshot snapshotName opts =
     (let ret = applyOpts opts zero_Op;
          req = zero_LoadSnapshotRequest\<lparr>ls_SnapshotName := snapshotName, ls_ChainConfigs := op_chainConfigs ret,
                  ls_UpgradeConfigs := op_upgradeConfigs ret, ls_SubnetConfigs := op_subnetConfigs ret\<rparr>;
          req = (if op_execPath ret \<noteq> [] then req\<lparr>ls_ExecPath := op_execPath ret\<rparr> else req);
          req = (if op_pluginDir ret \<noteq> [] then req\<lparr>ls_PluginDir := op_pluginDir ret\<rparr> else req);
          req = (if op_rootDataDir ret \<noteq> [] then req\<lparr>ls_RootDataDir := op_rootDataDir ret\<rparr> else req);
          req = (if op_globalNodeConfig ret \<noteq> [] then req\<lparr>ls_GlobalNodeConfig := op_globalNodeConfig ret\<rparr> else req)
      in ReqLoadSnapshot (req\<lparr>ls_ReassignPortsIfUsed := op_reassignPortsIfUsed ret\<rparr>))"

definition client_RemoveSnapshot :: "string \<Rightarrow> request" where
  "client_RemoveSnapshot snapshotName = ReqRemoveSnapshot snapshotName"

definition client_GetSnapshotNames :: request where "client_GetSnapshotNames = ReqGetSnapshotNames"

section \<open>Closing a client\<close>

record client =
  cl_closed :: bool
  cl_closeOnce :: bool

definition new_client :: client where
  "new_client = \<lparr>cl_closed = False, cl_closeOnce = False\<rparr>"

text \<open>Closing a channel twice panics; \<^verbatim>\<open>closeOnce\<close> runs its function once. The argument is what \<^verbatim>\<open>conn.Close\<close> returns.\<close>

definition client_Close :: "unit res \<Rightarrow> (client, unit) prog" where
  "client_Close conn_Close =
     bindP (gets cl_closeOnce) (\<lambda>called.
     bindP (if called then ret ()
            else bindP (modify (cl_closeOnce_update (\<lambda>_. True))) (\<lambda>_.
                 bindP (gets cl_closed) (\<lambda>closed.
                 if closed then panic ''close of closed channel'' else modify (cl_closed_update (\<lambda>_. True))))) (\<lambda>_.
     liftR conn_Close))"

text \<open>Any number of calls of \<^verbatim>\<open>Close\<close> close the channel once.\<close>

lemma client_Close_result:
  assumes "cl_closed c = cl_closeOnce c"
  shows "client_Close r c = (r, \<lparr>cl_closed = True, cl_closeOnce = True\<rparr>)"
  using assms by (cases c) (simp add: client_Close_def bindP_def gets_def modify_def ret_def liftR_def)

section \<open>The end of a stream\<close>

text \<open>The client's copy of the function that tells a cancelled stream from a failed one. It agrees with the server's.\<close>

fun client_isClientCanceled :: "err option \<Rightarrow> (code \<times> string) option \<Rightarrow> bool" where
  "client_isClientCanceled (Some ctxErr) st = True"
| "client_isClientCanceled None None = False"
| "client_isClientCanceled None (Some (Canceled, msg)) = True"
| "client_isClientCanceled None (Some (DeadlineExceeded, msg)) = True"
| "client_isClientCanceled None (Some (Unavailable, msg)) =
     (if msg = ''client disconnected'' then True
      else has_prefix ''stream error: '' msg \<and> has_suffix ''; CANCEL'' msg)"
| "client_isClientCanceled None (Some (Unknown, msg)) = False"
| "client_isClientCanceled None (Some (OtherCode n, msg)) = False"

lemma isClientCanceled_agree: "client_isClientCanceled = isClientCanceled"
proof (intro ext)
  show "client_isClientCanceled ctxErr st = isClientCanceled ctxErr st" for ctxErr st
    by (cases "(ctxErr, st)" rule: client_isClientCanceled.cases) (simp_all add: isClientCanceled_def)
qed

section \<open>What the requests hold\<close>

text \<open>Each field of a request is that of the options it was built from.\<close>

lemma client_Start_fields:
  assumes "client_Start execPath opts = ReqStart req" "opr = applyOpts opts (zero_Op\<lparr>op_numNodes := of_nat DefaultNumNodes\<rparr>)"
  shows "req = \<lparr>st_ExecPath = execPath, st_NumNodes = Some (op_numNodes opr), st_WhitelistedSubnets = op_trackSubnets opr,
     st_GlobalNodeConfig = op_globalNodeConfig opr, st_RootDataDir = op_rootDataDir opr, st_PluginDir = op_pluginDir opr,
     st_BlockchainSpecs = op_blockchainSpecs opr, st_CustomNodeConfigs = op_customNodeConfigs opr,
     st_ChainConfigs = op_chainConfigs opr, st_UpgradeConfigs = op_upgradeConfigs opr,
     st_ReassignPortsIfUsed = op_reassignPortsIfUsed opr, st_DynamicPorts = op_dynamicPorts opr,
     st_SubnetConfigs = op_subnetConfigs opr\<rparr>"
  using assms unfolding client_Start_def Let_def
  by (auto simp: zero_StartRequest_def split: if_splits)

lemma client_LoadSnapshot_fields:
  assumes "client_LoadSnapshot snapshotName opts = ReqLoadSnapshot req" "opr = applyOpts opts zero_Op"
  shows "req = \<lparr>ls_SnapshotName = snapshotName, ls_ExecPath = op_execPath opr, ls_PluginDir = op_pluginDir opr,
     ls_RootDataDir = op_rootDataDir opr, ls_ChainConfigs = op_chainConfigs opr, ls_UpgradeConfigs = op_upgradeConfigs opr,
     ls_GlobalNodeConfig = op_globalNodeConfig opr, ls_ReassignPortsIfUsed = op_reassignPortsIfUsed opr,
     ls_SubnetConfigs = op_subnetConfigs opr\<rparr>"
  using assms unfolding client_LoadSnapshot_def Let_def
  by (auto simp: zero_LoadSnapshotRequest_def split: if_splits)

lemma client_AddNode_fields:
  assumes "client_AddNode name execPath opts = ReqAddNode req" "opr = applyOpts opts zero_Op"
  shows "req = \<lparr>an_Name = name, an_ExecPath = execPath, an_NodeConfig = op_globalNodeConfig opr,
     an_ChainConfigs = op_chainConfigs opr, an_UpgradeConfigs = op_upgradeConfigs opr,
     an_SubnetConfigs = op_subnetConfigs opr, an_PluginDir = op_pluginDir opr\<rparr>"
  using assms unfolding client_AddNode_def Let_def
  by (auto simp: zero_AddNodeRequest_def split: if_splits)

lemma client_RestartNode_fields:
  assumes "client_RestartNode name opts = ReqRestartNode req" "opr = applyOpts opts zero_Op"
  shows "req = \<lparr>rn_Name = name, rn_ExecPath = op_execPath opr, rn_WhitelistedSubnets = op_trackSubnets opr,
     rn_ChainConfigs = op_chainConfigs opr, rn_UpgradeConfigs = op_upgradeConfigs opr,
     rn_SubnetConfigs = op_subnetConfigs opr, rn_PluginDir = op_pluginDir opr\<rparr>"
  using assms unfolding client_RestartNode_def Let_def
  by (auto simp: zero_RestartNodeRequest_def split: if_splits)

end
