(* ===== verification/Control.thy ===== *)
theory Control
  imports Client
begin

text \<open>
  The commands \<^verbatim>\<open>control\<close> (\<^verbatim>\<open>cmd/control/control.go\<close>), \<^verbatim>\<open>ping\<close> (\<^verbatim>\<open>cmd/ping/ping.go\<close>) and \<^verbatim>\<open>server\<close>
  (\<^verbatim>\<open>cmd/server/server.go\<close>) of the command line: the flags they register, and what they do with them.

  A control command makes its directory for logs, dials the server, reads its flags and sends one
  request; the response is printed. So it is a program on the file system that returns a request,
  and \<open>control\<close> hands that to the handler. What is not part of the repository is a field of \<open>ctl_env\<close>:
  parsing of numbers and durations, the logger, the connection, and what happens to a message on
  it. The command line arrives as the list of its flags and the list of its arguments; the errors
  that \<^verbatim>\<open>cobra\<close> reports are one error. \<^verbatim>\<open>stream-status\<close> is not a request of this kind.

  Specs with numbers are read by a field of \<open>ctl_env\<close> as well: \<^verbatim>\<open>encoding/json\<close> refuses \<open>1.0\<close> for an unsigned
  integer, and the JSON values of this library do not keep the literal.
\<close>

section \<open>Flags\<close>

record ctl_flags =
  cf_logLevel :: string
  cf_logDir :: string
  cf_trackSubnets :: string
  cf_endpoint :: string
  cf_luxdBinPath :: string
  cf_numNodes :: "32 word"
  cf_pluginDir :: string
  cf_globalNodeConfig :: string
  cf_addNodeConfig :: string
  cf_blockchainSpecsStr :: string
  cf_customNodeConfigs :: string
  cf_rootDataDir :: string
  cf_chainConfigs :: string
  cf_upgradeConfigs :: string
  cf_subnetConfigs :: string
  cf_reassignPortsIfUsed :: bool
  cf_dynamicPorts :: bool
  cf_peerID :: string
  cf_msgOp :: "32 word"
  cf_msgBytesB64 :: string

record ctl_env =
  ct_Info :: string
  ct_ToLevel :: "string \<Rightarrow> unit res"
  ct_Make :: "nat \<Rightarrow> string \<Rightarrow> unit res"
  ct_Dial :: "nat \<Rightarrow> string \<Rightarrow> unit res"
  ct_Send :: "nat \<Rightarrow> request \<Rightarrow> request res"
  ct_Recv :: "nat \<Rightarrow> unit res"
  ct_ctx :: "nat \<Rightarrow> err option \<times> bool"
  ct_ElasticSpecs :: "string \<Rightarrow> rpc_ElasticSubnetSpec list res"
  ct_ValidatorSpecs :: "string \<Rightarrow> rpc_PermissionlessValidatorSpec list res"
  ct_Uint32 :: "string \<Rightarrow> 32 word res"
  ct_Bool :: "string \<Rightarrow> bool res"
  ct_Duration :: "string \<Rightarrow> unit res"

text \<open>The variables after registration of all flags: each has the default given there.\<close>

definition default_flags :: "ctl_env \<Rightarrow> ctl_flags" where
  "default_flags ct = \<lparr>cf_logLevel = ct_Info ct, cf_logDir = [], cf_trackSubnets = [], cf_endpoint = ''0.0.0.0:8080'',
     cf_luxdBinPath = [], cf_numNodes = of_nat DefaultNumNodes, cf_pluginDir = [], cf_globalNodeConfig = [],
     cf_addNodeConfig = [], cf_blockchainSpecsStr = [], cf_customNodeConfigs = [], cf_rootDataDir = [],
     cf_chainConfigs = [], cf_upgradeConfigs = [], cf_subnetConfigs = [], cf_reassignPortsIfUsed = False,
     cf_dynamicPorts = False, cf_peerID = [], cf_msgOp = 0, cf_msgBytesB64 = []\<rparr>"

section \<open>JSON in flags and arguments\<close>

definition unmarshal_to :: "(val \<Rightarrow> 'a res) \<Rightarrow> string \<Rightarrow> 'a res" where
  "unmarshal_to f s = (case json_value s of None \<Rightarrow> Err json_error | Some v \<Rightarrow> f v)"

definition get_list :: "(val \<Rightarrow> 'a res) \<Rightarrow> val \<Rightarrow> 'a list res" where
  "get_list f v = bindR (get_array v) (mapR f)"

definition get_pointer :: "(val \<Rightarrow> 'a res) \<Rightarrow> val \<Rightarrow> 'a option res" where
  "get_pointer f v = (if v = VNull then Ok None else bindR (f v) (\<lambda>x. Ok (Some x)))"

definition get_SubnetSpec :: "val \<Rightarrow> rpc_SubnetSpec res" where
  "get_SubnetSpec v =
     bindR (get_fields v) (\<lambda>kvs.
     bindR (get_strs (jfield ''participants'' kvs)) (\<lambda>participants.
     bindR (get_str (jfield ''subnet_config'' kvs)) (\<lambda>subnetConfig.
     Ok \<lparr>rs_Participants = participants, rs_SubnetConfig = subnetConfig\<rparr>)))"

definition get_BlockchainSpec :: "val \<Rightarrow> rpc_BlockchainSpec res" where
  "get_BlockchainSpec v =
     bindR (get_fields v) (\<lambda>kvs.
     bindR (get_str (jfield ''vm_name'' kvs)) (\<lambda>vmName.
     bindR (get_str (jfield ''genesis'' kvs)) (\<lambda>genesis.
     bindR (get_pointer get_str (jfield ''subnet_id'' kvs)) (\<lambda>subnetId.
     bindR (get_pointer get_SubnetSpec (jfield ''subnet_spec'' kvs)) (\<lambda>subnetSpec.
     bindR (get_str (jfield ''chain_config'' kvs)) (\<lambda>chainConfig.
     bindR (get_str (jfield ''network_upgrade'' kvs)) (\<lambda>networkUpgrade.
     bindR (get_str (jfield ''blockchain_alias'' kvs)) (\<lambda>blockchainAlias.
     bindR (get_str (jfield ''per_node_chain_config'' kvs)) (\<lambda>perNodeChainConfig.
     Ok \<lparr>rb_VmName = vmName, rb_Genesis = genesis, rb_SubnetId = subnetId, rb_SubnetSpec = subnetSpec,
         rb_ChainConfig = chainConfig, rb_NetworkUpgrade = networkUpgrade, rb_BlockchainAlias = blockchainAlias,
         rb_PerNodeChainConfig = perNodeChainConfig\<rparr>)))))))))"

definition get_RemoveSubnetValidatorSpec :: "val \<Rightarrow> rpc_RemoveSubnetValidatorSpec res" where
  "get_RemoveSubnetValidatorSpec v =
     bindR (get_fields v) (\<lambda>kvs.
     bindR (get_str (jfield ''subnet_id'' kvs)) (\<lambda>subnetId.
     bindR (get_strs (jfield ''node_names'' kvs)) (\<lambda>nodeNames.
     Ok \<lparr>rr_SubnetId = subnetId, rr_NodeNames = nodeNames\<rparr>)))"

text \<open>An option that is given only if the flag is.\<close>

definition if_given :: "(string \<Rightarrow> 'a res) \<Rightarrow> ('a \<Rightarrow> OpOption) \<Rightarrow> string \<Rightarrow> OpOption list res" where
  "if_given parse opt s = (if s \<noteq> [] then bindR (parse s) (\<lambda>x. Ok [opt x]) else Ok [])"

definition valid_json :: "string \<Rightarrow> string res" where
  "valid_json s =
     (if json_value s = None then Err (Wrapf ''failed to validate JSON for provided config file: %w'' [] json_error)
      else Ok s)"

definition file_opts :: "ctl_flags \<Rightarrow> OpOption list res" where
  "file_opts fl =
     bindR (if_given (unmarshal_to get_strings) WithChainConfigs (cf_chainConfigs fl)) (\<lambda>chain.
     bindR (if_given (unmarshal_to get_strings) WithUpgradeConfigs (cf_upgradeConfigs fl)) (\<lambda>upgrade.
     bindR (if_given (unmarshal_to get_strings) WithSubnetConfigs (cf_subnetConfigs fl)) (\<lambda>subnet.
     Ok (chain @ upgrade @ subnet))))"

section \<open>The client of a command\<close>

definition clientRootDirPrefix :: string where "clientRootDirPrefix = ''client''"

definition setLogs :: "ctl_env \<Rightarrow> env \<Rightarrow> ctl_flags \<Rightarrow> (world, unit) prog" where
  "setLogs ct e fl =
     bindP (if cf_logDir fl = []
            then (let anrRootDir = filepath_Join [os_tempDir e, RootDirPrefix] in
                  bindP (os_MkdirAll e anrRootDir) (\<lambda>_.
                  MkDirWithTimestamp e (filepath_Join [anrRootDir, clientRootDirPrefix])))
            else ret (cf_logDir fl)) (\<lambda>logDir.
     bindP (liftR (ct_ToLevel ct (cf_logLevel fl))) (\<lambda>_.
     bindP tick (\<lambda>t. liftR (ct_Make ct t logDir))))"

definition client_New :: "ctl_env \<Rightarrow> string \<Rightarrow> (world, client) prog" where
  "client_New ct endpoint = bindP tick (\<lambda>t. bindP (liftR (ct_Dial ct t endpoint)) (\<lambda>_. ret new_client))"

definition newClient :: "ctl_env \<Rightarrow> env \<Rightarrow> ctl_flags \<Rightarrow> (world, client) prog" where
  "newClient ct e fl =
     bindP (setLogs ct e fl) (\<lambda>_.
     client_New ct (cf_endpoint fl))"

definition with_client :: "ctl_env \<Rightarrow> env \<Rightarrow> ctl_flags \<Rightarrow> request res \<Rightarrow> (world, request) prog" where
  "with_client ct e fl req = bindP (newClient ct e fl) (\<lambda>_. liftR req)"

section \<open>What the commands do\<close>

type_synonym RunE = "ctl_env \<Rightarrow> env \<Rightarrow> ctl_flags \<Rightarrow> string list \<Rightarrow> (world, request) prog"

definition RPCVersionFunc :: RunE where
  "RPCVersionFunc ct e fl args = with_client ct e fl (Ok client_RPCVersion)"

definition startFunc :: RunE where
  "startFunc ct e fl args = with_client ct e fl (
     let opts = [WithNumNodes (cf_numNodes fl), WithPluginDir (cf_pluginDir fl), WithTrackSubnets (cf_trackSubnets fl),
                 WithRootDataDir (cf_rootDataDir fl), WithReassignPortsIfUsed (cf_reassignPortsIfUsed fl),
                 WithDynamicPorts (cf_dynamicPorts fl)] in
     bindR (if_given valid_json WithGlobalNodeConfig (cf_globalNodeConfig fl)) (\<lambda>global.
     bindR (if_given (unmarshal_to get_strings) WithCustomNodeConfigs (cf_customNodeConfigs fl)) (\<lambda>custom.
     bindR (if_given (unmarshal_to (get_list get_BlockchainSpec)) WithBlockchainSpecs (cf_blockchainSpecsStr fl)) (\<lambda>specs.
     bindR (file_opts fl) (\<lambda>files.
     Ok (client_Start (cf_luxdBinPath fl) (opts @ global @ custom @ specs @ files)))))))"

definition createBlockchainsFunc :: RunE where
  "createBlockchainsFunc ct e fl args = with_client ct e fl (
     bindR (at args 0) (\<lambda>s. bindR (unmarshal_to (get_list get_BlockchainSpec) s) (\<lambda>specs. Ok (client_CreateBlockchains specs))))"

definition createSubnetsFunc :: RunE where
  "createSubnetsFunc ct e fl args = with_client ct e fl (
     bindR (at args 0) (\<lambda>s. bindR (unmarshal_to (get_list get_SubnetSpec) s) (\<lambda>specs. Ok (client_CreateSubnets specs))))"

definition transformElasticSubnetsFunc :: RunE where
  "transformElasticSubnetsFunc ct e fl args = with_client ct e fl (
     bindR (at args 0) (\<lambda>s. bindR (ct_ElasticSpecs ct s) (\<lambda>specs. Ok (client_TransformElasticSubnets specs))))"

definition addPermissionlessValidatorFunc :: RunE where
  "addPermissionlessValidatorFunc ct e fl args = with_client ct e fl (
     bindR (at args 0) (\<lambda>s. bindR (ct_ValidatorSpecs ct s) (\<lambda>specs. Ok (client_AddPermissionlessValidator specs))))"

definition removeSubnetValidatorFunc :: RunE where
  "removeSubnetValidatorFunc ct e fl args = with_client ct e fl (
     bindR (at args 0) (\<lambda>s. bindR (unmarshal_to (get_list get_RemoveSubnetValidatorSpec) s) (\<lambda>specs.
     Ok (client_RemoveSubnetValidator specs))))"

definition healthFunc :: RunE where
  "healthFunc ct e fl args = with_client ct e fl (Ok client_Health)"

definition waitForHealthy :: RunE where
  "waitForHealthy ct e fl args =
     bindP (newClient ct e fl) (\<lambda>_.
     bindP tick (\<lambda>t. ret (client_WaitForHealthy (fst (ct_ctx ct t)) (snd (ct_ctx ct t)))))"

definition urisFunc :: RunE where
  "urisFunc ct e fl args = with_client ct e fl (Ok client_URIs)"

definition statusFunc :: RunE where
  "statusFunc ct e fl args = with_client ct e fl (Ok client_Status)"

definition removeNodeFunc :: RunE where
  "removeNodeFunc ct e fl args =
     bindP (liftR (at args 0)) (\<lambda>nodeName. with_client ct e fl (Ok (client_RemoveNode nodeName)))"

definition pauseNodeFunc :: RunE where
  "pauseNodeFunc ct e fl args =
     bindP (liftR (at args 0)) (\<lambda>nodeName. with_client ct e fl (Ok (client_PauseNode nodeName)))"

definition resumeNodeFunc :: RunE where
  "resumeNodeFunc ct e fl args =
     bindP (liftR (at args 0)) (\<lambda>nodeName. with_client ct e fl (Ok (client_ResumeNode nodeName)))"

definition addNodeFunc :: RunE where
  "addNodeFunc ct e fl args =
     bindP (liftR (at args 0)) (\<lambda>nodeName. with_client ct e fl (
     bindR (if_given valid_json WithGlobalNodeConfig (cf_addNodeConfig fl)) (\<lambda>config.
     bindR (file_opts fl) (\<lambda>files.
     Ok (client_AddNode nodeName (cf_luxdBinPath fl) ([WithPluginDir (cf_pluginDir fl)] @ config @ files))))))"

definition restartNodeFunc :: RunE where
  "restartNodeFunc ct e fl args =
     bindP (liftR (at args 0)) (\<lambda>nodeName. with_client ct e fl (
     let opts = [WithExecPath (cf_luxdBinPath fl), WithPluginDir (cf_pluginDir fl), WithTrackSubnets (cf_trackSubnets fl)] in
     bindR (file_opts fl) (\<lambda>files. Ok (client_RestartNode nodeName (opts @ files)))))"

definition attachPeerFunc :: RunE where
  "attachPeerFunc ct e fl args =
     bindP (liftR (at args 0)) (\<lambda>nodeName. with_client ct e fl (Ok (client_AttachPeer nodeName)))"

definition sendOutboundMessageFunc :: RunE where
  "sendOutboundMessageFunc ct e fl args =
     bindP (liftR (at args 0)) (\<lambda>nodeName. with_client ct e fl (
     bindR (b64_decode (cf_msgBytesB64 fl)) (\<lambda>b.
     Ok (client_SendOutboundMessage nodeName (cf_peerID fl) (cf_msgOp fl) b))))"

definition stopFunc :: RunE where
  "stopFunc ct e fl args = with_client ct e fl (Ok client_Stop)"

definition saveSnapshotFunc :: RunE where
  "saveSnapshotFunc ct e fl args = with_client ct e fl (bindR (at args 0) (\<lambda>name. Ok (client_SaveSnapshot name)))"

definition loadSnapshotFunc :: RunE where
  "loadSnapshotFunc ct e fl args = with_client ct e fl (
     let opts = [WithExecPath (cf_luxdBinPath fl), WithPluginDir (cf_pluginDir fl), WithRootDataDir (cf_rootDataDir fl),
                 WithReassignPortsIfUsed (cf_reassignPortsIfUsed fl)] in
     bindR (file_opts fl) (\<lambda>files.
     bindR (if_given valid_json WithGlobalNodeConfig (cf_globalNodeConfig fl)) (\<lambda>global.
     bindR (at args 0) (\<lambda>name. Ok (client_LoadSnapshot name (opts @ files @ global))))))"

definition removeSnapshotFunc :: RunE where
  "removeSnapshotFunc ct e fl args = with_client ct e fl (bindR (at args 0) (\<lambda>name. Ok (client_RemoveSnapshot name)))"

definition getSnapshotNamesFunc :: RunE where
  "getSnapshotNamesFunc ct e fl args = with_client ct e fl (Ok client_GetSnapshotNames)"

text \<open>The command \<^verbatim>\<open>ping\<close> has a logger without a directory.\<close>

definition pingFunc :: "ctl_env \<Rightarrow> string \<Rightarrow> string \<Rightarrow> (world, request) prog" where
  "pingFunc ct logLevel endpoint =
     bindP (liftR (ct_ToLevel ct logLevel)) (\<lambda>_.
     bindP tick (\<lambda>t.
     bindP (liftR (ct_Make ct t [])) (\<lambda>_.
     bindP (client_New ct endpoint) (\<lambda>_.
     ret client_Ping))))"

section \<open>The commands and their flags\<close>

datatype flag_var =
    StringVar "string \<Rightarrow> ctl_flags \<Rightarrow> ctl_flags"
  | Uint32Var "32 word \<Rightarrow> ctl_flags \<Rightarrow> ctl_flags"
  | BoolVar "bool \<Rightarrow> ctl_flags \<Rightarrow> ctl_flags"
  | DurationVar

record ctl_command =
  cmd_RunE :: RunE
  cmd_ExactArgs :: nat
  cmd_Flags :: "(string \<times> flag_var) list"
  cmd_Required :: "string list"

definition plain_command :: "RunE \<Rightarrow> nat \<Rightarrow> ctl_command" where
  "plain_command f n = \<lparr>cmd_RunE = f, cmd_ExactArgs = n, cmd_Flags = [], cmd_Required = []\<rparr>"

definition node_path_flag :: "(string \<times> flag_var) list" where
  "node_path_flag = [(''node-path'', StringVar (\<lambda>v. cf_luxdBinPath_update (\<lambda>_. v)))]"

definition plugin_dir_flag :: "(string \<times> flag_var) list" where
  "plugin_dir_flag = [(''plugin-dir'', StringVar (\<lambda>v. cf_pluginDir_update (\<lambda>_. v)))]"

definition root_data_dir_flag :: "(string \<times> flag_var) list" where
  "root_data_dir_flag = [(''root-data-dir'', StringVar (\<lambda>v. cf_rootDataDir_update (\<lambda>_. v)))]"

definition global_config_flag :: "(string \<times> flag_var) list" where
  "global_config_flag = [(''global-node-config'', StringVar (\<lambda>v. cf_globalNodeConfig_update (\<lambda>_. v)))]"

definition subnets_flag :: "(string \<times> flag_var) list" where
  "subnets_flag = [(''whitelisted-subnets'', StringVar (\<lambda>v. cf_trackSubnets_update (\<lambda>_. v)))]"

definition file_flags :: "(string \<times> flag_var) list" where
  "file_flags =
     [(''chain-configs'', StringVar (\<lambda>v. cf_chainConfigs_update (\<lambda>_. v))),
      (''upgrade-configs'', StringVar (\<lambda>v. cf_upgradeConfigs_update (\<lambda>_. v))),
      (''subnet-configs'', StringVar (\<lambda>v. cf_subnetConfigs_update (\<lambda>_. v)))]"

definition reassign_flag :: "(string \<times> flag_var) list" where
  "reassign_flag = [(''reassign-ports-if-used'', BoolVar (\<lambda>v. cf_reassignPortsIfUsed_update (\<lambda>_. v)))]"

definition newRPCVersionCommand :: ctl_command where "newRPCVersionCommand = plain_command RPCVersionFunc 0"

definition newStartCommand :: ctl_command where
  "newStartCommand = \<lparr>cmd_RunE = startFunc, cmd_ExactArgs = 0, cmd_Flags =
     node_path_flag @ [(''number-of-nodes'', Uint32Var (\<lambda>v. cf_numNodes_update (\<lambda>_. v)))] @ plugin_dir_flag @
     root_data_dir_flag @ [(''blockchain-specs'', StringVar (\<lambda>v. cf_blockchainSpecsStr_update (\<lambda>_. v)))] @
     global_config_flag @ [(''custom-node-configs'', StringVar (\<lambda>v. cf_customNodeConfigs_update (\<lambda>_. v)))] @
     subnets_flag @ file_flags @ reassign_flag @ [(''dynamic-ports'', BoolVar (\<lambda>v. cf_dynamicPorts_update (\<lambda>_. v)))],
     cmd_Required = [''node-path'']\<rparr>"

definition newCreateBlockchainsCommand :: ctl_command where
  "newCreateBlockchainsCommand = plain_command createBlockchainsFunc 1"
definition newCreateSubnetsCommand :: ctl_command where
  "newCreateSubnetsCommand = plain_command createSubnetsFunc 1"
definition newTransformElasticSubnetsCommand :: ctl_command where
  "newTransformElasticSubnetsCommand = plain_command transformElasticSubnetsFunc 1"
definition newAddPermissionlessValidatorCommand :: ctl_command where
  "newAddPermissionlessValidatorCommand = plain_command addPermissionlessValidatorFunc 1"
definition newRemoveSubnetValidatorCommand :: ctl_command where
  "newRemoveSubnetValidatorCommand = plain_command removeSubnetValidatorFunc 1"
definition newHealthCommand :: ctl_command where "newHealthCommand = plain_command healthFunc 0"
definition newWaitForHealthyCommand :: ctl_command where "newWaitForHealthyCommand = plain_command waitForHealthy 0"
definition newURIsCommand :: ctl_command where "newURIsCommand = plain_command urisFunc 0"
definition newStatusCommand :: ctl_command where "newStatusCommand = plain_command statusFunc 0"
definition newRemoveNodeCommand :: ctl_command where "newRemoveNodeCommand = plain_command removeNodeFunc 1"
definition newPauseNodeCommand :: ctl_command where "newPauseNodeCommand = plain_command pauseNodeFunc 1"
definition newResumeNodeCommand :: ctl_command where "newResumeNodeCommand = plain_command resumeNodeFunc 1"

definition newAddNodeCommand :: ctl_command where
  "newAddNodeCommand = \<lparr>cmd_RunE = addNodeFunc, cmd_ExactArgs = 1, cmd_Flags =
     node_path_flag @ [(''node-config'', StringVar (\<lambda>v. cf_addNodeConfig_update (\<lambda>_. v)))] @ plugin_dir_flag @ file_flags,
     cmd_Required = []\<rparr>"

definition newRestartNodeCommand :: ctl_command where
  "newRestartNodeCommand = \<lparr>cmd_RunE = restartNodeFunc, cmd_ExactArgs = 1, cmd_Flags =
     node_path_flag @ subnets_flag @ plugin_dir_flag @ file_flags, cmd_Required = []\<rparr>"

definition newAttachPeerCommand :: ctl_command where "newAttachPeerCommand = plain_command attachPeerFunc 1"

definition newSendOutboundMessageCommand :: ctl_command where
  "newSendOutboundMessageCommand = \<lparr>cmd_RunE = sendOutboundMessageFunc, cmd_ExactArgs = 1, cmd_Flags =
     [(''peer-id'', StringVar (\<lambda>v. cf_peerID_update (\<lambda>_. v))), (''message-op'', Uint32Var (\<lambda>v. cf_msgOp_update (\<lambda>_. v))),
      (''message-bytes-b64'', StringVar (\<lambda>v. cf_msgBytesB64_update (\<lambda>_. v)))],
     cmd_Required = [''peer-id'', ''message-op'', ''message-bytes-b64'']\<rparr>"

definition newStopCommand :: ctl_command where "newStopCommand = plain_command stopFunc 0"
definition newSaveSnapshotCommand :: ctl_command where "newSaveSnapshotCommand = plain_command saveSnapshotFunc 1"

definition newLoadSnapshotCommand :: ctl_command where
  "newLoadSnapshotCommand = \<lparr>cmd_RunE = loadSnapshotFunc, cmd_ExactArgs = 1, cmd_Flags =
     node_path_flag @ plugin_dir_flag @ root_data_dir_flag @ file_flags @ global_config_flag @ reassign_flag,
     cmd_Required = []\<rparr>"

definition newRemoveSnapshotCommand :: ctl_command where "newRemoveSnapshotCommand = plain_command removeSnapshotFunc 1"
definition newGetSnapshotNamesCommand :: ctl_command where "newGetSnapshotNamesCommand = plain_command getSnapshotNamesFunc 0"

definition persistent_flags :: "(string \<times> flag_var) list" where
  "persistent_flags =
     [(''log-level'', StringVar (\<lambda>v. cf_logLevel_update (\<lambda>_. v))), (''log-dir'', StringVar (\<lambda>v. cf_logDir_update (\<lambda>_. v))),
      (''endpoint'', StringVar (\<lambda>v. cf_endpoint_update (\<lambda>_. v))), (''dial-timeout'', DurationVar),
      (''request-timeout'', DurationVar)]"

definition NewCommand :: "(string \<times> ctl_command) list" where
  "NewCommand =
     [(''rpc_version'', newRPCVersionCommand), (''start'', newStartCommand),
      (''create-blockchains'', newCreateBlockchainsCommand), (''create-subnets'', newCreateSubnetsCommand),
      (''elastic-subnets'', newTransformElasticSubnetsCommand),
      (''add-permissionless-validator'', newAddPermissionlessValidatorCommand),
      (''remove-subnet-validator'', newRemoveSubnetValidatorCommand), (''health'', newHealthCommand),
      (''wait-for-healthy'', newWaitForHealthyCommand), (''uris'', newURIsCommand), (''status'', newStatusCommand),
      (''add-node'', newAddNodeCommand), (''remove-node'', newRemoveNodeCommand), (''pause-node'', newPauseNodeCommand),
      (''resume-node'', newResumeNodeCommand), (''restart-node'', newRestartNodeCommand),
      (''attach-peer'', newAttachPeerCommand), (''send-outbound-message'', newSendOutboundMessageCommand),
      (''stop'', newStopCommand), (''save-snapshot'', newSaveSnapshotCommand), (''load-snapshot'', newLoadSnapshotCommand),
      (''remove-snapshot'', newRemoveSnapshotCommand), (''get-snapshot-names'', newGetSnapshotNamesCommand)]"

section \<open>Running a command\<close>

definition usage_error :: err where "usage_error = External ''cobra''"

fun set_var :: "ctl_env \<Rightarrow> flag_var \<Rightarrow> string \<Rightarrow> ctl_flags \<Rightarrow> ctl_flags res" where
  "set_var ct (StringVar f) s fl = Ok (f s fl)"
| "set_var ct (Uint32Var f) s fl = bindR (ct_Uint32 ct s) (\<lambda>v. Ok (f v fl))"
| "set_var ct (BoolVar f) s fl = bindR (ct_Bool ct s) (\<lambda>v. Ok (f v fl))"
| "set_var ct DurationVar s fl = bindR (ct_Duration ct s) (\<lambda>_. Ok fl)"

fun set_flags :: "ctl_env \<Rightarrow> (string \<times> flag_var) list \<Rightarrow> (string \<times> string) list \<Rightarrow> ctl_flags \<Rightarrow> ctl_flags res" where
  "set_flags ct vars [] fl = Ok fl"
| "set_flags ct vars ((name, s) # given) fl =
     (case map_of vars name of
        None \<Rightarrow> Err usage_error
      | Some var \<Rightarrow> bindR (set_var ct var s fl) (set_flags ct vars given))"

definition command_flags :: "ctl_env \<Rightarrow> ctl_command \<Rightarrow> (string \<times> string) list \<Rightarrow> string list \<Rightarrow> ctl_flags res" where
  "command_flags ct c given args =
     bindR (set_flags ct (cmd_Flags c @ persistent_flags) given (default_flags ct)) (\<lambda>fl.
     if length args = cmd_ExactArgs c \<and> list_all (\<lambda>name. name \<in> fst ` set given) (cmd_Required c) then Ok fl
     else Err usage_error)"

definition command_request ::
  "ctl_env \<Rightarrow> env \<Rightarrow> string \<Rightarrow> (string \<times> string) list \<Rightarrow> string list \<Rightarrow> (world, request) prog" where
  "command_request ct e name given args =
     (case map_of NewCommand name of
        None \<Rightarrow> throw usage_error
      | Some c \<Rightarrow> bindP (liftR (command_flags ct c given args)) (\<lambda>fl. cmd_RunE c ct e fl args))"

text \<open>The request is served if it arrives, and its response may be lost.\<close>

definition control ::
  "ctl_env \<Rightarrow> env \<Rightarrow> chain_env \<Rightarrow> api_env \<Rightarrow> (err \<Rightarrow> err \<Rightarrow> err) \<Rightarrow> NetConfig \<Rightarrow>
   string \<Rightarrow> (string \<times> string) list \<Rightarrow> string list \<Rightarrow> (sv_state, unit) prog" where
  "control ct e ce ae ap def name given args =
     bindP (onS (command_request ct e name given args)) (\<lambda>req.
     bindP (askS (\<lambda>t. ct_Send ct t req)) (\<lambda>req'.
     bindP (handle e ce ae ap def req') (\<lambda>_.
     askS (ct_Recv ct))))"

section \<open>The server command\<close>

record server_flags =
  sf_logLevel :: string
  sf_logDir :: string
  sf_port :: string
  sf_gwPort :: string
  sf_gwDisabled :: bool
  sf_disableNodesOutput :: bool
  sf_snapshotsDir :: string

text \<open>The flags of the command before the command line is read.\<close>

definition server_NewCommand :: "ctl_env \<Rightarrow> server_flags" where
  "server_NewCommand ct = \<lparr>sf_logLevel = ct_Info ct, sf_logDir = [], sf_port = '':8080'', sf_gwPort = '':8081'',
     sf_gwDisabled = False, sf_disableNodesOutput = False, sf_snapshotsDir = []\<rparr>"

definition serverRootDirPrefix :: string where "serverRootDirPrefix = ''server''"

text \<open>\<^verbatim>\<open>serverFunc\<close> up to the call of \<^verbatim>\<open>Run\<close>; what follows, and what \<^verbatim>\<open>gwDisabled\<close> is for, is in \<open>Server_Run\<close>.\<close>

definition serverFunc :: "ctl_env \<Rightarrow> env \<Rightarrow> api_env \<Rightarrow> server_flags \<Rightarrow> (world, server) prog" where
  "serverFunc ct e ae fl =
     bindP (if sf_logDir fl = []
            then (let anrRootDir = filepath_Join [os_tempDir e, RootDirPrefix] in
                  bindP (os_MkdirAll e anrRootDir) (\<lambda>_.
                  MkDirWithTimestamp e (filepath_Join [anrRootDir, serverRootDirPrefix])))
            else ret (sf_logDir fl)) (\<lambda>logDir.
     bindP (liftR (ct_ToLevel ct (sf_logLevel fl))) (\<lambda>_.
     bindP tick (\<lambda>t.
     bindP (liftR (ct_Make ct t logDir)) (\<lambda>_.
     liftR (server_New ae (sf_port fl) (sf_gwPort fl) (\<not> sf_disableNodesOutput fl) (sf_snapshotsDir fl))))))"

end
