(* ===== verification/Snapshot_Theorems.thy ===== *)
theory Snapshot_Theorems
  imports Snapshot
begin

text \<open>
  What snapshots keep: a configuration that is written and read back is the same, a saved snapshot
  holds every node with its current ports, a network loaded from it has the same nodes, and the list
  of snapshots follows saving and removing.
\<close>

section \<open>Lemmas\<close>

subsection \<open>Reading back a configuration\<close>

lemma insort_vals:
  "insort_key fst (k, f v) (map (\<lambda>(k, v). (k, f v)) xs) = map (\<lambda>(k, v). (k, f v)) (insort_key fst (k, v) xs)"
  by (induction xs) auto

lemma sort_vals: "sort_key fst (map (\<lambda>(k, v). (k, f v)) xs) = map (\<lambda>(k, v). (k, f v)) (sort_key fst xs)"
  by (induction xs) (auto simp: insort_vals)

text \<open>What the maps of a configuration read back as.\<close>

definition strings_read :: "string gomap \<Rightarrow> string gomap" where
  "strings_read m = map_option (sort_key fst) m"

definition flags_read :: "val gomap \<Rightarrow> val gomap" where
  "flags_read m = map_option (\<lambda>kvs. map (\<lambda>(k, v). (k, jsonify (canon v))) (sort_key fst kvs)) m"

lemma mapR_map_Ok: "mapR f (map g xs) = Ok xs \<longleftrightarrow> (\<forall>x\<in>set xs. f (g x) = Ok x)"
  by (induction xs) auto

lemma get_strings_read: "get_strings (jsonify (strings_val m)) = Ok (strings_read m)"
proof (cases m)
  case (Some kvs)
  then show ?thesis
    by (simp add: strings_val_def strings_read_def sort_vals comp_def case_prod_beta mapR_map_Ok)
qed (simp add: strings_val_def strings_read_def)

lemma get_flags_read: "get_flags (jsonify (flags_val m)) = Ok (flags_read m)"
proof (cases m)
  case (Some kvs)
  then show ?thesis
    by (simp add: flags_val_def flags_read_def sort_vals comp_def case_prod_beta)
qed (simp add: flags_val_def flags_read_def)

definition node_read :: "NodeConfig \<Rightarrow> NodeConfig" where
  "node_read c = c\<lparr>nc_ChainConfigFiles := strings_read (nc_ChainConfigFiles c),
     nc_UpgradeConfigFiles := strings_read (nc_UpgradeConfigFiles c),
     nc_SubnetConfigFiles := strings_read (nc_SubnetConfigFiles c), nc_Flags := flags_read (nc_Flags c)\<rparr>"

definition net_read :: "NetConfig \<Rightarrow> NetConfig" where
  "net_read c = c\<lparr>cfg_NodeConfigs := map node_read (cfg_NodeConfigs c),
     cfg_Flags := flags_read (cfg_Flags c), cfg_ChainConfigFiles := strings_read (cfg_ChainConfigFiles c),
     cfg_UpgradeConfigFiles := strings_read (cfg_UpgradeConfigFiles c),
     cfg_SubnetConfigFiles := strings_read (cfg_SubnetConfigFiles c)\<rparr>"

lemma get_node_read: "get_node (jsonify (node_val c)) = Ok (node_read c)"
  unfolding get_node_def node_val_def
  by (simp add: jfield_def lower_def get_strings_read get_flags_read node_read_def)

lemma get_net_read: "get_net (jsonify (net_val c)) = Ok (net_read c)"
proof -
  have "mapR get_node (map (jsonify \<circ> node_val) ncs) = Ok (map node_read ncs)" for ncs
    by (induction ncs) (simp_all add: get_node_read)
  then show ?thesis
    unfolding get_net_def net_val_def
    by (simp add: jfield_def lower_def get_strings_read get_flags_read net_read_def comp_def)
qed

text \<open>Maps without repeated keys, as every Go map.\<close>

definition wf_strings :: "string gomap \<Rightarrow> bool" where
  "wf_strings m \<longleftrightarrow> distinct (map fst (mrange m))"

definition wf_flags :: "val gomap \<Rightarrow> bool" where
  "wf_flags m \<longleftrightarrow> wf_val (VObj (mrange m))"

definition wf_node :: "NodeConfig \<Rightarrow> bool" where
  "wf_node c \<longleftrightarrow> wf_flags (nc_Flags c) \<and> wf_strings (nc_ChainConfigFiles c) \<and>
     wf_strings (nc_UpgradeConfigFiles c) \<and> wf_strings (nc_SubnetConfigFiles c)"

definition wf_net :: "NetConfig \<Rightarrow> bool" where
  "wf_net c \<longleftrightarrow> list_all wf_node (cfg_NodeConfigs c) \<and> wf_flags (cfg_Flags c) \<and>
     wf_strings (cfg_ChainConfigFiles c) \<and> wf_strings (cfg_UpgradeConfigFiles c) \<and>
     wf_strings (cfg_SubnetConfigFiles c)"

lemma wf_strings_val: "wf_strings m \<Longrightarrow> wf_val (strings_val m)"
  by (cases m) (auto simp: wf_strings_def strings_val_def distinct_keys_sort list_all_iff comp_def case_prod_beta)

lemma wf_flags_val: "wf_flags m \<Longrightarrow> wf_val (flags_val m)"
  by (cases m) (auto simp: wf_flags_def flags_val_def simp del: canon.simps wf_val.simps(3))

lemma wf_node_val: "wf_node c \<Longrightarrow> wf_val (node_val c)"
  by (simp add: wf_node_def node_val_def wf_strings_val wf_flags_val)

lemma wf_net_val: "wf_net c \<Longrightarrow> wf_val (net_val c)"
  by (simp add: wf_net_def net_val_def wf_strings_val wf_flags_val list_all_iff wf_node_val)

lemma unmarshal_net_indent: "wf_net c \<Longrightarrow> unmarshal_net (json_indent (net_val c)) = Ok (net_read c)"
  by (simp add: unmarshal_net_def json_value_indent wf_net_val get_net_read)

text \<open>The same entries, whatever the order: numbers have become float64.\<close>

lemma mget_strings_read: "wf_strings m \<Longrightarrow> mget (strings_read m) = mget m"
  by (cases m) (auto simp: strings_read_def wf_strings_def map_of_sort_key)

lemma mget_flags_read: "wf_flags m \<Longrightarrow> mget (flags_read m) k = map_option (jsonify \<circ> canon) (mget m k)"
proof (cases m)
  case (Some kvs)
  assume "wf_flags m"
  then have "map_of (sort_key fst kvs) = map_of kvs"
    using Some by (simp add: wf_flags_def map_of_sort_key)
  moreover have "map_of (map (\<lambda>(k, v). (k, jsonify (canon v))) xs) k = map_option (jsonify \<circ> canon) (map_of xs k)" for xs
    by (induction xs) auto
  ultimately show ?thesis using Some by (simp add: flags_read_def)
qed (simp add: flags_read_def)

subsection \<open>Files\<close>

lemma fs_op_Ok: "fs_op e p m w = (Ok x, w') \<longleftrightarrow>
  os_fsErr e (clock w) p = None \<and> m (w\<lparr>clock := Suc (clock w)\<rparr>) = (Ok x, w')"
  by (auto simp: fs_op_def split: option.splits)

lemma os_MkdirAll_Ok:
  "os_MkdirAll e p w = (Ok (), w') \<Longrightarrow> files w' = files w \<and> p \<in> set (dirs w') \<and> set (dirs w) \<subseteq> set (dirs w')"
  by (auto simp: os_MkdirAll_def fs_op_Ok)

lemma os_WriteFile_Ok:
  "os_WriteFile e p c w = (Ok (), w') \<Longrightarrow> map_of (files w') = (map_of (files w))(p \<mapsto> c) \<and> dirs w' = dirs w"
  by (auto simp: os_WriteFile_def fs_op_Ok)

lemma createFileAndWrite_Ok:
  assumes "createFileAndWrite e p c w = (Ok (), w')"
  shows "map_of (files w') = (map_of (files w))(p \<mapsto> c)" "filepath_Dir p \<in> set (dirs w')"
    "set (dirs w) \<subseteq> set (dirs w')"
  using assms
  by (auto simp: createFileAndWrite_def bindP_eq_Ok dest!: os_MkdirAll_Ok os_WriteFile_Ok)

lemma pres_dircopy [fs_pres]: "pres (same_procs ps) (dircopy e a b)"
  unfolding dircopy_def by (intro pres_intros fs_pres) (simp add: same_procs_def)

lemma pres_write_snapshot [fs_pres]: "pres (same_procs ps) (write_snapshot e l d db ncs)"
  unfolding write_snapshot_def save_db_def by (intro pres_intros fs_pres)

lemma pres_load_nodes [fs_pres]: "pres (same_procs ps) (load_nodes e rd db b pd cc uc sc fl ncs)"
  unfolding load_nodes_def load_db_def by (intro pres_intros fs_pres)

lemma pres_stat_snapshot [fs_pres]: "pres (same_procs ps) (stat_snapshot e d n)"
  unfolding stat_snapshot_def by (intro pres_intros fs_pres)

lemma pres_onW_inv: "(\<And>ps. pres (same_procs ps) m) \<Longrightarrow> pres net_inv (onW m)"
proof (rule presI)
  fix s r t
  assume m: "\<And>ps. pres (same_procs ps) m" and inv: "net_inv s" and run: "onW m s = (r, t)"
  then have "procs (snd t) = procs (snd s)"
    using presD [OF m [of "procs (snd s)"], of "snd s" r "snd t"] by (simp add: onW_eq_iff same_procs_def)
  then show "net_inv t" using inv run by (simp add: net_inv_def onW_eq_iff)
qed

lemma pres_SaveSnapshot: "pres net_inv (SaveSnapshot e name)"
  unfolding SaveSnapshot_def by (intro pres_intros pres_onW_inv fs_pres pres_net_stop)

lemma quiet_load_elastic: "pres (quiet ns ps) (load_elastic e kvs)"
proof (induction kvs)
  case (Cons kv kvs)
  show ?case unfolding load_elastic.simps by (intro pres_intros pres_modL_quiet Cons.IH) simp
qed (simp add: pres_basic)

lemma quiet_load_state: "pres (quiet ns ps) (load_state e d)"
  unfolding load_state_def
  by (intro pres_intros pres_onW fs_pres pres_modL_quiet quiet_load_elastic) simp

lemma pres_load_state: "pres net_inv (load_state e d)"
  by (rule presI, drule presD [OF quiet_load_state, rotated]) (auto simp: quiet_def net_inv_def)

lemma pres_loadSnapshot: "pres net_inv (loadSnapshot e name b pd cc uc sc fl)"
  unfolding loadSnapshot_def by (intro pres_intros pres_onW_inv fs_pres pres_load_state pres_loadConfig)

subsection \<open>Saving\<close>

lemma plain_json: "plain_name ''network.json''" "plain_name ''state.json''"
  by (simp_all add: plain_name_def)

lemma write_snapshot_Ok:
  assumes "write_snapshot e l d db ncs w = (Ok (), w')"
  shows "map_of (files w') (filepath_Join [d, ''network.json'']) =
      Some (json_indent (net_val (saved_config e l ncs)))"
    "d \<noteq> [] \<Longrightarrow> filepath_Clean d \<in> set (dirs w')"
    "\<exists>m. map_of (files w') (filepath_Join [d, ''state.json'']) = Some (json_indent (state_val m)) \<and>
       (ln_subnetID2ElasticSubnetID l = [] \<longrightarrow> m = \<lparr>ns_SubnetID2ElasticSubnetID = Some []\<rparr>)"
proof -
  from assms obtain w1 w2 m where
    n: "createFileAndWrite e (filepath_Join [d, ''network.json''])
        (json_indent (net_val (saved_config e l ncs))) w1 = (Ok (), w2)"
    and s: "createFileAndWrite e (filepath_Join [d, ''state.json'']) (json_indent (state_val m)) w2 = (Ok (), w')"
    and m: "m = \<lparr>ns_SubnetID2ElasticSubnetID = Some (fold (\<lambda>(s, el). AList.update (ids_String e s) (ids_String e el))
       (ln_subnetID2ElasticSubnetID l) [])\<rparr>"
    by (auto simp: write_snapshot_def bindP_eq_Ok Let_def)
  show "\<exists>m. map_of (files w') (filepath_Join [d, ''state.json'']) = Some (json_indent (state_val m)) \<and>
       (ln_subnetID2ElasticSubnetID l = [] \<longrightarrow> m = \<lparr>ns_SubnetID2ElasticSubnetID = Some []\<rparr>)"
    using createFileAndWrite_Ok(1) [OF s] m by (intro exI [of _ m]) simp
  show "map_of (files w') (filepath_Join [d, ''network.json'']) =
      Some (json_indent (net_val (saved_config e l ncs)))"
    using createFileAndWrite_Ok(1) [OF n] createFileAndWrite_Ok(1) [OF s]
      filepath_Join_inject [OF plain_json, of d] by simp
  show "filepath_Clean d \<in> set (dirs w')" if "d \<noteq> []"
    using createFileAndWrite_Ok(2) [OF s] filepath_Dir_Join [OF plain_json(2) that] by simp
qed

lemma SaveSnapshot_Ok:
  assumes "SaveSnapshot e name s = (Ok dir, t)"
  obtains ncs0 ncs w0 w1 where "\<not> stopCalled (fst s)" "name \<noteq> []" "dir = snapshot_dir (fst s) name"
    "mapR (saved_ports e \<circ> snd) (ln_nodes (fst s)) = Ok ncs0" "mapR (saved_dirs e) ncs0 = Ok ncs"
    "procs w0 = procs (snd s)" "net_stop e (fst s, w0) = (Ok (), (fst t, w1))"
    "write_snapshot e (fst t) dir (map (\<lambda>(name, node). (name, n_dbDir node)) (ln_nodes (fst s))) ncs w1 =
       (Ok (), snd t)"
proof -
  let ?stat = "catchP (bindP (onW (os_Stat e (snapshot_dir (fst s) name))) (\<lambda>_. ret True)) (\<lambda>_. ret False)"
  obtain s0 where st: "?stat s = (Ok False, s0)" and basic: "\<not> stopCalled (fst s)" "name \<noteq> []" and
    rest: "bindP (liftR (mapR (saved_ports e \<circ> snd) (ln_nodes (fst s)))) (\<lambda>nodesConfig0.
         bindP (liftR (mapR (saved_dirs e) nodesConfig0)) (\<lambda>nodesConfig.
         let nodesDBDir = map (\<lambda>(name, node). (name, n_dbDir node)) (ln_nodes (fst s)) in
         bindP (net_stop e) (\<lambda>_.
         bindP (getL id) (\<lambda>l'.
         bindP (onW (write_snapshot e l' (snapshot_dir (fst s) name) nodesDBDir nodesConfig)) (\<lambda>_.
           ret (snapshot_dir (fst s) name)))))) s0 = (Ok dir, t)"
    using assms by (auto simp: SaveSnapshot_def Let_def bindP_eq_Ok split: if_splits)
  have "pres (quiet (ln_nodes (fst s)) (procs (snd s))) ?stat"
    by (intro pres_intros pres_onW fs_pres)
  from presD [OF this _ st] have "procs (snd s0) = procs (snd s)" by (simp add: quiet_def)
  moreover have "fst s0 = fst s"
    using st by (auto simp: catchP_def bindP_def ret_def onW_eq_iff split: prod.splits res.splits)
  ultimately show thesis using that [OF basic] rest
    by (cases s0) (auto simp: bindP_eq_Ok Let_def onW_eq_iff)
qed

text \<open>What \<^verbatim>\<open>stop\<close> leaves alone.\<close>

definition net_given :: "localNetwork \<Rightarrow>
  string \<times> val gomap \<times> string \<times> string gomap \<times> string gomap \<times> string gomap \<times> string" where
  "net_given l = (ln_genesis l, ln_flags l, ln_binaryPath l, ln_chainConfigFiles l, ln_upgradeConfigFiles l,
     ln_subnetConfigFiles l, ln_snapshotsDir l)"

lemma given_modL: "(\<And>l. net_given (f l) = net_given l) \<Longrightarrow> pres (\<lambda>s. net_given (fst s) = x) (modL f)"
  unfolding modL_def by (rule pres_modify) auto

lemma given_onW: "pres (\<lambda>s. net_given (fst s) = x) (onW m)"
  by (rule presI) (auto simp: onW_eq_iff)

lemma given_net_stop: "pres (\<lambda>s. net_given (fst s) = x) (net_stop e)"
  unfolding net_stop_def stop_one_def removeNode_def
  by (intro pres_intros given_modL given_onW) (simp_all add: net_given_def)

lemma wf_val_update:
  "wf_val (VObj kvs) \<Longrightarrow> wf_val v \<Longrightarrow> wf_val (VObj (AList.update k v kvs))"
proof -
  have "set (AList.update k v kvs) \<subseteq> insert (k, v) (set kvs)" by (induction kvs) auto
  then show "wf_val (VObj kvs) \<Longrightarrow> wf_val v \<Longrightarrow> ?thesis"
    by (auto simp: list_all_iff distinct_update)
qed

lemma wf_val_delete: "wf_val (VObj kvs) \<Longrightarrow> wf_val (VObj (AList.delete k kvs))"
  by (auto simp: list_all_iff distinct_delete AList.delete_eq distinct_map_filter)

lemma wf_flags_put: "mput k v m = Ok m' \<Longrightarrow> wf_flags m \<Longrightarrow> wf_val v \<Longrightarrow> wf_flags m'"
  by (auto simp: wf_flags_def wf_val_update simp del: wf_val.simps(3))

lemma wf_flags_del: "wf_flags m \<Longrightarrow> wf_flags (mdel k m)"
  by (cases m) (auto simp: wf_flags_def wf_val_delete simp del: wf_val.simps(3))

text \<open>How a node is found in the snapshot.\<close>

definition saved_as :: "env \<Rightarrow> localNode \<Rightarrow> NodeConfig \<Rightarrow> bool" where
  "saved_as e node nc \<longleftrightarrow>
     nc_Name nc = nc_Name (n_config node) \<and> nc_IsBeacon nc = nc_IsBeacon (n_config node) \<and>
     nc_StakingKey nc = nc_StakingKey (n_config node) \<and> nc_StakingCert nc = nc_StakingCert (n_config node) \<and>
     nc_StakingSigningKey nc = nc_StakingSigningKey (n_config node) \<and>
     mget (nc_Flags nc) (HTTPPortKey e) = Some (VFloat (uint (n_apiPort node)) 0) \<and>
     mget (nc_Flags nc) (StakingPortKey e) = Some (VFloat (uint (n_p2pPort node)) 0) \<and>
     mget (nc_Flags nc) (DataDirKey e) = None \<and> mget (nc_Flags nc) (LogsDirKey e) = None"

lemma saved_node_Ok:
  assumes keys: "distinct (flag_names e)" and wf: "wf_node (n_config node)"
    and ports: "saved_ports e node = Ok nc0" and dirs: "saved_dirs e nc0 = Ok nc"
  shows "wf_node nc" "saved_as e node (node_read nc)"
proof -
  obtain fl where fl: "mput_all [(HTTPPortKey e, VU16 (n_apiPort node)), (StakingPortKey e, VU16 (n_p2pPort node))]
      (nc_Flags (n_config node)) = Ok fl" "nc0 = (n_config node)\<lparr>nc_Flags := fl\<rparr>"
    using ports by (auto simp: saved_ports_def)
  then obtain xs where xs: "nc_Flags (n_config node) = Some xs"
    by (cases "nc_Flags (n_config node)") (simp_all add: mput_all_def)
  let ?fl = "mdel (LogsDirKey e) (mdel (DataDirKey e) fl)"
  obtain cf where nc: "nc = nc0\<lparr>nc_ConfigFile := cf, nc_Flags := ?fl\<rparr>"
    using dirs fl(2) by (auto simp: saved_dirs_def split: if_splits)
  obtain fl1 where "mput (HTTPPortKey e) (VU16 (n_apiPort node)) (nc_Flags (n_config node)) = Ok fl1"
    "mput (StakingPortKey e) (VU16 (n_p2pPort node)) fl1 = Ok fl"
    using fl(1) xs by (auto simp: mput_all_def)
  from this(2) wf_flags_put [OF this(1)] wf have "wf_flags fl"
    by (simp add: wf_node_def wf_flags_put del: mput_Ok)
  then have wfl: "wf_flags ?fl" by (simp add: wf_flags_del)
  then show "wf_node nc" using wf nc fl(2) by (simp add: wf_node_def)
  have "mget fl (HTTPPortKey e) = Some (VU16 (n_apiPort node))" "mget fl (StakingPortKey e) = Some (VU16 (n_p2pPort node))"
    using fl(1) xs keys by (auto simp: mput_all_def flag_names_def)
  then have "mget ?fl (HTTPPortKey e) = Some (VU16 (n_apiPort node))"
    "mget ?fl (StakingPortKey e) = Some (VU16 (n_p2pPort node))"
    using keys by (auto simp: flag_names_def)
  then show "saved_as e node (node_read nc)"
    using wfl nc fl(2) by (simp add: saved_as_def node_read_def mget_flags_read)
qed

definition wf_saved :: "localNetwork \<Rightarrow> bool" where
  "wf_saved l \<longleftrightarrow> wf_flags (ln_flags l) \<and> wf_strings (ln_chainConfigFiles l) \<and>
     wf_strings (ln_upgradeConfigFiles l) \<and> wf_strings (ln_subnetConfigFiles l) \<and>
     list_all (\<lambda>(_, node). wf_node (n_config node)) (ln_nodes l)"

lemma saved_nodes_Ok:
  assumes "distinct (flag_names e)" "list_all (\<lambda>(_, node). wf_node (n_config node)) ns"
    and "mapR (saved_ports e \<circ> snd) ns = Ok ncs0" "mapR (saved_dirs e) ncs0 = Ok ncs"
  shows "list_all wf_node ncs \<and> list_all2 (saved_as e) (map snd ns) (map node_read ncs)"
  using assms
proof (induction ns arbitrary: ncs0 ncs)
  case (Cons n ns)
  obtain nc0 nc rest0 rest where "saved_ports e (snd n) = Ok nc0" "saved_dirs e nc0 = Ok nc"
    "ncs0 = nc0 # rest0" "ncs = nc # rest" "mapR (saved_ports e \<circ> snd) ns = Ok rest0"
    "mapR (saved_dirs e) rest0 = Ok rest"
    using Cons.prems(3,4) by (auto simp: comp_def)
  with Cons.IH [of rest0 rest] Cons.prems(1,2) saved_node_Ok [of e "snd n" nc0 nc] show ?case
    by (cases n) (simp add: comp_def)
qed simp

text \<open>A snapshot that was saved is on disk: the nodes with their current ports.\<close>

lemma SaveSnapshot_result:
  assumes inv: "net_inv s" and wf: "wf_saved (fst s)" and keys: "distinct (flag_names e)"
    and run: "SaveSnapshot e name s = (Ok dir, t)"
  shows "dir = snapshot_dir (fst s) name \<and> ln_nodes (fst t) = [] \<and> live_procs (snd t) = {} \<and>
    (dir \<noteq> [] \<longrightarrow> dir \<in> set (dirs (snd t))) \<and>
    (\<exists>js cfg. map_of (files (snd t)) (filepath_Join [dir, ''network.json'']) = Some js \<and>
       unmarshal_net js = Ok cfg \<and> cfg_Genesis cfg = ln_genesis (fst s) \<and>
       cfg_BinaryPath cfg = ln_binaryPath (fst s) \<and>
       cfg_Flags cfg = flags_read (mdel (LogsDirKey e) (mdel (DataDirKey e) (ln_flags (fst s)))) \<and>
       list_all2 (saved_as e) (map snd (ln_nodes (fst s))) (cfg_NodeConfigs cfg))"
proof -
  obtain ncs0 ncs w0 w1 where dir: "dir = snapshot_dir (fst s) name"
    and ncs: "mapR (saved_ports e \<circ> snd) (ln_nodes (fst s)) = Ok ncs0" "mapR (saved_dirs e) ncs0 = Ok ncs"
    and stop: "net_stop e (fst s, w0) = (Ok (), (fst t, w1))" and
    wr: "write_snapshot e (fst t) dir (map (\<lambda>(name, node). (name, n_dbDir node)) (ln_nodes (fst s))) ncs w1 =
       (Ok (), snd t)"
    using SaveSnapshot_Ok [OF run] by metis
  have nodes: "ln_nodes (fst t) = []" using net_stop_result [OF stop] by simp
  have "net_given (fst t) = net_given (fst s)"
    using presD [OF given_net_stop [of "net_given (fst s)"] _ stop] by simp
  then have given: "ln_genesis (fst t) = ln_genesis (fst s)" "ln_flags (fst t) = ln_flags (fst s)"
    "ln_binaryPath (fst t) = ln_binaryPath (fst s)" "ln_chainConfigFiles (fst t) = ln_chainConfigFiles (fst s)"
    "ln_upgradeConfigFiles (fst t) = ln_upgradeConfigFiles (fst s)"
    "ln_subnetConfigFiles (fst t) = ln_subnetConfigFiles (fst s)"
    by (simp_all add: net_given_def)
  have saved: "list_all wf_node ncs" "list_all2 (saved_as e) (map snd (ln_nodes (fst s))) (map node_read ncs)"
    using saved_nodes_Ok [OF keys _ ncs] wf by (simp_all add: wf_saved_def)
  let ?cfg = "saved_config e (fst t) ncs"
  have "wf_net ?cfg"
    using saved(1) wf by (simp add: wf_net_def saved_config_def given wf_saved_def wf_flags_del)
  from unmarshal_net_indent [OF this]
  have "unmarshal_net (json_indent (net_val ?cfg)) = Ok (net_read ?cfg)" .
  moreover have "filepath_Clean dir = dir" if "dir \<noteq> []"
    using that filepath_Join_clean unfolding dir snapshot_dir_def by blast
  moreover have "live_procs (snd t) = {}"
    using net_inv_no_nodes [OF presD [OF pres_SaveSnapshot inv run] nodes] .
  ultimately show ?thesis
    using dir nodes write_snapshot_Ok [OF wr] saved(2) given
    by (auto simp: net_read_def saved_config_def)
qed

subsection \<open>Loading\<close>

lemma foldP_collect:
  "foldP (\<lambda>x acc. bindP (f x) (\<lambda>y. ret (acc @ [y]))) xs acc s = (Ok ys, t) \<Longrightarrow>
   \<exists>zs. ys = acc @ zs \<and> list_all2 (\<lambda>x y. \<exists>u u'. f x u = (Ok y, u')) xs zs"
proof (induction xs arbitrary: acc s)
  case (Cons x xs)
  then obtain y u where y: "f x s = (Ok y, u)"
    and rest: "foldP (\<lambda>x acc. bindP (f x) (\<lambda>y. ret (acc @ [y]))) xs (acc @ [y]) u = (Ok ys, t)"
    by (auto simp: bindP_eq_Ok)
  from Cons.IH [OF rest] y show ?case by (auto intro: exI [of _ "y # zs" for zs])
qed simp

text \<open>The flags that are kept by a step of loading.\<close>

definition keeps :: "string set \<Rightarrow> NodeConfig \<Rightarrow> NodeConfig \<Rightarrow> bool" where
  "keeps K nc nc' \<longleftrightarrow> nc_Name nc' = nc_Name nc \<and> nc_IsBeacon nc' = nc_IsBeacon nc \<and>
     nc_StakingKey nc' = nc_StakingKey nc \<and> nc_StakingCert nc' = nc_StakingCert nc \<and>
     nc_StakingSigningKey nc' = nc_StakingSigningKey nc \<and>
     (\<forall>k\<in>K. mget (nc_Flags nc') k = mget (nc_Flags nc) k)"

lemma keeps_trans: "keeps K a b \<Longrightarrow> keeps K b c \<Longrightarrow> keeps K a c"
  by (simp add: keeps_def)

lemma fix_deprecated_get:
  "fix_deprecated old new f fl = Ok fl' \<Longrightarrow> k \<noteq> old \<Longrightarrow> k \<noteq> new \<Longrightarrow> mget fl' k = mget fl k"
  by (auto simp: fix_deprecated_def split: option.splits if_splits)

lemma fixDeprecated_get:
  "fixDeprecatedLuxdFlags e fl = Ok fl' \<Longrightarrow>
   k \<notin> {deprecatedBuildDirKey, deprecatedWhitelistedSubnetsKey, TrackSubnetsKey e, PluginDirKey e} \<Longrightarrow>
   mget fl' k = mget fl k"
  by (auto simp: fixDeprecatedLuxdFlags_def dest!: fix_deprecated_get)

lemma mput_all_get: "mput_all src m = Ok m' \<Longrightarrow> k \<notin> fst ` set src \<Longrightarrow> mget m' k = mget m k"
proof (cases m)
  case (Some xs)
  assume put: "mput_all src m = Ok m'" and k: "k \<notin> fst ` set src"
  obtain ys where "mput_all src (Some xs) = Ok (Some ys)" "map_of ys = map_of xs ++ map_of (rev src)"
    using mput_all_Some by blast
  moreover have "map_of (rev src) k = None" using k by (simp add: map_of_eq_None_iff)
  ultimately show ?thesis using put Some by (auto simp: map_add_def)
qed (cases src; simp add: mput_all_None)

definition snapshot_keys :: "env \<Rightarrow> string list" where
  "snapshot_keys e = deprecatedBuildDirKey # deprecatedWhitelistedSubnetsKey # flag_names e"

text \<open>How a node of the snapshot is started: its database is in the new network's directory.\<close>

definition loaded_as :: "env \<Rightarrow> string \<Rightarrow> NodeConfig \<Rightarrow> NodeConfig \<Rightarrow> bool" where
  "loaded_as e rootDir nc nc' \<longleftrightarrow> keeps {HTTPPortKey e, StakingPortKey e} nc nc' \<and>
     mget (nc_Flags nc') (DBPathKey e) =
       Some (VStr (filepath_Join [filepath_Join [rootDir, nc_Name nc], defaultDBSubdir]))"

lemma load_nodes_Ok:
  assumes keys: "distinct (snapshot_keys e)"
    and given: "mget fl (HTTPPortKey e) = None" "mget fl (StakingPortKey e) = None"
    and run: "load_nodes e rd db b pd cc uc sc fl ncs w = (Ok ncs', w')"
  shows "list_all2 (loaded_as e rd) ncs ncs'"
proof -
  let ?K = "{HTTPPortKey e, StakingPortKey e}" and ?L = "{HTTPPortKey e, StakingPortKey e, DBPathKey e}"
  from run obtain ncs1 ncs2 ncs3 ncs4 w3 where
    1: "mapR (fix_node e) ncs = Ok ncs1" and 2: "mapR (add_flags fl) ncs1 = Ok ncs2" and
    3: "foldP (\<lambda>nc acc. bindP (load_db e rd db nc) (\<lambda>nc'. ret (acc @ [nc']))) ncs2 [] w = (Ok ncs3, w3)" and
    4: "mapR (replace_plugin e pd) (map (replace_binary b) ncs3) = Ok ncs4" and
    5: "mapR (add_configs cc uc sc) ncs4 = Ok ncs'"
    by (auto simp: load_nodes_def bindP_eq_Ok)
  have ne: "DBPathKey e \<noteq> HTTPPortKey e" "DBPathKey e \<noteq> StakingPortKey e" "PluginDirKey e \<noteq> HTTPPortKey e"
    "PluginDirKey e \<noteq> StakingPortKey e" "PluginDirKey e \<noteq> DBPathKey e"
    using keys unfolding snapshot_keys_def flag_names_def by auto
  note ne = ne ne [symmetric]
  have r1: "list_all2 (keeps ?K) ncs ncs1"
    by (rule list_all2_mono [OF 1 [unfolded mapR_eq_Ok]])
      (use keys in \<open>auto simp: fix_node_def keeps_def snapshot_keys_def flag_names_def fixDeprecated_get\<close>)
  have nin: "k \<notin> fst ` set (mrange fl)" if "mget fl k = None" for k
    using that by (cases fl) (auto simp: map_of_eq_None_iff)
  have r2: "list_all2 (keeps ?K) ncs1 ncs2"
    using 2 unfolding mapR_eq_Ok
    by (rule list_all2_mono) (auto simp: add_flags_def keeps_def mput_all_get nin given)
  have "list_all2 (\<lambda>x y. \<exists>u u'. load_db e rd db x u = (Ok y, u')) ncs2 ncs3"
    using foldP_collect [OF 3] by simp
  then have r3: "list_all2 (loaded_as e rd) ncs2 ncs3"
    by (rule list_all2_mono) (auto simp: load_db_def bindP_eq_Ok Let_def loaded_as_def keeps_def ne)
  have "list_all2 (\<lambda>x y. replace_plugin e pd (replace_binary b x) = Ok y) ncs3 ncs4"
    using 4 by (simp add: mapR_eq_Ok list_all2_map1)
  then have r4: "list_all2 (keeps ?L) ncs3 ncs4"
    by (rule list_all2_mono) (auto simp: replace_plugin_def replace_binary_def keeps_def ne split: if_splits)
  have r5: "list_all2 (keeps ?L) ncs4 ncs'"
    using 5 unfolding mapR_eq_Ok by (rule list_all2_mono) (auto simp: add_configs_def keeps_def)
  have "list_all2 (keeps ?K) ncs ncs2" using keeps_trans r1 r2 by (rule list_all2_trans)
  moreover have "list_all2 (keeps ?L) ncs3 ncs'" using keeps_trans r4 r5 by (rule list_all2_trans)
  with r3 have "list_all2 (loaded_as e rd) ncs2 ncs'"
    by (rule list_all2_trans [rotated]) (auto simp: loaded_as_def keeps_def)
  ultimately show ?thesis
    by (rule list_all2_trans [rotated]) (auto simp: loaded_as_def keeps_def)
qed

lemma loadSnapshot_Ok:
  assumes "loadSnapshot e name b pd cc uc sc fl s = (Ok (), t)"
  obtains js cfg nf ncs w w' u where
    "map_of (files (snd s)) (filepath_Join [snapshot_dir (fst s) name, ''network.json'']) = Some js"
    "unmarshal_net js = Ok cfg"
    "load_nodes e (ln_rootDir (fst s)) (filepath_Join [snapshot_dir (fst s) name, defaultDBSubdir]) b pd cc uc sc fl
       (cfg_NodeConfigs cfg) w = (Ok ncs, w')"
    "quiet (ln_nodes (fst s)) (procs (snd s)) u" "settings (fst u) = settings (fst s)"
    "loadConfig e (cfg\<lparr>cfg_Flags := nf, cfg_NodeConfigs := ncs\<rparr>) u = (Ok (), t)"
proof -
  let ?dir = "snapshot_dir (fst s) name"
  from assms obtain js cfg nf ncs w1 w2 w3 u where
    st: "stat_snapshot e ?dir name (snd s) = (Ok (), w1)" and
    rd: "wrapP ''failure reading network config file from snapshot: %w'' []
        (os_ReadFile e (filepath_Join [?dir, ''network.json''])) w1 = (Ok js, w2)" and
    cfg: "unmarshal_net js = Ok cfg" and
    ln: "load_nodes e (ln_rootDir (fst s)) (filepath_Join [?dir, defaultDBSubdir]) b pd cc uc sc fl
       (cfg_NodeConfigs cfg) w2 = (Ok ncs, w3)" and
    ls: "load_state e ?dir (fst s, w3) = (Ok (), u)" and
    lc: "loadConfig e (cfg\<lparr>cfg_Flags := nf, cfg_NodeConfigs := ncs\<rparr>) u = (Ok (), t)"
    by (auto simp: loadSnapshot_def bindP_eq_Ok Let_def onW_eq_iff)
  have "files w1 = files (snd s)"
    using st by (auto simp: stat_snapshot_def catchP_def os_Stat_def fs_op_def bindP_def throw_def ret_def
        gets_def split: prod.splits res.splits if_splits option.splits)
  moreover have "map_of (files w1) (filepath_Join [?dir, ''network.json'']) = Some js"
    using rd by (auto simp: wrapP_eq_Ok os_ReadFile_def fs_op_Ok split: option.splits)
  moreover have "procs w3 = procs (snd s)"
    using presD [OF pres_stat_snapshot [of "procs (snd s)"] _ st]
      presD [OF pres_wrapP [OF pres_fs(4) [of "procs w1"]] _ rd]
      presD [OF pres_load_nodes [of "procs w2"] _ ln] by (simp add: same_procs_def)
  then have "quiet (ln_nodes (fst s)) (procs (snd s)) u"
    using presD [OF quiet_load_state _ ls] by (simp add: quiet_def)
  moreover have "pres (\<lambda>s. settings (fst s) = x) (load_elastic e kvs)" for x kvs
  proof (induction kvs)
    case (Cons kv kvs)
    show ?case unfolding load_elastic.simps
      by (intro pres_intros settings_modL Cons.IH) (simp add: settings_def)
  qed (simp add: pres_basic)
  then have "pres (\<lambda>s. settings (fst s) = x) (load_state e ?dir)" for x
    unfolding load_state_def by (intro pres_intros settings_onW settings_modL) (simp add: settings_def)
  from presD [OF this _ ls] have "settings (fst u) = settings (fst s)" by simp
  ultimately show thesis using that cfg ln lc by metis
qed

text \<open>Every configuration of the list has become a running node under its name.\<close>

lemma start_node_Ok: "start_node e nc s = (Ok (), t) \<Longrightarrow> \<exists>node. addNode e nc s = (Ok node, t)"
  by (auto simp: start_node_def catchP_def bindP_def ret_def throw_def split: prod.splits res.splits)

definition started_from :: "env \<Rightarrow> net_state \<Rightarrow> net_state \<Rightarrow> NodeConfig \<Rightarrow> bool" where
  "started_from e s t nc \<longleftrightarrow> (\<exists>node u u'. addNode e nc u = (Ok node, u') \<and> settings (fst u) = settings (fst s) \<and>
     map_of (ln_nodes (fst t)) (nc_Name nc) = Some node)"

lemma start_nodes_each:
  "net_inv s \<Longrightarrow> all_running s \<Longrightarrow> forP ncs (start_node e) s = (Ok (), t) \<Longrightarrow> (\<And>nc. nc \<in> set ncs \<Longrightarrow> nc_Name nc \<noteq> []) \<Longrightarrow>
   (\<forall>n node. map_of (ln_nodes (fst s)) n = Some node \<longrightarrow> map_of (ln_nodes (fst t)) n = Some node) \<and>
   dom (map_of (ln_nodes (fst t))) = dom (map_of (ln_nodes (fst s))) \<union> nc_Name ` set ncs \<and>
   (\<forall>nc \<in> set ncs. started_from e s t nc)"
proof (induction ncs arbitrary: s)
  case (Cons nc ncs)
  then obtain u where one: "start_node e nc s = (Ok (), u)" and rest: "forP ncs (start_node e) u = (Ok (), t)"
    by (auto simp: bindP_eq_Ok)
  obtain node where add: "addNode e nc s = (Ok node, u)" using start_node_Ok [OF one] ..
  note c = addNode_counts [OF Cons.prems(1,2) add]
  have na: "node_added (ln_nodes (fst s)) (procs (snd s)) nc node u" by (rule addNode_added [OF add])
  have name: "n_name node = nc_Name nc" using na Cons.prems(4) [of nc] by (simp add: node_added_def)
  have new: "map_of (ln_nodes (fst s)) (nc_Name nc) = None"
    using na Cons.prems(2) name by (auto simp: node_added_def all_running_def split: option.splits)
  have nodes: "map_of (ln_nodes (fst u)) = (map_of (ln_nodes (fst s)))(nc_Name nc \<mapsto> node)"
    using na name by (simp add: node_added_def)
  have se: "settings (fst u) = settings (fst s)"
    using presD [OF settings_addNode [of "settings (fst s)"] _ add] by simp
  have "(\<forall>n node. map_of (ln_nodes (fst u)) n = Some node \<longrightarrow> map_of (ln_nodes (fst t)) n = Some node) \<and>
   dom (map_of (ln_nodes (fst t))) = dom (map_of (ln_nodes (fst u))) \<union> nc_Name ` set ncs \<and>
   (\<forall>nc \<in> set ncs. started_from e u t nc)"
    using c Cons.prems(4) by (intro Cons.IH rest) auto
  then have keep: "\<And>n node. map_of (ln_nodes (fst u)) n = Some node \<Longrightarrow> map_of (ln_nodes (fst t)) n = Some node"
    and doms: "dom (map_of (ln_nodes (fst t))) = dom (map_of (ln_nodes (fst u))) \<union> nc_Name ` set ncs"
    and each: "\<And>nc. nc \<in> set ncs \<Longrightarrow> started_from e u t nc"
    by auto
  have "started_from e s t nc"
    unfolding started_from_def
    by (intro exI [of _ node] exI [of _ s] exI [of _ u]) (simp add: add keep nodes)
  moreover have "started_from e s t x" if "x \<in> set ncs" for x
    using each [OF that] se unfolding started_from_def by simp
  moreover have "map_of (ln_nodes (fst t)) n = Some x" if "map_of (ln_nodes (fst s)) n = Some x" for n x
    using that keep [of n x] nodes new by (cases "n = nc_Name nc") auto
  ultimately show ?case using doms nodes by auto
qed simp

lemma loadConfig_each:
  assumes "net_inv s" "ln_nodes (fst s) = []" "loadConfig e cfg s = (Ok (), t)"
    and "\<forall>nc \<in> set (cfg_NodeConfigs cfg). nc_Name nc \<noteq> []"
  shows "dom (map_of (ln_nodes (fst t))) = nc_Name ` set (cfg_NodeConfigs cfg)"
    "nc \<in> set (cfg_NodeConfigs cfg) \<Longrightarrow> \<exists>node u u'. addNode e nc u = (Ok node, u') \<and>
       ln_reassignPortsIfUsed (fst u) = ln_reassignPortsIfUsed (fst s) \<and>
       map_of (ln_nodes (fst t)) (nc_Name nc) = Some node"
proof -
  obtain u where run: "forP (beacons_first (cfg_NodeConfigs cfg)) (start_node e) u = (Ok (), t)"
    and u: "ln_nodes (fst u) = []" "snd u = snd s" "ln_reassignPortsIfUsed (fst u) = ln_reassignPortsIfUsed (fst s)"
    using assms(2,3) by (fastforce simp: loadConfig_def bindP_eq_Ok)
  have set: "set (beacons_first (cfg_NodeConfigs cfg)) = set (cfg_NodeConfigs cfg)"
    by (auto simp: beacons_first_def)
  have "net_inv u" "all_running u" using assms(1,2) u by (simp_all add: net_inv_def all_running_def)
  note each = start_nodes_each [OF this run]
  show "dom (map_of (ln_nodes (fst t))) = nc_Name ` set (cfg_NodeConfigs cfg)"
    using each assms(4) u set by auto
  show "\<exists>node u u'. addNode e nc u = (Ok node, u') \<and>
       ln_reassignPortsIfUsed (fst u) = ln_reassignPortsIfUsed (fst s) \<and>
       map_of (ln_nodes (fst t)) (nc_Name nc) = Some node" if "nc \<in> set (cfg_NodeConfigs cfg)"
  proof -
    have "started_from e u t nc" using each assms(4) that set by blast
    then obtain node x x' where "addNode e nc x = (Ok node, x')" "settings (fst x) = settings (fst u)"
      "map_of (ln_nodes (fst t)) (nc_Name nc) = Some node"
      unfolding started_from_def by blast
    moreover from this(2) have "ln_reassignPortsIfUsed (fst x) = ln_reassignPortsIfUsed (fst s)"
      using u(3) by (simp add: settings_def)
    ultimately show ?thesis by blast
  qed
qed

text \<open>Ports and database that are given as flags.\<close>

lemma getPort_float:
  assumes "getPort e fl cf k False w = (Ok p, w')" and "mget fl k = Some (VFloat (uint q) 0)"
  shows "p = q"
  using assms by (auto simp: getPort_def given_port_def bindP_eq_Ok)

lemma addNode_given:
  assumes add: "addNode e nc s = (Ok node, t)" and re: "\<not> ln_reassignPortsIfUsed (fst s)"
    and fl: "mget (nc_Flags nc) (HTTPPortKey e) = Some (VFloat (uint p) 0)"
      "mget (nc_Flags nc) (StakingPortKey e) = Some (VFloat (uint q) 0)"
      "mget (nc_Flags nc) (DBPathKey e) = Some (VStr db)"
  shows "n_apiPort node = p" "n_p2pPort node = q" "n_dbDir node = db"
proof -
  obtain nc' pz d nid u where prep: "prepareNode e nc s = (Ok (nc', pz, d, nid), u)"
    and node: "node = mkNode nc' d nid (n_process node) (n_networkID node)"
    using add by (rule addNode_Ok) blast
  obtain v cf dir u u' where ba: "buildArgs e v cf dir nc' u = (Ok d, u')" and se: "settings (fst u) = settings (fst s)"
    using prepareNode_buildArgs [OF prep] by metis
  have merged: "mget (nc_Flags nc') k = Some x" if "mget (nc_Flags nc) k = Some x" for k x
    using prepareNode_Ok [OF prep] that by (simp add: map_add_def)
  note fl = fl [THEN merged]
  have "\<not> ln_reassignPortsIfUsed (fst u)" using se re by (simp add: settings_def)
  then obtain w1 w1' w2 w2' where
    "getPort e (nc_Flags nc') cf (HTTPPortKey e) False w1 = (Ok (ba_apiPort d), w1')"
    "getPort e (nc_Flags nc') cf (StakingPortKey e) False w2 = (Ok (ba_p2pPort d), w2')"
    using buildArgs_Ok [OF ba] by auto
  note ports = getPort_float [OF this(1) fl(1)] getPort_float [OF this(2) fl(2)]
  show "n_apiPort node = p" by (subst node) (simp add: mkNode_def ports)
  show "n_p2pPort node = q" by (subst node) (simp add: mkNode_def ports)
  have "ba_dbDir d = db" using buildArgs_Ok [OF ba] entry_kept [OF fl(3)] by simp
  then show "n_dbDir node = db" by (subst node) (simp add: mkNode_def)
qed

lemma fs_exists_clock [simp]: "fs_exists d (w\<lparr>clock := n\<rparr>) = fs_exists d w"
  by (simp add: fs_exists_def)

lemma os_Stat_eq:
  "os_fsErr e (clock w) d = None \<Longrightarrow> os_Stat e d w =
     (if fs_exists d w then Ok () else Err (Wrapf ''stat %s: %w'' [d] ErrNotExist), w\<lparr>clock := Suc (clock w)\<rparr>)"
  by (simp add: os_Stat_def fs_op_def ret_def throw_def)

lemma stat_catch:
  "os_fsErr e (clock (snd s)) d = None \<Longrightarrow>
   catchP (bindP (onW (os_Stat e d)) (\<lambda>_. ret True)) (\<lambda>_. ret False) s =
     (Ok (fs_exists d (snd s)), (fst s, (snd s)\<lparr>clock := Suc (clock (snd s))\<rparr>))"
  by (cases s) (simp add: catchP_def bindP_def os_Stat_eq ret_def)

lemma loadSnapshot_missing:
  assumes "os_fsErr e (clock (snd s)) (snapshot_dir (fst s) name) = None"
    and "\<not> fs_exists (snapshot_dir (fst s) name) (snd s)"
  shows "loadSnapshot e name b pd cc uc sc fl s =
    (Err ErrSnapshotNotFound, (fst s, (snd s)\<lparr>clock := Suc (clock (snd s))\<rparr>))"
proof -
  have "onW (stat_snapshot e (snapshot_dir (fst s) name) name) s =
      (Err ErrSnapshotNotFound, (fst s, (snd s)\<lparr>clock := Suc (clock (snd s))\<rparr>))"
    using assms by (cases s) (simp add: stat_snapshot_def catchP_def os_Stat_eq throw_def ErrNotExist_def)
  then show ?thesis by (simp add: loadSnapshot_def Let_def bindP_simps(2))
qed

subsection \<open>Saving, then loading\<close>

lemma saved_loaded:
  assumes "list_all2 (saved_as e) (map snd ns) cs" "list_all2 (loaded_as e rd) cs ncs" "(n, node) \<in> set ns"
  obtains nc where "nc \<in> set ncs" "nc_Name nc = nc_Name (n_config node)"
    "mget (nc_Flags nc) (HTTPPortKey e) = Some (VFloat (uint (n_apiPort node)) 0)"
    "mget (nc_Flags nc) (StakingPortKey e) = Some (VFloat (uint (n_p2pPort node)) 0)"
    "mget (nc_Flags nc) (DBPathKey e) =
       Some (VStr (filepath_Join [filepath_Join [rd, nc_Name (n_config node)], defaultDBSubdir]))"
proof -
  obtain i where i: "i < length ns" "ns ! i = (n, node)" using assms(3) by (auto simp: in_set_conv_nth)
  have len: "length cs = length ns" "length ncs = length ns"
    using assms(1,2) by (auto dest!: list_all2_lengthD)
  have "saved_as e node (cs ! i)" using list_all2_nthD [OF assms(1), of i] i by simp
  moreover have "loaded_as e rd (cs ! i) (ncs ! i)" using list_all2_nthD [OF assms(2), of i] i len by simp
  ultimately show thesis using that [of "ncs ! i"] i len by (auto simp: saved_as_def loaded_as_def keeps_def)
qed

lemma saved_loaded_names:
  assumes "list_all2 (saved_as e) (map snd ns) cs" "list_all2 (loaded_as e rd) cs ncs"
  shows "map nc_Name ncs = map (nc_Name \<circ> n_config \<circ> snd) ns"
proof (rule nth_equalityI)
  have len: "length cs = length ns" "length ncs = length ns"
    using assms by (auto dest!: list_all2_lengthD)
  then show "length (map nc_Name ncs) = length (map (nc_Name \<circ> n_config \<circ> snd) ns)" by simp
  fix i
  assume "i < length (map nc_Name ncs)"
  then show "map nc_Name ncs ! i = map (nc_Name \<circ> n_config \<circ> snd) ns ! i"
    using list_all2_nthD [OF assms(1), of i] list_all2_nthD [OF assms(2), of i] len
    by (simp add: saved_as_def loaded_as_def keeps_def)
qed

subsection \<open>Listing\<close>

lemma snapshot_name:
  assumes "CHR ''/'' \<notin> set name"
  shows "plain_name (snapshotPrefix @ name)"
  using assms by (simp add: plain_name_def snapshotPrefix_def)

lemma Glob_names:
  assumes "GetSnapshotNames e s = (Ok names, t)" "CHR ''/'' \<notin> set name" "ln_snapshotsDir (fst s) \<noteq> []"
  shows "name \<in> set names \<longleftrightarrow> fs_exists (snapshot_dir (fst s) name) (snd s)"
proof -
  let ?d = "ln_snapshotsDir (fst s)"
  from assms(1) obtain w ms where st: "catchP (os_Stat e ?d) (\<lambda>er.
              if errors_Is er ErrNotExist
              then throw (Errorf ''snapshots dir %q does not exists'' [?d])
              else throw (Wrapf ''failure accessing snapshots dir %q: %w'' [?d] er)) (snd s) = (Ok (), w)"
    and ms: "Glob_prefix ?d snapshotPrefix w = (Ok ms, snd t)"
    and names: "names = map (\<lambda>m. trim_prefix snapshotPrefix (filepath_Base m)) ms"
    by (auto simp: GetSnapshotNames_def bindP_eq_Ok onW_eq_iff)
  have same: "files w = files (snd s)" "dirs w = dirs (snd s)"
    using st by (auto simp: catchP_def os_Stat_def fs_op_def bindP_def throw_def ret_def
        gets_def split: prod.splits res.splits if_splits option.splits)
  have ms_set: "q \<in> set ms \<longleftrightarrow> filepath_Dir q = filepath_Clean ?d \<and> has_prefix snapshotPrefix (filepath_Base q) \<and>
      q = filepath_Join [?d, filepath_Base q] \<and> fs_exists q (snd s)" for q
  proof -
    have "set ms = {q. filepath_Dir q = filepath_Clean ?d \<and> has_prefix snapshotPrefix (filepath_Base q) \<and>
      q = filepath_Join [?d, filepath_Base q] \<and> (q \<in> fst ` set (files (snd s)) \<or> q \<in> set (dirs (snd s)))}"
      using ms same by (auto simp: Glob_prefix_def)
    moreover have "fs_exists q (snd s) \<longleftrightarrow> q \<in> fst ` set (files (snd s)) \<or> q \<in> set (dirs (snd s))"
      by (auto simp: fs_exists_def map_of_eq_None_iff)
    ultimately show ?thesis by blast
  qed
  let ?q = "snapshot_dir (fst s) name"
  note plain = snapshot_name [OF assms(2)]
  have q: "filepath_Base ?q = snapshotPrefix @ name" "filepath_Dir ?q = filepath_Clean ?d"
    using filepath_Base_plain [OF plain] filepath_Dir_Join [OF plain assms(3)] by (simp_all add: snapshot_dir_def)
  show ?thesis
  proof
    assume "fs_exists ?q (snd s)"
    then have "?q \<in> set ms" using ms_set q by (simp add: snapshot_dir_def)
    then have "trim_prefix snapshotPrefix (filepath_Base ?q) \<in> set names" unfolding names by force
    then show "name \<in> set names" by (simp add: q)
  next
    assume "name \<in> set names"
    then obtain m where m: "m \<in> set ms" "name = trim_prefix snapshotPrefix (filepath_Base m)"
      unfolding names by auto
    then have "filepath_Base m = snapshotPrefix @ name"
      using ms_set [of m] by (auto simp: has_prefix_def trim_prefix_def split: if_splits) (metis append_take_drop_id)
    then show "fs_exists ?q (snd s)" using m(1) ms_set [of m] unfolding snapshot_dir_def by metis
  qed
qed

lemma GetSnapshotNames_same:
  "GetSnapshotNames e s = (Ok names, t) \<Longrightarrow>
   fst t = fst s \<and> files (snd t) = files (snd s) \<and> dirs (snd t) = dirs (snd s) \<and> procs (snd t) = procs (snd s)"
  by (cases s; cases t) (auto simp: GetSnapshotNames_def bindP_eq_Ok onW_eq_iff Glob_prefix_def catchP_def os_Stat_def fs_op_def
      bindP_def throw_def ret_def gets_def split: prod.splits res.splits if_splits option.splits)

lemma GetSnapshotNames_Ok:
  "\<forall>k p. os_fsErr e k p = None \<Longrightarrow> ln_snapshotsDir (fst s) \<in> set (dirs (snd s)) \<Longrightarrow>
   \<exists>names t. GetSnapshotNames e s = (Ok names, t)"
  by (cases s) (auto simp: GetSnapshotNames_def bindP_eq_Ok onW_eq_iff catchP_def os_Stat_eq fs_exists_def Glob_prefix_def)

lemma RemoveSnapshot_Ok:
  assumes "\<forall>k p. os_fsErr e k p = None" "fs_exists (snapshot_dir (fst s) name) (snd s)"
  shows "\<exists>t. RemoveSnapshot e name s = (Ok (), t) \<and> fst t = fst s \<and>
    dirs (snd t) = filter (\<lambda>q. \<not> below (snapshot_dir (fst s) name) q) (dirs (snd s))"
proof -
  have "stat_snapshot e (snapshot_dir (fst s) name) name (snd s) = (Ok (), (snd s)\<lparr>clock := Suc (clock (snd s))\<rparr>)"
    using assms by (simp add: stat_snapshot_def catchP_def os_Stat_eq)
  then show ?thesis
    using assms(1) by (simp add: RemoveSnapshot_def bindP_onW_Ok) (simp add: wrapP_def os_RemoveAll_def fs_op_def
        modify_def)
qed

text \<open>Saving a snapshot only adds directories.\<close>

definition has_dir :: "string \<Rightarrow> world \<Rightarrow> bool" where
  "has_dir d w \<longleftrightarrow> d \<in> set (dirs w)"

lemma dirs_fs_op: "pres (has_dir d) m \<Longrightarrow> pres (has_dir d) (fs_op e p m)"
  unfolding fs_op_def tick_def by (intro pres_intros) (auto simp: has_dir_def)

lemma dirs_fs:
  "pres (has_dir d) (os_MkdirAll e p)" "pres (has_dir d) (os_WriteFile e p c)" "pres (has_dir d) (os_Stat e p)"
  "pres (has_dir d) (dircopy e a b)" "pres (has_dir d) (proc_Stop e pid)"
  unfolding os_MkdirAll_def os_WriteFile_def os_Stat_def dircopy_def tick_def
  by (intro dirs_fs_op pres_intros; auto simp: has_dir_def)+
    (rule presI, auto simp: has_dir_def proc_Stop_eq split: prod.splits)

lemma dirs_onW: "pres (has_dir d) m \<Longrightarrow> pres (has_dir d \<circ> snd) (onW m)"
  by (rule presI) (auto simp: onW_eq_iff dest: presD)

lemma dirs_modL: "pres (has_dir d \<circ> snd) (modL f)"
  unfolding modL_def by (rule pres_modify) auto

lemma dirs_SaveSnapshot: "pres (has_dir d \<circ> snd) (SaveSnapshot e name)"
  unfolding SaveSnapshot_def net_stop_def stop_one_def removeNode_def write_snapshot_def save_db_def
    createFileAndWrite_def
  by (intro pres_intros dirs_onW dirs_fs dirs_modL)

section \<open>Properties\<close>

text \<open>
  A network configuration that is written as JSON (\<^verbatim>\<open>json.MarshalIndent\<close>, as \<^verbatim>\<open>SaveSnapshot\<close> does)
  and read back (\<^verbatim>\<open>json.Unmarshal\<close>) is the same configuration: every string, flag and file map is
  kept, only that maps come in sorted order and numbers have become \<^verbatim>\<open>float64\<close>.
\<close>

theorem network_config_roundtrip:
  assumes "wf_net cfg"
  shows "\<exists>cfg'. unmarshal_net (json_indent (net_val cfg)) = Ok cfg' \<and>
    cfg_Genesis cfg' = cfg_Genesis cfg \<and> cfg_BinaryPath cfg' = cfg_BinaryPath cfg \<and>
    (\<forall>k. mget (cfg_Flags cfg') k = map_option (jsonify \<circ> canon) (mget (cfg_Flags cfg) k)) \<and>
    mget (cfg_ChainConfigFiles cfg') = mget (cfg_ChainConfigFiles cfg) \<and>
    list_all2 (\<lambda>nc' nc. nc_Name nc' = nc_Name nc \<and> nc_IsBeacon nc' = nc_IsBeacon nc \<and>
        nc_StakingKey nc' = nc_StakingKey nc \<and> nc_StakingCert nc' = nc_StakingCert nc \<and>
        nc_StakingSigningKey nc' = nc_StakingSigningKey nc \<and> nc_ConfigFile nc' = nc_ConfigFile nc \<and>
        mget (nc_ChainConfigFiles nc') = mget (nc_ChainConfigFiles nc) \<and>
        mget (nc_UpgradeConfigFiles nc') = mget (nc_UpgradeConfigFiles nc) \<and>
        mget (nc_SubnetConfigFiles nc') = mget (nc_SubnetConfigFiles nc) \<and>
        (\<forall>k. mget (nc_Flags nc') k = map_option (jsonify \<circ> canon) (mget (nc_Flags nc) k)) \<and>
        nc_BinaryPath nc' = nc_BinaryPath nc \<and> nc_RedirectStdout nc' = nc_RedirectStdout nc \<and>
        nc_RedirectStderr nc' = nc_RedirectStderr nc)
      (cfg_NodeConfigs cfg') (cfg_NodeConfigs cfg)"
  using unmarshal_net_indent [OF assms] assms
  by (auto simp: net_read_def node_read_def wf_net_def wf_node_def list_all_iff mget_strings_read
      mget_flags_read list_all2_map1 intro!: list.rel_refl_strong)

text \<open>
  \<^verbatim>\<open>SaveSnapshot\<close> that succeeds has stopped the network (no nodes, no live process) and written
  a \<^verbatim>\<open>network.json\<close> that reads back as a configuration with one entry per node, under its name and with
  its keys, in which the ports are the ones the node used and the data and log directories are removed.
\<close>

theorem SaveSnapshot_correct:
  assumes "net_inv s" "wf_saved (fst s)" "distinct (flag_names e)"
    and "SaveSnapshot e name s = (Ok dir, t)"
  shows "ln_nodes (fst t) = [] \<and> live_procs (snd t) = {} \<and>
    (\<exists>js cfg. map_of (files (snd t)) (filepath_Join [dir, ''network.json'']) = Some js \<and>
       unmarshal_net js = Ok cfg \<and> cfg_Genesis cfg = ln_genesis (fst s) \<and>
       list_all2 (saved_as e) (map snd (ln_nodes (fst s))) (cfg_NodeConfigs cfg))"
  using SaveSnapshot_result [OF assms] by blast

lemma loaded_names:
  assumes inv: "net_inv s" and saved: "list_all2 (saved_as e) (map snd (ln_nodes (fst s))) ncs0"
    and loaded: "list_all2 (loaded_as e root) ncs0 ncs"
  shows "map nc_Name ncs = map fst (ln_nodes (fst s))" "\<forall>nc \<in> set ncs. nc_Name nc \<noteq> []"
proof -
  have n: "nc_Name (n_config node) = n \<and> n \<noteq> []" if "(n, node) \<in> set (ln_nodes (fst s))" for n node
    using inv that net_ok_node [of "ln_nodes (fst s)" "procs (snd s)" n node] net_ok_wf [of "ln_nodes (fst s)" "procs (snd s)"]
    by (simp add: net_inv_def node_ok_def wf_gmap_def)
  then show eq: "map nc_Name ncs = map fst (ln_nodes (fst s))"
    using saved_loaded_names [OF saved loaded] by (auto simp: comp_def)
  show "\<forall>nc \<in> set ncs. nc_Name nc \<noteq> []" using n arg_cong [OF eq, of set] by force
qed

text \<open>A saved node that was added again from its loaded configuration.\<close>

lemma loaded_node:
  assumes inv: "net_inv s" and saved: "list_all2 (saved_as e) (map snd (ln_nodes (fst s))) ncs0"
    and loaded: "list_all2 (loaded_as e root) ncs0 ncs" and old: "map_of (ln_nodes (fst s)) n = Some old"
    and added: "\<And>nc. nc \<in> set ncs \<Longrightarrow> \<exists>node y y'. addNode e nc y = (Ok node, y') \<and>
      \<not> ln_reassignPortsIfUsed (fst y) \<and> map_of (ln_nodes (fst v)) (nc_Name nc) = Some node"
    and run: "all_running v"
  shows "\<exists>node. map_of (ln_nodes (fst v)) n = Some node \<and> \<not> n_paused node \<and>
    n_process node \<in> live_procs (snd v) \<and> n_apiPort node = n_apiPort old \<and> n_p2pPort node = n_p2pPort old \<and>
    n_dbDir node = filepath_Join [filepath_Join [root, n], defaultDBSubdir]"
proof -
  have nm: "nc_Name (n_config old) = n" using inv net_ok_node [OF _ old] by (simp add: net_inv_def node_ok_def)
  obtain nc where nc: "nc \<in> set ncs" "nc_Name nc = nc_Name (n_config old)"
    and fl: "mget (nc_Flags nc) (HTTPPortKey e) = Some (VFloat (uint (n_apiPort old)) 0)"
      "mget (nc_Flags nc) (StakingPortKey e) = Some (VFloat (uint (n_p2pPort old)) 0)"
      "mget (nc_Flags nc) (DBPathKey e) =
         Some (VStr (filepath_Join [filepath_Join [root, nc_Name (n_config old)], defaultDBSubdir]))"
    using saved_loaded [OF saved loaded map_of_SomeD [OF old]] by metis
  obtain node y y' where add: "addNode e nc y = (Ok node, y')" "\<not> ln_reassignPortsIfUsed (fst y)"
    and node: "map_of (ln_nodes (fst v)) n = Some node"
    using added [OF nc(1)] nc(2) nm by metis
  have "\<not> n_paused node \<and> n_process node \<in> live_procs (snd v)"
    using run node by (auto simp: all_running_def live_procs_iff)
  with node addNode_given [OF add fl] nm show ?thesis by simp
qed

text \<open>
  C4. Saving and loading: a network that is loaded from the \<^verbatim>\<open>network.json\<close> of a saved snapshot has exactly
  the nodes of the saved network. All of them run (also those that were paused), with the API and P2P
  ports they had, and with their database in the new network's directory.
\<close>

theorem Save_load_roundtrip:
  assumes inv: "net_inv s" and wf: "wf_saved (fst s)" and keys: "distinct (snapshot_keys e)"
    and save: "SaveSnapshot e name s = (Ok dir, t)"
    and new: "net_inv u" "ln_nodes (fst u) = []" "ln_snapshotsDir (fst u) = ln_snapshotsDir (fst s)"
      "\<not> ln_reassignPortsIfUsed (fst u)"
    and disk: "map_of (files (snd u)) (filepath_Join [dir, ''network.json'']) =
      map_of (files (snd t)) (filepath_Join [dir, ''network.json''])"
    and flags: "mget fl (HTTPPortKey e) = None" "mget fl (StakingPortKey e) = None"
    and load: "loadSnapshot e name bin pd cc uc sc fl u = (Ok (), v)"
  shows "set (mkeys (ln_nodes (fst v))) = set (mkeys (ln_nodes (fst s))) \<and>
    (\<forall>n old. map_of (ln_nodes (fst s)) n = Some old \<longrightarrow>
      (\<exists>node. map_of (ln_nodes (fst v)) n = Some node \<and> \<not> n_paused node \<and>
         n_process node \<in> live_procs (snd v) \<and>
         n_apiPort node = n_apiPort old \<and> n_p2pPort node = n_p2pPort old \<and>
         n_dbDir node = filepath_Join [filepath_Join [ln_rootDir (fst u), n], defaultDBSubdir]))"
proof -
  have keys': "distinct (flag_names e)" using keys by (simp add: snapshot_keys_def)
  obtain js cfg where dir: "dir = snapshot_dir (fst s) name"
    and js: "map_of (files (snd t)) (filepath_Join [dir, ''network.json'']) = Some js" "unmarshal_net js = Ok cfg"
    and saved: "list_all2 (saved_as e) (map snd (ln_nodes (fst s))) (cfg_NodeConfigs cfg)"
    using SaveSnapshot_result [OF inv wf keys' save] by metis
  have same: "snapshot_dir (fst u) name = dir" using new(3) dir by (simp add: snapshot_dir_def)
  obtain nf ncs w w' x where
    ln: "load_nodes e (ln_rootDir (fst u)) (filepath_Join [dir, defaultDBSubdir]) bin pd cc uc sc fl
       (cfg_NodeConfigs cfg) w = (Ok ncs, w')"
    and x: "quiet (ln_nodes (fst u)) (procs (snd u)) x" "settings (fst x) = settings (fst u)"
    and lc: "loadConfig e (cfg\<lparr>cfg_Flags := nf, cfg_NodeConfigs := ncs\<rparr>) x = (Ok (), v)"
    using load by (rule loadSnapshot_Ok) (use js disk same in auto)
  note loaded = load_nodes_Ok [OF keys flags ln]
  note names = loaded_names [OF inv saved loaded]
  have x': "net_inv x" "ln_nodes (fst x) = []" "ln_reassignPortsIfUsed (fst x) = ln_reassignPortsIfUsed (fst u)"
    using x new by (simp_all add: quiet_def net_inv_def settings_def)
  have each: "\<exists>node y y'. addNode e nc y = (Ok node, y') \<and>
      \<not> ln_reassignPortsIfUsed (fst y) \<and> map_of (ln_nodes (fst v)) (nc_Name nc) = Some node" if "nc \<in> set ncs" for nc
    using loadConfig_each(2) [OF x'(1,2) lc, of nc] names(2) x'(3) new(4) that by auto
  have "set (mkeys (ln_nodes (fst v))) = set (mkeys (ln_nodes (fst s)))"
    using loadConfig_each(1) [OF x'(1,2) lc] names(2) arg_cong [OF names(1), of set]
    by (simp add: mkeys_def dom_map_of_conv_image_fst)
  then show ?thesis
    using loaded_node [OF inv saved loaded _ each] loadConfig_Ok [OF x'(1,2) lc] by blast
qed

text \<open>
  \<^verbatim>\<open>SaveSnapshot\<close> refuses a stopped network, an empty name and the name of a snapshot that exists,
  and in these cases leaves the network as it is: its nodes keep running.
\<close>

theorem SaveSnapshot_refused:
  assumes "stopCalled (fst s) \<or> name = [] \<or>
    fs_exists (snapshot_dir (fst s) name) (snd s) \<and> (\<forall>k p. os_fsErr e k p = None)"
  shows "\<exists>er t. SaveSnapshot e name s = (Err er, t) \<and>
    er = (if stopCalled (fst s) then ErrStopped
          else if name = [] then Errorf ''invalid snapshotName %q'' [name]
          else Errorf ''snapshot %q already exists'' [name]) \<and>
    fst t = fst s \<and> procs (snd t) = procs (snd s)"
proof (cases "stopCalled (fst s) \<or> name = []")
  case True
  then show ?thesis by (cases s) (auto simp: SaveSnapshot_def throw_def)
next
  case False
  then have "fs_exists (snapshot_dir (fst s) name) (snd s)" "\<forall>k p. os_fsErr e k p = None" using assms by auto
  with False show ?thesis
    by (simp add: SaveSnapshot_def Let_def bindP_simps(1) [OF stat_catch] throw_def)
qed


section \<open>The theorems at work\<close>

text \<open>A network with one running node, saved and loaded into a new network.\<close>

definition snap_node :: localNode where
  "snap_node = \<lparr>n_name = ''a'', n_nodeID = ''NodeID-a'', n_networkID = 1337, n_client = (''localhost'', 9650),
     n_process = 0, n_apiPort = 9650, n_p2pPort = 9651, n_dataDir = ''/tmp/net/a'', n_dbDir = ''/tmp/net/a/db'',
     n_logsDir = ''/tmp/net/a/logs'', n_pluginDir = [],
     n_config = (demo_node ''a'' True)\<lparr>nc_ChainConfigFiles := Some [], nc_UpgradeConfigFiles := Some [],
       nc_SubnetConfigFiles := Some [], nc_Flags := Some []\<rparr>,
     n_httpHost = [], n_attachedPeers = [], n_paused = False\<rparr>"

definition snap_state :: net_state where
  "snap_state = (demo_net0\<lparr>ln_genesis := demo_genesis, ln_nodes := [(''a'', snap_node)]\<rparr>,
     \<lparr>clock = 0, files = [], dirs = [''/tmp/snapshots''], procs = [snd (newNodeProcess ''a'' (Ok ()))]\<rparr>)"

lemma snap_inv: "net_inv snap_state"
  by (auto simp: net_inv_def snap_state_def net_ok_def wf_gmap_def newNodeProcess_started np_ok_def node_ok_def
      snap_node_def demo_node_def maps_made_def pid_live_def np_Status_def)

lemma snap_wf: "wf_saved (fst snap_state)"
  by (simp add: wf_saved_def snap_state_def demo_net0_def wf_flags_def wf_strings_def wf_node_def snap_node_def
      demo_node_def)

lemma snap_keys: "distinct (snapshot_keys demo_env2)"
  by (simp add: snapshot_keys_def flag_names_def demo_env2_def demo_env_def deprecatedBuildDirKey_def
      deprecatedWhitelistedSubnetsKey_def)

lemma snap_dir: "snapshot_dir (fst snap_state) ''x'' = ''/tmp/snapshots/anr-snapshot-x''"
  by (simp add: snap_state_def demo_net0_def snapshot_dir_def snapshotPrefix_def) code_simp

lemma snap_copy: "succeeds (dircopy demo_env2 a b)"
  unfolding dircopy_def by (intro succ_intros succ_liftR) (simp add: demo_env2_def demo_env_def)

definition snap_saved :: NodeConfig where
  "snap_saved = (n_config snap_node)\<lparr>nc_Flags := Some [(''http-port'', VU16 9650), (''staking-port'', VU16 9651)]\<rparr>"

lemma snap_nodes:
  "mapR (saved_ports demo_env2 \<circ> snd) (ln_nodes (fst snap_state)) = Ok [snap_saved]"
  "mapR (saved_dirs demo_env2) [snap_saved] = Ok [snap_saved]"
  by (simp_all add: snap_state_def saved_ports_def saved_dirs_def snap_saved_def snap_node_def demo_node_def
      mput_all_def demo_env2_def demo_env_def)

lemma snap_stop:
  assumes "procs w = procs (snd snap_state)"
  shows "\<exists>t. net_stop demo_env2 (fst snap_state, w) = (Ok (), t)"
proof -
  have "\<exists>w'. proc_Stop demo_env2 (n_process snap_node) w = (Ok 0, w')"
    using assms
    by (simp add: proc_Stop_eq snap_state_def snap_node_def newNodeProcess_started np_Stop_running np_ok_def
        demo_env2_def demo_env_def)
  then obtain w' where st: "proc_Stop demo_env2 (n_process snap_node) w = (Ok 0, w')" ..
  have "\<not> n_paused snap_node" by (simp add: snap_node_def)
  with st show ?thesis
    by (simp add: net_stop_def snap_state_def mkeys_def stop_one_def removeNode_def catchP_def bindP_def getL_def
        gets_def modL_def modify_def ret_def)
qed

lemma snap_write: "succeeds (write_snapshot demo_env2 l d [(''a'', db)] [snap_saved])"
proof -
  have "nc_Name snap_saved = ''a''" by (simp add: snap_saved_def snap_node_def demo_node_def)
  then show ?thesis unfolding write_snapshot_def save_db_def Let_def forP.simps
    by (simp, intro succ_intros succ_fs snap_copy demo_smooth)
qed

lemma snap_save: "\<exists>t. SaveSnapshot demo_env2 ''x'' snap_state = (Ok (snapshot_dir (fst snap_state) ''x''), t)"
proof -
  have none: "os_fsErr demo_env2 k p = None" for k p by (simp add: demo_env2_def demo_env_def)
  have ex: "\<not> fs_exists (snapshot_dir (fst snap_state) ''x'') (snd snap_state)"
    by (simp add: snap_dir) (simp add: fs_exists_def snap_state_def)
  let ?w = "(snd snap_state)\<lparr>clock := Suc (clock (snd snap_state))\<rparr>"
  obtain l' w1 where st: "net_stop demo_env2 (fst snap_state, ?w) = (Ok (), (l', w1))"
    using snap_stop [of ?w] by auto
  have nodes: "map (\<lambda>(name, node). (name, n_dbDir node)) (ln_nodes (fst snap_state)) = [(''a'', n_dbDir snap_node)]"
    by (simp add: snap_state_def)
  obtain w2 where wr: "write_snapshot demo_env2 l' (snapshot_dir (fst snap_state) ''x'')
      [(''a'', n_dbDir snap_node)] [snap_saved] w1 = (Ok (), w2)"
    using snap_write unfolding succeeds_def by (metis (full_types) unit.exhaust)
  have "\<not> stopCalled (fst snap_state)" by (simp add: snap_state_def demo_net0_def stopCalled_def)
  moreover have "bindP (net_stop demo_env2) f (fst snap_state, ?w) = f () (l', w1)" for f :: "_ \<Rightarrow> (_, string) prog"
    by (simp add: bindP_def st)
  moreover have "bindP (onW (write_snapshot demo_env2 l' (snapshot_dir (fst snap_state) ''x'')
      [(''a'', n_dbDir snap_node)] [snap_saved])) f (l', w1) = f () (l', w2)" for f :: "_ \<Rightarrow> (_, string) prog"
    by (simp add: bindP_def wr)
  ultimately show ?thesis
    using ex snap_nodes nodes
    by (simp add: SaveSnapshot_def Let_def bindP_simps(1) [OF stat_catch] none ret_def)
qed

definition snap_after :: net_state where
  "snap_after = snd (SaveSnapshot demo_env2 ''x'' snap_state)"

lemma snap_after: "SaveSnapshot demo_env2 ''x'' snap_state = (Ok (snapshot_dir (fst snap_state) ''x''), snap_after)"
  using snap_save by (auto simp: snap_after_def)

definition snap_new :: net_state where
  "snap_new = (demo_net0\<lparr>ln_reassignPortsIfUsed := False, ln_rootDir := ''/tmp/net2''\<rparr>, snd snap_after)"

lemma snap_keys': "distinct (flag_names demo_env2)" using snap_keys by (simp add: snapshot_keys_def)

lemma snap_new_inv: "net_inv snap_new"
  using presD [OF pres_SaveSnapshot snap_inv snap_after] SaveSnapshot_result [OF snap_inv snap_wf snap_keys' snap_after]
  by (simp add: snap_new_def net_inv_def demo_net0_def)

lemma snap_files:
  "map_of (files (snd snap_new)) (filepath_Join [snapshot_dir (fst snap_new) ''x'', ''network.json'']) =
     Some (json_indent (net_val (saved_config demo_env2 (fst snap_after) [snap_saved])))"
  "map_of (files (snd snap_new)) (filepath_Join [snapshot_dir (fst snap_new) ''x'', ''state.json'']) =
     Some (json_indent (state_val \<lparr>ns_SubnetID2ElasticSubnetID = Some []\<rparr>))"
  "fs_exists (snapshot_dir (fst snap_new) ''x'') (snd snap_new)"
  "net_given (fst snap_after) = net_given (fst snap_state)"
proof -
  have same: "snapshot_dir (fst snap_new) ''x'' = snapshot_dir (fst snap_state) ''x''"
    by (simp add: snap_new_def snap_state_def snapshot_dir_def)
  obtain w0 w1 where stop: "net_stop demo_env2 (fst snap_state, w0) = (Ok (), (fst snap_after, w1))"
    and wr: "write_snapshot demo_env2 (fst snap_after) (snapshot_dir (fst snap_state) ''x'')
      (map (\<lambda>(name, node). (name, n_dbDir node)) (ln_nodes (fst snap_state))) [snap_saved] w1 = (Ok (), snd snap_after)"
    using snap_after by (rule SaveSnapshot_Ok) (use snap_nodes(2) in \<open>auto simp: snap_nodes(1)\<close>)
  show given: "net_given (fst snap_after) = net_given (fst snap_state)"
    using presD [OF given_net_stop [of "net_given (fst snap_state)"] _ stop] by simp
  have el: "pres (\<lambda>s. ln_subnetID2ElasticSubnetID (fst s) = []) (net_stop demo_env2)"
    unfolding net_stop_def stop_one_def removeNode_def modL_def onW_def
    by (intro pres_intros pres_zoomP [where Q = "\<lambda>_. True"]) (auto intro: presI)
  have "ln_subnetID2ElasticSubnetID (fst snap_after) = []"
    using presD [OF el _ stop] by (simp add: snap_state_def demo_net0_def)
  then show "map_of (files (snd snap_new)) (filepath_Join [snapshot_dir (fst snap_new) ''x'', ''state.json'']) =
     Some (json_indent (state_val \<lparr>ns_SubnetID2ElasticSubnetID = Some []\<rparr>))"
    using write_snapshot_Ok(3) [OF wr] unfolding same by (auto simp: snap_new_def)
  show "map_of (files (snd snap_new)) (filepath_Join [snapshot_dir (fst snap_new) ''x'', ''network.json'']) =
     Some (json_indent (net_val (saved_config demo_env2 (fst snap_after) [snap_saved])))"
    using write_snapshot_Ok(1) [OF wr] unfolding same by (simp add: snap_new_def)
  have "snapshot_dir (fst snap_state) ''x'' \<noteq> []" by (simp add: snap_dir)
  then show "fs_exists (snapshot_dir (fst snap_new) ''x'') (snd snap_new)"
    using SaveSnapshot_result [OF snap_inv snap_wf snap_keys' snap_after] unfolding same
    by (auto simp: fs_exists_def snap_new_def)
qed

definition snap_loaded :: NodeConfig where
  "snap_loaded = snap_saved\<lparr>nc_Flags := Some [(''http-port'', VFloat 9650 0), (''staking-port'', VFloat 9651 0),
     (''db-dir'', VStr ''/tmp/net2/a/db'')]\<rparr>"

lemma snap_load_nodes:
  "\<exists>w'. load_nodes demo_env2 ''/tmp/net2'' db [] [] None None None None [node_read snap_saved] w =
     (Ok [snap_loaded], w') \<and> files w' = files w"
proof -
  have copy: "dircopy demo_env2 a b w = (Ok (), w\<lparr>clock := Suc (clock w)\<rparr>)" for a b w
    by (simp add: dircopy_def demo_env2_def demo_env_def modify_def)
  have db: "filepath_Join [filepath_Join [''/tmp/net2'', ''a''], defaultDBSubdir] = ''/tmp/net2/a/db''" by code_simp
  have keys: "DBPathKey demo_env2 = ''db-dir''" "TrackSubnetsKey demo_env2 = ''track-subnets''"
    "PluginDirKey demo_env2 = ''plugin-dir''" by (simp_all add: demo_env2_def demo_env_def)
  have "flags_read (Some [(''http-port'', VU16 9650), (''staking-port'', VU16 9651)]) =
      Some [(''http-port'', VFloat 9650 0), (''staking-port'', VFloat 9651 0)]"
    unfolding flags_read_def by code_simp
  then have nr: "node_read snap_saved = snap_saved\<lparr>nc_Flags :=
      Some [(''http-port'', VFloat 9650 0), (''staking-port'', VFloat 9651 0)]\<rparr>"
    by (simp add: node_read_def snap_saved_def snap_node_def demo_node_def strings_read_def)
  have nm: "nc_Name snap_saved = ''a''" by (simp add: snap_saved_def snap_node_def demo_node_def)
  have maps: "nc_ChainConfigFiles snap_saved = Some []" "nc_UpgradeConfigFiles snap_saved = Some []"
    "nc_SubnetConfigFiles snap_saved = Some []"
    by (simp_all add: snap_saved_def snap_node_def)
  have dep: "mapR (fix_node demo_env2) [node_read snap_saved] = Ok [node_read snap_saved]"
    by (simp add: fix_node_def fixDeprecatedLuxdFlags_def fix_deprecated_def nr deprecatedBuildDirKey_def
        deprecatedWhitelistedSubnetsKey_def)
  have add: "mapR (add_flags None) [node_read snap_saved] = Ok [node_read snap_saved]"
    by (simp add: add_flags_def mput_all_def)
  have ld: "load_db demo_env2 ''/tmp/net2'' db (node_read snap_saved) w = (Ok snap_loaded, w\<lparr>clock := Suc (clock w)\<rparr>)"
    by (simp add: load_db_def Let_def nr nm db bindP_def wrapP_def copy keys liftR_def ret_def snap_loaded_def)
  have cf: "add_configs None None None snap_loaded = Ok snap_loaded"
    by (simp add: add_configs_def mput_all_def snap_loaded_def maps)
  show ?thesis
    by (simp add: load_nodes_def dep add bindP_def ld ret_def liftR_def replace_binary_def replace_plugin_def cf
        del: mapR.simps(2)) (simp add: cf replace_plugin_def liftR_def)
qed

lemma snap_ReadFile:
  "map_of (files w) p = Some x \<Longrightarrow> os_ReadFile demo_env2 p w = (Ok x, w\<lparr>clock := Suc (clock w)\<rparr>)"
  by (simp add: os_ReadFile_def fs_op_def demo_env2_def demo_env_def ret_def)

lemma snap_given:
  "ln_genesis (fst snap_after) = demo_genesis" "ln_flags (fst snap_after) = None"
  "ln_chainConfigFiles (fst snap_after) = None" "ln_upgradeConfigFiles (fst snap_after) = None"
  "ln_subnetConfigFiles (fst snap_after) = None"
  using snap_files(4) by (simp_all add: net_given_def snap_state_def demo_net0_def)

lemma snap_load_state:
  assumes "files w = files (snd snap_new)"
  shows "load_state demo_env2 (snapshot_dir (fst snap_new) ''x'') (fst snap_new, w) =
    (Ok (), ((fst snap_new)\<lparr>ln_subnetID2ElasticSubnetID := []\<rparr>, w\<lparr>clock := Suc (clock w)\<rparr>))"
proof -
  have "unmarshal_state (json_indent (state_val \<lparr>ns_SubnetID2ElasticSubnetID = Some []\<rparr>)) =
      Ok \<lparr>ns_SubnetID2ElasticSubnetID = Some []\<rparr>"
    by (simp add: unmarshal_state_def json_value_indent state_val_def strings_val_def jfield_def)
  then show ?thesis using snap_files(2) assms
    by (simp add: load_state_def catchP_def bindP_def snap_ReadFile ret_def liftR_def modL_def modify_def)
qed

lemma snap_loadConfig:
  "\<exists>v. loadConfig demo_env2
     ((net_read (saved_config demo_env2 (fst snap_after) [snap_saved]))\<lparr>cfg_Flags := None, cfg_NodeConfigs := [snap_loaded]\<rparr>)
     ((fst snap_new)\<lparr>ln_subnetID2ElasticSubnetID := []\<rparr>, w) = (Ok (), v)"
proof -
  let ?c = "(net_read (saved_config demo_env2 (fst snap_after) [snap_saved]))\<lparr>cfg_Flags := None, cfg_NodeConfigs := [snap_loaded]\<rparr>"
  have valid: "NetConfig_Validate demo_env2 ?c = Ok ()"
    by (simp add: NetConfig_Validate_def net_read_def saved_config_def snap_given demo_genesis_id demo_genesis_nonempty
        snap_loaded_def snap_saved_def snap_node_def demo_node_def NodeConfig_Validate_def validateConfigFile_def)
  have "startable demo_env2 None snap_loaded"
    by (auto simp: startable_def demo_env2_def demo_env_def snap_loaded_def snap_saved_def snap_node_def demo_node_def
      readConfigFile_def flags_typed_def node_flags_typed_def map_add_def)
  then have "nc_Name snap_loaded \<noteq> [] \<and>
      addable demo_env2 ((fst snap_new)\<lparr>ln_subnetID2ElasticSubnetID := [], ln_flags := None\<rparr>) snap_loaded"
    by (simp add: addable_def snap_loaded_def snap_saved_def snap_node_def demo_node_def snap_new_def demo_net0_def)
  then show ?thesis
    by (intro loadConfig_succeeds [OF demo_smooth(2) demo_nodes(1) _ valid]) (simp_all add: snap_new_def demo_net0_def)
qed

lemma snap_load: "\<exists>v. loadSnapshot demo_env2 ''x'' [] [] None None None None snap_new = (Ok (), v)"
proof -
  let ?d = "snapshot_dir (fst snap_new) ''x''"
  let ?cfg = "net_read (saved_config demo_env2 (fst snap_after) [snap_saved])"
  let ?w1 = "(snd snap_new)\<lparr>clock := Suc (clock (snd snap_new))\<rparr>"
  let ?w2 = "?w1\<lparr>clock := Suc (clock ?w1)\<rparr>"
  have "wf_net (saved_config demo_env2 (fst snap_after) [snap_saved])"
    by (simp add: wf_net_def saved_config_def snap_given wf_flags_def wf_strings_def wf_node_def snap_saved_def snap_node_def)
  note read = unmarshal_net_indent [OF this]
  have cfg: "cfg_Genesis ?cfg = demo_genesis" "cfg_Flags ?cfg = None" "cfg_NodeConfigs ?cfg = [node_read snap_saved]"
    by (simp_all add: net_read_def saved_config_def snap_given flags_read_def)
  have rd: "ln_rootDir (fst snap_new) = ''/tmp/net2''" by (simp add: snap_new_def)
  have st: "stat_snapshot demo_env2 ?d ''x'' (snd snap_new) = (Ok (), ?w1)"
    using snap_files(3) by (simp add: stat_snapshot_def catchP_def os_Stat_eq demo_env2_def demo_env_def)
  obtain w3 where ln: "load_nodes demo_env2 ''/tmp/net2'' (filepath_Join [?d, defaultDBSubdir]) [] [] None None None None
      [node_read snap_saved] ?w2 = (Ok [snap_loaded], w3)" and w3: "files w3 = files (snd snap_new)"
    using snap_load_nodes [of _ ?w2] by auto
  obtain v where "loadConfig demo_env2 (?cfg\<lparr>cfg_Flags := None, cfg_NodeConfigs := [snap_loaded]\<rparr>)
      ((fst snap_new)\<lparr>ln_subnetID2ElasticSubnetID := []\<rparr>, w3\<lparr>clock := Suc (clock w3)\<rparr>) = (Ok (), v)"
    using snap_loadConfig by blast
  moreover have "fixDeprecatedLuxdFlags demo_env2 None = Ok None"
    by (simp add: fixDeprecatedLuxdFlags_def fix_deprecated_def)
  ultimately show ?thesis
    using st snap_files(1) read ln snap_load_state [OF w3] cfg rd
    by (simp add: loadSnapshot_def bindP_eq_Ok Let_def onW_eq_iff wrapP_eq_Ok snap_ReadFile)
qed

theorem network_config_roundtrip_witness:
  "\<exists>cfg'. unmarshal_net (json_indent (net_val demo_config2)) = Ok cfg' \<and> cfg_Genesis cfg' = demo_genesis \<and>
     length (cfg_NodeConfigs cfg') = 2"
proof -
  have "wf_net demo_config2"
    by (simp add: wf_net_def demo_config2_def demo_config_def wf_node_def demo_node_def wf_flags_def wf_strings_def)
  from network_config_roundtrip [OF this] show ?thesis
    by (auto simp: demo_config2_def demo_config_def dest!: list_all2_lengthD)
qed

theorem SaveSnapshot_correct_witness:
  "live_procs (snd snap_state) \<noteq> {} \<and> ln_nodes (fst snap_after) = [] \<and> live_procs (snd snap_after) = {} \<and>
   (\<exists>js cfg. map_of (files (snd snap_after)) (filepath_Join [''/tmp/snapshots/anr-snapshot-x'', ''network.json'']) = Some js \<and>
      unmarshal_net js = Ok cfg \<and> length (cfg_NodeConfigs cfg) = 1)"
proof -
  have "0 \<in> live_procs (snd snap_state)"
    by (simp add: live_procs_iff pid_live_def snap_state_def newNodeProcess_started np_Status_def)
  moreover have "length (ln_nodes (fst snap_state)) = 1" by (simp add: snap_state_def)
  ultimately show ?thesis
    using SaveSnapshot_correct [OF snap_inv snap_wf snap_keys' snap_after, unfolded snap_dir]
    by (fastforce dest!: list_all2_lengthD)
qed

theorem Save_load_roundtrip_witness:
  "\<exists>v. loadSnapshot demo_env2 ''x'' [] [] None None None None snap_new = (Ok (), v) \<and>
     set (mkeys (ln_nodes (fst v))) = {''a''} \<and>
     (\<exists>node. map_of (ln_nodes (fst v)) ''a'' = Some node \<and> n_apiPort node = 9650 \<and> n_p2pPort node = 9651)"
proof -
  obtain v where v: "loadSnapshot demo_env2 ''x'' [] [] None None None None snap_new = (Ok (), v)"
    using snap_load ..
  have new: "ln_nodes (fst snap_new) = []" "ln_snapshotsDir (fst snap_new) = ln_snapshotsDir (fst snap_state)"
    "\<not> ln_reassignPortsIfUsed (fst snap_new)" "snd snap_new = snd snap_after"
    by (simp_all add: snap_new_def demo_net0_def snap_state_def)
  have old: "map_of (ln_nodes (fst snap_state)) ''a'' = Some snap_node" "set (mkeys (ln_nodes (fst snap_state))) = {''a''}"
    by (simp_all add: snap_state_def mkeys_def)
  have disk: "map_of (files (snd snap_new)) p = map_of (files (snd snap_after)) p" for p by (simp only: new(4))
  have "mget None k = None" for k by simp
  note res = Save_load_roundtrip [OF snap_inv snap_wf snap_keys snap_after snap_new_inv new(1-3) disk this this v]
  have "n_apiPort snap_node = 9650" "n_p2pPort snap_node = 9651" by (simp_all add: snap_node_def)
  then show ?thesis using v res old by metis
qed

theorem SaveSnapshot_refused_witness:
  "\<exists>er t. SaveSnapshot demo_env2 [] snap_state = (Err er, t) \<and> ln_nodes (fst t) = [(''a'', snap_node)]"
  using SaveSnapshot_refused [of snap_state "[]" demo_env2] by (auto simp: snap_state_def)


end
