(* ===== verification/Blockchain_Theorems.thy ===== *)
theory Blockchain_Theorems
  imports Blockchain Snapshot_Theorems
begin

text \<open>
  Operations on subnets and blockchains: they keep the invariant of the network, and restarting nodes
  leaves each one tracking the right subnets.
\<close>

section \<open>Keeping a predicate of the network\<close>

definition net_P :: "(net_state \<Rightarrow> bool) \<Rightarrow> chain_state \<Rightarrow> bool" where
  "net_P P s \<longleftrightarrow> P (fst s)"

named_theorems chain_pres \<open>preservation of a predicate of the network by chain operations\<close>

lemma pres_onN: "pres P m \<Longrightarrow> pres (net_P P) (onN m)"
  unfolding onN_def by (rule pres_zoomP [where Q = P]) (auto simp: net_P_def)

lemma pres_getN [chain_pres]: "pres (net_P P) (getN f)"
  unfolding getN_def by (intro pres_onN pres_intros)

lemma pres_ask [chain_pres]: "pres P (onW tick) \<Longrightarrow> pres (net_P P) (ask f)"
  unfolding ask_def by (intro pres_intros pres_onN)

lemma pres_case_wait [pres_intros]:
  "pres P a \<Longrightarrow> (\<And>er. pres P (b er)) \<Longrightarrow> pres P c \<Longrightarrow> pres P (case x of OnStop \<Rightarrow> a | CtxDone er \<Rightarrow> b er | Timer \<Rightarrow> c)"
  by (cases x) auto

lemma pres_wait_until [chain_pres]: "pres P check \<Longrightarrow> pres P (wait_until check xs)"
proof (induction xs)
  case (Cons x xs)
  then show ?case unfolding wait_until.simps by (intro pres_intros) auto
qed (auto intro!: pres_intros)

lemma pres_tx_error [chain_pres]: "pres P m \<Longrightarrow> pres P (tx_error f n as m)"
  unfolding tx_error_def by (rule pres_wrapP)

lemma pres_issue [chain_pres]: "pres P (onW tick) \<Longrightarrow> pres (net_P P) (issue ce uri t)"
  unfolding issue_def by (intro pres_intros chain_pres) (simp_all add: net_P_def)

lemma pres_now [chain_pres]: "pres P (onW tick) \<Longrightarrow> pres (net_P P) (now ce)"
  unfolding now_def by (intro chain_pres)

text \<open>
  What the operations on subnets and chains rely on: a predicate of the network that does not depend on
  the files, and that adding and restarting nodes and writing to their configuration keep. All of
  them keep it then.
\<close>

locale network_keeps =
  fixes P :: "net_state \<Rightarrow> bool"
  assumes keep_world: "P (l, w) \<Longrightarrow> procs w' = procs w \<Longrightarrow> P (l, w')"
    and keep_elastic: "P (l, w) \<Longrightarrow> P (ln_subnetID2ElasticSubnetID_update f l, w)"
    and keep_addNode: "pres P (addNode e nc)"
    and keep_restartNode: "pres P (restartNode e n bin pd ts cc uc sc)"
    and keep_track: "pres P (track_one e ids ss vs rs n)"
    and keep_subnet_file: "pres (net_P P) (update_config n (put_subnet_config k v))"
    and keep_chain_file: "pres (net_P P) (update_config n (put_chain_config k v))"
    and keep_upgrade_file: "pres (net_P P) (update_config n (put_upgrade_config k v))"
begin

lemma keep_onW:
  assumes "\<And>ps. pres (same_procs ps) m"
  shows "pres P (onW m)"
proof (rule presI)
  fix s r t
  assume P: "P s" and run: "onW m s = (r, t)"
  then have "procs (snd t) = procs (snd s)" "fst t = fst s"
    using presD [OF assms [of "procs (snd s)"], of "snd s" r "snd t"] by (auto simp: onW_eq_iff same_procs_def)
  then show "P t" using P keep_world [of "fst s" "snd s" "snd t"] by (metis prod.collapse)
qed

lemma keep_tick [chain_pres]: "pres P (onW tick)"
  by (intro keep_onW fs_pres)

lemma keep_healthy: "pres P (healthy e)"
  unfolding healthy_def by (intro pres_intros chain_pres)

lemma keep_clients [chain_pres]:
  "pres (net_P P) getClientURI"
  "pres (net_P P) (newWallet ce uri txs)"
  "pres (net_P P) (the_participant n)"
  unfolding getClientURI_def newWallet_def the_participant_def
  by (intro pres_intros chain_pres)+

lemma keep_validators [chain_pres]:
  "pres (net_P P) (addPrimaryValidators e ce cli w)"
  "pres (net_P P) (createSubnets ce n w)"
  "pres (net_P P) (addSubnetValidators e ce cli w ids specs)"
  unfolding addPrimaryValidators_def add_primary_def createSubnets_def addSubnetValidators_def add_subnet_validator_def
  by (intro pres_intros chain_pres)+

lemma keep_participants_ready [chain_pres]: "pres (net_P P) (participants_ready vs names b)"
  by (induction names arbitrary: b) (auto intro!: pres_intros chain_pres)

lemma keep_subnets_ready [chain_pres]: "pres (net_P P) (subnets_ready ce cli specs xs)"
proof (induction xs)
  case (Cons x xs)
  then show ?case by (cases x) (auto intro!: pres_intros chain_pres)
qed (auto intro!: pres_intros)

lemma keep_waits [chain_pres]:
  "pres (net_P P) (waitPrimaryValidators ce cli)"
  "pres (net_P P) (waitSubnetValidators ce cli ids specs)"
  "pres (net_P P) (waitForCustomChainsReady e ce infos)"
  "pres (net_P P) (getSubnetValidatorsNodenames e ce subnet)"
  unfolding waitPrimaryValidators_def waitSubnetValidators_def primary_ready_def waitForCustomChainsReady_def
    getSubnetValidatorsNodenames_def wait_log_def wait_loop_def log_ready_def
  by (intro pres_intros chain_pres pres_onN keep_healthy keep_onW fs_pres)+

lemma keep_configs [chain_pres]:
  "pres (net_P P) (setSubnetConfigFiles e ids specs)"
  "pres (net_P P) (setBlockchainConfigFiles e ce cspecs txs ids specs)"
  unfolding setSubnetConfigFiles_def setBlockchainConfigFiles_def set_chain_files_def spec_participants_def
  by (intro pres_intros chain_pres keep_subnet_file keep_chain_file keep_upgrade_file)+

lemma keep_restartNodes: "pres P (restartNodes e ids ss vs rs ns)"
  unfolding restartNodes_def restart_one_def
  by (intro pres_intros keep_track keep_restartNode keep_healthy)

lemma keep_add_participant: "pres P (add_participant e n)"
  unfolding add_participant_def by (intro pres_intros keep_addNode)

lemma keep_chains [chain_pres]:
  "pres (net_P P) (reloadVMPlugins ce)"
  "pres (net_P P) (createBlockchainTxs e ce specs)"
  "pres (net_P P) (createBlockchains e ce specs txs w)"
  "pres (net_P P) (provision_subnets e ce cli w sspecs)"
  unfolding reloadVMPlugins_def createBlockchainTxs_def createBlockchains_def provision_subnets_def add_participants_def
  by (intro pres_intros chain_pres pres_onN keep_healthy keep_add_participant)+

lemma keep_installs [chain_pres]:
  "pres (net_P P) (installSubnets e ce sspecs)"
  "pres (net_P P) (installCustomChains e ce specs)"
  "pres (net_P P) (RegisterBlockchainAliases e ce infos specs)"
  unfolding installSubnets_def installCustomChains_def RegisterBlockchainAliases_def
  by (intro pres_intros chain_pres pres_onN keep_restartNodes)+

lemma keep_modL_elastic: "pres P (modL (ln_subnetID2ElasticSubnetID_update f))"
  unfolding modL_def by (rule pres_modify) (auto intro: keep_elastic)

lemma keep_chain_ops:
  "pres (net_P P) (CreateBlockchains e ce specs)"
  "pres (net_P P) (CreateSubnets e ce sspecs)"
  "pres (net_P P) (RemoveSubnetValidators e ce rspecs)"
  "pres (net_P P) (AddPermissionlessValidators e ce vspecs)"
  "pres (net_P P) (TransformSubnet e ce especs)"
  "pres (net_P P) (GetElasticSubnetID e sid)"
  unfolding CreateBlockchains_def CreateSubnets_def RemoveSubnetValidators_def removeSubnetValidators_def
    remove_validator_def AddPermissionlessValidators_def addPermissionlessValidators_def add_permissionless_def start_time_def
    TransformSubnet_def transformToElasticSubnets_def transform_one_def getXChainAssetID_def
    exportXChainToPChain_def importPChainFromXChain_def GetElasticSubnetID_def
  by (intro pres_intros chain_pres pres_onN keep_restartNodes keep_add_participant keep_healthy keep_modL_elastic)+

end

text \<open>The invariant of the network is such a predicate.\<close>

lemma pres_update_config:
  assumes "\<And>nc nc'. f nc = Ok nc' \<Longrightarrow> maps_made nc \<Longrightarrow> maps_made nc' \<and> nc_Name nc' = nc_Name nc"
  shows "pres (net_P net_inv) (update_config n f)"
proof (rule presI)
  fix s r t
  assume inv: "net_P net_inv s" and run: "update_config n f s = (r, t)"
  show "net_P net_inv t"
  proof (cases "map_of (ln_nodes (fst (fst s))) n")
    case None
    then show ?thesis using inv run
      by (auto simp: update_config_def the_participant_def getN_def onN_def zoomP_def bindP_def throw_def getL_def gets_def)
  next
    case (Some node)
    obtain q u where w: "write_config n node (f (n_config node)) (fst s) = (q, u)" by (rule prod.exhaust)
    have ok: "node_ok n node (procs (snd (fst s)))"
      using inv Some by (simp add: net_P_def net_inv_def net_ok_node)
    then have "maps_made nc \<and> nc_Name nc = n" if "f (n_config node) = Ok nc" for nc
      using assms [OF that] by (simp add: node_ok_def)
    from pres_write_config [OF Some _ this w] have "net_inv u" using inv by (simp add: net_P_def)
    moreover have "t = (u, snd s)"
      using run Some w
      by (cases q) (auto simp: update_config_def the_participant_def getN_def onN_def zoomP_def bindP_def getL_def gets_def
          ret_def)
    ultimately show ?thesis by (simp add: net_P_def)
  qed
qed

lemma pres_config_files:
  "pres (net_P net_inv) (update_config n (put_subnet_config k v))"
  "pres (net_P net_inv) (update_config n (put_chain_config k v))"
  "pres (net_P net_inv) (update_config n (put_upgrade_config k v))"
  unfolding put_subnet_config_def put_chain_config_def put_upgrade_config_def
  by (rule pres_update_config; force simp: maps_made_def)+

lemma pres_track_one: "pres net_inv (track_one e ids ss vs rs n)"
proof (rule presI)
  fix s r t
  assume inv: "net_inv s" and run: "track_one e ids ss vs rs n s = (r, t)"
  show "net_inv t"
  proof (cases "map_of (ln_nodes (fst s)) n")
    case None
    then show ?thesis using inv run by (simp add: track_one_def)
  next
    case (Some node)
    have ok: "node_ok n node (procs (snd s))" using inv Some by (simp add: net_inv_def net_ok_node)
    show ?thesis
    proof (cases "tracked_by e ids ss vs rs n node")
      case (Ok x)
      let ?r = "bindR (mput (TrackSubnetsKey e) (VStr (join_with '','' (sort (fst x)))) (nc_Flags (n_config node)))
        (\<lambda>fl. Ok ((n_config node)\<lparr>nc_Flags := fl\<rparr>))"
      obtain q u where w: "write_config n node ?r s = (q, u)" by (rule prod.exhaust)
      have "maps_made nc \<and> nc_Name nc = n" if "?r = Ok nc" for nc
        using that ok by (auto simp: node_ok_def maps_made_def)
      from pres_write_config [OF Some inv this w] have "net_inv u" .
      moreover have "t = u" using run Some Ok w
        by (cases x; cases q) (auto simp: track_one_def bindP_def [of "write_config n node _"] ret_def)
      ultimately show ?thesis by simp
    qed (use inv run Some in \<open>auto simp: track_one_def\<close>)
  qed
qed

interpretation inv: network_keeps net_inv
  by unfold_locales (auto simp: net_inv_def intro: pres_config_files pres_track_one pres_restartNode pres_addNode)

section \<open>Tracked subnets\<close>

text \<open>Which subnets the specifications name for a node.\<close>

definition added_subnets :: "string \<Rightarrow> PermissionlessValidatorSpec list \<Rightarrow> string set" where
  "added_subnets n specs = pvs_SubnetID ` {spec \<in> set specs. pvs_NodeName spec = n}"

definition removed_subnets :: "string \<Rightarrow> RemoveSubnetValidatorSpec list \<Rightarrow> string set" where
  "removed_subnets n specs = rsv_SubnetID ` {spec \<in> set specs. n \<in> set (rsv_NodeNames spec)}"

definition new_subnets :: "env \<Rightarrow> string \<Rightarrow> SubnetSpec list \<Rightarrow> string list \<Rightarrow> string set" where
  "new_subnets e n specs subnetIDs =
     {ids_String e (subnetIDs ! i) | i. i < length subnetIDs \<and> i < length specs \<and> n \<in> set (ss_Participants (specs ! i))}"

lemma track_added_result:
  "distinct (fst acc) \<Longrightarrow> distinct (fst (track_added n specs acc)) \<and>
   set (fst (track_added n specs acc)) = set (fst acc) \<union> added_subnets n specs \<and>
   snd (track_added n specs acc) = (snd acc \<or> added_subnets n specs \<noteq> {})"
proof (induction specs arbitrary: acc)
  case (Cons sp specs)
  have step: "track_added n (sp # specs) acc = track_added n specs
      (if pvs_NodeName sp = n then (List.insert (pvs_SubnetID sp) (fst acc), True) else acc)"
    by (simp add: track_added_def case_prod_beta)
  have sets: "added_subnets n (sp # specs) =
      (if pvs_NodeName sp = n then insert (pvs_SubnetID sp) (added_subnets n specs) else added_subnets n specs)"
    by (auto simp: added_subnets_def)
  show ?case unfolding step sets using Cons.IH Cons.prems by (cases acc) auto
qed (auto simp: track_added_def added_subnets_def)

lemma track_removed_inner:
  "fold (\<lambda>m (tracked, needs). if m = n then (removeAll sid tracked, True) else (tracked, needs)) names acc =
   (if n \<in> set names then (removeAll sid (fst acc), True) else acc)"
  by (induction names arbitrary: acc) (auto simp: removeAll_filter_not_eq)

lemma track_removed_result:
  "distinct (fst acc) \<Longrightarrow> distinct (fst (track_removed n specs acc)) \<and>
   set (fst (track_removed n specs acc)) = set (fst acc) - removed_subnets n specs \<and>
   snd (track_removed n specs acc) = (snd acc \<or> removed_subnets n specs \<noteq> {})"
proof (induction specs arbitrary: acc)
  case (Cons sp specs)
  have step: "track_removed n (sp # specs) acc = track_removed n specs
      (if n \<in> set (rsv_NodeNames sp) then (removeAll (rsv_SubnetID sp) (fst acc), True) else acc)"
    by (simp add: track_removed_def track_removed_inner)
  have sets: "removed_subnets n (sp # specs) =
      (if n \<in> set (rsv_NodeNames sp) then insert (rsv_SubnetID sp) (removed_subnets n specs) else removed_subnets n specs)"
    by (auto simp: removed_subnets_def)
  show ?case unfolding step sets using Cons.IH Cons.prems by (cases acc) (auto simp: distinct_removeAll)
qed (auto simp: track_removed_def removed_subnets_def)

lemma track_new_inner:
  "distinct (fst acc) \<Longrightarrow>
   fold (\<lambda>m (tracked, needs). if m = n then (List.insert sid tracked, True) else (tracked, needs)) names acc =
   (if n \<in> set names then (List.insert sid (fst acc), True) else acc)"
  by (induction names arbitrary: acc) (auto simp: case_prod_beta)

definition new_from :: "env \<Rightarrow> string \<Rightarrow> SubnetSpec list \<Rightarrow> (nat \<times> string) list \<Rightarrow> string set" where
  "new_from e n specs xs = {ids_String e sid | i sid. (i, sid) \<in> set xs \<and> i < length specs \<and> n \<in> set (ss_Participants (specs ! i))}"

lemma track_new_from:
  assumes "distinct (fst acc)"
    and "foldR (\<lambda>(i, subnetID) acc.
       bindR (at specs i) (\<lambda>spec.
       Ok (fold (\<lambda>participant (tracked, needsRestart).
             if participant = n then (List.insert (ids_String e subnetID) tracked, True)
             else (tracked, needsRestart)) (ss_Participants spec) acc))) xs acc = Ok r"
  shows "distinct (fst r) \<and> set (fst r) = set (fst acc) \<union> new_from e n specs xs \<and>
    snd r = (snd acc \<or> new_from e n specs xs \<noteq> {})"
  using assms
proof (induction xs arbitrary: acc)
  case (Cons x xs)
  obtain i sid where x: "x = (i, sid)" by (rule prod.exhaust)
  have i: "i < length specs" using Cons.prems(2) x by (auto simp: at_def split: if_splits)
  let ?acc = "if n \<in> set (ss_Participants (specs ! i)) then (List.insert (ids_String e sid) (fst acc), True) else acc"
  have sets: "new_from e n specs (x # xs) =
      (if n \<in> set (ss_Participants (specs ! i)) then insert (ids_String e sid) (new_from e n specs xs) else new_from e n specs xs)"
    using i x by (auto simp: new_from_def)
  have "distinct (fst ?acc)" using Cons.prems(1) by simp
  from Cons.IH [OF this] Cons.prems(2) show ?case
    using i x Cons.prems(1) unfolding sets by (auto simp: at_def track_new_inner split: if_splits)
qed (auto simp: new_from_def)

lemma new_from_enumerate: "new_from e n specs (List.enumerate 0 ids) = new_subnets e n specs ids"
  by (fastforce simp: new_from_def new_subnets_def in_set_enumerate_eq)

lemma tracked_by_Ok:
  assumes "tracked_by e ids ss vs rs n node = Ok (tr, needs)"
  obtains prev where "previous_tracked e node = Ok prev" "distinct tr"
    "set tr = (set prev \<union> added_subnets (n_name node) (slice vs) - removed_subnets (n_name node) (slice rs)) \<union>
       new_subnets e n (slice ss) ids"
    "needs = (added_subnets (n_name node) (slice vs) \<noteq> {} \<or> removed_subnets (n_name node) (slice rs) \<noteq> {} \<or>
       new_subnets e n (slice ss) ids \<noteq> {})"
proof -
  obtain prev where prev: "previous_tracked e node = Ok prev" and
    new: "track_new e n (slice ss) ids (track_removed (n_name node) (slice rs)
       (track_added (n_name node) (slice vs) (prev, False))) = Ok (tr, needs)"
    using assms by (auto simp: tracked_by_def)
  have d: "distinct prev"
    using prev by (auto simp: previous_tracked_def split: option.splits if_splits)
  note a = track_added_result [of "(prev, False)" "n_name node" "slice vs"]
  note r = track_removed_result [of "track_added (n_name node) (slice vs) (prev, False)" "n_name node" "slice rs"]
  have "distinct (fst (tr, needs)) \<and>
     set (fst (tr, needs)) = set (fst (track_removed (n_name node) (slice rs) (track_added (n_name node) (slice vs) (prev, False))))
       \<union> new_subnets e n (slice ss) ids \<and>
     snd (tr, needs) = (snd (track_removed (n_name node) (slice rs) (track_added (n_name node) (slice vs) (prev, False)))
       \<or> new_subnets e n (slice ss) ids \<noteq> {})"
    unfolding new_from_enumerate [symmetric]
    by (rule track_new_from) (use a r d new in \<open>simp_all add: track_new_def\<close>)
  then show thesis using that [OF prev] a r d by auto
qed

section \<open>Restarting\<close>

text \<open>A restarted node: a new process, the flags of its configuration kept, all other nodes as before.\<close>

lemma removeNode_procs:
  "removeNode e n s = (r, t) \<Longrightarrow> length (procs (snd t)) = length (procs (snd s))"
  by (cases s) (auto simp: removeNode_def bindP_def getL_def gets_def modL_def modify_def throw_def ret_def proc_Stop_eq
      split: option.splits if_splits prod.splits)

lemma restart_flags_get:
  assumes "mput_all (restart_flags e node [] []) m = Ok m'" "k \<notin> fst ` set (keep_flags e node)"
  shows "mget m' k = mget m k"
  using assms by (intro mput_all_get) (simp_all add: restart_flags_def)

lemma track_not_kept:
  "distinct (flag_names e) \<Longrightarrow> TrackSubnetsKey e \<notin> fst ` set (keep_flags e node)"
  unfolding flag_names_def keep_flags_def by auto

definition restarted :: "env \<Rightarrow> string \<Rightarrow> localNode \<Rightarrow> net_state \<Rightarrow> localNode \<Rightarrow> net_state \<Rightarrow> bool" where
  "restarted e n node s node' t \<longleftrightarrow>
     map_of (ln_nodes (fst t)) = (map_of (ln_nodes (fst s)))(n \<mapsto> node') \<and> \<not> n_paused node' \<and>
     n_process node' \<in> live_procs (snd t) \<and> length (procs (snd s)) \<le> n_process node' \<and>
     live_procs (snd s) - {n_process node} \<subseteq> live_procs (snd t) \<and>
     mget (nc_Flags (n_config node')) (TrackSubnetsKey e) = mget (nc_Flags (n_config node)) (TrackSubnetsKey e)"

lemma restartNode_Ok:
  assumes inv: "net_inv s" and keys: "distinct (flag_names e)"
    and node: "map_of (ln_nodes (fst s)) n = Some node" "\<not> n_paused node"
    and fl: "mget (nc_Flags (n_config node)) (TrackSubnetsKey e) \<noteq> None"
    and run: "restartNode e n [] [] [] None None None s = (Ok (), t)"
  obtains node' where "restarted e n node s node' t"
proof -
  have ok: "node_ok n node (procs (snd s))" using inv node by (simp add: net_inv_def net_ok_node)
  obtain stored u v node' where
    wr: "write_config n node (bindR (mput_all (restart_flags e node [] []) (nc_Flags (n_config node))) (\<lambda>fl.
       bindR (mput_all (mrange None) (nc_ChainConfigFiles (n_config node))) (\<lambda>ccf.
       bindR (mput_all (mrange None) (nc_UpgradeConfigFiles (n_config node))) (\<lambda>ucf.
       bindR (mput_all (mrange None) (nc_SubnetConfigFiles (n_config node))) (\<lambda>scf.
       Ok ((n_config node)\<lparr>nc_Flags := fl, nc_ChainConfigFiles := ccf,
             nc_UpgradeConfigFiles := ucf, nc_SubnetConfigFiles := scf\<rparr>)))))) s = (Ok stored, u)"
    and rm: "removeNode e n u = (Ok (), v)" and add: "addNode e stored v = (Ok node', t)"
    using run node by (auto simp: restartNode_def bindP_eq_Ok)
  have inv_u: "net_inv u"
    by (rule pres_write_config [OF node(1) inv _ wr]) (use ok in \<open>auto simp: node_ok_def maps_made_def dest: mput_all_made\<close>)
  have u: "u = (ln_nodes_update (AList.update n (node\<lparr>n_config := stored\<rparr>)) (fst s), snd s)"
    and st: "mget (nc_Flags stored) (TrackSubnetsKey e) = mget (nc_Flags (n_config node)) (TrackSubnetsKey e)"
      "nc_Name stored = n"
    using wr ok restart_flags_get [OF _ track_not_kept [OF keys]]
    by (auto simp: write_config_def bindP_eq_Ok node_ok_def)
  have nu: "map_of (ln_nodes (fst u)) n = Some (node\<lparr>n_config := stored\<rparr>)" using u by simp
  note res = removeNode_result [OF inv_u nu rm]
  note added = addNode_added [OF add]
  have name: "n_name node' = n" using added st(2) ok by (simp add: node_added_def node_ok_def)
  obtain nc' pz d nid x where prep: "prepareNode e stored v = (Ok (nc', pz, d, nid), x)" "n_config node' = nc'"
    using add by (rule addNode_Ok) blast
  have "mget (nc_Flags (n_config node')) (TrackSubnetsKey e) = mget (nc_Flags (n_config node)) (TrackSubnetsKey e)"
    using prepareNode_Ok [OF prep(1)] prep(2) st(1) fl by (auto simp: map_add_def split: option.splits)
  moreover have "map_of (ln_nodes (fst t)) = (map_of (ln_nodes (fst s)))(n \<mapsto> node')"
    using added name res(1) u by (auto simp: node_added_def fun_eq_iff)
  moreover have "live_procs (snd v) \<subseteq> live_procs (snd t)"
    using added by (auto simp: node_added_def live_procs_iff pid_live_snoc)
  then have "live_procs (snd s) - {n_process node} \<subseteq> live_procs (snd t)"
    using res(2) u by auto
  moreover have "length (procs (snd v)) = length (procs (snd s))" using removeNode_procs [OF rm] u by simp
  moreover have "n_process node' = length (procs (snd v))" using added by (simp add: node_added_def)
  ultimately show thesis
    using that [of node'] node_added_running [OF added] by (simp add: restarted_def live_procs_iff)
qed

text \<open>What one turn of the loop does to its node.\<close>

definition tracks :: "env \<Rightarrow> localNode \<Rightarrow> string list \<Rightarrow> bool" where
  "tracks e node tr \<longleftrightarrow> mget (nc_Flags (n_config node)) (TrackSubnetsKey e) = Some (VStr (join_with '','' (sort tr)))"

definition turn_done ::
  "env \<Rightarrow> bool \<Rightarrow> string \<Rightarrow> localNode \<Rightarrow> string list \<Rightarrow> net_state \<Rightarrow> localNode \<Rightarrow> net_state \<Rightarrow> bool" where
  "turn_done e again n node tr s node' t \<longleftrightarrow>
     map_of (ln_nodes (fst t)) = (map_of (ln_nodes (fst s)))(n \<mapsto> node') \<and> tracks e node' tr \<and>
     n_paused node' = n_paused node \<and> length (procs (snd s)) \<le> length (procs (snd t)) \<and>
     live_procs (snd s) - {n_process node} \<subseteq> live_procs (snd t) \<and>
     (if again \<and> \<not> n_paused node then n_process node' \<in> live_procs (snd t) \<and> length (procs (snd s)) \<le> n_process node'
      else n_process node' = n_process node \<and> live_procs (snd t) = live_procs (snd s))"

lemma track_one_Ok:
  assumes "track_one e ids ss vs rs n s = (Ok (node, needs), u)"
  obtains tr node1 where "map_of (ln_nodes (fst s)) n = Some node" "tracked_by e ids ss vs rs n node = Ok (tr, needs)"
    "map_of (ln_nodes (fst u)) = (map_of (ln_nodes (fst s)))(n \<mapsto> node1)" "snd u = snd s" "tracks e node1 tr"
    "n_process node1 = n_process node" "n_paused node1 = n_paused node"
proof -
  from assms obtain tr xs where tr: "map_of (ln_nodes (fst s)) n = Some node"
    "tracked_by e ids ss vs rs n node = Ok (tr, needs)" "nc_Flags (n_config node) = Some xs"
    and u: "u = (ln_nodes_update (AList.update n (node\<lparr>n_config := (n_config node)\<lparr>nc_Flags :=
      Some (AList.update (TrackSubnetsKey e) (VStr (join_with '','' (sort tr))) xs)\<rparr>\<rparr>)) (fst s), snd s)"
    by (auto simp: track_one_def bindP_eq_Ok write_config_def split: option.splits prod.splits)
  let ?node1 = "node\<lparr>n_config := (n_config node)\<lparr>nc_Flags :=
      Some (AList.update (TrackSubnetsKey e) (VStr (join_with '','' (sort tr))) xs)\<rparr>\<rparr>"
  show thesis by (rule that [OF tr(1,2), of ?node1]) (simp_all add: u tracks_def)
qed

definition again :: "SubnetSpec list option \<Rightarrow> string set \<Rightarrow> string \<Rightarrow> bool \<Rightarrow> bool" where
  "again ss ns n needs \<longleftrightarrow> needs \<or> ss \<noteq> None \<and> n \<in> ns"

lemma restart_one_Ok:
  assumes inv: "net_inv s" and keys: "distinct (flag_names e)"
    and run: "restart_one e ids ss vs rs ns n s = (Ok (), t)"
  obtains node node' tr needs where "map_of (ln_nodes (fst s)) n = Some node"
    "tracked_by e ids ss vs rs n node = Ok (tr, needs)" "turn_done e (again ss ns n needs) n node tr s node' t"
proof -
  obtain node needs u where tk: "track_one e ids ss vs rs n s = (Ok (node, needs), u)"
    and rest: "(if \<not> again ss ns n needs then ret () else if n_paused node then ret ()
      else restartNode e n [] [] [] None None None) u = (Ok (), t)"
    using run by (auto simp: restart_one_def bindP_eq_Ok Let_def again_def)
  obtain tr node1 where 1: "map_of (ln_nodes (fst s)) n = Some node" "tracked_by e ids ss vs rs n node = Ok (tr, needs)"
    "map_of (ln_nodes (fst u)) = (map_of (ln_nodes (fst s)))(n \<mapsto> node1)" "snd u = snd s" "tracks e node1 tr"
    "n_process node1 = n_process node" "n_paused node1 = n_paused node"
    using track_one_Ok [OF tk] by metis
  show thesis
  proof (cases "again ss ns n needs \<and> \<not> n_paused node")
    case True
    then have "restartNode e n [] [] [] None None None u = (Ok (), t)" using rest by simp
    then obtain node' where "restarted e n node1 u node' t"
      using restartNode_Ok [OF presD [OF pres_track_one inv tk] keys, of n node1 t] 1 True
      by (auto simp: tracks_def)
    then have "turn_done e (again ss ns n needs) n node tr s node' t"
      using 1 True by (auto simp: restarted_def turn_done_def tracks_def live_procs_def)
    then show thesis using that 1 by blast
  next
    case False
    then have "t = u" using rest by (auto split: if_splits)
    then have "turn_done e (again ss ns n needs) n node tr s node1 t"
      using 1 False by (auto simp: turn_done_def)
    then show thesis using that 1 by blast
  qed
qed

text \<open>The whole loop, for a node of the list and for one that is not in it.\<close>

definition turned ::
  "env \<Rightarrow> string list \<Rightarrow> SubnetSpec list option \<Rightarrow> PermissionlessValidatorSpec list option \<Rightarrow>
   RemoveSubnetValidatorSpec list option \<Rightarrow> string set \<Rightarrow> string \<Rightarrow> net_state \<Rightarrow> net_state \<Rightarrow> bool" where
  "turned e ids ss vs rs ns n s t \<longleftrightarrow>
     (\<exists>node node' tr needs. map_of (ln_nodes (fst s)) n = Some node \<and>
        map_of (ln_nodes (fst t)) n = Some node' \<and> tracked_by e ids ss vs rs n node = Ok (tr, needs) \<and>
        tracks e node' tr \<and> n_paused node' = n_paused node \<and>
        (if again ss ns n needs \<and> \<not> n_paused node
         then n_process node' \<in> live_procs (snd t) \<and> length (procs (snd s)) \<le> n_process node'
         else n_process node' = n_process node \<and>
           (n_process node \<in> live_procs (snd s) \<longrightarrow> n_process node \<in> live_procs (snd t))))"

definition all_turns ::
  "env \<Rightarrow> string list \<Rightarrow> SubnetSpec list option \<Rightarrow> PermissionlessValidatorSpec list option \<Rightarrow>
   RemoveSubnetValidatorSpec list option \<Rightarrow> string set \<Rightarrow> string list \<Rightarrow> net_state \<Rightarrow> net_state \<Rightarrow> bool" where
  "all_turns e ids ss vs rs ns names s t \<longleftrightarrow>
     (\<forall>n. n \<notin> set names \<longrightarrow> map_of (ln_nodes (fst t)) n = map_of (ln_nodes (fst s)) n) \<and>
     (\<forall>n node. n \<notin> set names \<longrightarrow> map_of (ln_nodes (fst s)) n = Some node \<longrightarrow>
        n_process node \<in> live_procs (snd s) \<longrightarrow> n_process node \<in> live_procs (snd t)) \<and>
     (\<forall>n \<in> set names. turned e ids ss vs rs ns n s t)"

lemma turned_earlier:
  assumes later: "turned e ids ss vs rs ns k u t" and node: "map_of (ln_nodes (fst u)) k = map_of (ln_nodes (fst s)) k"
    and live: "\<And>a. map_of (ln_nodes (fst s)) k = Some a \<Longrightarrow> n_process a \<in> live_procs (snd s) \<Longrightarrow>
      n_process a \<in> live_procs (snd u)"
    and len: "length (procs (snd s)) \<le> length (procs (snd u))"
  shows "turned e ids ss vs rs ns k s t"
proof -
  obtain a a' tra na where a: "map_of (ln_nodes (fst u)) k = Some a"
    "map_of (ln_nodes (fst t)) k = Some a'" "tracked_by e ids ss vs rs k a = Ok (tra, na)"
    "tracks e a' tra" "n_paused a' = n_paused a"
    "if again ss ns k na \<and> \<not> n_paused a
       then n_process a' \<in> live_procs (snd t) \<and> length (procs (snd u)) \<le> n_process a'
       else n_process a' = n_process a \<and> (n_process a \<in> live_procs (snd u) \<longrightarrow> n_process a \<in> live_procs (snd t))"
    using later unfolding turned_def by blast
  have sa: "map_of (ln_nodes (fst s)) k = Some a" using a(1) node by simp
  with a(6) len live [OF sa] have "if again ss ns k na \<and> \<not> n_paused a
       then n_process a' \<in> live_procs (snd t) \<and> length (procs (snd s)) \<le> n_process a'
       else n_process a' = n_process a \<and> (n_process a \<in> live_procs (snd s) \<longrightarrow> n_process a \<in> live_procs (snd t))"
    by (auto split: if_splits)
  with sa a(2-5) show ?thesis unfolding turned_def by blast
qed

lemma restart_loop:
  "net_inv s \<Longrightarrow> distinct (flag_names e) \<Longrightarrow> distinct names \<Longrightarrow>
   forP names (restart_one e ids ss vs rs ns) s = (Ok (), t) \<Longrightarrow> all_turns e ids ss vs rs ns names s t"
proof (induction names arbitrary: s)
  case (Cons n names)
  from Cons.prems(4) obtain u where one: "restart_one e ids ss vs rs ns n s = (Ok (), u)"
    and rest: "forP names (restart_one e ids ss vs rs ns) u = (Ok (), t)"
    by (auto simp: bindP_eq_Ok)
  obtain node node' tr needs where 1: "map_of (ln_nodes (fst s)) n = Some node"
    "tracked_by e ids ss vs rs n node = Ok (tr, needs)" "turn_done e (again ss ns n needs) n node tr s node' u"
    using restart_one_Ok [OF Cons.prems(1,2) one] by metis
  have "pres net_inv (restart_one e ids ss vs rs ns n)"
    unfolding restart_one_def by (intro pres_intros pres_track_one pres_restartNode)
  from presD [OF this Cons.prems(1) one] have later: "all_turns e ids ss vs rs ns names u t"
    using Cons.IH [OF _ Cons.prems(2) _ rest] Cons.prems(3) by simp
  have nn: "n \<notin> set names" using Cons.prems(3) by simp
  have nodes: "map_of (ln_nodes (fst u)) = (map_of (ln_nodes (fst s)))(n \<mapsto> node')"
    and live: "live_procs (snd s) - {n_process node} \<subseteq> live_procs (snd u)"
    and len: "length (procs (snd s)) \<le> length (procs (snd u))"
    using 1(3) by (simp_all add: turn_done_def)
  have other: "n_process m \<in> live_procs (snd u)"
    if "map_of (ln_nodes (fst s)) k = Some m" "n_process m \<in> live_procs (snd s)" "k \<noteq> n" for k m
    using Cons.prems(1) that 1(1) net_ok_inj live unfolding net_inv_def by (metis Diff_iff empty_iff insertE subsetD)
  have "map_of (ln_nodes (fst t)) n = Some node'"
    "n_process node' \<in> live_procs (snd u) \<Longrightarrow> n_process node' \<in> live_procs (snd t)"
    using later nn nodes by (auto simp: all_turns_def)
  then have "turned e ids ss vs rs ns n s t"
    unfolding turned_def using 1 by (intro exI [of _ node] exI [of _ node'] exI [of _ tr] exI [of _ needs])
      (auto simp: turn_done_def split: if_splits)
  moreover have "turned e ids ss vs rs ns k s t" if k: "k \<in> set names" for k
  proof -
    have kn: "k \<noteq> n" using nn k by auto
    with k later nodes len other show ?thesis by (intro turned_earlier [of e ids ss vs rs ns k u t s]) (auto simp: all_turns_def)
  qed
  moreover have "map_of (ln_nodes (fst t)) k = map_of (ln_nodes (fst s)) k \<and>
     (\<forall>a. map_of (ln_nodes (fst s)) k = Some a \<longrightarrow> n_process a \<in> live_procs (snd s) \<longrightarrow> n_process a \<in> live_procs (snd t))"
    if "k \<notin> set (n # names)" for k
    using later that nodes other by (auto simp: all_turns_def)
  ultimately show ?case by (simp add: all_turns_def)
qed (simp add: all_turns_def)

lemma quiet_healthy: "pres (quiet ns ps) (healthy e)"
  unfolding healthy_def by (intro pres_intros pres_onW fs_pres)

lemma restartNodes_Ok:
  assumes inv: "net_inv s" and keys: "distinct (flag_names e)"
    and run: "restartNodes e ids ss vs rs ns s = (Ok (), t)" and node: "map_of (ln_nodes (fst s)) n = Some node"
  shows "turned e ids ss vs rs ns n s t"
proof -
  let ?names = "sort (mkeys (ln_nodes (fst s)))"
  obtain u where loop: "forP ?names (restart_one e ids ss vs rs ns) s = (Ok (), u)" and h: "healthy e u = (Ok (), t)"
    using run by (auto simp: restartNodes_def bindP_eq_Ok split: if_splits)
  have "quiet (ln_nodes (fst u)) (procs (snd u)) t"
    by (rule presD [OF quiet_healthy _ h]) (simp add: quiet_def)
  then have same: "ln_nodes (fst t) = ln_nodes (fst u)" "live_procs (snd t) = live_procs (snd u)"
    by (simp_all add: quiet_def live_procs_def proc_Status_def)
  have "distinct ?names" using inv by (simp add: net_inv_def net_ok_def wf_gmap_def mkeys_def)
  moreover have "n \<in> set ?names" using node by (force simp: mkeys_def dest: map_of_SomeD)
  ultimately have "turned e ids ss vs rs ns n s u"
    using restart_loop [OF inv keys _ loop] by (simp add: all_turns_def)
  then show ?thesis unfolding turned_def same .
qed

section \<open>Chains that are created\<close>

text \<open>The identifiers of the chain creations in the log of issued transactions.\<close>

fun create_id :: "issued \<Rightarrow> string list" where
  "create_id (uri, CreateChainTx tx, i) = [i]"
| "create_id _ = []"

definition creates :: "issued list \<Rightarrow> string list" where
  "creates txs = concat (map create_id txs)"

definition same_creates :: "string list \<Rightarrow> chain_state \<Rightarrow> bool" where
  "same_creates x s \<longleftrightarrow> creates (snd s) = x"

named_theorems create_pres \<open>code that creates no chain\<close>

lemma creates_onN [create_pres]: "pres (same_creates x) (onN m)"
  by (rule presI) (auto simp: onN_def zoomP_def same_creates_def split: prod.splits)

lemma creates_ask [create_pres]: "pres (same_creates x) (getN f)" "pres (same_creates x) (ask g)"
  unfolding getN_def ask_def by (intro pres_intros create_pres)+

lemma creates_issue:
  "create_id (uri, t, []) = [] \<Longrightarrow> pres (same_creates x) (issue ce uri t)"
  unfolding issue_def by (intro pres_intros create_pres) (cases t; simp add: same_creates_def creates_def)

lemmas creates_issues [create_pres] =
  creates_issue [of uri "AddPermissionlessValidatorTx a b c d" for uri a b c d, simplified]
  creates_issue [of uri "AddSubnetValidatorTx a" for uri a, simplified]
  creates_issue [of uri CreateSubnetTx for uri, simplified]

lemma creates_simple [create_pres]:
  "pres (same_creates x) getClientURI" "pres (same_creates x) (newWallet ce uri txs)"
  "pres (same_creates x) (the_participant n)" "pres (same_creates x) (now ce)"
  "pres (same_creates x) (update_config n f)" "pres (same_creates x) (getSubnetValidatorsNodenames e ce sid)"
  unfolding getClientURI_def newWallet_def the_participant_def now_def update_config_def getSubnetValidatorsNodenames_def
  by (intro pres_intros create_pres)+

lemma creates_participants [create_pres]: "pres (same_creates x) (participants_ready vs names b)"
  by (induction names arbitrary: b) (auto intro!: pres_intros create_pres)

lemma creates_subnets_ready [create_pres]: "pres (same_creates x) (subnets_ready ce cli specs xs)"
proof (induction xs)
  case (Cons y xs)
  then show ?case by (cases y) (auto intro!: pres_intros create_pres)
qed (auto intro!: pres_intros)

lemma creates_steps [create_pres]:
  "pres (same_creates x) (provision_subnets e ce cli w sspecs)"
  "pres (same_creates x) (waitPrimaryValidators ce cli)"
  "pres (same_creates x) (waitSubnetValidators ce cli ids sspecs)"
  "pres (same_creates x) (addSubnetValidators e ce cli w ids sspecs)"
  "pres (same_creates x) (createBlockchainTxs e ce specs)"
  "pres (same_creates x) (setBlockchainConfigFiles e ce specs txs ids sspecs)"
  "pres (same_creates x) (reloadVMPlugins ce)"
  "pres (same_creates x) (waitForCustomChainsReady e ce infos)"
  "pres (same_creates x) (RegisterBlockchainAliases e ce infos specs)"
  unfolding provision_subnets_def addPrimaryValidators_def add_primary_def createSubnets_def setSubnetConfigFiles_def
    waitPrimaryValidators_def waitSubnetValidators_def wait_loop_def primary_ready_def addSubnetValidators_def
    add_subnet_validator_def createBlockchainTxs_def setBlockchainConfigFiles_def set_chain_files_def
    spec_participants_def reloadVMPlugins_def waitForCustomChainsReady_def wait_log_def log_ready_def
    RegisterBlockchainAliases_def tx_error_def
  by (intro pres_intros create_pres pres_wait_until)+

lemma createBlockchains_from:
  assumes "forP (List.enumerate k specs) (\<lambda>(i, spec).
       bindP (liftR (VMID e (bs_VMName spec))) (\<lambda>vmID.
       bindP (liftR (at txs i)) (\<lambda>tx.
       bindP (tx_error ''P-Wallet Tx Error %s %w, blockchainID %s'' ''IssueCreateBlockchainTx''
                [ids_String e (tx_ID ce tx)] (issue ce uri (CreateChainTx tx))) (\<lambda>blockchainID.
       if blockchainID \<noteq> tx_ID ce tx
       then throw (Errorf ''failure issuing create blockchain: txID differs from blockchainID'' [])
       else ret ())))) s = (Ok (), t)"
  shows "creates (snd t) = creates (snd s) @ map (\<lambda>i. tx_ID ce (txs ! i)) [k..<k + length specs]"
  using assms
proof (induction specs arbitrary: k s)
  case (Cons sp specs)
  then obtain u v where k: "k < length txs" and
    iss: "issue ce uri (CreateChainTx (txs ! k)) s = (Ok (tx_ID ce (txs ! k)), u)"
    and rest: "forP (List.enumerate (Suc k) specs) (\<lambda>(i, spec).
       bindP (liftR (VMID e (bs_VMName spec))) (\<lambda>vmID.
       bindP (liftR (at txs i)) (\<lambda>tx.
       bindP (tx_error ''P-Wallet Tx Error %s %w, blockchainID %s'' ''IssueCreateBlockchainTx''
                [ids_String e (tx_ID ce tx)] (issue ce uri (CreateChainTx tx))) (\<lambda>blockchainID.
       if blockchainID \<noteq> tx_ID ce tx
       then throw (Errorf ''failure issuing create blockchain: txID differs from blockchainID'' [])
       else ret ())))) u = (Ok (), t)"
    by (auto simp: bindP_eq_Ok at_def tx_error_def wrapP_eq_Ok split: if_splits)
  have "creates (snd u) = creates (snd s) @ [tx_ID ce (txs ! k)]"
    using iss by (auto simp: issue_def bindP_eq_Ok ask_def onN_def zoomP_def creates_def split: prod.splits)
  moreover have "[k..<k + length (sp # specs)] = k # [Suc k..<Suc k + length specs]"
    by (simp add: upt_conv_Cons del: upt_Suc)
  ultimately show ?case using Cons.IH [OF rest] by (simp del: upt_Suc)
qed simp

section \<open>The client\<close>

definition client_nodes :: "localNetwork \<Rightarrow> localNode set" where
  "client_nodes l = {node \<in> snd ` set (ln_nodes l). \<not> n_paused node \<and> n_apiPort node < of_nat MaxPort}"

definition low_nodes :: "16 word \<Rightarrow> localNode gmap \<Rightarrow> localNode set" where
  "low_nodes m ns = {node \<in> snd ` set ns. \<not> n_paused node \<and> n_apiPort node < m}"

lemma min_node_result:
  "(low_nodes m ns = {} \<longrightarrow> min_node m acc ns = acc) \<and>
   (low_nodes m ns \<noteq> {} \<longrightarrow> (\<exists>node \<in> low_nodes m ns. min_node m acc ns = Some node \<and>
      (\<forall>other \<in> low_nodes m ns. n_apiPort node \<le> n_apiPort other)))"
proof (induction ns arbitrary: m acc)
  case (Cons x ns)
  obtain k n where x: "x = (k, n)" by (rule prod.exhaust)
  show ?case
  proof (cases "\<not> n_paused n \<and> n_apiPort n < m")
    case True
    then have low: "low_nodes m (x # ns) = insert n (low_nodes m ns)" "low_nodes (n_apiPort n) ns \<subseteq> low_nodes m ns"
      by (auto simp: low_nodes_def x)
    have step: "min_node m acc (x # ns) = min_node (n_apiPort n) (Some n) ns" using True by (simp add: x)
    show ?thesis
    proof (cases "low_nodes (n_apiPort n) ns = {}")
      case True
      then have "min_node (n_apiPort n) (Some n) ns = Some n" using Cons.IH [of "n_apiPort n" "Some n"] by simp
      moreover have "\<forall>other \<in> low_nodes m ns. n_apiPort n \<le> n_apiPort other"
        using True by (auto simp: low_nodes_def not_less)
      ultimately show ?thesis using step low by auto
    next
      case False
      then obtain node where node: "node \<in> low_nodes (n_apiPort n) ns" "min_node (n_apiPort n) (Some n) ns = Some node"
        "\<forall>other \<in> low_nodes (n_apiPort n) ns. n_apiPort node \<le> n_apiPort other"
        using Cons.IH [of "n_apiPort n" "Some n"] by blast
      have "n_apiPort node \<le> n_apiPort other" if "other \<in> insert n (low_nodes m ns)" for other
      proof (cases "n_apiPort other < n_apiPort n")
        case True
        with that show ?thesis using node(3) by (auto simp: low_nodes_def)
      next
        case False
        then show ?thesis using node(1) by (auto simp: low_nodes_def)
      qed
      then show ?thesis using step low node by auto
    qed
  next
    case False
    then have "low_nodes m (x # ns) = low_nodes m ns" "min_node m acc (x # ns) = min_node m acc ns"
      by (auto simp: low_nodes_def x)
    then show ?thesis using Cons.IH [of m acc] by simp
  qed
qed (simp add: low_nodes_def)

text \<open>
  C13. The node that serves the client of the chain operations (\<^verbatim>\<open>getNode\<close>, \<^verbatim>\<open>getClientURI\<close>): among the nodes that
  are not paused and whose API port is below 65535, one with the least API port, and its URI is the
  answer. If there is no such node the code dereferences nil. Nothing is changed.
\<close>

theorem getClientURI_correct:
  "if client_nodes (fst (fst s)) = {}
   then getClientURI s = (Panic ''nil pointer dereference'', s)
   else \<exists>node \<in> client_nodes (fst (fst s)). getClientURI s = (Ok (node_uri node), s) \<and>
          n_apiPort node = Min (n_apiPort ` client_nodes (fst (fst s)))"
proof -
  let ?l = "fst (fst s)"
  have eq: "low_nodes (of_nat MaxPort) (ln_nodes ?l) = client_nodes ?l" by (simp add: low_nodes_def client_nodes_def)
  have run: "getClientURI s = (case chain_getNode ?l of None \<Rightarrow> (Panic ''nil pointer dereference'', s)
      | Some n \<Rightarrow> (Ok (node_uri n), s))"
    by (cases s) (auto simp: getClientURI_def getN_def onN_def zoomP_def bindP_def getL_def gets_def panic_def ret_def
        split: option.splits)
  note res = min_node_result [where m = "of_nat MaxPort" and acc = None and ns = "ln_nodes ?l", unfolded eq, folded chain_getNode_def]
  show ?thesis
  proof (cases "client_nodes ?l = {}")
    case True
    then show ?thesis using res run by simp
  next
    case False
    then obtain node where node: "node \<in> client_nodes ?l" "chain_getNode ?l = Some node"
      "\<forall>other \<in> client_nodes ?l. n_apiPort node \<le> n_apiPort other" using res by blast
    have "finite (client_nodes ?l)" by (simp add: client_nodes_def)
    then have "n_apiPort node = Min (n_apiPort ` client_nodes ?l)"
      using node by (intro Min_eqI [symmetric]) auto
    then show ?thesis using False node run by auto
  qed
qed

section \<open>The properties\<close>

lemma pres_chain_inv: "pres (net_P net_inv) m \<Longrightarrow> net_inv n \<Longrightarrow> net_inv (fst (snd (m (n, txs))))"
  using presD [of "net_P net_inv" m "(n, txs)"] by (cases "m (n, txs)") (auto simp: net_P_def)

text \<open>
  C22. Every operation on subnets and chains keeps the invariant of the network, on success, error and panic, whatever
  the node APIs, the wallet and the clock answer.
\<close>

theorem chain_ops_keep_net_inv:
  assumes "net_inv n"
  shows "net_inv (fst (snd (CreateBlockchains e ce specs (n, txs)))) \<and>
    net_inv (fst (snd (CreateSubnets e ce sspecs (n, txs)))) \<and>
    net_inv (fst (snd (RemoveSubnetValidators e ce rspecs (n, txs)))) \<and>
    net_inv (fst (snd (AddPermissionlessValidators e ce vspecs (n, txs)))) \<and>
    net_inv (fst (snd (TransformSubnet e ce especs (n, txs))))"
  using assms by (intro conjI pres_chain_inv inv.keep_chain_ops)

text \<open>
  C5. After \<^verbatim>\<open>restartNodes\<close> has succeeded, every node of the network is configured to track exactly the subnets it
  tracked before, with those it was added to as a permissionless validator, without those it was
  removed from, and with the created subnets it takes part in, as the sorted, comma separated value
  of the flag. A node that was added or removed, or that the caller names along with subnet specs,
  runs in a new live process, unless it is paused; any other keeps its process.
\<close>

theorem restartNodes_tracks:
  assumes "net_inv s" "distinct (flag_names e)"
    and "restartNodes e ids ss vs rs ns s = (Ok (), t)" "map_of (ln_nodes (fst s)) n = Some node"
  shows "\<exists>node' prev tr. map_of (ln_nodes (fst t)) n = Some node' \<and> previous_tracked e node = Ok prev \<and>
     mget (nc_Flags (n_config node')) (TrackSubnetsKey e) = Some (VStr (join_with '','' (sort tr))) \<and> distinct tr \<and>
     set tr = (set prev \<union> added_subnets n (slice vs) - removed_subnets n (slice rs)) \<union> new_subnets e n (slice ss) ids \<and>
     (if \<not> n_paused node \<and> (added_subnets n (slice vs) \<noteq> {} \<or> removed_subnets n (slice rs) \<noteq> {} \<or>
          new_subnets e n (slice ss) ids \<noteq> {} \<or> ss \<noteq> None \<and> n \<in> ns)
      then n_process node' \<in> live_procs (snd t) \<and> length (procs (snd s)) \<le> n_process node'
      else n_process node' = n_process node)"
proof -
  have "node_ok n node (procs (snd s))" using assms(1,4) by (simp add: net_inv_def net_ok_node)
  then have name: "n_name node = n" by (simp add: node_ok_def)
  obtain node' tr needs where t: "map_of (ln_nodes (fst t)) n = Some node'" "tracked_by e ids ss vs rs n node = Ok (tr, needs)"
    "tracks e node' tr" "if again ss ns n needs \<and> \<not> n_paused node
         then n_process node' \<in> live_procs (snd t) \<and> length (procs (snd s)) \<le> n_process node'
         else n_process node' = n_process node"
    using restartNodes_Ok [OF assms] assms(4) unfolding turned_def by (auto split: if_splits)
  obtain prev where p: "previous_tracked e node = Ok prev" "distinct tr"
    "set tr = (set prev \<union> added_subnets n (slice vs) - removed_subnets n (slice rs)) \<union> new_subnets e n (slice ss) ids"
    "needs = (added_subnets n (slice vs) \<noteq> {} \<or> removed_subnets n (slice rs) \<noteq> {} \<or> new_subnets e n (slice ss) ids \<noteq> {})"
    using tracked_by_Ok [OF t(2)] unfolding name by metis
  have "if \<not> n_paused node \<and> (added_subnets n (slice vs) \<noteq> {} \<or> removed_subnets n (slice rs) \<noteq> {} \<or>
        new_subnets e n (slice ss) ids \<noteq> {} \<or> ss \<noteq> None \<and> n \<in> ns)
      then n_process node' \<in> live_procs (snd t) \<and> length (procs (snd s)) \<le> n_process node'
      else n_process node' = n_process node"
    using t(4) unfolding p(4) again_def by (auto split: if_splits)
  then show ?thesis using t(1,3) p(1-3) unfolding tracks_def by blast
qed

lemma creates_Ok: "pres (same_creates (creates (snd s))) m \<Longrightarrow> m s = (r, t) \<Longrightarrow> creates (snd t) = creates (snd s)"
  using presD [of "same_creates (creates (snd s))" m s] by (auto simp: same_creates_def)

lemma mapR_chain_info:
  "mapR (chain_info e ce txs) (List.enumerate k specs) = Ok infos \<Longrightarrow>
   map bi_blockchainID infos = map (\<lambda>i. tx_ID ce (txs ! i)) [k..<k + length specs] \<and>
   map bi_chainName infos = map bs_VMName specs"
proof (induction specs arbitrary: k infos)
  case (Cons sp specs)
  have "[k..<k + length (sp # specs)] = k # [Suc k..<Suc k + length specs]"
    by (simp add: upt_conv_Cons del: upt_Suc)
  with Cons show ?case
    by (auto simp: chain_info_def at_def bindR_eq_Ok simp del: upt_Suc split: if_splits)
qed simp

lemma assign_subnets_names:
  "assign_subnets e ids specs = Ok specs' \<Longrightarrow> map bs_VMName specs' = map bs_VMName specs"
  by (induction e ids specs arbitrary: specs' rule: assign_subnets.induct)
    (auto simp: bindR_eq_Ok split: if_splits list.splits)

lemma creates_then:
  assumes "bindP m f s = (Ok y, t)" "\<And>v u. f v u = (Ok y, t) \<Longrightarrow> creates (snd t) = creates (snd u) @ z"
    and "\<And>x. pres (same_creates x) m"
  shows "creates (snd t) = creates (snd s) @ z"
proof -
  obtain v u where "m s = (Ok v, u)" "f v u = (Ok y, t)" using assms(1) by (auto simp: bindP_eq_Ok)
  then show ?thesis using assms(2) creates_Ok [OF assms(3)] by metis
qed

lemma createBlockchains_then:
  assumes "bindP (createBlockchains e ce specs txs w) (\<lambda>_. liftR (mapR (chain_info e ce txs) (List.enumerate 0 specs))) s =
     (Ok infos, t)"
  shows "creates (snd t) = creates (snd s) @ map bi_blockchainID infos"
proof -
  obtain u where cr: "createBlockchains e ce specs txs w s = (Ok (), u)"
    and infos: "mapR (chain_info e ce txs) (List.enumerate 0 specs) = Ok infos" "t = u"
    using assms by (auto simp: bindP_eq_Ok)
  show ?thesis
    using createBlockchains_from [OF cr [unfolded createBlockchains_def]] mapR_chain_info [OF infos(1)] infos(2)
    by simp
qed

lemma installCustomChains_creates:
  assumes "installCustomChains e ce specs s = (Ok infos, t)"
  shows "creates (snd t) = creates (snd s) @ map bi_blockchainID infos"
  using assms unfolding installCustomChains_def
  by (elim createBlockchains_then creates_then) (intro pres_intros create_pres)+

lemma installCustomChains_names:
  assumes "installCustomChains e ce specs s = (Ok infos, t)"
  shows "map bi_chainName infos = map bs_VMName specs"
proof -
  obtain ids specs' txs where "assign_subnets e ids specs = Ok specs'"
    "mapR (chain_info e ce txs) (List.enumerate 0 specs') = Ok infos"
    using assms unfolding installCustomChains_def by (simp add: bindP_eq_Ok) metis
  then show ?thesis using assign_subnets_names mapR_chain_info by metis
qed

text \<open>
  C11. The identifiers \<^verbatim>\<open>CreateBlockchains\<close> returns: one per chain spec, and exactly those of the chain creations it
  issued, in the order of the specs; no other chain was created.
\<close>

theorem CreateBlockchains_ids:
  assumes "CreateBlockchains e ce specs s = (Ok ids, t)"
  shows "length ids = length specs \<and> creates (snd t) = creates (snd s) @ ids"
proof -
  obtain infos u v where inst: "installCustomChains e ce specs s = (Ok infos, u)"
    and wt: "waitForCustomChainsReady e ce infos u = (Ok (), v)"
    and al: "RegisterBlockchainAliases e ce infos specs v = (Ok (), t)" and ids: "ids = map bi_blockchainID infos"
    using assms unfolding CreateBlockchains_def by (auto simp: bindP_eq_Ok)
  have "creates (snd t) = creates (snd u)"
    using creates_Ok [OF creates_steps(8) wt] creates_Ok [OF creates_steps(9) al] by simp
  moreover have "length infos = length specs"
    using arg_cong [OF installCustomChains_names [OF inst], of length] by simp
  ultimately show ?thesis using installCustomChains_creates [OF inst] ids by simp
qed

section \<open>A network with one node that validates a subnet\<close>

definition demo_chain :: chain_env where
  "demo_chain =
     \<lparr>GetCurrentValidators = (\<lambda>t uri net. Ok [\<lparr>v_NodeID = ''NodeID-a'', v_EndTime = 100\<rparr>]),
      issueTx = (\<lambda>t uri tx. Ok (case tx of CreateChainTx x \<Rightarrow> ''chain-'' @ x | _ \<Rightarrow> ''tx'')),
      FetchState = (\<lambda>t uri. Ok ()), GetTx = (\<lambda>t uri i. Ok ''bytes''), txs_Parse = (\<lambda>b. Ok ()),
      NewCreateChainTx = (\<lambda>t sub gen vm name. Ok name), SignUnsigned = (\<lambda>t u. Ok u), AcceptTx = (\<lambda>t x. Ok ()),
      tx_ID = (\<lambda>x. ''chain-'' @ x), SecretKeyFromBytes = (\<lambda>b. Ok ()), AliasChain = (\<lambda>t cl i a. Ok ()),
      LoadVMs = (\<lambda>t uri. Ok []), time_Now = (\<lambda>t. 0), waits = (\<lambda>t. []), PrimaryNetworkID = ''primary'',
      LUXAssetID = ''LUX'', MinValidatorStake = 1, PercentDenominator = 1000000, EWOQ_Address = ''ewoq''\<rparr>"

definition demo_spec :: BlockchainSpec where
  "demo_spec = \<lparr>bs_VMName = ''vm'', bs_Genesis = ''{}'', bs_SubnetID = Some ''sub'', bs_SubnetSpec = None,
     bs_ChainConfig = None, bs_NetworkUpgrade = None, bs_BlockchainAlias = ''alias'', bs_PerNodeChainConfig = None\<rparr>"

text \<open>The state of the running node, with the log file of the chain to be created.\<close>

definition chain_net :: "nat \<Rightarrow> net_state" where
  "chain_net k = (fst snap_state, (snd snap_state)\<lparr>clock := k, files := [(''/tmp/net/a/logs/chain-vm.log'', [])]\<rparr>)"

lemmas run_defs = bindP_def getL_def gets_def modify_def ret_def liftR_def throw_def getS_def

lemma chain_net_ask: "ask f (chain_net k, x) = (f k, (chain_net (Suc k), x))"
  by (cases "f k") (simp_all add: ask_def run_defs onN_def zoomP_def onW_def tick_def chain_net_def)

lemma chain_net_getN: "getN f (chain_net k, x) = (Ok (f (fst snap_state)), (chain_net k, x))"
  by (simp add: getN_def onN_def zoomP_def run_defs chain_net_def)

lemma chain_node:
  "ln_nodes (fst snap_state) = [(''a'', snap_node)]" "\<not> n_paused snap_node" "n_nodeID snap_node = ''NodeID-a''"
  "n_apiPort snap_node = 9650" "n_logsDir snap_node = ''/tmp/net/a/logs''"
  by (simp_all add: snap_state_def snap_node_def)

lemma chain_net_healthy: "onN (healthy demo_env2) (chain_net k, x) = (Ok (), (chain_net (Suc k), x))"
proof -
  have "node_healthy demo_env2 k (snd (chain_net (Suc k))) snap_node = Ok ()"
    by (simp add: node_healthy_def demo_env2_def demo_env_def node_Status_def proc_Status_def chain_net_def snap_state_def
        snap_node_def newNodeProcess_started np_Status_def)
  then show ?thesis
    by (simp add: onN_def zoomP_def healthy_def run_defs onW_def tick_def chain_net_def chain_node)
       (simp add: snap_state_def demo_net0_def stopCalled_def ret_def)
qed

lemma chain_net_log: "log_ready demo_env2 (filepath_Join [n_logsDir snap_node, ''chain-vm.log'']) (chain_net k, x) = (Ok True, (chain_net (Suc k), x))"
proof -
  have p: "filepath_Join [n_logsDir snap_node, ''chain-vm.log''] = ''/tmp/net/a/logs/chain-vm.log''"
    unfolding chain_node by code_simp
  show ?thesis unfolding p
    by (simp add: log_ready_def catchP_def onN_def zoomP_def run_defs onW_def os_Stat_eq chain_net_def fs_exists_def demo_env2_def demo_env_def)
qed

lemmas chain_net_run = chain_net_ask chain_net_getN chain_net_healthy run_defs

definition demo_uri where "demo_uri = node_uri snap_node"

lemma chain_getClientURI: "getClientURI (chain_net k, x) = (Ok demo_uri, (chain_net k, x))"
  by (simp add: getClientURI_def chain_net_run chain_getNode_def chain_node demo_uri_def MaxPort_def)

lemma chain_newWallet:
  "newWallet demo_chain uri [i] (chain_net k, x) =
     (Ok \<lparr>w_addr = ''ewoq'', w_pURI = uri, w_xURI = uri, w_txs = [i]\<rparr>, (chain_net (k + 2), x))"
  by (simp add: newWallet_def chain_net_run demo_chain_def)

lemma chain_provision: "provision_subnets demo_env2 demo_chain uri w [] (chain_net k, x) = (Ok [], (chain_net (k + 2), x))"
proof -
  have "onN (ret ()) s = (Ok (), s)" for s by (cases s) (simp add: onN_def zoomP_def ret_def)
  then show ?thesis
  by (simp add: provision_subnets_def add_participants_def addPrimaryValidators_def add_primary_def
      chain_node chain_net_run createSubnets_def setSubnetConfigFiles_def demo_chain_def validatorIDs_def)
qed

lemma chain_waits:
  "waitPrimaryValidators demo_chain uri (chain_net k, x) = (Ok (), (chain_net (k + 2), x))"
  "waitSubnetValidators demo_chain uri [] [] (chain_net k, x) = (Ok (), (chain_net (k + 1), x))"
  "getSubnetValidatorsNodenames demo_env2 demo_chain sid (chain_net k, x) = (Ok [''a''], (chain_net (k + 1), x))"
  by (simp_all add: waitPrimaryValidators_def waitSubnetValidators_def getSubnetValidatorsNodenames_def wait_loop_def
      primary_ready_def chain_net_run chain_node demo_chain_def validatorIDs_def chain_getClientURI)

lemma chain_vm: "VMID demo_env2 ''vm'' = Ok (''vm'' @ replicate 30 (CHR 0x00))"
  by (simp add: VMID_def demo_env2_def demo_env_def)

lemma chain_ids: "ids_FromString demo_env2 s = Ok s" "ids_String demo_env2 s = s"
  by (simp_all add: demo_env2_def demo_env_def)

lemma chain_txs:
  "createBlockchainTxs demo_env2 demo_chain [demo_spec] (chain_net k, x) = (Ok [''vm''], (chain_net (k + 3), x))"
  by (simp add: createBlockchainTxs_def demo_spec_def chain_vm chain_net_run chain_ids subnet_id_of_def demo_chain_def
      wrapP_def eval_nat_numeral)

lemma chain_files:
  "setBlockchainConfigFiles demo_env2 demo_chain [demo_spec] [''vm''] [] [] (chain_net k, x) = (Ok {}, (chain_net (k + 1), x))"
  by (simp add: setBlockchainConfigFiles_def set_chain_files_def spec_participants_def demo_spec_def chain_net_run
      chain_ids subnet_id_of_def chain_waits at_def)

lemma chain_reload: "reloadVMPlugins demo_chain (chain_net k, x) = (Ok (), (chain_net (k + 1), x))"
  by (simp add: reloadVMPlugins_def chain_net_run chain_node demo_chain_def)

lemma chain_create:
  "createBlockchains demo_env2 demo_chain [demo_spec] [''vm''] w (chain_net k, x) =
    (Ok (), (chain_net (k + 1), x @ [(w_pURI w, CreateChainTx ''vm'', ''chain-vm'')]))"
  by (simp add: createBlockchains_def demo_spec_def chain_vm chain_net_run at_def tx_error_def wrapP_def issue_def
    demo_chain_def)

lemma demo_chain_waits: "waits demo_chain k = []" by (simp add: demo_chain_def)

lemma chain_run:
  "CreateBlockchains demo_env2 demo_chain [demo_spec] (chain_net k, x) =
     (Ok [''chain-vm''], (chain_net (k + 18), x @ [(demo_uri, CreateChainTx ''vm'', ''chain-vm'')]))"
proof -
  have pre: "preload_txs demo_env2 [demo_spec] = Ok [''sub'']" "new_subnet_specs [demo_spec] = []"
    "assign_subnets demo_env2 [] [demo_spec] = Ok [demo_spec]"
    by (simp_all add: preload_txs_def demo_spec_def chain_ids new_subnet_specs_def)
  have info: "mapR (chain_info demo_env2 demo_chain [''vm'']) (List.enumerate 0 [demo_spec]) =
      Ok [\<lparr>bi_chainName = ''vm'', bi_vmID = ''vm'' @ replicate 30 (CHR 0x00), bi_subnetID = ''sub'',
        bi_blockchainID = ''chain-vm''\<rparr>]"
    by (simp add: chain_info_def demo_spec_def chain_vm subnet_id_of_def chain_ids at_def demo_chain_def)
  have dp: "default_participants l [] = []" for l by (simp add: default_participants_def)
  have av: "addSubnetValidators demo_env2 demo_chain uri w [] [] s = (Ok (), s)" for uri w s
    by (simp add: addSubnetValidators_def ret_def)
  have inst: "installCustomChains demo_env2 demo_chain [demo_spec] (chain_net k, x) =
      (Ok [\<lparr>bi_chainName = ''vm'', bi_vmID = ''vm'' @ replicate 30 (CHR 0x00), bi_subnetID = ''sub'',
        bi_blockchainID = ''chain-vm''\<rparr>], (chain_net (k + 13), x @ [(demo_uri, CreateChainTx ''vm'', ''chain-vm'')]))"
    unfolding installCustomChains_def
    by (simp add: bindP_simps(1) chain_getClientURI pre dp av info chain_newWallet chain_net_getN chain_provision
        chain_waits chain_txs chain_files chain_reload chain_create ret_def liftR_def eval_nat_numeral
        del: assign_subnets.simps enumerate_simps)
  have wt: "waitForCustomChainsReady demo_env2 demo_chain [\<lparr>bi_chainName = ''vm'', bi_vmID = v, bi_subnetID = s,
        bi_blockchainID = ''chain-vm''\<rparr>] (chain_net k, x) = (Ok (), (chain_net (k + 4), x))" for v s k x
    by (simp add: waitForCustomChainsReady_def bindP_simps(1) chain_net_healthy chain_waits wait_log_def chain_net_getN
        chain_node(1,2) wait_loop_def chain_net_ask demo_chain_waits chain_ids chain_net_log ret_def eval_nat_numeral)
  have al: "RegisterBlockchainAliases demo_env2 demo_chain [i] [demo_spec] (chain_net k, x) = (Ok (), (chain_net (Suc k), x))" for i k x
    by (simp add: RegisterBlockchainAliases_def chain_net_run chain_node(1,2) at_def demo_spec_def wrapP_def demo_chain_def)
  show ?thesis
    unfolding CreateBlockchains_def
    by (simp add: bindP_simps(1) inst wt al ret_def eval_nat_numeral)
qed

theorem CreateBlockchains_ids_witness:
  "\<exists>ids t. CreateBlockchains demo_env2 demo_chain [demo_spec] (chain_net 0, []) = (Ok ids, t) \<and>
     ids = [''chain-vm''] \<and> creates (snd t) = ids"
  using CreateBlockchains_ids [OF chain_run [of 0 "[]"]] chain_run [of 0 "[]"] by (auto simp: creates_def)

theorem chain_ops_keep_net_inv_witness:
  "net_inv snap_state \<and> net_inv (fst (snd (CreateBlockchains demo_env2 demo_chain [demo_spec] (snap_state, []))))"
  using chain_ops_keep_net_inv [OF snap_inv] snap_inv by blast

definition demo_validator :: PermissionlessValidatorSpec where
  "demo_validator = \<lparr>pvs_SubnetID = ''sub'', pvs_AssetID = ''asset'', pvs_NodeName = ''a'', pvs_StakedAmount = 1,
     pvs_StartTime = None, pvs_StakeDuration = 0\<rparr>"

text \<open>The configuration the node is started with again.\<close>

definition chain_config :: NodeConfig where
  "chain_config = (n_config snap_node)\<lparr>nc_Flags := Some [(''track-subnets'', VStr ''sub''), (''data-dir'', VStr ''/tmp/net/a''),
     (''db-dir'', VStr ''/tmp/net/a/db''), (''log-dir'', VStr ''/tmp/net/a/logs''), (''http-port'', VInt 9650),
     (''staking-port'', VInt 9651)]\<rparr>"

lemma chain_restart_one:
  "\<exists>node u t. ln_nodes (fst u) = [] \<and> \<not> stopCalled (fst u) \<and> addNode demo_env2 chain_config u = (Ok node, t) \<and>
     restart_one demo_env2 [] None (Some [demo_validator]) None {} ''a'' snap_state = (Ok (), t)"
proof -
  obtain w where stop: "proc_Stop demo_env2 (n_process snap_node) (snd snap_state) = (Ok 0, w)"
    by (simp add: proc_Stop_eq snap_state_def snap_node_def newNodeProcess_started np_Stop_running np_ok_def
        demo_env2_def demo_env_def)
  let ?u = "((fst snap_state)\<lparr>ln_nodes := [], ln_bootstraps := []\<rparr>, w)"
  have "addable demo_env2 (fst ?u) chain_config"
    by (simp add: addable_def startable_def snap_state_def demo_net0_def chain_config_def snap_node_def demo_node_def
        demo_env2_def demo_env_def readConfigFile_def flags_typed_def node_flags_typed_def map_add_def)
  then obtain node t where add: "addNode demo_env2 chain_config ?u = (Ok node, t)"
    using addNode_succeeds [OF demo_smooth(2) _ demo_nodes(1)] by blast
  let ?node1 = "snap_node\<lparr>n_config := (n_config snap_node)\<lparr>nc_Flags := Some [(''track-subnets'', VStr ''sub'')]\<rparr>\<rparr>"
  let ?s1 = "((fst snap_state)\<lparr>ln_nodes := [(''a'', ?node1)]\<rparr>, snd snap_state)"
  let ?s2 = "((fst snap_state)\<lparr>ln_nodes := [(''a'', snap_node\<lparr>n_config := chain_config\<rparr>)]\<rparr>, snd snap_state)"
  have tracked: "tracked_by demo_env2 [] None (Some [demo_validator]) None ''a'' snap_node = Ok ([''sub''], True)"
    by (simp add: tracked_by_def previous_tracked_def snap_node_def slice_def track_added_def track_removed_def
        track_new_def demo_validator_def)
  have track: "track_one demo_env2 [] None (Some [demo_validator]) None ''a'' snap_state = (Ok (snap_node, True), ?s1)"
    by (simp add: track_one_def run_defs write_config_def modL_def chain_node tracked)
       (simp add: snap_state_def snap_node_def demo_net0_def demo_env2_def demo_env_def run_defs)
  have flags: "mput_all (restart_flags demo_env2 ?node1 [] []) (Some [(''track-subnets'', VStr ''sub'')]) = Ok (nc_Flags chain_config)"
    by (simp add: restart_flags_def keep_flags_def chain_config_def mput_all_def snap_node_def demo_env2_def demo_env_def)
  have maps: "mput_all [] (nc_ChainConfigFiles (n_config snap_node)) = Ok (Some [])"
    "mput_all [] (nc_UpgradeConfigFiles (n_config snap_node)) = Ok (Some [])"
    "mput_all [] (nc_SubnetConfigFiles (n_config snap_node)) = Ok (Some [])"
    by (simp_all add: mput_all_def snap_node_def)
  have cfg: "(n_config snap_node)\<lparr>nc_Flags := nc_Flags chain_config, nc_ChainConfigFiles := Some [],
      nc_UpgradeConfigFiles := Some [], nc_SubnetConfigFiles := Some []\<rparr> = chain_config"
    by (simp add: chain_config_def snap_node_def demo_node_def)
  have rm: "removeNode demo_env2 ''a'' ?s2 = (Ok (), ?u)"
    using stop by (simp add: removeNode_def run_defs modL_def chain_node onW_def zoomP_def)
       (simp add: snap_state_def demo_net0_def demo_env2_def demo_env_def run_defs)
  have "restartNode demo_env2 ''a'' [] [] [] None None None ?s1 = (Ok (), t)"
    using rm add cfg by (simp add: restartNode_def flags maps mrange.simps write_config_def chain_node run_defs modL_def o_def)
  then have "restart_one demo_env2 [] None (Some [demo_validator]) None {} ''a'' snap_state = (Ok (), t)"
    using track by (simp add: restart_one_def bindP_simps(1) chain_node)
  moreover have "\<not> stopCalled (fst ?u)" by (simp add: snap_state_def demo_net0_def stopCalled_def)
  ultimately show ?thesis using add by (intro exI [of _ node] exI [of _ ?u] exI [of _ t]) simp
qed

lemma chain_restart:
  "\<exists>t. restartNodes demo_env2 [] None (Some [demo_validator]) None {} snap_state = (Ok (), t)"
proof -
  obtain node u t where u: "ln_nodes (fst u) = []" "\<not> stopCalled (fst u)" and add: "addNode demo_env2 chain_config u = (Ok node, t)"
    and one: "restart_one demo_env2 [] None (Some [demo_validator]) None {} ''a'' snap_state = (Ok (), t)"
    using chain_restart_one by blast
  note added = addNode_added [OF add, unfolded u(1)]
  have nodes: "ln_nodes (fst t) = [(n_name node, node)]" using added by (simp add: node_added_def)
  have "settings (fst t) = settings (fst u)" by (rule presD [OF settings_addNode _ add]) simp
  then have st: "\<not> stopCalled (fst t)" using u(2) by (simp add: settings_def stopCalled_def)
  have ok: "node_healthy demo_env2 k w node = Ok ()" if "procs w = procs (snd t)" for k w
    using added that
    by (auto simp: node_healthy_def demo_env2_def demo_env_def node_Status_def proc_Status_def node_added_def)
  have "healthy demo_env2 t = (Ok (), (fst t, (snd t)\<lparr>clock := Suc (clock (snd t))\<rparr>))"
    using st nodes added by (simp add: healthy_def run_defs onW_def zoomP_def tick_def node_added_def ok)
  then show ?thesis using one by (simp add: restartNodes_def bindP_simps(1) chain_node mkeys_def)
qed

theorem restartNodes_tracks_witness:
  "\<exists>t node'. restartNodes demo_env2 [] None (Some [demo_validator]) None {} snap_state = (Ok (), t) \<and>
     map_of (ln_nodes (fst t)) ''a'' = Some node' \<and> n_process node' \<in> live_procs (snd t) \<and>
     mget (nc_Flags (n_config node')) ''track-subnets'' = Some (VStr ''sub'')"
proof -
  obtain t where t: "restartNodes demo_env2 [] None (Some [demo_validator]) None {} snap_state = (Ok (), t)"
    using chain_restart by blast
  have node: "map_of (ln_nodes (fst snap_state)) ''a'' = Some snap_node" by (simp add: chain_node)
  have prev: "previous_tracked demo_env2 snap_node = Ok []"
    by (simp add: previous_tracked_def snap_node_def)
  have sets: "added_subnets ''a'' (slice (Some [demo_validator])) = {''sub''}" "removed_subnets ''a'' (slice None) = {}"
    "new_subnets demo_env2 ''a'' (slice None) [] = {}"
    by (auto simp: added_subnets_def removed_subnets_def new_subnets_def slice_def demo_validator_def)
  obtain node' tr where n': "map_of (ln_nodes (fst t)) ''a'' = Some node'" "n_process node' \<in> live_procs (snd t)"
    "mget (nc_Flags (n_config node')) (TrackSubnetsKey demo_env2) = Some (VStr (join_with '','' (sort tr)))"
    "distinct tr" "set tr = {''sub''}"
    using restartNodes_tracks [OF snap_inv snap_keys' t node] by (auto simp: prev sets chain_node)
  have "tr = [''sub'']" using n'(4,5) by (cases tr; cases "tl tr") auto
  then show ?thesis using t n' by (auto simp: demo_env2_def demo_env_def)
qed

end
