(* ===== verification/Server_Contract.thy ===== *)
theory Server_Contract
  imports Blockchain_Theorems Server
begin

text \<open>
  The server and the network it holds: the contract of \<^verbatim>\<open>network.Network\<close> as a locale, what it gives for
  every request, and the interpretation on the local network.
\<close>

section \<open>Only \<^verbatim>\<open>Stop\<close> stops a network\<close>

definition once :: "bool \<Rightarrow> net_state \<Rightarrow> bool" where
  "once b s \<longleftrightarrow> ln_stopOnce (fst s) = b"

named_theorems once_pres \<open>code that is not the first part of Stop\<close>

lemma once_modL: "(\<And>l. ln_stopOnce (f l) = ln_stopOnce l) \<Longrightarrow> pres (once b) (modL f)"
  unfolding modL_def by (rule pres_modify) (auto simp: once_def)

lemma once_onW [once_pres]: "pres (once b) (onW m)"
  by (rule presI) (auto simp: onW_eq_iff once_def)

lemma once_NextColor [once_pres]:
  "pres (once b) (zoomP (ln_colorPicker \<circ> fst) (\<lambda>c. apfst (ln_colorPicker_update (\<lambda>_. c))) NextColor)"
  by (rule presI) (auto simp: zoomP_eq once_def)

lemma once_addNode [once_pres]: "pres (once b) (addNode e nc)"
  unfolding addNode_def prepareNode_def describeNode_def launchNode_def NewNodeProcess_def addBeacon_def
    buildArgs_def setNodeName_def
  by (intro pres_intros once_pres once_modL) simp_all

lemma once_nodes [once_pres]:
  "pres (once b) (removeNode e n)" "pres (once b) (net_stop e)"
  "pres (once b) (pauseNode e n)" "pres (once b) (write_config n node r)"
  unfolding net_stop_def stop_one_def removeNode_def pauseNode_def write_config_def
  by (intro pres_intros once_pres once_modL; simp)+

lemma once_ops [once_pres]:
  "pres (once b) (resumeNode e n)" "pres (once b) (restartNode e n bin pd ts cc uc sc)" "pres (once b) (healthy e)"
  "pres (once b) (SaveSnapshot e name)" "pres (once b) (RemoveSnapshot e name)" "pres (once b) (GetSnapshotNames e)"
  "pres (once b) GetAllNodes" "pres (once b) (GetNode n)"
  unfolding resumeNode_def restartNode_def healthy_def SaveSnapshot_def RemoveSnapshot_def GetSnapshotNames_def
    GetAllNodes_def GetNode_def
  by (intro pres_intros once_pres)+

lemma once_load [once_pres]: "pres (once b) (loadConfig e cfg)" 
  unfolding loadConfig_def start_node_def
  by (intro pres_intros once_pres once_modL; simp)+

lemma once_load_elastic [once_pres]: "pres (once b) (load_elastic e kvs)"
proof (induction kvs)
  case (Cons kv kvs)
  then show ?case unfolding load_elastic.simps by (intro pres_intros once_modL) simp_all
qed (auto intro: pres_intros)

lemma once_loadSnapshot [once_pres]: "pres (once b) (loadSnapshot e name bin pd cc uc sc fl)"
  unfolding loadSnapshot_def load_state_def
  by (intro pres_intros once_pres once_modL; simp)+

lemma once_update_config [once_pres]: "pres (net_P (once b)) (update_config n f)"
  unfolding update_config_def the_participant_def by (intro pres_intros chain_pres pres_onN once_pres)

lemma once_track [once_pres]: "pres (once b) (track_one e ids ss vs rs n)"
  unfolding track_one_def by (intro pres_intros once_pres)

interpretation once: network_keeps "once b" for b
  by unfold_locales (auto intro: once_pres simp: once_def)

section \<open>Steps that do not panic\<close>

text \<open>
  A panic ends the program. \<open>step P m Q\<close>: from \<open>P\<close>, if \<open>m\<close> does not panic, \<open>Q\<close> holds afterwards, also after an
  error.
\<close>

definition step :: "('s \<Rightarrow> bool) \<Rightarrow> ('s, 'a) prog \<Rightarrow> ('s \<Rightarrow> bool) \<Rightarrow> bool" where
  "step P m Q \<longleftrightarrow> hoare P m (\<lambda>r t. is_Panic r \<or> Q t)"

named_theorems step_intros \<open>steps that keep a predicate unless they panic\<close>

lemma stepI: "(\<And>s r t. P s \<Longrightarrow> m s = (r, t) \<Longrightarrow> \<not> is_Panic r \<Longrightarrow> Q t) \<Longrightarrow> step P m Q"
  unfolding step_def by (rule hoareI) blast

lemma stepD: "step P m Q \<Longrightarrow> P s \<Longrightarrow> m s = (r, t) \<Longrightarrow> \<not> is_Panic r \<Longrightarrow> Q t"
  unfolding step_def by (drule hoareD) auto

lemma step_pres: "pres P m \<Longrightarrow> step P m P"
  by (rule stepI) (rule presD)

lemma step_bindP:
  assumes "step P m R" "\<And>x. step R (f x) Q" "\<And>s. R s \<Longrightarrow> Q s"
  shows "step P (bindP m f) Q"
  unfolding step_def
proof (rule hoare_bindP)
  show "hoare P m (\<lambda>r t. case r of Ok x \<Rightarrow> R t | Err er \<Rightarrow> is_Panic (Err er) \<or> Q t | Panic p \<Rightarrow> is_Panic (Panic p) \<or> Q t)"
    using assms(1) unfolding step_def
    by (rule hoare_weaken) (auto simp: assms(3) split: res.splits)
qed (use assms(2) in \<open>simp add: step_def\<close>)

lemma step_weaken: "step P m Q \<Longrightarrow> (\<And>s. P' s \<Longrightarrow> P s) \<Longrightarrow> (\<And>s. Q s \<Longrightarrow> Q' s) \<Longrightarrow> step P' m Q'"
  by (rule stepI) (auto dest: stepD)

lemma step_bind_keep [step_intros]: "step P m P \<Longrightarrow> (\<And>x. step P (f x) P) \<Longrightarrow> step P (bindP m f) P"
  by (rule step_bindP)

lemma step_basic [step_intros]:
  "step P (ret x) P" "step P (throw er) P" "step P (panic p) Q" "step P (liftR r) P"
  by (auto simp: ret_def throw_def panic_def liftR_def intro!: stepI)

lemma step_getC [step_intros]: "step P (getC f) P"
  by (auto simp: getC_def gets_def intro!: stepI)

lemma step_handle:
  assumes "step P m Q" "\<And>er. step Q (h er) Q"
  shows "step P (catchP m h) Q"
proof (rule stepI)
  fix s r t
  assume P: "P s" and run: "catchP m h s = (r, t)" and r: "\<not> is_Panic r"
  obtain q u where m: "m s = (q, u)" by (rule prod.exhaust)
  show "Q t"
  proof (cases q)
    case (Err er)
    then show ?thesis using run m stepD [OF assms(1) P m] stepD [OF assms(2), of u er r t] r by (simp add: catchP_def)
  qed (use run m r stepD [OF assms(1) P m] in \<open>auto simp: catchP_def\<close>)
qed

lemmas step_catchP [step_intros] = step_handle [where P = P and Q = P for P]

lemma step_on_error [step_intros]: "step P m P \<Longrightarrow> (\<And>er. step P (h er) P) \<Longrightarrow> step P (on_error m h) P"
  unfolding on_error_def by (intro step_intros)

lemma step_cases [step_intros]:
  "step P m Q \<Longrightarrow> step P n Q \<Longrightarrow> step P (if b then m else n) Q"
  "step P m Q \<Longrightarrow> (\<And>x. step P (k x) Q) \<Longrightarrow> step P (case u of None \<Rightarrow> m | Some x \<Rightarrow> k x) Q"
  "(\<And>x y. step P (g x y) Q) \<Longrightarrow> step P (case v of (x, y) \<Rightarrow> g x y) Q"
  "(\<And>x. step P (k x) Q) \<Longrightarrow> step P (let x = z in k x) Q"
  by (auto split: option.splits prod.splits)

lemma step_forP [step_intros]: "(\<And>x. step P (body x) P) \<Longrightarrow> step P (forP xs body) P"
  by (induction xs) (auto intro!: step_intros)

lemma step_foldP [step_intros]: "(\<And>x a. step P (f x a) P) \<Longrightarrow> step P (foldP f xs a) P"
  by (induction xs arbitrary: a) (auto intro!: step_intros)

lemma step_mapP [step_intros]: "(\<And>x. step P (f x) P) \<Longrightarrow> step P (mapP f xs) P"
  unfolding mapP_def by (intro step_intros)

lemma step_modC [step_intros]: "(\<And>s w txs. P (s, w, txs) \<Longrightarrow> Q (f s, w, txs)) \<Longrightarrow> step P (modC f) Q"
  by (rule stepI) (auto simp: modC_def modify_def)

lemma pres_NewDefaultConfigNNodes: "pres (same_procs ps) (NewDefaultConfigNNodes e def bin n)"
  unfolding NewDefaultConfigNNodes_def added_node_def Let_def by (intro pres_intros fs_pres)

lemma not_bootstrapped_eq:
  "not_bootstrapped m s = (if sv_network (fst s) = None then m s else (Err ErrAlreadyBootstrapped, s))"
  by (simp add: not_bootstrapped_def bindP_def getC_def gets_def throw_def)

lemma bootstrapped_eq:
  "bootstrapped m s = (if sv_network (fst s) = None then (Err ErrNotBootstrapped, s) else m s)"
  by (simp add: bootstrapped_def bindP_def getC_def gets_def throw_def)

section \<open>The contract of the network\<close>

text \<open>No process runs.\<close>

definition idle :: "world \<Rightarrow> bool" where
  "idle w \<longleftrightarrow> net_ok [] (procs w)"

lemma idle_live: "idle w \<Longrightarrow> live_procs w = {}"
  by (auto simp: idle_def net_ok_def live_procs_def proc_Status_def pid_live_def)

text \<open>The server's network, and the server: while there is no network, no process runs.\<close>

definition lc_inv :: "(net_state \<Rightarrow> bool) \<Rightarrow> lc_state \<Rightarrow> bool" where
  "lc_inv N = (\<lambda>(lc, w, txs). \<not> lc_stopOnce lc \<and> (case lc_nw lc of None \<Rightarrow> idle w | Some l \<Rightarrow> N (l, w)))"

definition lc_fresh :: "lc_state \<Rightarrow> bool" where
  "lc_fresh = (\<lambda>(lc, w, txs). \<not> lc_stopOnce lc \<and> lc_nw lc = None \<and> idle w)"

definition sv_inv :: "(net_state \<Rightarrow> bool) \<Rightarrow> sv_state \<Rightarrow> bool" where
  "sv_inv N = (\<lambda>(s, w, txs). (sv_network s \<noteq> None \<longrightarrow> sv_clusterInfo s \<noteq> None) \<and>
     (case sv_network s of None \<Rightarrow> idle w | Some lc \<Rightarrow> lc_inv N (lc, w, txs)))"

definition sv_fresh :: "sv_state \<Rightarrow> bool" where
  "sv_fresh = (\<lambda>(s, w, txs). sv_clusterInfo s \<noteq> None \<and>
     (\<exists>lc. sv_network s = Some lc \<and> lc_fresh (lc, w, txs)))"

definition sv_none :: "sv_state \<Rightarrow> bool" where
  "sv_none = (\<lambda>(s, w, txs). sv_network s = None \<and> idle w)"

lemma fresh_inv: "lc_fresh s \<Longrightarrow> lc_inv N s" "sv_fresh t \<Longrightarrow> sv_inv N t" "sv_none t \<Longrightarrow> sv_inv N t"
  by (auto simp: lc_fresh_def lc_inv_def sv_fresh_def sv_inv_def sv_none_def)

text \<open>Requests to the operating system that do not concern processes.\<close>

definition procs_only :: "('s \<times> world \<times> issued list \<Rightarrow> bool) \<Rightarrow> bool" where
  "procs_only P \<longleftrightarrow> (\<forall>s w w' txs. P (s, w, txs) \<longrightarrow> procs w' = procs w \<longrightarrow> P (s, w', txs))"

lemma idle_procs: "idle w \<Longrightarrow> procs w' = procs w \<Longrightarrow> idle w'"
  by (simp add: idle_def)

lemma procs_only_fresh [simp]: "procs_only lc_fresh" "procs_only sv_fresh" "procs_only sv_none"
  by (auto simp: procs_only_def lc_fresh_def sv_fresh_def sv_none_def intro: idle_procs)

lemma step_onS [step_intros]:
  assumes "procs_only P" "\<And>ps. pres (same_procs ps) m"
  shows "step P (onS m) P"
proof (rule stepI)
  fix s r t
  assume P: "P s" and run: "onS m s = (r, t)"
  obtain x w txs where s: "s = (x, w, txs)" by (rule prod_cases3)
  then obtain w' where w': "m w = (r, w')" "t = (x, w', txs)"
    using run by (auto simp: onS_def zoomP_def split: prod.splits)
  then have "procs w' = procs w" using presD [OF assms(2) _ w'(1), of "procs w"] by (simp add: same_procs_def)
  then show "P t" using assms(1) P s w'(2) unfolding procs_only_def by blast
qed

lemma pres_netD: "pres (net_P N) m \<Longrightarrow> N n \<Longrightarrow> m (n, txs) = (r, (n', txs')) \<Longrightarrow> N n'"
  using presD [of "net_P N" m "(n, txs)" r "(n', txs')"] by (simp add: net_P_def)

lemma step_askS [step_intros]: "procs_only P \<Longrightarrow> step P (askS f) P"
  unfolding askS_def by (intro step_intros fs_pres)

lemma step_specs [step_intros]:
  assumes "procs_only P"
  shows "step P (getNetworkBlockchainSpec e spec b pd) P" "step P (getPermissionlessValidatorSpec ce ae vspec) P"
    "step P (getNetworkSubnetSpec e sspec) P" "step P (onS (CheckExecPath e x)) P"
  unfolding getNetworkBlockchainSpec_def read_optional_def readFileOrString_def per_node_configs_def CheckPluginPath_def
    getPermissionlessValidatorSpec_def getNetworkSubnetSpec_def CheckExecPath_def
  by (intro step_intros assms pres_intros fs_pres)+

lemma step_checks [step_intros]:
  "step P (check_subnet ks i) P" "step P (check_elastic ks es) P" "step P (check_chain_subnet ks bs) P"
  unfolding check_subnet_def check_elastic_def check_chain_subnet_def
  by (intro step_intros)+

lemma new_network_result:
  assumes "new_network ae opts s = (r, t)"
  shows "\<exists>w'. procs w' = procs (fst (snd s)) \<and> (if is_Ok r
     then \<exists>lc. lc_nw lc = None \<and> \<not> lc_stopOnce lc \<and> t = (sv_network_update (\<lambda>_. Some lc) (fst s), w', snd (snd s))
     else t = (fst s, w', snd (snd s)))"
proof -
  obtain sv w txs where s: "s = (sv, w, txs)" by (rule prod_cases3)
  have run: "new_network ae opts s =
      (case newLocalNetwork ae opts (clock w) of
         Ok lc \<Rightarrow> (Ok (), (sv_network_update (\<lambda>_. Some lc) sv, clock_update Suc w, txs))
       | Err er \<Rightarrow> (Err er, (sv, clock_update Suc w, txs))
       | Panic p \<Rightarrow> (Panic p, (sv, clock_update Suc w, txs)))"
    by (simp add: s new_network_def askS_def onS_def zoomP_def bindP_def tick_def gets_def modify_def ret_def liftR_def
        modC_def split: res.splits)
  have "lc_nw lc = None \<and> \<not> lc_stopOnce lc" if "newLocalNetwork ae opts k = Ok lc" for lc k
    using that by (auto simp: newLocalNetwork_def)
  then show ?thesis using run assms s by (intro exI [of _ "clock_update Suc w"]) (auto split: res.splits)
qed

text \<open>
  What the server relies on of \<^verbatim>\<open>network.Network\<close> and of the functions that create one, for a predicate \<open>N\<close> of
  networks in use: every operation keeps it, \<^verbatim>\<open>Stop\<close> leaves no process behind, and creating a network
  either gives one in use or leaves no process behind.
\<close>

locale network_contract = network_keeps N
  for N :: "net_state \<Rightarrow> bool" +
  assumes use_nodes: "pres N (AddNode e nc)" "pres N (RemoveNode e n)" "pres N (PauseNode e n)" "pres N (ResumeNode e n)"
      "pres N (RestartNode e n bin pd ts cc uc sc)"
    and use_peers: "N (l, w) \<Longrightarrow> map_of (ln_nodes l) n = Some node \<Longrightarrow>
      N (ln_nodes_update (AList.update n (node\<lparr>n_attachedPeers := ps\<rparr>)) l, w)"
    and use_snapshot: "pres N (SaveSnapshot e name)"
    and exits: "N (l, w) \<Longrightarrow> pid < length (procs w) \<Longrightarrow> N (l, w\<lparr>procs := (procs w)[pid := snd (np_Stop c (procs w ! pid))]\<rparr>)"
    and stops: "N s \<Longrightarrow> Stop e s = (r, t) \<Longrightarrow> \<not> is_Panic r \<and> idle (snd t)"
    and created: "idle w \<Longrightarrow> NewNetwork e cfg rd sd re w = (r, nw, w') \<Longrightarrow>
      (case r of Ok _ \<Rightarrow> \<exists>l. nw = Some l \<and> N (l, w') | Err _ \<Rightarrow> idle w' | Panic _ \<Rightarrow> True)"
    and loaded: "idle w \<Longrightarrow> NewNetworkFromSnapshot e name rd sd bin pd cc uc sc fl re w = (r, nw, w') \<Longrightarrow>
      (case r of Ok _ \<Rightarrow> \<exists>l. nw = Some l \<and> N (l, w') | Err _ \<Rightarrow> idle w' | Panic _ \<Rightarrow> True)"
begin

lemma procs_only_lc [simp]: "procs_only (lc_inv N)"
  by (auto simp: procs_only_def lc_inv_def intro: keep_world idle_procs split: option.splits)

lemma procs_only_sv [simp]: "procs_only (sv_inv N)"
  using procs_only_lc by (auto simp: procs_only_def sv_inv_def intro: idle_procs split: option.splits)

lemma step_on_nw: "pres (net_P N) m \<Longrightarrow> step (lc_inv N) (on_nw m) (lc_inv N)"
  by (rule stepI) (auto simp: on_nw_def lc_inv_def split: prod.splits option.splits dest: pres_netD)

lemma keep_queries: "pres N GetAllNodes" "pres N (GetNode n)" "pres N (Healthy e)"
  "pres N (RemoveSnapshot e name)" "pres N (GetSnapshotNames e)"
  unfolding GetAllNodes_def GetNode_def Healthy_def RemoveSnapshot_def GetSnapshotNames_def stat_snapshot_def
  by (intro pres_intros keep_healthy keep_onW fs_pres)+

lemma step_modC_lc [step_intros]:
  "(\<And>lc. lc_stopOnce (f lc) = lc_stopOnce lc \<and> lc_nw (f lc) = lc_nw lc) \<Longrightarrow> step (lc_inv N) (modC f) (lc_inv N)"
  by (rule step_modC) (auto simp: lc_inv_def)

lemma step_infos [step_intros]:
  "step (lc_inv N) (updateNodeInfo e) (lc_inv N)" "step (lc_inv N) (updateSubnetInfo e ce ae) (lc_inv N)"
  unfolding updateNodeInfo_def put_node_info_def generatePrometheusConf_def updateSubnetInfo_def put_chain_def
    put_subnet_def elastic_id_def check_chain_def Let_def
  by (intro step_intros step_on_nw pres_onN keep_queries keep_chain_ops fs_pres procs_only_lc; simp)+

lemma step_await [step_intros]: "step (lc_inv N) (awaitHealthyAndUpdateNetworkInfo e ce ae) (lc_inv N)"
  unfolding awaitHealthyAndUpdateNetworkInfo_def
  by (intro step_intros step_on_nw pres_onN keep_queries)

lemma step_updated: "pres (net_P N) m \<Longrightarrow> step (lc_inv N) (updated e ce ae m) (lc_inv N)"
  unfolding updated_def by (intro step_intros step_on_nw)

lemma step_lc_ops [step_intros]:
  "step (lc_inv N) (CreateChains e ce ae specs) (lc_inv N)"
  "step (lc_inv N) (lc_AddPermissionlessValidators e ce ae vspecs) (lc_inv N)"
  "step (lc_inv N) (lc_RemoveSubnetValidator e ce ae rspecs) (lc_inv N)"
  "step (lc_inv N) (TransformSubnets e ce ae especs) (lc_inv N)"
  "step (lc_inv N) (lc_CreateSubnets e ce ae sspecs) (lc_inv N)"
  "step (lc_inv N) (UpdateNodeInfo e) (lc_inv N)" "step (lc_inv N) (AwaitHealthyAndUpdateNetworkInfo e ce ae) (lc_inv N)"
  unfolding CreateChains_def lc_AddPermissionlessValidators_def lc_RemoveSubnetValidator_def TransformSubnets_def
    lc_CreateSubnets_def UpdateNodeInfo_def AwaitHealthyAndUpdateNetworkInfo_def
  by (intro step_intros step_updated keep_chain_ops)+

lemma step_set_nw:
  assumes "\<And>w r nw w'. idle w \<Longrightarrow> create w = (r, nw, w') \<Longrightarrow>
      (case r of Ok _ \<Rightarrow> \<exists>l. nw = Some l \<and> N (l, w') | Err _ \<Rightarrow> idle w' | Panic _ \<Rightarrow> True)"
  shows "step lc_fresh (set_nw create) (lc_inv N)"
proof (rule stepI)
  fix s :: lc_state and r t
  assume fresh: "lc_fresh s" and run: "set_nw create s = (r, t)" and r: "\<not> is_Panic r"
  obtain lc w txs where s: "s = (lc, w, txs)" by (rule prod_cases3)
  obtain q nw w' where c: "create w = (q, nw, w')" by (rule prod_cases3)
  have "idle w" using fresh s by (simp add: lc_fresh_def)
  from assms [OF this c] show "lc_inv N t"
    using fresh run r c s by (cases q) (auto simp: set_nw_def lc_fresh_def lc_inv_def)
qed

lemma step_createConfig: "step lc_fresh (createConfig e def) lc_fresh"
  unfolding createConfig_def
  by (intro step_intros procs_only_fresh pres_NewDefaultConfigNNodes step_modC) (auto simp: lc_fresh_def)

lemma step_lc_Start: "step lc_fresh (lc_Start e ce ae def) (lc_inv N)"
  unfolding lc_Start_def
  by (rule step_bindP [OF step_createConfig _ fresh_inv(1)], rule step_bindP [OF step_getC _ fresh_inv(1)],
      rule step_bindP [OF step_set_nw [OF created]]) (intro step_intros | assumption)+

lemma step_lc_LoadSnapshot: "step lc_fresh (lc_LoadSnapshot e name) (lc_inv N)"
  unfolding lc_LoadSnapshot_def Let_def
  by (rule step_bindP [OF step_getC _ fresh_inv(1)], rule step_bindP [OF step_basic(4) _ fresh_inv(1)],
      rule step_bindP [OF step_set_nw [OF loaded]]) (intro step_intros | assumption)+

lemma lc_Stop_idle:
  assumes "lc_inv N (lc, w, txs)" "lc_Stop e (lc, w, txs) = (r, (lc', w', txs'))"
  shows "r = Ok () \<and> idle w'"
proof (cases "lc_nw lc")
  case None
  then show ?thesis using assms
    by (auto simp: lc_inv_def lc_Stop_def getC_def modC_def bindP_def gets_def modify_def ret_def)
next
  case (Some l)
  obtain q l1 w1 where st: "Stop e (l, w) = (q, (l1, w1))" by (metis prod.exhaust)
  have "N (l, w)" "\<not> lc_stopOnce lc" using assms(1) Some by (simp_all add: lc_inv_def)
  with stops [OF _ st] have "\<not> is_Panic q" "idle w1" by auto
  then show ?thesis using assms(2) Some st \<open>\<not> lc_stopOnce lc\<close>
    by (cases q) (auto simp: lc_Stop_def getC_def modC_def bindP_def gets_def modify_def ret_def catchP_def on_nw_def
        onN_def zoomP_def)
qed

lemma step_onLC: "step (lc_inv N) m (lc_inv N) \<Longrightarrow> step (sv_inv N) (onLC m) (sv_inv N)"
  by (rule stepI) (auto simp: onLC_def sv_inv_def share_subnets_def split: prod.splits option.splits if_splits dest: stepD)

lemma step_on_net: "pres (net_P N) m \<Longrightarrow> step (sv_inv N) (on_net m) (sv_inv N)"
  unfolding on_net_def by (intro step_onLC step_on_nw)

lemma step_fresh_onLC: "step lc_fresh m (lc_inv N) \<Longrightarrow> step sv_fresh (onLC m) (sv_inv N)"
  by (rule stepI) (auto simp: onLC_def sv_inv_def sv_fresh_def share_subnets_def split: prod.splits option.splits if_splits dest: stepD)

lemma step_modCI [step_intros]: "step (sv_inv N) (modCI f) (sv_inv N)"
  unfolding modCI_def by (intro step_intros) (auto simp: sv_inv_def)

lemma step_info [step_intros]: "step (sv_inv N) copy_info (sv_inv N)" "step (sv_inv N) update_nodes (sv_inv N)"
  "step (sv_inv N) (updateClusterInfo e) (sv_inv N)"
  unfolding copy_info_def update_nodes_def updateClusterInfo_def by (intro step_intros; auto simp: sv_inv_def)+

text \<open>Dropping the network always succeeds and leaves no process.\<close>

lemma stopAndRemoveNetwork_result:
  assumes "sv_inv N s" "stopAndRemoveNetwork e er s = (r, t)"
  shows "r = Ok () \<and> sv_none t"
proof -
  obtain sv w txs where s: "s = (sv, w, txs)" by (rule prod_cases3)
  show ?thesis
  proof (cases "sv_network sv")
    case None
    then show ?thesis using assms s
      by (auto simp: stopAndRemoveNetwork_def sv_inv_def sv_none_def bindP_def getC_def gets_def modC_def modify_def ret_def)
  next
    case (Some lc)
    obtain q lc' w' txs' where st: "lc_Stop e (lc, w, txs) = (q, (lc', w', txs'))" by (metis prod.exhaust)
    have "lc_inv N (lc, w, txs)" using assms(1) Some s by (simp add: sv_inv_def)
    from lc_Stop_idle [OF this st] show ?thesis using assms(2) Some s st
      by (auto simp: stopAndRemoveNetwork_def sv_none_def bindP_def getC_def gets_def modC_def modify_def ret_def onLC_def
          share_subnets_def split: if_splits)
  qed
qed

lemma step_stopAndRemove: "step (sv_inv N) (stopAndRemoveNetwork e er) sv_none"
  by (rule stepI) (auto dest: stopAndRemoveNetwork_result)

lemma step_stop [step_intros]: "step (sv_inv N) (stopAndRemoveNetwork e er) (sv_inv N)"
  by (rule step_weaken [OF step_stopAndRemove _ fresh_inv(3)])

lemma step_bootstrapped [step_intros]: "step P m P \<Longrightarrow> step P (bootstrapped m) P"
  unfolding bootstrapped_def by (intro step_intros)

lemma step_known_subnets [step_intros]: "step (sv_inv N) known_subnets (sv_inv N)"
  unfolding known_subnets_def by (intro step_intros)

lemma keep_AttachPeer: "pres (net_P N) (node_AttachPeer ae n)"
proof (rule presI)
  fix s r t
  assume inv: "net_P N s" and run: "node_AttachPeer ae n s = (r, t)"
  obtain l w txs where s: "s = ((l, w), txs)" by (metis prod.exhaust)
  have w: "N (l, clock_update Suc w)" using inv s keep_world [of l w] by (simp add: net_P_def)
  show "net_P N t"
  proof (cases "stopCalled l \<or> map_of (ln_nodes l) n = None \<or> \<not> is_Ok (peer_Attach ae (clock w) n)")
    case True
    then show ?thesis using run s inv w
      by (auto simp: node_AttachPeer_def GetNode_def onN_def zoomP_def bindP_def getL_def gets_def throw_def ret_def ask_def
          onW_def tick_def modify_def liftR_def net_P_def split: option.splits res.splits if_splits)
  next
    case False
    then obtain node i where node: "map_of (ln_nodes l) n = Some node" "\<not> stopCalled l" "peer_Attach ae (clock w) n = Ok i"
      by (auto simp: is_Ok_iff)
    then show ?thesis using run s use_peers [OF w node(1)]
      by (auto simp: node_AttachPeer_def GetNode_def onN_def zoomP_def bindP_def getL_def gets_def ret_def ask_def
          onW_def tick_def modify_def liftR_def modL_def net_P_def)
  qed
qed

lemma step_handlers [step_intros]:
  "step (sv_inv N) (sv_CreateBlockchains e ce ae bspecs) (sv_inv N)"
  "step (sv_inv N) (AddPermissionlessValidator e ce ae vspecs) (sv_inv N)"
  "step (sv_inv N) (RemoveSubnetValidator e ce ae rspecs) (sv_inv N)"
  "step (sv_inv N) (TransformElasticSubnets e ce ae especs) (sv_inv N)"
  "step (sv_inv N) (sv_CreateSubnets e ce ae sspecs) (sv_inv N)"
  "step (sv_inv N) (Health e ce ae) (sv_inv N)"
  "step (sv_inv N) URIs (sv_inv N)" "step (sv_inv N) sv_Status (sv_inv N)"
  "step (sv_inv N) (sv_AttachPeer ae n) (sv_inv N)"
  "step (sv_inv N) (sv_SendOutboundMessage ae n pid bs oper) (sv_inv N)"
  "step (sv_inv N) (sv_SaveSnapshot e name) (sv_inv N)"
  "step (sv_inv N) (sv_RemoveSnapshot e name) (sv_inv N)"
  "step (sv_inv N) (sv_GetSnapshotNames e) (sv_inv N)"
  unfolding sv_CreateBlockchains_def AddPermissionlessValidator_def RemoveSubnetValidator_def TransformElasticSubnets_def
    sv_CreateSubnets_def Health_def URIs_def sv_Status_def sv_AttachPeer_def sv_SendOutboundMessage_def
    sv_SaveSnapshot_def sv_RemoveSnapshot_def sv_GetSnapshotNames_def
  by (intro step_intros step_onLC step_on_net pres_onN keep_queries keep_AttachPeer use_snapshot procs_only_sv)+

lemma step_node_request: "pres N m \<Longrightarrow> step (sv_inv N) (node_request e m) (sv_inv N)"
  unfolding node_request_def by (intro step_intros step_onLC step_on_net pres_onN)

lemma step_node_handlers [step_intros]:
  "step (sv_inv N) (sv_AddNode e areq) (sv_inv N)" "step (sv_inv N) (sv_RemoveNode e n) (sv_inv N)"
  "step (sv_inv N) (sv_RestartNode e rreq) (sv_inv N)" "step (sv_inv N) (sv_PauseNode e n) (sv_inv N)"
  "step (sv_inv N) (sv_ResumeNode e n) (sv_inv N)" "step (sv_inv N) (sv_Stop e) (sv_inv N)"
  unfolding sv_AddNode_def sv_RemoveNode_def sv_RestartNode_def sv_PauseNode_def sv_ResumeNode_def sv_Stop_def
  by (intro step_intros step_node_request use_nodes)+

lemma step_handled: "step P m Q \<Longrightarrow> (\<And>er. step Q (h er) Q) \<Longrightarrow> step P (on_error m h) Q"
  unfolding on_error_def by (intro step_handle step_intros)

lemma step_not_bootstrapped: "step sv_none m (sv_inv N) \<Longrightarrow> step (sv_inv N) (not_bootstrapped m) (sv_inv N)"
proof (rule stepI)
  fix s r t
  assume m: "step sv_none m (sv_inv N)" and inv: "sv_inv N s" and run: "not_bootstrapped m s = (r, t)" "\<not> is_Panic r"
  show "sv_inv N t"
  proof (cases "sv_network (fst s)")
    case None
    then have "sv_none s" using inv by (auto simp: sv_inv_def sv_none_def)
    moreover have "m s = (r, t)" using None run by (simp add: not_bootstrapped_eq)
    ultimately show ?thesis using stepD [OF m] run by blast
  qed (use inv run in \<open>auto simp: not_bootstrapped_eq\<close>)
qed

lemma step_new_network:
  assumes "step sv_fresh (f ()) (sv_inv N)"
  shows "step (\<lambda>s. sv_none s \<and> sv_clusterInfo (fst s) \<noteq> None) (bindP (new_network ae opts) f) (sv_inv N)"
proof (rule stepI)
  fix s r t
  assume s: "sv_none s \<and> sv_clusterInfo (fst s) \<noteq> None" and run: "bindP (new_network ae opts) f s = (r, t)" "\<not> is_Panic r"
  obtain q u where new: "new_network ae opts s = (q, u)" by (rule prod.exhaust)
  show "sv_inv N t"
  proof (cases q)
    case (Ok x)
    with new_network_result [OF new] s have "sv_fresh u" by (auto simp: sv_none_def sv_fresh_def lc_fresh_def intro: idle_procs)
    moreover have "f () u = (r, t)" using run new Ok by (simp add: bindP_def)
    ultimately show ?thesis using stepD [OF assms] run by blast
  next
    case (Err er)
    with new_network_result [OF new] s have "sv_none u" by (auto simp: sv_none_def intro: idle_procs)
    then show ?thesis using run new Err fresh_inv(3) by (auto simp: bindP_def)
  qed (use run new in \<open>auto simp: bindP_def\<close>)
qed

lemma step_load_network:
  assumes "step sv_fresh (f ()) (sv_inv N)"
  shows "step sv_none (bindP (new_network ae opts) (\<lambda>_. bindP (set_clusterInfo c) f)) (sv_inv N)"
proof (rule stepI)
  fix s r t
  assume s: "sv_none s" and run: "bindP (new_network ae opts) (\<lambda>_. bindP (set_clusterInfo c) f) s = (r, t)" "\<not> is_Panic r"
  obtain q u where new: "new_network ae opts s = (q, u)" by (rule prod.exhaust)
  show "sv_inv N t"
  proof (cases q)
    case (Ok x)
    then obtain v where v: "set_clusterInfo c u = (Ok (), v)" "f () v = (r, t)"
      using run new by (auto simp: bindP_def set_clusterInfo_def modC_def modify_def)
    with new_network_result [OF new] s Ok have "sv_fresh v"
      by (auto simp: sv_none_def sv_fresh_def lc_fresh_def set_clusterInfo_def modC_def modify_def idle_def)
    then show ?thesis using stepD [OF assms] v run by blast
  next
    case (Err er)
    with new_network_result [OF new] s have "sv_none u" by (auto simp: sv_none_def intro: idle_procs)
    then show ?thesis using run new Err fresh_inv(3) by (auto simp: bindP_def)
  qed (use run new in \<open>auto simp: bindP_def\<close>)
qed

lemma step_root_dir: "procs_only P \<Longrightarrow> step P (root_data_dir e d) P"
  unfolding root_data_dir_def MkDirWithTimestamp_def Let_def by (intro step_intros pres_intros fs_pres)

lemma step_LoadSnapshot [step_intros]: "step (sv_inv N) (sv_LoadSnapshot e ce ae req) (sv_inv N)"
  unfolding sv_LoadSnapshot_def
  by (rule step_not_bootstrapped, rule step_bindP [OF step_root_dir [OF procs_only_fresh(3)] _ fresh_inv(3)],
      rule step_bindP [OF step_getC _ fresh_inv(3)], rule step_load_network,
      rule step_bindP [OF step_handled [OF step_fresh_onLC [OF step_lc_LoadSnapshot]]])
    (intro step_intros step_onLC | assumption)+

lemma step_set_clusterInfo: "step sv_none (set_clusterInfo c) (\<lambda>s. sv_none s \<and> sv_clusterInfo (fst s) \<noteq> None)"
  unfolding set_clusterInfo_def by (rule step_modC) (auto simp: sv_none_def)

lemma step_Start [step_intros]: "step (sv_inv N) (sv_Start e ce ae def req) (sv_inv N)"
proof -
  have run: "step sv_fresh (bindP (on_error (onLC (lc_Start e ce ae def)) (\<lambda>_. stopAndRemoveNetwork e None)) f) (sv_inv N)"
    if "\<And>x. step (sv_inv N) (f x) (sv_inv N)" for f :: "unit \<Rightarrow> (sv_state, ClusterInfo \<times> string list) prog"
    by (rule step_bindP [OF step_handled [OF step_fresh_onLC [OF step_lc_Start]]]) (intro step_intros that | assumption)+
  note none = fresh_inv(3)
  show ?thesis unfolding sv_Start_def Let_def
    apply (rule step_not_bootstrapped, rule step_cases(1), rule step_weaken [OF step_basic(2) _ none], assumption, assumption)
    apply (rule step_bindP [OF step_specs(4) _ none], simp, rule step_bindP [OF step_mapP _ none], intro step_specs, simp)
    apply (rule step_bindP [OF step_root_dir _ none], simp, rule step_bindP [OF step_set_clusterInfo])
    apply (rule step_bindP [OF step_getC])
    apply (rule step_new_network, rule run)
    apply (intro step_intros step_onLC; blast intro: none)+
    apply (simp_all add: none)
    done
qed

lemma step_WaitForHealthy [step_intros]: "step (sv_inv N) (WaitForHealthy_turn ap c b) (sv_inv N)"
  unfolding WaitForHealthy_turn_def async_turn_def
  by (intro step_intros) (auto simp: sv_inv_def)

end

section \<open>The local network meets the contract\<close>

definition in_use :: "net_state \<Rightarrow> bool" where
  "in_use s \<longleftrightarrow> net_inv s \<and> once False s"

lemma pres_both: "pres P m \<Longrightarrow> pres Q m \<Longrightarrow> pres (\<lambda>s. P s \<and> Q s) m"
  by (rule presI) (auto dest: presD)

lemma pres_in_use: "pres net_inv m \<Longrightarrow> pres (once False) m \<Longrightarrow> pres in_use m"
  unfolding in_use_def by (rule pres_both)

lemma pres_in_use_chain: "pres (net_P net_inv) m \<Longrightarrow> pres (net_P (once False)) m \<Longrightarrow> pres (net_P in_use) m"
  by (rule presI) (auto simp: net_P_def in_use_def dest: pres_netD [of net_inv] pres_netD [of "once False"])

text \<open>Loading a snapshot touches the nodes only by loading the configuration, which comes last.\<close>

definition no_nodes :: "net_state \<Rightarrow> bool" where
  "no_nodes s \<longleftrightarrow> ln_nodes (fst s) = []"

lemma no_nodes_onW: "pres no_nodes (onW m)"
  by (rule presI) (auto simp: onW_eq_iff no_nodes_def)

lemma no_nodes_load_state: "pres no_nodes (load_state e d)"
  by (rule presI, drule presD [OF quiet_load_state, rotated]) (auto simp: quiet_def no_nodes_def)

lemma loadSnapshot_Err:
  "hoare no_nodes (loadSnapshot e name bin pd cc uc sc fl) (\<lambda>r t. case r of Err er \<Rightarrow> no_nodes t | _ \<Rightarrow> True)"
proof -
  have "hoare no_nodes (loadConfig e cfg) (\<lambda>r t. case r of Err er \<Rightarrow> no_nodes t | _ \<Rightarrow> True)" for cfg
    by (rule hoareI) (auto simp: no_nodes_def dest: loadConfig_Err split: res.splits)
  then show ?thesis unfolding loadSnapshot_def Let_def
    by (intro hoare_pres_bindP pres_intros no_nodes_onW no_nodes_load_state) simp_all
qed

lemma no_nodes_idle: "net_inv (l, w) \<Longrightarrow> no_nodes (l, w) \<Longrightarrow> idle w"
  by (simp add: net_inv_def no_nodes_def idle_def)

lemma created_in_use:
  assumes w: "idle w" and new: "newNetwork e rd sd re w = (q, w0)"
    and load: "\<And>l0. q = Ok l0 \<Longrightarrow> load (l0, w0) = (r, (l, w'))"
    and inv: "pres net_inv load" "pres (once False) load"
    and err: "hoare no_nodes load (\<lambda>r t. case r of Err er \<Rightarrow> no_nodes t | _ \<Rightarrow> True)" and q: "is_Ok q"
  shows "case r of Ok _ \<Rightarrow> in_use (l, w') | Err _ \<Rightarrow> idle w' | Panic _ \<Rightarrow> True"
proof -
  obtain l0 where l0: "q = Ok l0" using q by (auto simp: is_Ok_iff)
  then have start: "net_inv (l0, w0)" "once False (l0, w0)" "no_nodes (l0, w0)"
    using newNetwork_Ok [of e rd sd re w l0 w0] new w by (auto simp: net_inv_def idle_def once_def no_nodes_def)
  note run = load [OF l0]
  have "net_inv (l, w')" "once False (l, w')"
    using presD [OF inv(1) start(1) run] presD [OF inv(2) start(2) run] by auto
  then show ?thesis using hoareD [OF err start(3) run] no_nodes_idle by (auto simp: in_use_def split: res.splits)
qed

lemma newNetwork_procs: "newNetwork e rd sd re w = (q, w0) \<Longrightarrow> idle w \<Longrightarrow> idle w0"
proof -
  assume new: "newNetwork e rd sd re w = (q, w0)" and w: "idle w"
  have "pres (same_procs (procs w)) (newNetwork e rd sd re)"
    unfolding newNetwork_def MkDirWithTimestamp_def Let_def by (intro pres_intros fs_pres)
  from presD [OF this _ new] show "idle w0" using w by (simp add: same_procs_def idle_def)
qed

lemma in_use_nodes:
  "pres in_use (AddNode e nc)" "pres in_use (RemoveNode e n)" "pres in_use (PauseNode e n)" "pres in_use (ResumeNode e n)"
  "pres in_use (RestartNode e n bin pd ts cc uc sc)" "pres in_use (SaveSnapshot e name)"
  unfolding AddNode_def RemoveNode_def PauseNode_def ResumeNode_def RestartNode_def
  by (intro pres_in_use pres_intros inv.keep_addNode pres_removeNode pres_pauseNode pres_resumeNode inv.keep_restartNode
      pres_SaveSnapshot once_pres)+

lemma in_use_files:
  "pres (net_P in_use) (update_config n (put_subnet_config k v))"
  "pres (net_P in_use) (update_config n (put_chain_config k v))"
  "pres (net_P in_use) (update_config n (put_upgrade_config k v))"
  by (intro pres_in_use_chain pres_config_files once_pres)+

lemma in_use_peers:
  assumes "in_use (l, w)" "map_of (ln_nodes l) n = Some node"
  shows "in_use (ln_nodes_update (AList.update n (node\<lparr>n_attachedPeers := ps\<rparr>)) l, w)"
proof -
  have ok: "net_ok (ln_nodes l) (procs w)" using assms(1) by (simp add: in_use_def net_inv_def)
  have "node_ok n (node\<lparr>n_attachedPeers := ps\<rparr>) (procs w)" using net_ok_node [OF ok assms(2)] by (simp add: node_ok_def)
  from net_ok_update [OF ok assms(2) this] show ?thesis using assms(1) by (simp add: in_use_def net_inv_def once_def)
qed

lemma in_use_Stop:
  assumes "in_use s" "Stop e s = (r, t)"
  shows "\<not> is_Panic r \<and> idle (snd t)"
proof -
  let ?u = "((fst s)\<lparr>ln_stopOnce := True, ln_onStopCh := True\<rparr>, snd s)"
  have run: "net_stop e ?u = (r, t)" using assms by (simp add: Stop_def stop_begin_def in_use_def once_def)
  have "net_inv t" using presD [OF pres_Stop _ assms(2)] assms(1) by (simp add: in_use_def)
  then show ?thesis using net_stop_result [OF run] no_nodes_idle [of "fst t" "snd t"] by (simp add: no_nodes_def)
qed

lemma in_use_created:
  assumes "idle w" "NewNetwork e cfg rd sd re w = (r, nw, w')"
  shows "case r of Ok _ \<Rightarrow> \<exists>l. nw = Some l \<and> in_use (l, w') | Err _ \<Rightarrow> idle w' | Panic _ \<Rightarrow> True"
proof -
  obtain q w0 where new: "newNetwork e rd sd re w = (q, w0)" by (rule prod.exhaust)
  have err: "hoare no_nodes (loadConfig e cfg) (\<lambda>r t. case r of Err er \<Rightarrow> no_nodes t | _ \<Rightarrow> True)"
    by (rule hoareI) (auto simp: no_nodes_def dest: loadConfig_Err split: res.splits)
  show ?thesis
  proof (cases q)
    case (Ok l0)
    then obtain l where load: "loadConfig e cfg (l0, w0) = (r, (l, w'))" "nw = Some l"
      using assms(2) new by (auto simp: NewNetwork_def split: prod.splits)
    show ?thesis
      using created_in_use [OF assms(1) new _ pres_loadConfig once_load err] load Ok by (auto split: res.splits)
  qed (use newNetwork_procs [OF new assms(1)] assms(2) new in \<open>auto simp: NewNetwork_def\<close>)
qed

lemma in_use_loaded:
  assumes "idle w" "NewNetworkFromSnapshot e name rd sd bin pd cc uc sc fl re w = (r, nw, w')"
  shows "case r of Ok _ \<Rightarrow> \<exists>l. nw = Some l \<and> in_use (l, w') | Err _ \<Rightarrow> idle w' | Panic _ \<Rightarrow> True"
proof -
  obtain q w0 where new: "newNetwork e rd sd re w = (q, w0)" by (rule prod.exhaust)
  show ?thesis
  proof (cases q)
    case (Ok l0)
    then obtain l where load: "loadSnapshot e name bin pd cc uc sc fl (l0, w0) = (r, (l, w'))" "nw = Some l"
      using assms(2) new by (auto simp: NewNetworkFromSnapshot_def split: prod.splits)
    have "case r of Ok _ \<Rightarrow> in_use (l, w') | Err _ \<Rightarrow> idle w' | Panic _ \<Rightarrow> True"
      by (rule created_in_use [OF assms(1) new _ pres_loadSnapshot once_loadSnapshot loadSnapshot_Err])
        (use load(1) Ok in auto)
    then show ?thesis using load(2) by (auto split: res.splits)
  qed (use newNetwork_procs [OF new assms(1)] assms(2) new in \<open>auto simp: NewNetworkFromSnapshot_def\<close>)
qed

interpretation lnet: network_contract in_use
proof unfold_locales
  show "pres in_use (addNode e nc)" "pres in_use (restartNode e n bin pd ts cc uc sc)" "pres in_use (track_one e ids ss vs rs n)"
    for e nc n bin pd ts cc uc sc ids ss vs rs
    by (intro pres_in_use inv.keep_addNode inv.keep_restartNode inv.keep_track once_pres)+
  show "in_use (l, w')" if "in_use (l, w)" "procs w' = procs w" for l w w'
    using that by (simp add: in_use_def net_inv_def once_def)
  show "in_use (ln_subnetID2ElasticSubnetID_update f l, w)" if "in_use (l, w)" for f l w
    using that by (simp add: in_use_def net_inv_def once_def)
  show "in_use (l, w\<lparr>procs := (procs w)[pid := snd (np_Stop c (procs w ! pid))]\<rparr>)" if "in_use (l, w)" "pid < length (procs w)"
    for l w pid c using that net_ok_exit by (simp add: in_use_def net_inv_def once_def)
qed (fact in_use_nodes in_use_files in_use_peers in_use_Stop in_use_created in_use_loaded)+

end
