(* ===== verification/Start_Config.thy ===== *)
theory Start_Config
  imports Server_Network Json_Roundtrip
begin

text \<open>
  The configuration that \<^verbatim>\<open>Start\<close> builds for a new network (\<^verbatim>\<open>createConfig\<close> of \<^verbatim>\<open>server/network.go\<close>): which
  of the default flags, the flags of the request for all nodes and those for one node wins, and when
  the maps of the default nodes make it panic.
\<close>

section \<open>Maps that are read from JSON have no repeated key\<close>

lemma keep_last_wf: "distinct (map fst (keep_last kvs))"
proof -
  have "distinct (map fst m) \<Longrightarrow> distinct (map fst (fold (\<lambda>(k, v) m. AList.update k v m) kvs m))" for m
    by (induction kvs arbitrary: m) (auto simp: distinct_update)
  then show ?thesis by (simp add: keep_last_def)
qed

lemma parse_num_not_object: "parse_num s \<noteq> Some (VObj kvs, r)"
  by (auto simp: parse_num_def parse_unsigned_def parse_scale_def Let_def split: option.splits list.splits if_splits prod.splits)

lemma parse_val_object: "parse_val f s = Some (VObj kvs, r) \<Longrightarrow> distinct (map fst kvs)"
  by (cases f) (auto simp: keep_last_wf parse_num_not_object split: list.splits if_splits)

lemma unmarshal_map_wf: "unmarshal_map s = Ok m \<Longrightarrow> distinct (map fst (mrange m))"
  by (auto simp: unmarshal_map_def json_value_def simp del: parse_val.simps
      split: option.splits val.splits if_splits prod.splits dest: parse_val_object)

lemma optional_map_wf: "optional_map s = Ok m \<Longrightarrow> distinct (map fst (mrange m))"
  by (auto simp: optional_map_def dest: unmarshal_map_wf split: if_splits)

lemma custom_config_wf: "custom_config lc n = Ok m \<Longrightarrow> distinct (map fst (mrange m))"
  by (auto simp: custom_config_def dest: optional_map_wf split: option.splits)

lemma map_of_mrange: "map_of (mrange m) = mget m"
  by (cases m) auto

lemma mget_Some: "mget (Some xs) = map_of xs"
  by (rule ext) simp

lemma mput_all_Ok:
  assumes "mput_all (mrange src) dst = Ok m" "distinct (map fst (mrange src))"
  shows "mget m = mget dst ++ mget src"
proof (cases dst)
  case None
  then show ?thesis using assms(1) map_of_mrange [of src]
    by (auto simp: mput_all_None mget_None_iff split: list.splits)
next
  case (Some xs)
  have "map_of (rev (mrange src)) = mget src" using assms(2) map_of_mrange [of src]
    by (metis distinct_rev map_of_inject_set rev_map set_rev)
  then show ?thesis using mput_all_Some [of "mrange src" xs] assms(1) Some by (auto simp: mget_Some)
qed

section \<open>The nodes\<close>

text \<open>
  The flags of a node: a flag that the request gives for this node wins over the tracked subnets, which
  win over the flags of the default node, of which the ports are dropped if they are to be chosen
  dynamically.
\<close>

definition node_flag :: "env \<Rightarrow> localNetworkOptions \<Rightarrow> val gomap \<Rightarrow> val gomap \<Rightarrow> string \<Rightarrow> val option" where
  "node_flag e opts custom base k =
     (if mget custom k \<noteq> None then mget custom k
      else if opt_trackSubnets opts \<noteq> [] \<and> k = TrackSubnetsKey e then Some (VStr (opt_trackSubnets opts))
      else if opt_dynamicPorts opts \<and> k \<in> {HTTPPortKey e, StakingPortKey e} then None
      else mget base k)"

definition configured :: "env \<Rightarrow> lcNetwork \<Rightarrow> nat \<Rightarrow> NodeConfig \<Rightarrow> NodeConfig \<Rightarrow> bool" where
  "configured e lc i base nc \<longleftrightarrow>
     nc_Name nc = ''node'' @ show_nat (i + 1) \<and> nc_BinaryPath nc = lc_execPath lc \<and>
     nc_RedirectStdout nc = opt_redirectNodesOutput (lc_options lc) \<and>
     nc_RedirectStderr nc = opt_redirectNodesOutput (lc_options lc) \<and>
     nc_IsBeacon nc = nc_IsBeacon base \<and> nc_StakingKey nc = nc_StakingKey base \<and>
     nc_StakingCert nc = nc_StakingCert base \<and> nc_StakingSigningKey nc = nc_StakingSigningKey base \<and>
     (\<exists>custom. custom_config lc (nc_Name nc) = Ok custom \<and>
        (\<forall>k. mget (nc_Flags nc) k = node_flag e (lc_options lc) custom (nc_Flags base) k))"

lemma track_flag:
  assumes "(if s \<noteq> [] then mput (TrackSubnetsKey e) (VStr s) m else Ok m) = Ok m'"
  shows "mget m' = (if s \<noteq> [] then (mget m)(TrackSubnetsKey e \<mapsto> VStr s) else mget m)"
  using assms mget_mput [of "TrackSubnetsKey e" "VStr s" m m'] by (auto split: if_splits)

lemma config_node_Ok:
  assumes "config_node e lc (i, base) = Ok nc"
  shows "configured e lc i base nc"
proof -
  let ?opts = "lc_options lc" and ?name = "''node'' @ show_nat (i + 1)"
  define f0 where "f0 = (if nc_Flags base = None then Some [] else nc_Flags base)"
  define f1 where "f1 = (if opt_dynamicPorts ?opts then mdel (StakingPortKey e) (mdel (HTTPPortKey e) f0) else f0)"
  obtain f2 custom f3 where f2: "(if opt_trackSubnets ?opts \<noteq> []
      then mput (TrackSubnetsKey e) (VStr (opt_trackSubnets ?opts)) f1 else Ok f1) = Ok f2"
    and custom: "custom_config lc ?name = Ok custom" and f3: "mput_all (mrange custom) f2 = Ok f3"
    and nc: "nc_Name nc = ?name" "nc_Flags nc = f3" "nc_BinaryPath nc = lc_execPath lc"
      "nc_RedirectStdout nc = opt_redirectNodesOutput ?opts" "nc_RedirectStderr nc = opt_redirectNodesOutput ?opts"
      "nc_IsBeacon nc = nc_IsBeacon base" "nc_StakingKey nc = nc_StakingKey base"
      "nc_StakingCert nc = nc_StakingCert base" "nc_StakingSigningKey nc = nc_StakingSigningKey base"
    using assms unfolding config_node_def Let_def prod.case f1_def f0_def by (auto simp only: bindR_eq_Ok) auto
  have "mget f0 = mget (nc_Flags base)" by (auto simp: f0_def mget_None_iff)
  then have "mget f3 k = node_flag e ?opts custom (nc_Flags base) k" for k
    using mput_all_Ok [OF f3 custom_config_wf [OF custom]] track_flag [OF f2]
    by (auto simp: f1_def node_flag_def map_add_def split: option.splits)
  then show ?thesis using nc custom by (auto simp: configured_def)
qed

lemma NewDefaultConfigNNodes_length:
  "NewDefaultConfigNNodes e def bin n w = (Ok cfg, w') \<Longrightarrow> length (cfg_NodeConfigs cfg) = unat n"
proof (cases "length (cfg_NodeConfigs def) < unat n")
  case True
  assume "NewDefaultConfigNNodes e def bin n w = (Ok cfg, w')"
  with True obtain a p added u u' where
    "foldP (\<lambda>i acc. bindP (added_node e (last (cfg_NodeConfigs def)) a p i) (\<lambda>nc. ret (acc @ [nc])))
      [0..<unat n - length (cfg_NodeConfigs def)] [] u = (Ok added, u')"
    and cfg: "cfg = (NewDefaultConfig def bin)\<lparr>cfg_NodeConfigs := cfg_NodeConfigs def @ added\<rparr>"
    by (auto simp: NewDefaultConfigNNodes_def Let_def NewDefaultConfig_def bindP_eq_Ok split: if_splits)
  then have "length added = unat n - length (cfg_NodeConfigs def)"
    by (auto dest!: added_nodes_Ok list_all2_lengthD)
  then show ?thesis using True cfg by simp
qed (auto simp: NewDefaultConfigNNodes_def Let_def NewDefaultConfig_def)

lemma createConfig_Ok:
  assumes "createConfig e def (lc, w, txs) = (Ok (), t)"
  obtains cfg w' global flags nodes where
    "NewDefaultConfigNNodes e def (opt_execPath (lc_options lc)) (opt_numNodes (lc_options lc)) w = (Ok cfg, w')"
    "optional_map (opt_globalNodeConfig (lc_options lc)) = Ok global" "mput_all (mrange global) (cfg_Flags cfg) = Ok flags"
    "mapR (config_node e lc) (List.enumerate 0 (cfg_NodeConfigs cfg)) = Ok nodes"
    "t = (lc\<lparr>lc_cfg := cfg\<lparr>cfg_Flags := (if lc_pluginDir lc \<noteq> [] then map_option (AList.update (PluginDirKey e) (VStr (lc_pluginDir lc))) flags
       else flags), cfg_NodeConfigs := nodes\<rparr>\<rparr>, w', txs)"
    "lc_pluginDir lc \<noteq> [] \<longrightarrow> flags \<noteq> None"
  using assms
  by (auto simp: createConfig_def bindP_eq_Ok getC_def gets_def modC_def modify_def liftR_def onS_def zoomP_def
      split: if_splits prod.splits)

lemma createConfig_result:
  assumes "createConfig e def (lc, w, txs) = (Ok (), (lc', w', txs'))"
  shows "\<exists>base global. fst (NewDefaultConfigNNodes e def (opt_execPath (lc_options lc)) (opt_numNodes (lc_options lc)) w) = Ok base \<and>
    optional_map (opt_globalNodeConfig (lc_options lc)) = Ok global \<and>
    (let nodes = cfg_NodeConfigs (lc_cfg lc') in
     length nodes = unat (opt_numNodes (lc_options lc)) \<and> distinct (map nc_Name nodes) \<and>
     (\<forall>i < length nodes. configured e lc i (cfg_NodeConfigs base ! i) (nodes ! i))) \<and>
    (\<forall>k. mget (cfg_Flags (lc_cfg lc')) k =
       (if lc_pluginDir lc \<noteq> [] \<and> k = PluginDirKey e then Some (VStr (lc_pluginDir lc))
        else if mget global k \<noteq> None then mget global k else mget (cfg_Flags base) k))"
proof -
  obtain base w1 global flags nodes where run:
    "NewDefaultConfigNNodes e def (opt_execPath (lc_options lc)) (opt_numNodes (lc_options lc)) w = (Ok base, w1)"
    "optional_map (opt_globalNodeConfig (lc_options lc)) = Ok global" "mput_all (mrange global) (cfg_Flags base) = Ok flags"
    "mapR (config_node e lc) (List.enumerate 0 (cfg_NodeConfigs base)) = Ok nodes"
    and lc': "cfg_Flags (lc_cfg lc') = (if lc_pluginDir lc \<noteq> [] then map_option (AList.update (PluginDirKey e) (VStr (lc_pluginDir lc))) flags
       else flags)" "cfg_NodeConfigs (lc_cfg lc') = nodes" and fl: "lc_pluginDir lc \<noteq> [] \<longrightarrow> flags \<noteq> None"
    using assms by (rule createConfig_Ok) auto
  have all: "list_all2 (\<lambda>x y. config_node e lc x = Ok y) (List.enumerate 0 (cfg_NodeConfigs base)) nodes"
    using run(4) by (simp add: mapR_eq_Ok)
  then have len: "length nodes = length (cfg_NodeConfigs base)" by (auto dest: list_all2_lengthD)
  have node: "configured e lc i (cfg_NodeConfigs base ! i) (nodes ! i)" if "i < length nodes" for i
    using list_all2_nthD2 [OF all that] that len by (auto simp: nth_enumerate_eq intro: config_node_Ok)
  then have "distinct (map nc_Name nodes)" by (auto simp: distinct_conv_nth configured_def)
  moreover have "mget (cfg_Flags (lc_cfg lc')) k =
       (if lc_pluginDir lc \<noteq> [] \<and> k = PluginDirKey e then Some (VStr (lc_pluginDir lc))
        else if mget global k \<noteq> None then mget global k else mget (cfg_Flags base) k)" for k
    using mput_all_Ok [OF run(3) optional_map_wf [OF run(2)]] fl by (auto simp: lc' map_add_def mget_Some split: option.splits)
  ultimately show ?thesis
    using run(1,2) node len NewDefaultConfigNNodes_length [OF run(1)] lc'(2) by (auto simp: Let_def)
qed

section \<open>Properties\<close>

text \<open>
  C8. The configuration that \<^verbatim>\<open>Start\<close> builds, whenever it is built: it has as many nodes as requested, called
  \<^verbatim>\<open>node1\<close>, \<^verbatim>\<open>node2\<close> and so on; every node runs the requested binary; its flags are those of the default
  node, without the ports if these are dynamic, overridden by the subnets to track and then by
  the flags that the request gives for that node. The flags for all nodes are the default ones,
  overridden by the request's, and then by the plugin directory.
\<close>

theorem createConfig_correct:
  assumes "createConfig e def (lc, w, txs) = (Ok (), (lc', w', txs'))"
  shows "\<exists>base global. fst (NewDefaultConfigNNodes e def (opt_execPath (lc_options lc)) (opt_numNodes (lc_options lc)) w) = Ok base \<and>
    optional_map (opt_globalNodeConfig (lc_options lc)) = Ok global \<and>
    (let nodes = cfg_NodeConfigs (lc_cfg lc') in
     length nodes = unat (opt_numNodes (lc_options lc)) \<and> distinct (map nc_Name nodes) \<and>
     (\<forall>i < length nodes. configured e lc i (cfg_NodeConfigs base ! i) (nodes ! i))) \<and>
    (\<forall>k. mget (cfg_Flags (lc_cfg lc')) k =
       (if lc_pluginDir lc \<noteq> [] \<and> k = PluginDirKey e then Some (VStr (lc_pluginDir lc))
        else if mget global k \<noteq> None then mget global k else mget (cfg_Flags base) k))"
  using assms by (rule createConfig_result)

text \<open>The default nodes have no maps for chain, upgrade and subnet configurations of their own.\<close>

lemma default_node_maps:
  "default_node dir i = Ok nc \<Longrightarrow>
   nc_ChainConfigFiles nc = None \<and> nc_UpgradeConfigFiles nc = None \<and> nc_SubnetConfigFiles nc = None"
  by (auto simp: default_node_def)

lemma config_node_nil_map:
  assumes "nc_ChainConfigFiles nc = None" "mrange (opt_chainConfigs (lc_options lc)) \<noteq> []"
  shows "config_node e lc (i, nc) = Panic ''assignment to entry in nil map''"
  using assms by (simp add: config_node_def Let_def mput_all_None split: list.splits)


section \<open>The theorems at work\<close>

definition demo_options :: localNetworkOptions where
  "demo_options = \<lparr>opt_execPath = ''luxd'', opt_rootDataDir = ''/tmp/net'', opt_numNodes = 2, opt_trackSubnets = ''sub'',
     opt_redirectNodesOutput = True, opt_globalNodeConfig = [], opt_pluginDir = [],
     opt_customNodeConfigs = None, opt_chainConfigs = None, opt_upgradeConfigs = None, opt_subnetConfigs = None,
     opt_snapshotsDir = [], opt_reassignPortsIfUsed = False, opt_dynamicPorts = False\<rparr>"

definition demo_lc :: lcNetwork where
  "demo_lc = \<lparr>lc_execPath = ''luxd'', lc_pluginDir = [], lc_cfg = zero_config, lc_nw = None, lc_nodeInfos = [],
     lc_options = demo_options, lc_customChainIDToInfo = [], lc_stopOnce = False, lc_subnets = [],
     lc_prometheusConfPath = []\<rparr>"

lemma demo_config_node: "is_Ok (config_node e demo_lc (i, nc))"
proof -
  obtain m where "mput (TrackSubnetsKey e) (VStr ''sub'') (if nc_Flags nc = None then Some [] else nc_Flags nc) = Ok m"
    by (cases "nc_Flags nc") auto
  then show ?thesis
    by (simp add: config_node_def Let_def demo_lc_def demo_options_def mput_all_def custom_config_def del: mput_Ok)
qed

theorem createConfig_correct_witness:
  "\<exists>lc' w' txs'. createConfig demo_env demo_default (demo_lc, demo_world, []) = (Ok (), (lc', w', txs')) \<and>
     map nc_Name (cfg_NodeConfigs (lc_cfg lc')) = [''node1'', ''node2''] \<and>
     (\<forall>nc \<in> set (cfg_NodeConfigs (lc_cfg lc')). nc_BinaryPath nc = ''luxd'' \<and>
        mget (nc_Flags nc) ''track-subnets'' = Some (VStr ''sub''))"
proof -
  have "succeeds (NewDefaultConfigNNodes demo_env demo_default ''luxd'' 2)"
    using demo_ports by (intro succ_NewDefaultConfigNNodes)
  then obtain cfg w' where new: "NewDefaultConfigNNodes demo_env demo_default ''luxd'' 2 demo_world = (Ok cfg, w')"
    unfolding succeeds_def by blast
  have "length (cfg_NodeConfigs cfg) = 2" using NewDefaultConfigNNodes_length [OF new] by simp
  then obtain n1 n2 where nodes: "cfg_NodeConfigs cfg = [n1, n2]"
    by (auto simp: numeral_2_eq_2 length_Suc_conv)
  obtain m1 m2 where "config_node demo_env demo_lc (0, n1) = Ok m1" "config_node demo_env demo_lc (1, n2) = Ok m2"
    using demo_config_node unfolding is_Ok_iff by blast
  then have "\<exists>lc' w' txs'. createConfig demo_env demo_default (demo_lc, demo_world, []) = (Ok (), (lc', w', txs'))"
    using new nodes
    by (simp add: createConfig_def bindP_def getC_def gets_def onS_def zoomP_def liftR_def modC_def modify_def
        optional_map_def mput_all_def demo_lc_def demo_options_def)
  then obtain lc' w' txs' where run: "createConfig demo_env demo_default (demo_lc, demo_world, []) = (Ok (), (lc', w', txs'))"
    by blast
  have lc: "lc_options demo_lc = demo_options" "lc_execPath demo_lc = ''luxd''" "opt_numNodes demo_options = 2"
    "opt_trackSubnets demo_options = ''sub''" "opt_customNodeConfigs demo_options = None"
    by (simp_all add: demo_lc_def demo_options_def)
  have key: "TrackSubnetsKey demo_env = ''track-subnets''" by (simp add: demo_env_def)
  have names: "''node'' @ show_nat (0 + 1) = ''node1''" "''node'' @ show_nat (1 + 1) = ''node2''" by code_simp+
  let ?nodes = "cfg_NodeConfigs (lc_cfg lc')"
  have ok: "length ?nodes = 2" "\<forall>i < 2. \<exists>b. configured demo_env demo_lc i b (?nodes ! i)"
    using createConfig_correct [OF run] lc by (auto simp: Let_def)
  then obtain a b where ab: "?nodes = [a, b]" by (auto simp: numeral_2_eq_2 length_Suc_conv)
  have "\<exists>x. configured demo_env demo_lc 0 x a" "\<exists>x. configured demo_env demo_lc 1 x b"
    using ok(2) ab by (auto simp: numeral_2_eq_2 All_less_Suc)
  then show ?thesis using run ab names
    by (auto simp: configured_def lc node_flag_def custom_config_def key)
qed


end
