(* ===== verification/Server_Demo.thy ===== *)
theory Server_Demo
  imports Server_Contract Start_Config
begin

text \<open>
  A server that has started a network: a \<^verbatim>\<open>Start\<close> request for one node, in an environment where nothing
  fails, followed to its end. The theorems about the server are applied to the state it leads to.
\<close>

section \<open>Total correctness\<close>

definition runs :: "('s \<Rightarrow> bool) \<Rightarrow> ('s, 'a) prog \<Rightarrow> ('a \<Rightarrow> 's \<Rightarrow> bool) \<Rightarrow> bool" where
  "runs P m Q \<longleftrightarrow> (\<forall>s. P s \<longrightarrow> (\<exists>x t. m s = (Ok x, t) \<and> Q x t))"

lemma runsI: "(\<And>s. P s \<Longrightarrow> \<exists>x t. m s = (Ok x, t) \<and> Q x t) \<Longrightarrow> runs P m Q"
  by (simp add: runs_def)

lemma runsD: "runs P m Q \<Longrightarrow> P s \<Longrightarrow> \<exists>x t. m s = (Ok x, t) \<and> Q x t"
  by (simp add: runs_def)

lemma runs_bindP: "runs P m R \<Longrightarrow> (\<And>x. runs (R x) (f x) Q) \<Longrightarrow> runs P (bindP m f) Q"
  unfolding runs_def bindP_def by fastforce

lemma runs_pre: "runs P m Q \<Longrightarrow> (\<And>s. P' s \<Longrightarrow> P s) \<Longrightarrow> runs P' m Q"
  by (auto simp: runs_def)

lemma runs_on_error: "runs P m Q \<Longrightarrow> runs P (on_error m h) Q"
  by (fastforce simp: runs_def on_error_def catchP_def)

lemma runs_onS:
  assumes "succeeds m" "\<And>ps. pres (same_procs ps) m" "procs_only P"
  shows "runs P (onS m) (\<lambda>_. P)"
proof (rule runsI)
  fix s assume P: "P s"
  obtain x w txs where s: "s = (x, w, txs)" by (rule prod_cases3)
  obtain y w' where run: "m w = (Ok y, w')" using assms(1) unfolding succeeds_def by blast
  then have "procs w' = procs w" using presD [OF assms(2) _ run, of "procs w"] by (simp add: same_procs_def)
  then have "P (x, w', txs)" using assms(3) P s unfolding procs_only_def by blast
  then show "\<exists>y t. onS m s = (Ok y, t) \<and> P t" using run s by (auto simp: onS_def zoomP_def)
qed

lemma runs_onLC:
  assumes "runs P m (\<lambda>_. Q)"
  shows "runs (\<lambda>(s, w, txs). sv_clusterInfo s \<noteq> None \<and> (\<exists>lc. sv_network s = Some lc \<and> P (lc, w, txs))) (onLC m)
    (\<lambda>_ (s, w, txs). sv_clusterInfo s \<noteq> None \<and> (\<exists>lc. sv_network s = Some lc \<and> Q (lc, w, txs)))"
  by (rule runsI) (auto simp: onLC_def share_subnets_def dest!: runsD [OF assms])

section \<open>A network with one healthy node\<close>

definition up_node :: "world \<Rightarrow> localNode \<Rightarrow> bool" where
  "up_node w node \<longleftrightarrow> \<not> n_paused node \<and> n_apiPort node = 9650 \<and> node_Status node w = Running \<and>
     n_process node < length (procs w) \<and> (\<exists>s. GetFlag node ''track-subnets'' = Ok s)"

definition up :: "lc_state \<Rightarrow> bool" where
  "up = (\<lambda>(lc, w, txs). \<exists>l node. lc_nw lc = Some l \<and> \<not> stopCalled l \<and> ln_nodes l = [(''node1'', node)] \<and> up_node w node \<and>
     lc_customChainIDToInfo lc = [])"

definition demo_api :: api_env where
  "demo_api = \<lparr>GetBlockchains = (\<lambda>t u. Ok []), GetSubnets = (\<lambda>t u. Ok []), GetCurrentSupply = (\<lambda>t u i. Ok ()),
     logFactory_Make = (\<lambda>t d. Ok ()), peer_Attach = (\<lambda>t u. Ok ''peer''), peer_Send = (\<lambda>t u b oper. True),
     net_Listen = (\<lambda>p. Ok ()), time_Parse = (\<lambda>s. Ok 0), os_Getpid = 42\<rparr>"

lemma procs_only_up: "procs_only up"
  by (auto simp: procs_only_def up_def up_node_def node_Status_def proc_Status_def)

lemma up_modC:
  assumes "\<And>lc. lc_nw (f lc) = lc_nw lc \<and> lc_customChainIDToInfo (f lc) = lc_customChainIDToInfo lc"
  shows "runs up (modC f) (\<lambda>_. up)"
  by (rule runsI) (auto simp: modC_def modify_def up_def assms)

lemma up_getC: "runs up (getC f) (\<lambda>_. up)"
  by (rule runsI) (auto simp: getC_def gets_def)

lemma up_ret: "runs up (ret x) (\<lambda>_. up)"
  by (rule runsI) (simp add: ret_def)

lemma up_write: "runs up (onS (os_WriteFile demo_env2 p c)) (\<lambda>_. up)"
  by (rule runs_onS [OF succ_fs(2) [OF demo_smooth(2)] _ procs_only_up]) (rule fs_pres)

lemma up_askS: "runs up (askS (\<lambda>t. Ok x)) (\<lambda>y t. up t \<and> y = x)"
  by (rule runsI)
    (auto simp: askS_def bindP_def onS_def zoomP_def tick_def gets_def modify_def ret_def liftR_def up_def up_node_def
      node_Status_def proc_Status_def)

lemma up_prometheus: "runs up (generatePrometheusConf demo_env2) (\<lambda>_. up)"
  unfolding generatePrometheusConf_def
  by (rule runs_bindP [OF up_modC], simp, rule runs_bindP [OF up_getC], rule runs_bindP [OF up_write], rule up_write)

lemma up_nodes: "runs up (on_nw (onN GetAllNodes)) (\<lambda>ns t. up t \<and> (\<exists>node. ns = [(''node1'', node)] \<and> up_node (fst (snd t)) node))"
  by (rule runsI) (auto simp: on_nw_def onN_def zoomP_def GetAllNodes_def bindP_def getL_def gets_def up_def)

lemma up_put_node_info: "up_node w node \<Longrightarrow> runs up (put_node_info demo_env2 (n, node)) (\<lambda>_. up)"
  by (rule runsI)
    (auto simp: put_node_info_def bindP_def liftR_def modC_def modify_def up_def up_node_def demo_env2_def demo_env_def)

lemma up_updateNodeInfo: "runs up (updateNodeInfo demo_env2) (\<lambda>_. up)"
  unfolding updateNodeInfo_def
proof (rule runs_bindP [OF up_nodes])
  fix ns
  show "runs (\<lambda>t. up t \<and> (\<exists>node. ns = [(''node1'', node)] \<and> up_node (fst (snd t)) node))
    (bindP (modC (lc_nodeInfos_update (\<lambda>_. []))) (\<lambda>_. bindP (forP ns (put_node_info demo_env2)) (\<lambda>_. generatePrometheusConf demo_env2)))
    (\<lambda>_. up)" (is "runs ?P ?m ?Q")
  proof (rule runsI)
    fix s assume s: "?P s"
    then obtain node where ns: "ns = [(''node1'', node)]" "up_node (fst (snd s)) node" by blast
    have run: "runs up ?m ?Q" unfolding ns(1) forP.simps
      by (rule runs_bindP [OF up_modC], simp, rule runs_bindP [OF runs_bindP [OF up_put_node_info [OF ns(2)] up_ret] up_prometheus])
    then show "\<exists>x t. ?m s = (Ok x, t) \<and> ?Q x t" using runsD [OF run, of s] s by blast
  qed
qed

lemma up_Healthy: "runs up (on_nw (onN (Healthy demo_env2))) (\<lambda>_. up)"
proof (rule runsI)
  fix s assume "up s"
  then obtain lc w txs l node where s: "s = (lc, w, txs)" "lc_nw lc = Some l" "\<not> stopCalled l"
    "ln_nodes l = [(''node1'', node)]" "up_node w node" "lc_customChainIDToInfo lc = []"
    by (auto simp: up_def)
  let ?w = "clock_update Suc w"
  have "node_healthy demo_env2 (clock w) ?w node = Ok ()"
    using s(5) by (simp add: node_healthy_def demo_env2_def demo_env_def node_Status_def proc_Status_def up_node_def)
  then have "onN (Healthy demo_env2) ((l, w), txs) = (Ok (), ((l, ?w), txs))"
    using s(3-5) by (simp add: onN_def zoomP_def Healthy_def healthy_def bindP_def getL_def gets_def modify_def liftR_def getS_def onW_def tick_def up_node_def ret_def)
  then show "\<exists>x t. on_nw (onN (Healthy demo_env2)) s = (Ok x, t) \<and> up t"
    using s by (auto simp: on_nw_def up_def up_node_def node_Status_def proc_Status_def)
qed

lemma up_chains: "runs up (bindP (getC lc_customChainIDToInfo) (\<lambda>chains. forP chains (check_chain demo_env2 ce c))) (\<lambda>_. up)"
  by (rule runsI) (auto simp: bindP_def getC_def gets_def up_def ret_def)

lemma up_updateSubnetInfo: "runs up (updateSubnetInfo demo_env2 ce demo_api) (\<lambda>_. up)"
proof -
  let ?rest = "\<lambda>client. bindP (askS (\<lambda>t. Ok [])) (\<lambda>bs. bindP (forP bs (put_chain demo_env2)) (\<lambda>_.
    bindP (askS (\<lambda>t. Ok [])) (\<lambda>subnets.
    bindP (forP (map (ids_String demo_env2) (filter (\<lambda>s. s \<noteq> PlatformChainID demo_env2) subnets))
      (put_subnet demo_env2 ce demo_api client)) (\<lambda>_.
    bindP (getC lc_customChainIDToInfo) (\<lambda>chains. forP chains (check_chain demo_env2 ce client))))))"
  have drop: "runs (\<lambda>t. up t \<and> xs = []) (bindP (forP (f xs) b) k) Q" if "f [] = []" "runs up (k ()) Q"
    for xs :: "'x list" and f :: "'x list \<Rightarrow> 'y list" and b and k :: "unit \<Rightarrow> (lc_state, unit) prog" and Q
    using that by (cases xs) (auto simp: runs_def bindP_def ret_def)
  have rest: "runs up (?rest client) (\<lambda>_. up)" for client
    by (rule runs_bindP [OF up_askS], rule drop [of "\<lambda>x. x"], simp, rule runs_bindP [OF up_askS], rule drop, simp, rule up_chains)
  have api: "GetBlockchains demo_api = (\<lambda>t u. Ok [])" "GetSubnets demo_api = (\<lambda>t u. Ok [])" by (simp_all add: demo_api_def)
  show ?thesis unfolding updateSubnetInfo_def api
  proof (rule runs_bindP [OF up_nodes], rule runsI)
    fix ns and s :: lc_state
    assume s: "up s \<and> (\<exists>node. ns = [(''node1'', node)] \<and> up_node (fst (snd s)) node)"
    then obtain node where "min_node (of_nat MaxPort) None ns = Some node" by (auto simp: up_node_def MaxPort_def)
    then show "\<exists>x t. (case min_node (of_nat MaxPort) None ns of None \<Rightarrow> panic ''nil pointer dereference''
      | Some node \<Rightarrow> let client = client_uri node in ?rest client) s = (Ok x, t) \<and> up t"
      using runsD [OF rest, of s] s by (simp add: Let_def)
  qed
qed

lemma up_await: "runs up (awaitHealthyAndUpdateNetworkInfo demo_env2 ce demo_api) (\<lambda>_. up)"
  unfolding awaitHealthyAndUpdateNetworkInfo_def
  by (rule runs_bindP [OF up_Healthy], rule runs_bindP [OF up_updateNodeInfo], rule up_updateSubnetInfo)

section \<open>Creating it\<close>

definition start_default :: NetConfig where
  "start_default = demo_config [(demo_node [] True)\<lparr>nc_Flags := Some [(''http-port'', VFloat 9650 0),
     (''staking-port'', VFloat 9651 0), (''db-dir'', VStr ''/db'')]\<rparr>]"

definition start_request :: StartRequest where
  "start_request = \<lparr>st_ExecPath = ''/luxd'', st_NumNodes = Some 1, st_WhitelistedSubnets = [], st_GlobalNodeConfig = [],
     st_RootDataDir = ''/tmp'', st_PluginDir = [], st_BlockchainSpecs = [], st_CustomNodeConfigs = None,
     st_ChainConfigs = None, st_UpgradeConfigs = None, st_ReassignPortsIfUsed = False, st_DynamicPorts = False,
     st_SubnetConfigs = None\<rparr>"

definition start_node_config :: NodeConfig where
  "start_node_config = (demo_node [] True)\<lparr>nc_Name := ''node1'', nc_Flags := Some [(''http-port'', VFloat 9650 0),
     (''staking-port'', VFloat 9651 0), (''db-dir'', VStr ''/db'')], nc_BinaryPath := ''/luxd''\<rparr>"

definition start_config :: NetConfig where
  "start_config = (demo_config [start_node_config])\<lparr>cfg_BinaryPath := ''/luxd''\<rparr>"

definition start_server :: server where
  "start_server = \<lparr>sv_RedirectNodesOutput = False, sv_SnapshotsDir = [], sv_clusterInfo = None, sv_network = None,
     sv_asyncErrCh = None, sv_sharedSubnets = False\<rparr>"

text \<open>A network that has not been started, with the options of the request.\<close>

definition before :: "lc_state \<Rightarrow> bool" where
  "before = (\<lambda>(lc, w, txs). procs w = [] \<and> lc_nw lc = None \<and> lc_customChainIDToInfo lc = [] \<and> lc_execPath lc = ''/luxd'' \<and>
     lc_pluginDir lc = [] \<and> (\<exists>d. lc_options lc = start_options start_server start_request 1 d))"

lemma before_createConfig: "runs before (createConfig demo_env2 start_default) (\<lambda>_ t. before t \<and> lc_cfg (fst t) = start_config)"
proof (rule runsI)
  fix s assume "before s"
  then obtain lc w txs d where s: "s = (lc, w, txs)" "lc_execPath lc = ''/luxd''" "lc_pluginDir lc = []"
    "lc_options lc = start_options start_server start_request 1 d"
    by (auto simp: before_def)
  have opts: "opt_execPath (lc_options lc) = ''/luxd''" "opt_numNodes (lc_options lc) = 1" "opt_globalNodeConfig (lc_options lc) = []"
    by (simp_all add: s start_options_def start_request_def)
  have base: "NewDefaultConfigNNodes demo_env2 start_default ''/luxd'' 1 w = (Ok (start_default\<lparr>cfg_BinaryPath := ''/luxd''\<rparr>), w)"
    by (simp add: NewDefaultConfigNNodes_def NewDefaultConfig_def Let_def ret_def start_default_def demo_config_def)
  have name: "''node'' @ show_nat (0 + 1) = ''node1''" by code_simp
  have "config_node demo_env2 lc (0, hd (cfg_NodeConfigs start_default)) = Ok start_node_config"
    using name by (simp add: config_node_def Let_def s start_options_def start_server_def start_request_def mput_all_def custom_config_def
        start_default_def demo_config_def start_node_config_def demo_node_def)
  then have "createConfig demo_env2 start_default s = (Ok (), (lc\<lparr>lc_cfg := start_config\<rparr>, w, txs))"
    by (simp add: s(1) createConfig_def bindP_def getC_def gets_def opts onS_def zoomP_def base liftR_def optional_map_def
        mput_all_def s(3) modC_def modify_def start_config_def) (simp add: start_default_def demo_config_def)
  then show "\<exists>x t. createConfig demo_env2 start_default s = (Ok x, t) \<and> before t \<and> lc_cfg (fst t) = start_config"
    using \<open>before s\<close> s(1) by (auto simp: before_def)
qed

lemma start_config_ok:
  "NetConfig_Validate demo_env2 start_config = Ok ()" "cfg_NodeConfigs start_config = [start_node_config]"
  "startable demo_env2 (cfg_Flags start_config) start_node_config" "nc_Name start_node_config = ''node1''"
proof -
  show "cfg_NodeConfigs start_config = [start_node_config]" "nc_Name start_node_config = ''node1''"
    by (simp_all add: start_config_def demo_config_def start_node_config_def)
  show "NetConfig_Validate demo_env2 start_config = Ok ()"
    by (simp add: NetConfig_Validate_def start_config_def demo_config_def demo_genesis_id demo_genesis_nonempty
        start_node_config_def demo_node_def NodeConfig_Validate_def validateConfigFile_def)
  show "startable demo_env2 (cfg_Flags start_config) start_node_config"
    by (auto simp: startable_def demo_env2_def start_config_def demo_config_def start_node_config_def demo_node_def
        demo_env_def readConfigFile_def flags_typed_def node_flags_typed_def map_add_def)
qed

lemma load_one:
  assumes "loadConfig e cfg s = (Ok (), t)" "cfg_NodeConfigs cfg = [nc]"
  shows "\<exists>u node. addNode e nc u = (Ok node, t) \<and> ln_nodes (fst u) = ln_nodes (fst s) \<and> snd u = snd s \<and>
    ln_reassignPortsIfUsed (fst u) = ln_reassignPortsIfUsed (fst s) \<and> ln_onStopCh (fst u) = ln_onStopCh (fst s) \<and>
    ln_flags (fst u) = cfg_Flags cfg"
proof -
  have "beacons_first [nc] = [nc]" by (simp add: beacons_first_def)
  then obtain u where "start_node e nc u = (Ok (), t)" "ln_nodes (fst u) = ln_nodes (fst s)" "snd u = snd s"
    "ln_reassignPortsIfUsed (fst u) = ln_reassignPortsIfUsed (fst s)" "ln_onStopCh (fst u) = ln_onStopCh (fst s)"
    "ln_flags (fst u) = cfg_Flags cfg"
    using assms by (auto simp: loadConfig_def bindP_eq_Ok)
  then show ?thesis using start_node_Ok by blast
qed

lemma start_network:
  assumes "procs w = []"
  shows "\<exists>l node w'. NewNetwork demo_env2 start_config rd sd False w = (Ok (), Some l, w') \<and> \<not> stopCalled l \<and>
    ln_nodes l = [(''node1'', node)] \<and> up_node w' node"
proof -
  obtain l w' where new: "NewNetwork demo_env2 start_config rd sd False w = (Ok (), Some l, w')"
    using NewNetwork_total [OF demo_smooth(2) demo_nodes(1) start_config_ok(1), of rd sd False w] start_config_ok(2-4) by auto
  then obtain l0 w0 where l0: "newNetwork demo_env2 rd sd False w = (Ok l0, w0)"
    and load: "loadConfig demo_env2 start_config (l0, w0) = (Ok (), (l, w'))"
    by (auto simp: NewNetwork_def split: prod.splits res.splits)
  have new0: "ln_nodes l0 = []" "procs w0 = []" "\<not> ln_onStopCh l0" using newNetwork_Ok [OF l0] assms by auto
  have re: "\<not> ln_reassignPortsIfUsed l0" using l0 by (auto simp: newNetwork_def bindP_eq_Ok Let_def)
  obtain u node where add: "addNode demo_env2 start_node_config u = (Ok node, (l, w'))" "ln_nodes (fst u) = []" "procs (snd u) = []"
    "\<not> ln_reassignPortsIfUsed (fst u)" "\<not> ln_onStopCh (fst u)" "ln_flags (fst u) = cfg_Flags start_config"
    using load_one [OF load start_config_ok(2)] new0 re by auto
  obtain nc' pz d nid u' where prep: "prepareNode demo_env2 start_node_config u = (Ok (nc', pz, d, nid), u')" "n_config node = nc'"
    and set: "settings (fst (l, w')) = settings (fst u)"
    using add(1) by (rule addNode_Ok) blast
  note added = addNode_added [OF add(1)]
  have fl: "mget (nc_Flags start_node_config) (HTTPPortKey demo_env2) = Some (VFloat (uint (9650 :: 16 word)) 0)"
    "mget (nc_Flags start_node_config) (StakingPortKey demo_env2) = Some (VFloat (uint (9651 :: 16 word)) 0)"
    "mget (nc_Flags start_node_config) (DBPathKey demo_env2) = Some (VStr ''/db'')"
    by (simp_all add: start_node_config_def demo_env2_def demo_env_def)
  have port: "n_apiPort node = 9650" using addNode_given(1) [OF add(1,4) fl] .
  have "nc_ConfigFile nc' = []" using prepareNode_config [OF prep(1)] by (simp add: start_node_config_def demo_node_def)
  moreover have "mget (nc_Flags nc') ''track-subnets'' = None"
    using prepareNode_Ok [OF prep(1)] add(6)
    by (simp add: start_node_config_def start_config_def demo_config_def map_add_def)
  ultimately have flag: "\<exists>s. GetFlag node ''track-subnets'' = Ok s" using prep(2) by (auto simp: GetFlag_def flag_string_def)
  have "n_name node = ''node1''" using added start_config_ok(4) by (simp add: node_added_def)
  then have "ln_nodes l = [(''node1'', node)]" "\<not> n_paused node" "node_Status node w' = Running" "n_process node < length (procs w')"
    using added add(2,3) by (auto simp: node_added_def node_Status_def proc_Status_def)
  moreover have "\<not> stopCalled l" using set add(5) by (simp add: settings_def stopCalled_def)
  ultimately show ?thesis using new port flag by (auto simp: up_node_def)
qed

lemma before_Start: "runs before (lc_Start demo_env2 ce demo_api start_default) (\<lambda>_. up)"
  unfolding lc_Start_def
proof (rule runs_bindP [OF before_createConfig], rule runsI)
  fix s assume s: "before s \<and> lc_cfg (fst s) = start_config"
  then obtain lc w txs d where parts: "s = (lc, w, txs)" "lc_customChainIDToInfo lc = []" "procs w = []"
    "lc_options lc = start_options start_server start_request 1 d" "lc_cfg lc = start_config"
    by (auto simp: before_def)
  let ?opts = "lc_options lc"
  have re: "opt_reassignPortsIfUsed ?opts = False" by (simp add: parts start_options_def start_request_def)
  obtain l node w' where new: "NewNetwork demo_env2 start_config (opt_rootDataDir ?opts) (opt_snapshotsDir ?opts) False w = (Ok (), Some l, w')"
    "\<not> stopCalled l" "ln_nodes l = [(''node1'', node)]" "up_node w' node"
    using start_network [OF parts(3)] by blast
  then have up: "up (lc\<lparr>lc_nw := Some l\<rparr>, w', txs)" using parts(2) by (auto simp: up_def)
  have set: "set_nw (NewNetwork demo_env2 (lc_cfg lc) (opt_rootDataDir ?opts) (opt_snapshotsDir ?opts) (opt_reassignPortsIfUsed ?opts)) s =
      (Ok (), (lc\<lparr>lc_nw := Some l\<rparr>, w', txs))"
    using new(1) by (simp add: set_nw_def parts(1,5) re)
  have get: "getC id s = (Ok lc, s)" by (simp add: getC_def gets_def parts(1))
  have "runs up (bindP (updateNodeInfo demo_env2) (\<lambda>_. awaitHealthyAndUpdateNetworkInfo demo_env2 ce demo_api)) (\<lambda>_. up)"
    by (rule runs_bindP [OF up_updateNodeInfo up_await])
  from runsD [OF this up] show "\<exists>x t. bindP (getC id) (\<lambda>lc.
      bindP (set_nw (NewNetwork demo_env2 (lc_cfg lc) (opt_rootDataDir (lc_options lc)) (opt_snapshotsDir (lc_options lc))
        (opt_reassignPortsIfUsed (lc_options lc)))) (\<lambda>_. bindP (updateNodeInfo demo_env2) (\<lambda>_.
      awaitHealthyAndUpdateNetworkInfo demo_env2 ce demo_api))) s = (Ok x, t) \<and> up t"
    by (simp add: bindP_simps(1) [of "getC id" s] bindP_simps(1) [of "set_nw f" s for f] get set)
qed

section \<open>The request\<close>

definition start_world :: world where
  "start_world = \<lparr>clock = 0, files = [(''/luxd'', [])], dirs = [], procs = []\<rparr>"

lemma start_server_New: "server_New demo_api '':8080'' '':8081'' False [] = Ok start_server"
  by (simp add: server_New_def demo_api_def start_server_def)

text \<open>The server before the network is there, with it, and with a started network.\<close>

definition sv_new :: "sv_state \<Rightarrow> bool" where
  "sv_new = (\<lambda>(s, w, txs). s = start_server \<and> procs w = [])"

definition sv_with :: "(lc_state \<Rightarrow> bool) \<Rightarrow> sv_state \<Rightarrow> bool" where
  "sv_with P = (\<lambda>(s, w, txs). sv_clusterInfo s \<noteq> None \<and> (\<exists>lc. sv_network s = Some lc \<and> P (lc, w, txs)))"

lemma new_onS: "succeeds m \<Longrightarrow> (\<And>ps. pres (same_procs ps) m) \<Longrightarrow> runs sv_new (onS m) (\<lambda>_. sv_new)"
  by (rule runs_onS) (auto simp: procs_only_def sv_new_def)

lemma new_root_dir: "runs sv_new (root_data_dir demo_env2 ''/tmp'') (\<lambda>_. sv_new)"
proof -
  have "succeeds (MkDirWithTimestamp demo_env2 d)" for d
    unfolding MkDirWithTimestamp_def by (intro succ_intros succ_fs demo_smooth)
  moreover have "pres (same_procs ps) (MkDirWithTimestamp demo_env2 d)" for ps d
    unfolding MkDirWithTimestamp_def Let_def by (intro pres_intros fs_pres)
  ultimately show ?thesis
    unfolding root_data_dir_def by (simp add: new_onS bindP_def [of "ret x" for x] ret_def)
qed

lemma new_network_before:
  "runs sv_new (bindP (set_clusterInfo c) (\<lambda>_. bindP (getC id) (\<lambda>s. new_network demo_api (start_options s start_request 1 d))))
     (\<lambda>_. sv_with before)"
  by (rule runsI)
    (auto simp: sv_new_def sv_with_def before_def set_clusterInfo_def modC_def modify_def bindP_def getC_def gets_def
      new_network_def askS_def onS_def zoomP_def tick_def ret_def liftR_def newLocalNetwork_def demo_api_def start_server_def
      start_options_def start_request_def)

lemma with_onLC: "runs P m (\<lambda>_. Q) \<Longrightarrow> runs (sv_with P) (onLC m) (\<lambda>_. sv_with Q)"
  unfolding sv_with_def by (rule runs_onLC)

lemma with_updateClusterInfo: "runs (sv_with up) (updateClusterInfo e) (\<lambda>_. sv_with up)"
  by (rule runsI)
    (auto simp: sv_with_def updateClusterInfo_def bindP_def getC_def gets_def modCI_def modC_def modify_def)


lemma start_exec: "\<exists>w. onS (CheckExecPath demo_env2 ''/luxd'') (start_server, start_world\<lparr>clock := n\<rparr>, []) = (Ok (), (start_server, w, [])) \<and> procs w = []"
  by (simp add: onS_def zoomP_def CheckExecPath_def catchP_def os_Stat_eq demo_env2_def demo_env_def fs_exists_def start_world_def)

text \<open>Copying the cluster information may fail, but it does not panic.\<close>

definition calm :: "'a res \<Rightarrow> bool" where
  "calm r \<longleftrightarrow> \<not> is_Panic r"

lemma calm_basic: "calm (Ok x)" "calm (Err er)" "calm (b64_decode s)"
  by (simp_all add: calm_def b64_decode_def split: option.split)

lemma calm_bindR: "calm m \<Longrightarrow> (\<And>x. calm (f x)) \<Longrightarrow> calm (bindR m f)"
  by (cases m) (auto simp: calm_def)

lemma calm_mapR: "(\<And>x. calm (f x)) \<Longrightarrow> calm (mapR f xs)"
  by (induction xs) (auto intro!: calm_bindR calm_basic)

lemma calm_get:
  "calm (get_str v)" "calm (get_bool v)" "calm (get_int32 v)" "calm (get_fields v)" "calm (get_array v)"
  by (cases v; simp add: calm_basic)+

lemma calm_gets: "calm (get_strs v)" "calm (get_bytes v)"
  unfolding get_strs_def get_bytes_def by (intro calm_bindR calm_mapR calm_get calm_basic)+

lemma calm_get_map: "(\<And>x. calm (f x)) \<Longrightarrow> calm (get_map f v)"
  by (cases v) (auto intro!: calm_bindR calm_mapR calm_basic)

lemma calm_deepCopy: "calm (deepCopy c)"
proof -
  have "calm (get_NodeInfo v)" "calm (get_CustomChainInfo v)" "calm (get_SubnetInfo v)" "calm (get_peers v)" for v
    unfolding get_NodeInfo_def get_CustomChainInfo_def get_SubnetInfo_def get_peers_def
    by (intro calm_bindR calm_mapR calm_get calm_gets calm_basic)+
  then have "calm (get_ClusterInfo v)" for v
    unfolding get_ClusterInfo_def by (intro calm_bindR calm_get calm_gets calm_get_map calm_basic)
  then show ?thesis by (auto simp: deepCopy_def calm_basic split: option.split)
qed

definition returns :: "('s \<Rightarrow> bool) \<Rightarrow> ('s, 'a) prog \<Rightarrow> ('s \<Rightarrow> bool) \<Rightarrow> bool" where
  "returns P m Q \<longleftrightarrow> (\<forall>s. P s \<longrightarrow> (\<exists>r t. m s = (r, t) \<and> calm r \<and> Q t))"

lemma returns_bindP: "runs P m R \<Longrightarrow> (\<And>x. returns (R x) (f x) Q) \<Longrightarrow> returns P (bindP m f) Q"
  unfolding runs_def returns_def by (metis bindP_simps(1))

lemma with_copy_info: "returns (sv_with up) (bindP copy_info (\<lambda>i. ret (f i))) (sv_with up)"
proof -
  have "calm (bindR (deepCopy c) (\<lambda>i. Ok (f i)))" for c by (intro calm_bindR calm_deepCopy calm_basic)
  moreover have "bindP copy_info (\<lambda>i. ret (f i)) s = (bindR (deepCopy (sv_clusterInfo (fst s))) (\<lambda>i. Ok (f i)), s)" for s
    by (cases "deepCopy (sv_clusterInfo (fst s))") (simp_all add: copy_info_def bindP_def getC_def gets_def liftR_def ret_def)
  ultimately show ?thesis by (simp add: returns_def)
qed

lemma bindP_assoc: "bindP (bindP m f) g = bindP m (\<lambda>x. bindP (f x) g)"
  by (rule ext) (simp add: bindP_def split: prod.split res.split)

lemma start_returns_at:
  "\<exists>r t. sv_Start demo_env2 ce demo_api start_default start_request (start_server, start_world\<lparr>clock := n\<rparr>, []) = (r, t) \<and>
     \<not> is_Panic r \<and> sv_with up t"
proof -
  obtain w where exec: "onS (CheckExecPath demo_env2 ''/luxd'') (start_server, start_world\<lparr>clock := n\<rparr>, []) = (Ok (), (start_server, w, []))"
    "procs w = []"
    using start_exec by blast
  have req: "sv_network start_server = None" "st_NumNodes start_request = Some 1" "st_ExecPath start_request = ''/luxd''"
    "st_BlockchainSpecs start_request = []" "st_RootDataDir start_request = ''/tmp''" "st_CustomNodeConfigs start_request = None"
    by (simp_all add: start_server_def start_request_def)
  let ?after = "\<lambda>_ :: unit. bindP (on_error (onLC (lc_Start demo_env2 ce demo_api start_default)) (\<lambda>_. stopAndRemoveNetwork demo_env2 None)) (\<lambda>_.
     bindP (on_error (onLC (CreateChains demo_env2 ce demo_api [])) (\<lambda>er. stopAndRemoveNetwork demo_env2 (Some er))) (\<lambda>chainIDs.
     bindP (updateClusterInfo demo_env2) (\<lambda>_. bindP copy_info (\<lambda>i. ret (i, map (ids_String demo_env2) chainIDs)))))"
  have none: "runs up (CreateChains demo_env2 ce demo_api []) (\<lambda>_. up)"
    by (rule runsI) (simp add: CreateChains_def ret_def)
  have after: "returns (sv_with before) (?after u) (sv_with up)" for u
    by (rule returns_bindP [OF runs_on_error [OF with_onLC [OF before_Start]]],
        rule returns_bindP [OF runs_on_error [OF with_onLC [OF none]]], rule returns_bindP [OF with_updateClusterInfo],
        rule with_copy_info)
  have create: "returns sv_new (bindP (root_data_dir demo_env2 ''/tmp'') (\<lambda>d.
      bindP (bindP (set_clusterInfo (c d)) (\<lambda>_. bindP (getC id) (\<lambda>s. new_network demo_api (start_options s start_request 1 d))))
        ?after)) (sv_with up)" for c
    by (rule returns_bindP [OF new_root_dir], rule returns_bindP [OF new_network_before], rule after)
  have "sv_Start demo_env2 ce demo_api start_default start_request (start_server, start_world\<lparr>clock := n\<rparr>, []) =
    bindP (root_data_dir demo_env2 ''/tmp'') (\<lambda>d.
      bindP (bindP (set_clusterInfo (new_ClusterInfo (of_int (os_Getpid demo_api)) d)) (\<lambda>_. bindP (getC id) (\<lambda>s. new_network demo_api (start_options s start_request 1 d))))
        ?after) (start_server, w, [])"
    by (simp add: sv_Start_def not_bootstrapped_eq req MinNodes_def bindP_assoc mapP_def exec(1) bindP_ret
        bindP_simps(1) [of "onS (CheckExecPath demo_env2 ''/luxd'')"])
  then show ?thesis using create [unfolded returns_def] exec(2) by (simp add: sv_new_def calm_def)
qed

lemma start_returns:
  "\<exists>r t. sv_Start demo_env2 ce demo_api start_default start_request (start_server, start_world, []) = (r, t) \<and>
     \<not> is_Panic r \<and> sv_with up t"
  using start_returns_at [of ce "clock start_world"] by simp

end
