(* ===== verification/Server_Theorems.thy ===== *)
theory Server_Theorems
  imports Server_Demo Requests
begin

text \<open>
  The server over all sequences of requests, and the configuration it builds for a new network.
\<close>

section \<open>Requests in any order\<close>

text \<open>
  Between requests, processes may exit and files may change. A panic ends the server, so it is not a
  step.
\<close>

inductive sv_step ::
  "env \<Rightarrow> chain_env \<Rightarrow> api_env \<Rightarrow> (err \<Rightarrow> err \<Rightarrow> err) \<Rightarrow> NetConfig \<Rightarrow> sv_state \<Rightarrow> sv_state \<Rightarrow> bool"
  for e :: env and ce :: chain_env and ae :: api_env and ap :: "err \<Rightarrow> err \<Rightarrow> err" and def :: NetConfig where
  served: "handle e ce ae ap def q s = (r, t) \<Longrightarrow> \<not> is_Panic r \<Longrightarrow> sv_step e ce ae ap def s t"
| process_exit: "pid < length (procs w) \<Longrightarrow>
    sv_step e ce ae ap def (s, w, txs) (s, w\<lparr>procs := (procs w)[pid := snd (np_Stop c (procs w ! pid))]\<rparr>, txs)"
| outside: "procs w' = procs w \<Longrightarrow> sv_step e ce ae ap def (s, w, txs) (s, w', txs)"

inductive_cases sv_stepE: "sv_step e ce ae ap def s t"

definition sv_init :: "api_env \<Rightarrow> sv_state \<Rightarrow> bool" where
  "sv_init ae = (\<lambda>(s, w, txs). procs w = [] \<and> (\<exists>p g b d. server_New ae p g b d = Ok s))"

lemma step_no_response: "step P m P \<Longrightarrow> step P (no_response m) P"
  unfolding no_response_def by (intro step_intros)

lemma step_queries:
  "step (sv_inv in_use) (sv_Ping ae) (sv_inv in_use)" "step (sv_inv in_use) sv_RPCVersion (sv_inv in_use)"
  unfolding sv_Ping_def sv_RPCVersion_def by (intro step_intros)+

lemma step_request: "step (sv_inv in_use) (handle e ce ae ap def q) (sv_inv in_use)"
  by (cases q)
    (auto intro!: step_no_response step_queries lnet.step_handlers lnet.step_node_handlers lnet.step_Start lnet.step_LoadSnapshot
      lnet.step_WaitForHealthy)

lemma sv_inv_exit:
  assumes "sv_inv in_use (s, w, txs)" "pid < length (procs w)"
  shows "sv_inv in_use (s, w\<lparr>procs := (procs w)[pid := snd (np_Stop c (procs w ! pid))]\<rparr>, txs)"
  using assms lnet.exits net_ok_exit
  by (auto simp: sv_inv_def lc_inv_def idle_def split: option.splits)

interpretation server: inductive_invariant "sv_init ae" "sv_step e ce ae ap def" "sv_inv in_use" for e ce ae ap def
proof
  show "sv_inv in_use s" if "sv_init ae s" for s
    using that by (auto simp: sv_init_def server_New_def sv_inv_def idle_def net_ok_def pid_live_def wf_gmap_def split: if_splits)
  show "sv_inv in_use t" if "sv_inv in_use s" "sv_step e ce ae ap def s t" for s t
    using that(2,1)
  proof cases
    case (served q r)
    then show ?thesis using stepD [OF step_request that(1)] by blast
  next
    case (process_exit pid w s txs c)
    then show ?thesis using that(1) sv_inv_exit by simp
  next
    case (outside w' w s txs)
    then show ?thesis using that(1) lnet.procs_only_sv unfolding procs_only_def by blast
  qed
qed

section \<open>The properties\<close>

definition node_procs :: "server \<Rightarrow> nat set" where
  "node_procs s = {n_process node | lc l name node. sv_network s = Some lc \<and> lc_nw lc = Some l \<and>
     map_of (ln_nodes l) name = Some node}"

text \<open>
  C2. The server leaves no process behind: whatever requests it serves, in whatever order, with whatever errors,
  every process that runs is that of a node of the network the server holds. In particular no process
  runs while it holds none: not after \<^verbatim>\<open>Stop\<close>, nor after a \<^verbatim>\<open>Start\<close> or a \<^verbatim>\<open>LoadSnapshot\<close> that failed
  halfway, nor after a \<^verbatim>\<open>CreateBlockchains\<close> or \<^verbatim>\<open>CreateSubnets\<close> that failed.
\<close>

theorem server_no_orphans:
  assumes "reachable (sv_init ae) (sv_step e ce ae ap def) (s, w, txs)"
  shows "live_procs w \<subseteq> node_procs s"
proof
  fix pid
  assume "pid \<in> live_procs w"
  then have live: "pid_live (procs w) pid" by (simp add: live_procs_iff)
  have inv: "sv_inv in_use (s, w, txs)" using server.reachable_inv [OF assms] .
  have "\<not> idle w" using live by (auto simp: idle_def net_ok_def)
  then obtain lc l where nw: "sv_network s = Some lc" "lc_nw lc = Some l" and "in_use (l, w)"
    using inv by (auto simp: sv_inv_def lc_inv_def split: option.splits)
  then obtain name node where "map_of (ln_nodes l) name = Some node" "n_process node = pid"
    using live by (auto simp: in_use_def net_inv_def net_ok_def)
  with nw show "pid \<in> node_procs s" unfolding node_procs_def by blast
qed

text \<open>
  C21. The documented invariant of the server: if it holds a network it has cluster information. So \<^verbatim>\<open>Status\<close> and
  \<^verbatim>\<open>URIs\<close> give an answer then, and a panic on a nil \<^verbatim>\<open>clusterInfo\<close> is impossible.
\<close>

theorem server_clusterInfo:
  assumes "reachable (sv_init ae) (sv_step e ce ae ap def) s"
  shows "if sv_network (fst s) = None then sv_Status s = (Err ErrNotBootstrapped, s) \<and> URIs s = (Err ErrNotBootstrapped, s)
    else \<exists>c. sv_clusterInfo (fst s) = Some c \<and> sv_Status s = (Ok (Some c), s) \<and>
      URIs s = (Ok (sort (map (\<lambda>(_, i). ni_Uri i) (mrange (ci_NodeInfos c)))), s)"
proof -
  have "sv_inv in_use s" using server.reachable_inv [OF assms] .
  then show ?thesis
    by (auto simp: sv_inv_def sv_Status_def URIs_def bootstrapped_eq getC_def gets_def bindP_def ret_def
        split: option.splits)
qed

text \<open>
  Without a network every other request is refused with \<^verbatim>\<open>ErrNotBootstrapped\<close>, with one \<^verbatim>\<open>Start\<close> and
  \<^verbatim>\<open>LoadSnapshot\<close> are refused with \<^verbatim>\<open>ErrAlreadyBootstrapped\<close>, and nothing is changed.
\<close>

theorem requests_refused:
  "case sv_network (fst s) of
     None \<Rightarrow>
       sv_CreateBlockchains e ce ae bs s = (Err ErrNotBootstrapped, s) \<and>
       AddPermissionlessValidator e ce ae vs s = (Err ErrNotBootstrapped, s) \<and>
       RemoveSubnetValidator e ce ae rs s = (Err ErrNotBootstrapped, s) \<and>
       TransformElasticSubnets e ce ae es s = (Err ErrNotBootstrapped, s) \<and>
       sv_CreateSubnets e ce ae ss s = (Err ErrNotBootstrapped, s) \<and>
       Health e ce ae s = (Err ErrNotBootstrapped, s) \<and> sv_AddNode e ar s = (Err ErrNotBootstrapped, s) \<and>
       sv_RemoveNode e n s = (Err ErrNotBootstrapped, s) \<and> sv_RestartNode e rr s = (Err ErrNotBootstrapped, s) \<and>
       sv_PauseNode e n s = (Err ErrNotBootstrapped, s) \<and> sv_ResumeNode e n s = (Err ErrNotBootstrapped, s) \<and>
       sv_AttachPeer ae n s = (Err ErrNotBootstrapped, s) \<and>
       sv_SendOutboundMessage ae n p b oper s = (Err ErrNotBootstrapped, s) \<and>
       sv_SaveSnapshot e n s = (Err ErrNotBootstrapped, s) \<and> sv_RemoveSnapshot e n s = (Err ErrNotBootstrapped, s) \<and>
       sv_GetSnapshotNames e s = (Err ErrNotBootstrapped, s)
   | Some lc \<Rightarrow>
       sv_Start e ce ae def sr s = (Err ErrAlreadyBootstrapped, s) \<and>
       sv_LoadSnapshot e ce ae lr s = (Err ErrAlreadyBootstrapped, s)"
  by (auto simp: sv_CreateBlockchains_def AddPermissionlessValidator_def RemoveSubnetValidator_def
      TransformElasticSubnets_def sv_CreateSubnets_def Health_def sv_AddNode_def sv_RemoveNode_def sv_RestartNode_def
      sv_PauseNode_def sv_ResumeNode_def sv_AttachPeer_def sv_SendOutboundMessage_def sv_SaveSnapshot_def
      sv_RemoveSnapshot_def sv_GetSnapshotNames_def sv_Start_def sv_LoadSnapshot_def bootstrapped_eq not_bootstrapped_eq
      split: option.splits)

text \<open>
  C28. \<^verbatim>\<open>Stop\<close> of the server always succeeds: the network is dropped, no process is left running, whatever exit
  codes the nodes had, and the cluster is marked unhealthy; a pending error is discarded. A new
  network may then be started.
\<close>

theorem server_Stop_correct:
  assumes "sv_inv in_use (s, w, txs)"
  shows "\<exists>t w' txs'. sv_Stop e (s, w, txs) = (Ok (sv_clusterInfo t), (t, w', txs')) \<and> sv_network t = None \<and>
    live_procs w' = {} \<and> sv_asyncErrCh t = None \<and>
    (sv_clusterInfo t = None \<longleftrightarrow> sv_clusterInfo s = None) \<and>
    (case sv_clusterInfo t of None \<Rightarrow> True | Some c \<Rightarrow> \<not> ci_Healthy c \<and> \<not> ci_CustomChainsHealthy c)"
proof -
  obtain r t w' txs' where run: "stopAndRemoveNetwork e None (s, w, txs) = (r, (t, w', txs'))" by (metis prod.exhaust)
  note res = lnet.stopAndRemoveNetwork_result [OF assms run]
  then have "live_procs w' = {}" "sv_network t = None" by (auto simp: sv_none_def idle_live)
  moreover have "sv_asyncErrCh t = None" "sv_clusterInfo t = None \<longleftrightarrow> sv_clusterInfo s = None"
    "case sv_clusterInfo t of None \<Rightarrow> True | Some c \<Rightarrow> \<not> ci_Healthy c \<and> \<not> ci_CustomChainsHealthy c"
    using run res
    by (auto simp: stopAndRemoveNetwork_def bindP_def getC_def gets_def modC_def modify_def ret_def onLC_def share_subnets_def
        set_unhealthy_def split: if_splits prod.splits option.splits res.splits)
  ultimately show ?thesis using run res by (auto simp: sv_Stop_def bindP_def getC_def gets_def)
qed

section \<open>The theorems at work\<close>

text \<open>A server that has served one \<^verbatim>\<open>Start\<close> request.\<close>

definition demo_append :: "err \<Rightarrow> err \<Rightarrow> err" where
  "demo_append a b = a"

definition served_state :: sv_state where
  "served_state = snd (handle demo_env2 demo_chain demo_api demo_append start_default (ReqStart start_request)
     (start_server, start_world, []))"

lemma served:
  "reachable (sv_init demo_api) (sv_step demo_env2 demo_chain demo_api demo_append start_default) served_state"
  "sv_with up served_state"
proof -
  obtain r t where run: "sv_Start demo_env2 demo_chain demo_api start_default start_request (start_server, start_world, []) = (r, t)"
    "\<not> is_Panic r" "sv_with up t"
    using start_returns by blast
  obtain q where fin: "handle demo_env2 demo_chain demo_api demo_append start_default (ReqStart start_request)
      (start_server, start_world, []) = (q, t)" "\<not> is_Panic q"
    using run by (cases r) (auto simp: no_response_def bindP_def ret_def)
  then have t: "served_state = t" by (simp add: served_state_def)
  show "sv_with up served_state" using run(3) t by simp
  have "sv_init demo_api (start_server, start_world, [])"
    using start_server_New by (auto simp: sv_init_def start_world_def)
  from reach_init [of "sv_init demo_api", OF this]
  show "reachable (sv_init demo_api) (sv_step demo_env2 demo_chain demo_api demo_append start_default) served_state"
    unfolding t by (rule reach_step) (rule sv_step.served [OF fin])
qed

lemma served_parts: "\<exists>s w txs. served_state = (s, w, txs) \<and> sv_network s \<noteq> None \<and> live_procs w \<noteq> {}"
  using served(2)
  by (auto simp: sv_with_def up_def up_node_def node_Status_def live_procs_def split: prod.splits intro!: exI)

lemma served_live: "live_procs (fst (snd served_state)) \<noteq> {}" "sv_network (fst served_state) \<noteq> None"
  using served_parts by (metis fst_conv snd_conv)+

theorem server_no_orphans_witness:
  "live_procs (fst (snd served_state)) \<noteq> {} \<and> live_procs (fst (snd served_state)) \<subseteq> node_procs (fst served_state)"
  using served_live server_no_orphans [of demo_api demo_env2 demo_chain demo_append start_default "fst served_state"
      "fst (snd served_state)" "snd (snd served_state)"] served(1)
  by simp

theorem server_clusterInfo_witness:
  "\<exists>c. sv_clusterInfo (fst served_state) = Some c \<and> sv_Status served_state = (Ok (Some c), served_state)"
  using server_clusterInfo [OF served(1)] served_live(2) by (auto split: if_splits)

theorem server_Stop_correct_witness:
  "live_procs (fst (snd served_state)) \<noteq> {} \<and>
   (\<exists>c t w' txs'. sv_Stop demo_env2 served_state = (Ok c, (t, w', txs')) \<and> sv_network t = None \<and> live_procs w' = {})"
proof -
  obtain s w txs where st: "served_state = (s, w, txs)" by (rule prod_cases3)
  then have "sv_inv in_use (s, w, txs)" using server.reachable_inv [OF served(1)] by simp
  from server_Stop_correct [OF this, of demo_env2] show ?thesis using served_live st by auto
qed

end
