(* ===== verification/Server_Run.thy ===== *)
theory Server_Run
  imports Server_Theorems
begin

text \<open>
  \<^verbatim>\<open>Run\<close> of \<^verbatim>\<open>server/server.go\<close>: the server with the goroutine that serves gRPC, the goroutine of the gateway, and
  the requests that are handled meanwhile.

  The three are a step relation. The channels have no buffer, so a send and a receive are one step. A
  dial ends, because it has a deadline; \<^verbatim>\<open>Serve\<close> returns after \<^verbatim>\<open>Stop\<close> and \<^verbatim>\<open>ListenAndServe\<close> after \<^verbatim>\<open>Close\<close>, as
  their packages document, and both may fail at any time. The handlers of requests are taken to have
  returned when \<^verbatim>\<open>Run\<close> does.
\<close>

section \<open>The goroutines\<close>

datatype grpc_pc = GServing | GSending "err option" | GDone

datatype gw_pc = WDialing | WRegisterPing | WRegisterControl | WListening | WSending err | WDone

text \<open>The points of \<^verbatim>\<open>Run\<close>, with the error it will return. The flag of the first two says that gRPC has still to be stopped.\<close>

datatype run_pc =
    RSelect
  | RCloseGw bool "err option"
  | RWaitGw bool "err option"
  | RStopGrpc "err option"
  | RWaitGrpc "err option"
  | RLock "err option"
  | RReturned "err option"

record run_sys =
  rn_main :: run_pc
  rn_grpc :: grpc_pc
  rn_grpcStopped :: bool
  rn_gw :: gw_pc
  rn_gwClosed :: bool
  rn_rootDone :: bool
  rn_state :: sv_state

definition after_gw :: "bool \<Rightarrow> err option \<Rightarrow> run_pc" where
  "after_gw grpc er = (if grpc then RStopGrpc er else RLock er)"

inductive run_step :: "env \<Rightarrow> bool \<Rightarrow> run_sys \<Rightarrow> run_sys \<Rightarrow> bool" for e :: env and gwDisabled :: bool where
  serve_stopped: "rn_grpc s = GServing \<Longrightarrow> rn_grpcStopped s \<Longrightarrow> run_step e gwDisabled s (s\<lparr>rn_grpc := GSending er\<rparr>)"
| dial_ok: "rn_gw s = WDialing \<Longrightarrow> run_step e gwDisabled s (s\<lparr>rn_gw := WRegisterPing\<rparr>)"
| dial_err: "rn_gw s = WDialing \<Longrightarrow> run_step e gwDisabled s (s\<lparr>rn_gw := WSending x\<rparr>)"
| ping_ok: "rn_gw s = WRegisterPing \<Longrightarrow> run_step e gwDisabled s (s\<lparr>rn_gw := WRegisterControl\<rparr>)"
| ping_err: "rn_gw s = WRegisterPing \<Longrightarrow> run_step e gwDisabled s (s\<lparr>rn_gw := WSending x\<rparr>)"
| control_ok: "rn_gw s = WRegisterControl \<Longrightarrow> run_step e gwDisabled s (s\<lparr>rn_gw := WListening\<rparr>)"
| control_err: "rn_gw s = WRegisterControl \<Longrightarrow> run_step e gwDisabled s (s\<lparr>rn_gw := WSending x\<rparr>)"
| listen_closed: "rn_gw s = WListening \<Longrightarrow> rn_gwClosed s \<Longrightarrow> run_step e gwDisabled s (s\<lparr>rn_gw := WSending x\<rparr>)"
| select_root: "rn_main s = RSelect \<Longrightarrow> rn_rootDone s \<Longrightarrow>
    run_step e gwDisabled s (s\<lparr>rn_main := if gwDisabled then after_gw True None else RCloseGw True None\<rparr>)"
| select_grpc: "rn_main s = RSelect \<Longrightarrow> rn_grpc s = GSending er \<Longrightarrow>
    run_step e gwDisabled s (s\<lparr>rn_main := if gwDisabled then after_gw False er else RCloseGw False er, rn_grpc := GDone\<rparr>)"
| select_gw: "rn_main s = RSelect \<Longrightarrow> rn_gw s = WSending x \<Longrightarrow>
    run_step e gwDisabled s (s\<lparr>rn_main := RStopGrpc (Some x), rn_gw := WDone\<rparr>)"
| close_gw: "rn_main s = RCloseGw b er \<Longrightarrow> run_step e gwDisabled s (s\<lparr>rn_main := RWaitGw b er, rn_gwClosed := True\<rparr>)"
| wait_gw: "rn_main s = RWaitGw b er \<Longrightarrow> rn_gw s = WSending x \<Longrightarrow>
    run_step e gwDisabled s (s\<lparr>rn_main := after_gw b er, rn_gw := WDone\<rparr>)"
| stop_grpc: "rn_main s = RStopGrpc er \<Longrightarrow> run_step e gwDisabled s (s\<lparr>rn_main := RWaitGrpc er, rn_grpcStopped := True\<rparr>)"
| wait_grpc: "rn_main s = RWaitGrpc er \<Longrightarrow> rn_grpc s = GSending er' \<Longrightarrow>
    run_step e gwDisabled s (s\<lparr>rn_main := RLock er, rn_grpc := GDone\<rparr>)"
| close_network: "rn_main s = RLock er \<Longrightarrow> Run_close e (rn_state s) = (Ok (), st) \<Longrightarrow>
    run_step e gwDisabled s (s\<lparr>rn_main := RReturned er, rn_state := st\<rparr>)"

text \<open>What happens outside: the root context ends, a listener fails.\<close>

inductive run_outside :: "run_sys \<Rightarrow> run_sys \<Rightarrow> bool" where
  root_done: "\<not> rn_rootDone s \<Longrightarrow> run_outside s (s\<lparr>rn_rootDone := True\<rparr>)"
| serve_fails: "rn_grpc s = GServing \<Longrightarrow> run_outside s (s\<lparr>rn_grpc := GSending er\<rparr>)"
| listen_fails: "rn_gw s = WListening \<Longrightarrow> run_outside s (s\<lparr>rn_gw := WSending x\<rparr>)"

text \<open>A request is handled, or a process exits.\<close>

inductive run_request ::
  "env \<Rightarrow> chain_env \<Rightarrow> api_env \<Rightarrow> (err \<Rightarrow> err \<Rightarrow> err) \<Rightarrow> NetConfig \<Rightarrow> run_sys \<Rightarrow> run_sys \<Rightarrow> bool"
  for e :: env and ce :: chain_env and ae :: api_env and ap :: "err \<Rightarrow> err \<Rightarrow> err" and def :: NetConfig where
  request: "sv_step e ce ae ap def (rn_state s) st \<Longrightarrow> (\<forall>er. rn_main s \<noteq> RReturned er) \<Longrightarrow>
    run_request e ce ae ap def s (s\<lparr>rn_state := st\<rparr>)"

definition any_run_step ::
  "env \<Rightarrow> chain_env \<Rightarrow> api_env \<Rightarrow> (err \<Rightarrow> err \<Rightarrow> err) \<Rightarrow> NetConfig \<Rightarrow> bool \<Rightarrow> run_sys \<Rightarrow> run_sys \<Rightarrow> bool" where
  "any_run_step e ce ae ap def gwDisabled s t \<longleftrightarrow>
     run_step e gwDisabled s t \<or> run_outside s t \<or> run_request e ce ae ap def s t"

definition run_start :: "bool \<Rightarrow> sv_state \<Rightarrow> run_sys" where
  "run_start gwDisabled st = \<lparr>rn_main = RSelect, rn_grpc = GServing, rn_grpcStopped = False,
     rn_gw = (if gwDisabled then WDone else WDialing), rn_gwClosed = False, rn_rootDone = False, rn_state = st\<rparr>"

definition run_init :: "api_env \<Rightarrow> bool \<Rightarrow> run_sys \<Rightarrow> bool" where
  "run_init ae gwDisabled s \<longleftrightarrow> (\<exists>st. sv_init ae st \<and> s = run_start gwDisabled st)"

inductive_cases run_stepE: "run_step e gwDisabled s t"
inductive_cases run_outsideE: "run_outside s t"

section \<open>Invariant\<close>

lemma Run_close_result:
  assumes "sv_inv in_use (s, w, txs)" "Run_close e (s, w, txs) = (r, t)"
  shows "r = Ok () \<and> sv_network (fst t) = None \<and> live_procs (fst (snd t)) = {}"
proof (cases "sv_network s")
  case None
  then have "idle w" using assms(1) by (simp add: sv_inv_def)
  then show ?thesis using None assms(2)
    by (auto simp: Run_close_def bindP_def getC_def gets_def ret_def idle_live)
next
  case (Some lc)
  obtain r' t' w' txs' where run: "stopAndRemoveNetwork e None (s, w, txs) = (r', (t', w', txs'))" by (metis prod.exhaust)
  from lnet.stopAndRemoveNetwork_result [OF assms(1) run] show ?thesis
    using Some assms(2) run by (auto simp: Run_close_def bindP_def getC_def gets_def sv_none_def idle_live)
qed

lemma Run_close_Ok: "sv_inv in_use st \<Longrightarrow> \<exists>t. Run_close e st = (Ok (), t)"
  using Run_close_result [of "fst st" "fst (snd st)" "snd (snd st)" e] by (metis prod.exhaust prod.collapse)

fun main_inv :: "bool \<Rightarrow> run_pc \<Rightarrow> run_sys \<Rightarrow> bool" where
  "main_inv gwDisabled RSelect s \<longleftrightarrow> rn_grpc s \<noteq> GDone \<and> (gwDisabled \<longleftrightarrow> rn_gw s = WDone)"
| "main_inv gwDisabled (RCloseGw b er) s \<longleftrightarrow> rn_gw s \<noteq> WDone \<and> (b \<longleftrightarrow> rn_grpc s \<noteq> GDone)"
| "main_inv gwDisabled (RWaitGw b er) s \<longleftrightarrow> rn_gw s \<noteq> WDone \<and> (b \<longleftrightarrow> rn_grpc s \<noteq> GDone) \<and> rn_gwClosed s"
| "main_inv gwDisabled (RStopGrpc er) s \<longleftrightarrow> rn_gw s = WDone \<and> rn_grpc s \<noteq> GDone"
| "main_inv gwDisabled (RWaitGrpc er) s \<longleftrightarrow> rn_gw s = WDone \<and> rn_grpc s \<noteq> GDone \<and> rn_grpcStopped s"
| "main_inv gwDisabled (RLock er) s \<longleftrightarrow> rn_gw s = WDone \<and> rn_grpc s = GDone"
| "main_inv gwDisabled (RReturned er) s \<longleftrightarrow> rn_gw s = WDone \<and> rn_grpc s = GDone"

definition clean :: "sv_state \<Rightarrow> bool" where
  "clean st \<longleftrightarrow> sv_network (fst st) = None \<and> live_procs (fst (snd st)) = {}"

definition run_inv :: "bool \<Rightarrow> run_sys \<Rightarrow> bool" where
  "run_inv gwDisabled s \<longleftrightarrow> main_inv gwDisabled (rn_main s) s \<and>
     (if \<exists>er. rn_main s = RReturned er then clean (rn_state s) else sv_inv in_use (rn_state s))"

lemma main_inv_step: "run_step e gwDisabled s t \<Longrightarrow> main_inv gwDisabled (rn_main s) s \<Longrightarrow> main_inv gwDisabled (rn_main t) t"
  by (erule run_stepE) (auto simp: after_gw_def elim!: main_inv.elims)

lemma main_inv_outside: "run_outside s t \<Longrightarrow> main_inv gwDisabled (rn_main s) s \<Longrightarrow> main_inv gwDisabled (rn_main t) t"
  by (erule run_outsideE) (auto elim!: main_inv.elims)

lemma run_state_step:
  assumes "run_step e gwDisabled s t" "run_inv gwDisabled s"
  shows "if \<exists>er. rn_main t = RReturned er then clean (rn_state t) else sv_inv in_use (rn_state t)"
  using assms(1)
proof cases
  case (close_network er st)
  then have "sv_inv in_use (rn_state s)" using assms(2) by (simp add: run_inv_def)
  then show ?thesis using close_network Run_close_result [of "fst (rn_state s)" "fst (snd (rn_state s))" "snd (snd (rn_state s))"]
    by (simp add: clean_def)
qed (use assms(2) in \<open>auto simp: run_inv_def after_gw_def\<close>)

interpretation run: inductive_invariant "run_init ae gwDisabled" "any_run_step e ce ae ap def gwDisabled" "run_inv gwDisabled"
  for e ce ae ap gwDisabled and "def" :: NetConfig
proof
  show "run_inv gwDisabled s" if "run_init ae gwDisabled s" for s
    using that server.inv_init by (auto simp: run_init_def run_inv_def run_start_def)
  show "run_inv gwDisabled t" if inv: "run_inv gwDisabled s" and step: "any_run_step e ce ae ap def gwDisabled s t" for s t
  proof -
    consider "run_step e gwDisabled s t" | "run_outside s t" | "run_request e ce ae ap def s t"
      using step by (auto simp: any_run_step_def)
    then show ?thesis
    proof cases
      case 1
      then show ?thesis using inv main_inv_step run_state_step unfolding run_inv_def by blast
    next
      case 2
      then have "rn_main t = rn_main s" "rn_state t = rn_state s" by (auto elim: run_outsideE)
      then show ?thesis using inv main_inv_outside [OF 2] by (simp add: run_inv_def)
    next
      case 3
      then show ?thesis
      proof cases
        case (request st)
        then have "sv_inv in_use (rn_state s)" using inv by (simp add: run_inv_def)
        then have "sv_inv in_use st" by (rule server.inv_step [OF _ request(2)])
        moreover have "main_inv gwDisabled (rn_main s) t" using request(1) inv by (cases "rn_main s") (auto simp: run_inv_def)
        ultimately show ?thesis using request inv by (simp add: run_inv_def)
      qed
    qed
  qed
qed

section \<open>Properties\<close>

text \<open>
  C7. When \<^verbatim>\<open>Run\<close> returns, in every interleaving with the goroutines of the two listeners, the requests and
  the failures of either listener, both goroutines have ended, so that neither is left sending on its channel,
  the server holds no network, and every process that it has started has stopped.
\<close>

theorem Run_returns_clean:
  assumes "reachable (run_init ae gwDisabled) (any_run_step e ce ae ap def gwDisabled) s" "rn_main s = RReturned er"
  shows "rn_grpc s = GDone \<and> rn_gw s = WDone \<and> sv_network (fst (rn_state s)) = None \<and>
    live_procs (fst (snd (rn_state s))) = {}"
  using run.reachable_inv [OF assms(1)] assms(2) by (simp add: run_inv_def clean_def)

fun run_rank :: "run_pc \<Rightarrow> nat" where
  "run_rank RSelect = 6"
| "run_rank (RCloseGw b er) = 5"
| "run_rank (RWaitGw b er) = 4"
| "run_rank (RStopGrpc er) = 3"
| "run_rank (RWaitGrpc er) = 2"
| "run_rank (RLock er) = 1"
| "run_rank (RReturned er) = 0"

fun grpc_rank :: "grpc_pc \<Rightarrow> nat" where
  "grpc_rank GServing = 2"
| "grpc_rank (GSending er) = 1"
| "grpc_rank GDone = 0"

fun gw_rank :: "gw_pc \<Rightarrow> nat" where
  "gw_rank WDialing = 5"
| "gw_rank WRegisterPing = 4"
| "gw_rank WRegisterControl = 3"
| "gw_rank WListening = 2"
| "gw_rank (WSending x) = 1"
| "gw_rank WDone = 0"

definition sys_rank :: "run_sys \<Rightarrow> nat" where
  "sys_rank s = run_rank (rn_main s) + grpc_rank (rn_grpc s) + gw_rank (rn_gw s) + (if rn_rootDone s then 0 else 1)"

lemma sys_rank_step: "run_step e gwDisabled s t \<Longrightarrow> sys_rank t < sys_rank s"
  by (erule run_stepE) (auto simp: sys_rank_def after_gw_def)

lemma sys_rank_outside: "run_outside s t \<Longrightarrow> sys_rank t < sys_rank s"
  by (erule run_outsideE) (auto simp: sys_rank_def)

lemma sys_rank_request: "(run_request e ce ae ap def)\<^sup>*\<^sup>* s t \<Longrightarrow> sys_rank t = sys_rank s"
  by (induction rule: rtranclp_induct) (auto simp: sys_rank_def elim!: run_request.cases)

lemma gw_moves: "rn_gw s \<noteq> WDone \<Longrightarrow> rn_gwClosed s \<Longrightarrow> (\<exists>t. run_step e gwDisabled s t) \<or> (\<exists>x. rn_gw s = WSending x)"
  by (cases "rn_gw s") (auto intro: run_step.intros)

lemma grpc_moves: "rn_grpc s \<noteq> GDone \<Longrightarrow> rn_grpcStopped s \<Longrightarrow> (\<exists>t. run_step e gwDisabled s t) \<or> (\<exists>er. rn_grpc s = GSending er)"
  by (cases "rn_grpc s") (auto intro: run_step.intros)

lemma run_moves:
  assumes "run_inv gwDisabled s" "rn_rootDone s" "\<forall>er. rn_main s \<noteq> RReturned er"
  shows "\<exists>t. run_step e gwDisabled s t"
proof (cases "rn_main s")
  case RSelect
  then show ?thesis using assms(2) run_step.select_root by blast
next
  case (RCloseGw b er)
  then show ?thesis using run_step.close_gw by blast
next
  case (RWaitGw b er)
  then show ?thesis using assms(1) gw_moves [of s e gwDisabled] run_step.wait_gw [OF RWaitGw] by (auto simp: run_inv_def)
next
  case (RStopGrpc er)
  then show ?thesis using run_step.stop_grpc by blast
next
  case (RWaitGrpc er)
  then show ?thesis using assms(1) grpc_moves [of s e gwDisabled] run_step.wait_grpc [OF RWaitGrpc] by (auto simp: run_inv_def)
next
  case (RLock er)
  then have "sv_inv in_use (rn_state s)" using assms(1) by (simp add: run_inv_def)
  then show ?thesis using Run_close_Ok run_step.close_network [OF RLock] by metis
qed (use assms(3) in auto)

text \<open>
  C33. \<^verbatim>\<open>Run\<close> does not hang when it is told to end. However many requests are handled in between, there are
  only finitely many steps of \<^verbatim>\<open>Run\<close>, its goroutines and the listeners; and once the root context is done,
  one of them can go on until \<^verbatim>\<open>Run\<close> has returned: no send and no receive waits forever.
\<close>

theorem Run_terminates:
  assumes "reachable (run_init ae gwDisabled) (any_run_step e ce ae ap def gwDisabled) s" "rn_rootDone s"
  shows "wfp (\<lambda>t s. \<exists>u. (run_request e ce ae ap def)\<^sup>*\<^sup>* s u \<and> (run_step e gwDisabled u t \<or> run_outside u t)) \<and>
    ((\<exists>er. rn_main s = RReturned er) \<or> (\<exists>t. run_step e gwDisabled s t))"
proof
  show "wfp (\<lambda>t s. \<exists>u. (run_request e ce ae ap def)\<^sup>*\<^sup>* s u \<and> (run_step e gwDisabled u t \<or> run_outside u t))"
    by (rule wfp_if_convertible_to_nat [of _ sys_rank]) (metis sys_rank_request sys_rank_step sys_rank_outside)
  show "(\<exists>er. rn_main s = RReturned er) \<or> (\<exists>t. run_step e gwDisabled s t)"
    using run_moves [OF run.reachable_inv [OF assms(1)] assms(2)] by blast
qed

section \<open>A run\<close>

text \<open>A server without gateway that is told to end while a network runs.\<close>

lemma reach_run:
  "reachable (run_init ae b) (any_run_step e ce ae ap def b) s \<Longrightarrow> run_step e b s t \<Longrightarrow>
   reachable (run_init ae b) (any_run_step e ce ae ap def b) t"
  by (auto simp: any_run_step_def intro: reach_step)

lemma reach_requests:
  "reachable (sv_init ae) (sv_step e ce ae ap def) st \<Longrightarrow>
   reachable (run_init ae b) (any_run_step e ce ae ap def b) (run_start b st)"
proof (induction rule: reachable.induct)
  case (reach_init st)
  then have "run_init ae b (run_start b st)" unfolding run_init_def by blast
  then show ?case by (rule reachable.reach_init)
next
  case (reach_step st st')
  have "run_request e ce ae ap def (run_start b st) ((run_start b st)\<lparr>rn_state := st'\<rparr>)"
    using reach_step(2) by (intro run_request.request) (simp_all add: run_start_def)
  then show ?case
    using reachable.reach_step [OF reach_step(3), of "run_start b st'"] by (simp add: any_run_step_def run_start_def)
qed

definition run_told :: run_sys where
  "run_told = (run_start True served_state)\<lparr>rn_rootDone := True\<rparr>"

abbreviation demo_run :: "run_sys \<Rightarrow> bool" where
  "demo_run \<equiv> reachable (run_init demo_api True) (any_run_step demo_env2 demo_chain demo_api demo_append start_default True)"

lemma run_told_reachable: "demo_run run_told"
  using reach_step [OF reach_requests [OF served(1), of True], of run_told] run_outside.root_done [of "run_start True served_state"]
  by (simp add: any_run_step_def run_told_def run_start_def)

theorem Run_terminates_witness: "\<exists>t. run_step demo_env2 True run_told t"
proof -
  have "rn_rootDone run_told" by (simp add: run_told_def)
  from Run_terminates [OF run_told_reachable this] show ?thesis by (auto simp: run_told_def run_start_def)
qed

theorem Run_returns_clean_witness:
  "\<exists>s. demo_run s \<and>
     rn_main s = RReturned None \<and> live_procs (fst (snd (rn_state run_told))) \<noteq> {} \<and> live_procs (fst (snd (rn_state s))) = {}"
proof -
  let ?a = "run_told\<lparr>rn_main := RStopGrpc None\<rparr>"
  let ?b = "?a\<lparr>rn_main := RWaitGrpc None, rn_grpcStopped := True\<rparr>"
  let ?c = "?b\<lparr>rn_grpc := GSending None\<rparr>"
  let ?d = "?c\<lparr>rn_main := RLock None, rn_grpc := GDone\<rparr>"
  have "sv_inv in_use served_state" using server.reachable_inv [OF served(1)] .
  then obtain st where close: "Run_close demo_env2 served_state = (Ok (), st)" using Run_close_Ok by blast
  let ?t = "?d\<lparr>rn_main := RReturned None, rn_state := st\<rparr>"
  note run = run_told_reachable
  from reach_run [OF run, of ?a] have run: "demo_run ?a"
    using run_step.select_root [of run_told demo_env2 True] by (simp add: run_told_def run_start_def after_gw_def)
  from reach_run [OF run, of ?b] have run: "demo_run ?b"
    using run_step.stop_grpc [of ?a None demo_env2 True] by simp
  from reach_run [OF run, of ?c] have run: "demo_run ?c"
    using run_step.serve_stopped [of ?b demo_env2 True None] by (simp add: run_told_def run_start_def)
  from reach_run [OF run, of ?d] have run: "demo_run ?d"
    using run_step.wait_grpc [of ?c None None demo_env2 True] by simp
  from reach_run [OF run, of ?t] have run: "demo_run ?t"
    using run_step.close_network [of ?d None demo_env2 st True] close by (simp add: run_told_def run_start_def)
  obtain sv w txs where st: "served_state = (sv, w, txs)" "live_procs w \<noteq> {}" using served_parts by blast
  have "rn_state run_told = (sv, w, txs)" unfolding run_told_def run_start_def by (simp only: run_sys.simps st(1))
  then have "live_procs (fst (snd (rn_state run_told))) \<noteq> {}" using st(2) by simp
  with Run_returns_clean [OF run, of None] run show ?thesis by (intro exI [of _ ?t]) simp
qed

end
