(* ===== verification/Control_Theorems.thy ===== *)
theory Control_Theorems
  imports Control Server_Run
begin

text \<open>
  The program as a whole: from the command line over the request to the handler and the nodes. A control
  command is at most one request to the server, a session of any commands leaves no process when
  the server ends, and what the flags of \<^verbatim>\<open>start\<close> say is what the nodes are configured with.
\<close>

section \<open>A command leaves the processes alone\<close>

lemma procs_newClient: "pres (same_procs ps) (newClient ct e fl)"
  unfolding newClient_def client_New_def setLogs_def MkDirWithTimestamp_def Let_def by (intro pres_intros fs_pres)

lemma procs_serverFunc: "pres (same_procs ps) (serverFunc ct e ae fl)"
  unfolding serverFunc_def MkDirWithTimestamp_def Let_def by (intro pres_intros fs_pres)

lemma pingFunc_harmless:
  "pres (same_procs ps) (pingFunc ct lvl ep) \<and>
   (\<forall>w q. fst (pingFunc ct lvl ep w) = Ok q \<longrightarrow> (\<forall>e ce ae ap def s. handle e ce ae ap def q s = (Ok (), s)))"
proof (intro conjI allI impI)
  show "pres (same_procs ps) (pingFunc ct lvl ep)"
    unfolding pingFunc_def client_New_def by (intro pres_intros fs_pres)
  fix w q e ce ae ap s and "def" :: NetConfig
  assume "fst (pingFunc ct lvl ep w) = Ok q"
  then have "q = client_Ping"
    by (auto simp: pingFunc_def bindP_def ret_def split: prod.splits res.splits)
  then show "handle e ce ae ap def q s = (Ok (), s)"
    by (simp add: client_Ping_def sv_Ping_def no_response_def bindP_def ret_def)
qed

lemma procs_with_client: "pres (same_procs ps) (with_client ct e fl req)"
  unfolding with_client_def by (intro pres_intros procs_newClient)

lemma procs_waitForHealthy: "pres (same_procs ps) (waitForHealthy ct e fl args)"
  unfolding waitForHealthy_def by (intro pres_intros fs_pres procs_newClient)

lemmas RunE_defs =
  RPCVersionFunc_def startFunc_def createBlockchainsFunc_def createSubnetsFunc_def transformElasticSubnetsFunc_def
  addPermissionlessValidatorFunc_def removeSubnetValidatorFunc_def healthFunc_def urisFunc_def statusFunc_def
  removeNodeFunc_def pauseNodeFunc_def resumeNodeFunc_def addNodeFunc_def restartNodeFunc_def attachPeerFunc_def
  sendOutboundMessageFunc_def stopFunc_def saveSnapshotFunc_def loadSnapshotFunc_def removeSnapshotFunc_def
  getSnapshotNamesFunc_def

lemmas command_defs =
  newRPCVersionCommand_def newStartCommand_def newCreateBlockchainsCommand_def newCreateSubnetsCommand_def
  newTransformElasticSubnetsCommand_def newAddPermissionlessValidatorCommand_def newRemoveSubnetValidatorCommand_def
  newHealthCommand_def newWaitForHealthyCommand_def newURIsCommand_def newStatusCommand_def newRemoveNodeCommand_def
  newPauseNodeCommand_def newResumeNodeCommand_def newAddNodeCommand_def newRestartNodeCommand_def
  newAttachPeerCommand_def newSendOutboundMessageCommand_def newStopCommand_def newSaveSnapshotCommand_def
  newLoadSnapshotCommand_def newRemoveSnapshotCommand_def newGetSnapshotNamesCommand_def plain_command_def

lemma procs_RunE:
  assumes "(name, c) \<in> set NewCommand"
  shows "pres (same_procs ps) (cmd_RunE c ct e fl args)"
  using assms unfolding NewCommand_def
  by (auto simp: command_defs RunE_defs Let_def intro!: procs_with_client procs_waitForHealthy pres_intros)

lemma procs_command: "pres (same_procs ps) (command_request ct e name given args)"
proof (cases "map_of NewCommand name")
  case (Some c)
  then have "pres (same_procs ps) (cmd_RunE c ct e fl args)" for fl using procs_RunE map_of_SomeD by metis
  then show ?thesis using Some by (auto simp: command_request_def intro!: pres_intros)
qed (auto simp: command_request_def intro: pres_intros)

section \<open>A command is at most one request\<close>

text \<open>Nothing but files and the clock has changed.\<close>

definition aside :: "sv_state \<Rightarrow> sv_state \<Rightarrow> bool" where
  "aside s t \<longleftrightarrow> fst t = fst s \<and> procs (fst (snd t)) = procs (fst (snd s)) \<and> snd (snd t) = snd (snd s)"

lemma aside_refl [simp]: "aside s s"
  by (simp add: aside_def)

lemma aside_trans: "aside s t \<Longrightarrow> aside t u \<Longrightarrow> aside s u"
  by (simp add: aside_def)

lemma aside_onS:
  assumes "\<And>ps. pres (same_procs ps) m" "onS m s = (r, t)"
  shows "aside s t"
  using presD [OF assms(1), of "procs (fst (snd s))" "fst (snd s)"] assms(2)
  by (cases s) (auto simp: aside_def onS_def zoomP_def same_procs_def split: prod.splits)

lemma aside_askS: "askS f s = (r, t) \<Longrightarrow> aside s t"
  using aside_onS [OF pres_tick, of s] by (auto simp: askS_def bindP_def liftR_def split: prod.splits res.splits)

lemma aside_step: "aside s t \<Longrightarrow> sv_step e ce ae ap def s t"
  using sv_step.outside [of "fst (snd t)" "fst (snd s)" e ce ae ap "def" "fst s" "snd (snd s)"]
  by (cases s, cases t) (simp add: aside_def)

lemma onS_result: "fst (onS m s) = fst (m (fst (snd s)))"
  by (cases s) (simp add: onS_def zoomP_def split: prod.splits)

lemma control_cases:
  assumes "control ct e ce ae ap def name given args s = (r, t)"
  shows "aside s t \<or> (\<exists>req k req' u v q. fst (command_request ct e name given args (fst (snd s))) = Ok req \<and>
    ct_Send ct k req = Ok req' \<and> aside s u \<and> handle e ce ae ap def req' u = (q, v) \<and> (is_Panic q \<longrightarrow> is_Panic r) \<and> aside v t)"
proof -
  obtain r1 s1 where run: "onS (command_request ct e name given args) s = (r1, s1)" by (rule prod.exhaust)
  have s1: "aside s s1" using aside_onS [OF procs_command run] .
  show ?thesis
  proof (cases r1)
    case (Ok req)
    then have req: "fst (command_request ct e name given args (fst (snd s))) = Ok req"
      using onS_result [of "command_request ct e name given args" s] run by simp
    obtain r2 s2 where send: "askS (\<lambda>t. ct_Send ct t req) s1 = (r2, s2)" by (rule prod.exhaust)
    have s2: "aside s s2" using aside_trans [OF s1 aside_askS [OF send]] .
    show ?thesis
    proof (cases r2)
      case req': (Ok req')
      obtain q v where served: "handle e ce ae ap def req' s2 = (q, v)" by (rule prod.exhaust)
      have "aside v t" "is_Panic q \<longrightarrow> is_Panic r" using assms Ok req' run send served aside_askS [of "ct_Recv ct" v r t]
        by (cases q; auto simp: control_def bindP_def)+
      moreover have "\<exists>k. ct_Send ct k req = Ok req'"
        using send req' by (auto simp: askS_def bindP_def liftR_def split: prod.splits res.splits)
      ultimately show ?thesis using req s2 served by blast
    qed (use assms Ok run send s2 in \<open>auto simp: control_def bindP_def\<close>)
  qed (use assms run s1 in \<open>auto simp: control_def bindP_def\<close>)
qed


lemma control_steps:
  assumes "control ct e ce ae ap def name given args s = (r, t)" "\<not> is_Panic r"
  shows "(sv_step e ce ae ap def)\<^sup>*\<^sup>* s t"
proof -
  have step: "(sv_step e ce ae ap def)\<^sup>*\<^sup>* u v" if "aside u v" for u v using aside_step [OF that] by blast
  consider "aside s t" | req u v q where "aside s u" "handle e ce ae ap def req u = (q, v)" "\<not> is_Panic q" "aside v t"
    using control_cases [OF assms(1)] assms(2) by blast
  then show ?thesis
  proof cases
    case 2
    have sv: "sv_step e ce ae ap def u v" by (rule sv_step.served [OF 2(2,3)])
    show ?thesis by (rule rtranclp_trans [OF rtranclp.rtrancl_into_rtrancl [OF step [OF 2(1)] sv] step [OF 2(4)]])
  qed (rule step)
qed

section \<open>A session\<close>

text \<open>
  The server command starts a server; then control commands are run, in any number and order, while
  processes exit and files change. A panic ends the server.
\<close>

inductive session_step ::
  "ctl_env \<Rightarrow> env \<Rightarrow> chain_env \<Rightarrow> api_env \<Rightarrow> (err \<Rightarrow> err \<Rightarrow> err) \<Rightarrow> NetConfig \<Rightarrow> sv_state \<Rightarrow> sv_state \<Rightarrow> bool"
  for ct :: ctl_env and e :: env and ce :: chain_env and ae :: api_env and ap :: "err \<Rightarrow> err \<Rightarrow> err" and def :: NetConfig where
  command: "control ct e ce ae ap def name given args s = (r, t) \<Longrightarrow> \<not> is_Panic r \<Longrightarrow> session_step ct e ce ae ap def s t"
| exits: "pid < length (procs w) \<Longrightarrow>
    session_step ct e ce ae ap def (s, w, txs) (s, w\<lparr>procs := (procs w)[pid := snd (np_Stop c (procs w ! pid))]\<rparr>, txs)"
| files: "procs w' = procs w \<Longrightarrow> session_step ct e ce ae ap def (s, w, txs) (s, w', txs)"

lemma session_simulated: "session_step ct e ce ae ap def s t \<Longrightarrow> (sv_step e ce ae ap def)\<^sup>*\<^sup>* s t"
  by (induction rule: session_step.induct) (auto intro: control_steps sv_step.intros)

lemma sessions_simulated: "(session_step ct e ce ae ap def)\<^sup>*\<^sup>* s t \<Longrightarrow> (sv_step e ce ae ap def)\<^sup>*\<^sup>* s t"
  by (induction rule: rtranclp_induct) (auto dest: session_simulated)

lemma reachable_steps: "(step1)\<^sup>*\<^sup>* s t \<Longrightarrow> reachable init step1 s \<Longrightarrow> reachable init step1 t"
  by (induction rule: rtranclp_induct) (auto intro: reachable.intros)

lemma serverFunc_init:
  assumes "serverFunc ct e ae fl w = (Ok s, w')" "procs w = []"
  shows "sv_init ae (s, w', [])"
proof -
  have "procs w' = []" using presD [OF procs_serverFunc _ assms(1), of "[]"] assms(2) by (simp add: same_procs_def)
  moreover have "\<exists>p g b d. server_New ae p g b d = Ok s"
    using assms(1) by (auto simp: serverFunc_def bindP_eq_Ok liftR_def)
  ultimately show ?thesis by (simp add: sv_init_def)
qed

lemma session_inv:
  assumes "serverFunc ct e ae fl w = (Ok s0, w')" "procs w = []"
    and "(session_step ct e ce ae ap def)\<^sup>*\<^sup>* (s0, w', []) s"
  shows "sv_inv in_use s"
proof -
  have "reachable (sv_init ae) (sv_step e ce ae ap def) (s0, w', [])"
    using serverFunc_init [OF assms(1,2)] by (rule reachable.intros)
  from reachable_steps [OF sessions_simulated [OF assms(3)] this] show ?thesis by (rule server.reachable_inv)
qed


section \<open>What the flags of a command say\<close>

text \<open>The value of a flag that may be given several times: the last one counts.\<close>

definition given_flag :: "(string \<times> string) list \<Rightarrow> string \<Rightarrow> string" where
  "given_flag given k = (case map_of (rev given) k of None \<Rightarrow> [] | Some s \<Rightarrow> s)"

lemma set_flags_get:
  assumes "set_flags ct vars given fl = Ok fl'"
    and "\<And>n v s a b. map_of vars n = Some v \<Longrightarrow> set_var ct v s a = Ok b \<Longrightarrow> get b = (if n = k then s else get a)"
  shows "get fl' = (case map_of (rev given) k of None \<Rightarrow> get fl | Some s \<Rightarrow> s)"
  using assms(1)
proof (induction given arbitrary: fl)
  case (Cons g given)
  obtain n s where g: "g = (n, s)" by force
  obtain v b where v: "map_of vars n = Some v" "set_var ct v s fl = Ok b" "set_flags ct vars given b = Ok fl'"
    using Cons.prems by (auto simp: g bindR_eq_Ok split: option.splits)
  then have "get b = (if n = k then s else get fl)" using assms(2) by blast
  then show ?case using Cons.IH [OF v(3)] by (auto simp: g map_add_def split: option.splits)
qed simp

lemmas flag_lists =
  node_path_flag_def plugin_dir_flag_def root_data_dir_flag_def global_config_flag_def subnets_flag_def file_flags_def
  reassign_flag_def persistent_flags_def

lemma set_flags_given:
  assumes "set_flags ct vars given fl = Ok fl'" "get fl = []"
    and "list_all (\<lambda>(n, v). \<forall>s a b. set_var ct v s a = Ok b \<longrightarrow> get b = (if n = k then s else get a)) vars"
  shows "get fl' = given_flag given k"
proof -
  have "get b = (if n = k then s else get a)" if "map_of vars n = Some v" "set_var ct v s a = Ok b" for n v s a b
    using assms(3) map_of_SomeD [OF that(1)] that(2) unfolding list_all_iff by blast
  then have "get fl' = (case map_of (rev given) k of None \<Rightarrow> get fl | Some s \<Rightarrow> s)"
    by (intro set_flags_get [OF assms(1)]) blast
  then show ?thesis using assms(2) by (simp add: given_flag_def split: option.split_asm option.split)
qed

lemma start_flags:
  assumes "command_flags ct newStartCommand given args = Ok fl"
  shows "cf_luxdBinPath fl = given_flag given ''node-path''" "cf_customNodeConfigs fl = given_flag given ''custom-node-configs''"
    "cf_globalNodeConfig fl = given_flag given ''global-node-config''" "cf_pluginDir fl = given_flag given ''plugin-dir''"
    "cf_trackSubnets fl = given_flag given ''whitelisted-subnets''"
    "cf_blockchainSpecsStr fl = given_flag given ''blockchain-specs''"
    "cf_chainConfigs fl = given_flag given ''chain-configs''" "cf_upgradeConfigs fl = given_flag given ''upgrade-configs''"
    "cf_subnetConfigs fl = given_flag given ''subnet-configs''"
proof -
  have run: "set_flags ct (cmd_Flags newStartCommand @ persistent_flags) given (default_flags ct) = Ok fl"
    using assms by (auto simp: command_flags_def bindR_eq_Ok split: if_splits)
  note flag = set_flags_given [OF run]
  show "cf_luxdBinPath fl = given_flag given ''node-path''" "cf_customNodeConfigs fl = given_flag given ''custom-node-configs''"
    "cf_globalNodeConfig fl = given_flag given ''global-node-config''" "cf_pluginDir fl = given_flag given ''plugin-dir''"
    "cf_trackSubnets fl = given_flag given ''whitelisted-subnets''"
    "cf_blockchainSpecsStr fl = given_flag given ''blockchain-specs''"
    "cf_chainConfigs fl = given_flag given ''chain-configs''" "cf_upgradeConfigs fl = given_flag given ''upgrade-configs''"
    "cf_subnetConfigs fl = given_flag given ''subnet-configs''"
    by (rule flag; auto simp: newStartCommand_def flag_lists bindR_eq_Ok default_flags_def)+
qed

section \<open>The request of a start command\<close>

text \<open>A map that a flag gives: nil if the flag is not given.\<close>

definition reads :: "string \<Rightarrow> string gomap \<Rightarrow> bool" where
  "reads s m \<longleftrightarrow> (if s = [] then m = None else unmarshal_to get_strings s = Ok m)"

lemma if_given_Ok:
  assumes "if_given parse opt s = Ok opts"
  obtains "s = []" "opts = []" | x where "s \<noteq> []" "parse s = Ok x" "opts = [opt x]"
  using assms by (auto simp: if_given_def bindR_eq_Ok split: if_splits)

lemma applyOpts_append: "applyOpts (xs @ ys) oper = applyOpts ys (applyOpts xs oper)"
  by (simp add: applyOpts_def)

lemma applyOpts_Cons: "applyOpts (x # xs) oper = applyOpts xs (x oper)" "applyOpts [] oper = oper"
  by (simp_all add: applyOpts_def)

lemma given_map:
  assumes "if_given (unmarshal_to get_strings) opt s = Ok opts"
  obtains m where "reads s m" "\<And>oper. applyOpts opts oper = (if s = [] then oper else opt m oper)"
  using assms by (rule if_given_Ok) (auto simp: reads_def applyOpts_Cons)

lemma file_opts_Ok:
  assumes "file_opts fl = Ok opts"
  obtains c u s where "reads (cf_chainConfigs fl) c" "reads (cf_upgradeConfigs fl) u" "reads (cf_subnetConfigs fl) s"
    "\<And>oper. op_chainConfigs oper = None \<Longrightarrow> op_upgradeConfigs oper = None \<Longrightarrow> op_subnetConfigs oper = None \<Longrightarrow>
      applyOpts opts oper = oper\<lparr>op_chainConfigs := c, op_upgradeConfigs := u, op_subnetConfigs := s\<rparr>"
proof -
  obtain xs ys zs where
    o: "if_given (unmarshal_to get_strings) WithChainConfigs (cf_chainConfigs fl) = Ok xs"
      "if_given (unmarshal_to get_strings) WithUpgradeConfigs (cf_upgradeConfigs fl) = Ok ys"
      "if_given (unmarshal_to get_strings) WithSubnetConfigs (cf_subnetConfigs fl) = Ok zs" "opts = xs @ ys @ zs"
    using assms by (auto simp: file_opts_def bindR_eq_Ok)
  obtain c where c: "reads (cf_chainConfigs fl) c"
    "\<And>oper. applyOpts xs oper = (if cf_chainConfigs fl = [] then oper else WithChainConfigs c oper)"
    using o(1) by (rule given_map) blast
  obtain u where u: "reads (cf_upgradeConfigs fl) u"
    "\<And>oper. applyOpts ys oper = (if cf_upgradeConfigs fl = [] then oper else WithUpgradeConfigs u oper)"
    using o(2) by (rule given_map) blast
  obtain s where s: "reads (cf_subnetConfigs fl) s"
    "\<And>oper. applyOpts zs oper = (if cf_subnetConfigs fl = [] then oper else WithSubnetConfigs s oper)"
    using o(3) by (rule given_map) blast
  have "applyOpts opts oper = oper\<lparr>op_chainConfigs := c, op_upgradeConfigs := u, op_subnetConfigs := s\<rparr>"
    if "op_chainConfigs oper = None" "op_upgradeConfigs oper = None" "op_subnetConfigs oper = None" for oper
    using that c u s by (auto simp: o(4) applyOpts_append option_defs reads_def)
  then show ?thesis using that c(1) u(1) s(1) by blast
qed

lemma startFunc_request:
  assumes "startFunc ct e fl args w = (Ok q, w')"
  obtains req where "q = ReqStart req" "st_ExecPath req = cf_luxdBinPath fl" "st_NumNodes req = Some (cf_numNodes fl)"
    "st_GlobalNodeConfig req = cf_globalNodeConfig fl" "st_PluginDir req = cf_pluginDir fl"
    "st_WhitelistedSubnets req = cf_trackSubnets fl" "st_RootDataDir req = cf_rootDataDir fl"
    "st_ReassignPortsIfUsed req = cf_reassignPortsIfUsed fl" "st_DynamicPorts req = cf_dynamicPorts fl"
    "reads (cf_customNodeConfigs fl) (st_CustomNodeConfigs req)" "reads (cf_chainConfigs fl) (st_ChainConfigs req)"
    "reads (cf_upgradeConfigs fl) (st_UpgradeConfigs req)" "reads (cf_subnetConfigs fl) (st_SubnetConfigs req)"
    "cf_globalNodeConfig fl \<noteq> [] \<longrightarrow> json_value (cf_globalNodeConfig fl) \<noteq> None"
    "if cf_blockchainSpecsStr fl = [] then st_BlockchainSpecs req = []
     else unmarshal_to (get_list get_BlockchainSpec) (cf_blockchainSpecsStr fl) = Ok (st_BlockchainSpecs req)"
proof -
  obtain gs cs bs fs where
    g: "if_given valid_json WithGlobalNodeConfig (cf_globalNodeConfig fl) = Ok gs" and
    c: "if_given (unmarshal_to get_strings) WithCustomNodeConfigs (cf_customNodeConfigs fl) = Ok cs" and
    b: "if_given (unmarshal_to (get_list get_BlockchainSpec)) WithBlockchainSpecs (cf_blockchainSpecsStr fl) = Ok bs" and
    f: "file_opts fl = Ok fs" and
    q: "client_Start (cf_luxdBinPath fl) ([WithNumNodes (cf_numNodes fl), WithPluginDir (cf_pluginDir fl),
       WithTrackSubnets (cf_trackSubnets fl), WithRootDataDir (cf_rootDataDir fl),
       WithReassignPortsIfUsed (cf_reassignPortsIfUsed fl), WithDynamicPorts (cf_dynamicPorts fl)] @ gs @ cs @ bs @ fs) = q"
    using assms by (auto simp: startFunc_def with_client_def bindP_eq_Ok liftR_def bindR_eq_Ok Let_def)
  have g': "(cf_globalNodeConfig fl \<noteq> [] \<longrightarrow> json_value (cf_globalNodeConfig fl) \<noteq> None) \<and>
    (\<forall>oper. op_globalNodeConfig oper = [] \<longrightarrow> applyOpts gs oper = WithGlobalNodeConfig (cf_globalNodeConfig fl) oper)"
    using g by (rule if_given_Ok) (auto simp: valid_json_def applyOpts_Cons option_defs split: if_splits)
  obtain m where c': "reads (cf_customNodeConfigs fl) m"
    "\<And>oper. op_customNodeConfigs oper = None \<Longrightarrow> applyOpts cs oper = WithCustomNodeConfigs m oper"
    using c by (rule if_given_Ok) (auto simp: applyOpts_Cons option_defs reads_def split: if_splits)
  obtain specs where b': "if cf_blockchainSpecsStr fl = [] then specs = []
     else unmarshal_to (get_list get_BlockchainSpec) (cf_blockchainSpecsStr fl) = Ok specs"
    "\<And>oper. op_blockchainSpecs oper = [] \<Longrightarrow> applyOpts bs oper = WithBlockchainSpecs specs oper"
    using b by (rule if_given_Ok) (auto simp: applyOpts_Cons option_defs split: if_splits)
  obtain c u s where f': "reads (cf_chainConfigs fl) c" "reads (cf_upgradeConfigs fl) u" "reads (cf_subnetConfigs fl) s"
    "\<And>oper. op_chainConfigs oper = None \<Longrightarrow> op_upgradeConfigs oper = None \<Longrightarrow> op_subnetConfigs oper = None \<Longrightarrow>
      applyOpts fs oper = oper\<lparr>op_chainConfigs := c, op_upgradeConfigs := u, op_subnetConfigs := s\<rparr>"
    using f by (rule file_opts_Ok) blast
  obtain req where req: "q = ReqStart req" using q by (auto simp: client_Start_def Let_def)
  have "req = \<lparr>st_ExecPath = cf_luxdBinPath fl, st_NumNodes = Some (cf_numNodes fl),
     st_WhitelistedSubnets = cf_trackSubnets fl, st_GlobalNodeConfig = cf_globalNodeConfig fl,
     st_RootDataDir = cf_rootDataDir fl, st_PluginDir = cf_pluginDir fl, st_BlockchainSpecs = specs,
     st_CustomNodeConfigs = m, st_ChainConfigs = c, st_UpgradeConfigs = u,
     st_ReassignPortsIfUsed = cf_reassignPortsIfUsed fl, st_DynamicPorts = cf_dynamicPorts fl, st_SubnetConfigs = s\<rparr>"
    unfolding client_Start_fields [OF q [unfolded req] refl]
    by (simp add: applyOpts_append applyOpts_Cons option_defs g' c'(2) b'(2) f'(4) zero_Op_def)
  then show ?thesis using that [OF req] f'(1-3) b'(1) c'(1) g' by simp
qed

section \<open>From the command line to the nodes\<close>

definition start_json_flags :: "string list" where
  "start_json_flags = [''global-node-config'', ''custom-node-configs'', ''blockchain-specs'', ''chain-configs'',
     ''upgrade-configs'', ''subnet-configs'']"

lemma reads_valid: "reads s m \<Longrightarrow> s \<noteq> [] \<Longrightarrow> json_value s \<noteq> None"
  by (auto simp: reads_def unmarshal_to_def split: option.splits)

lemma start_command:
  assumes "fst (command_request ct e ''start'' given args w) = Ok q"
  obtains req where "q = ReqStart req" "st_ExecPath req = given_flag given ''node-path''"
    "st_GlobalNodeConfig req = given_flag given ''global-node-config''" "st_PluginDir req = given_flag given ''plugin-dir''"
    "st_WhitelistedSubnets req = given_flag given ''whitelisted-subnets''"
    "reads (given_flag given ''custom-node-configs'') (st_CustomNodeConfigs req)"
    "\<And>k. k \<in> set start_json_flags \<Longrightarrow> given_flag given k \<noteq> [] \<Longrightarrow> json_value (given_flag given k) \<noteq> None"
proof -
  obtain w' where "command_request ct e ''start'' given args w = (Ok q, w')" using assms by (metis prod.collapse)
  moreover have "map_of NewCommand ''start'' = Some newStartCommand" "cmd_RunE newStartCommand = startFunc"
    by (simp_all add: NewCommand_def newStartCommand_def)
  ultimately obtain fl where "command_flags ct newStartCommand given args = Ok fl" and run: "startFunc ct e fl args w = (Ok q, w')"
    by (auto simp: command_request_def bindP_eq_Ok liftR_def)
  note flags = start_flags [OF this(1)]
  obtain req where req: "q = ReqStart req" "st_ExecPath req = cf_luxdBinPath fl" "st_NumNodes req = Some (cf_numNodes fl)"
    "st_GlobalNodeConfig req = cf_globalNodeConfig fl" "st_PluginDir req = cf_pluginDir fl"
    "st_WhitelistedSubnets req = cf_trackSubnets fl" "st_RootDataDir req = cf_rootDataDir fl"
    "st_ReassignPortsIfUsed req = cf_reassignPortsIfUsed fl" "st_DynamicPorts req = cf_dynamicPorts fl"
    "reads (cf_customNodeConfigs fl) (st_CustomNodeConfigs req)" "reads (cf_chainConfigs fl) (st_ChainConfigs req)"
    "reads (cf_upgradeConfigs fl) (st_UpgradeConfigs req)" "reads (cf_subnetConfigs fl) (st_SubnetConfigs req)"
    "cf_globalNodeConfig fl \<noteq> [] \<longrightarrow> json_value (cf_globalNodeConfig fl) \<noteq> None"
    "if cf_blockchainSpecsStr fl = [] then st_BlockchainSpecs req = []
     else unmarshal_to (get_list get_BlockchainSpec) (cf_blockchainSpecsStr fl) = Ok (st_BlockchainSpecs req)"
    using run by (rule startFunc_request) blast
  have spec: "cf_blockchainSpecsStr fl \<noteq> [] \<Longrightarrow> json_value (cf_blockchainSpecsStr fl) \<noteq> None"
    using req(15) by (auto simp: unmarshal_to_def split: option.splits)
  have "list_all (\<lambda>k. given_flag given k \<noteq> [] \<longrightarrow> json_value (given_flag given k) \<noteq> None) start_json_flags"
    using req(14) spec reads_valid [OF req(10)] reads_valid [OF req(11)] reads_valid [OF req(12)] reads_valid [OF req(13)]
    by (simp add: start_json_flags_def flags)
  then have valid: "k \<in> set start_json_flags \<Longrightarrow> given_flag given k \<noteq> [] \<Longrightarrow> json_value (given_flag given k) \<noteq> None" for k
    by (simp add: list_all_iff)
  show ?thesis by (rule that [OF req(1,2,4-6,10) [unfolded flags]]) (rule valid)
qed

text \<open>
  A \<^verbatim>\<open>start\<close> command with a flag that is not JSON where JSON is expected fails, and it fails before the
  server is involved: no request is sent, no process is started and no transaction is issued.
\<close>

theorem start_rejects_bad_json:
  assumes "k \<in> set start_json_flags" "given_flag given k \<noteq> []" "json_value (given_flag given k) = None"
    and "control ct e ce ae ap def ''start'' given args s = (r, t)"
  shows "\<not> is_Ok r \<and> aside s t"
proof -
  have no: "fst (command_request ct e ''start'' given args (fst (snd s))) \<noteq> Ok q" for q
    using assms(1-3) start_command [of ct e given args "fst (snd s)" q] by blast
  then have "aside s t" using control_cases [OF assms(4)] by blast
  moreover have "\<not> is_Ok r"
    using assms(4) no onS_result [of "command_request ct e ''start'' given args" s]
    by (cases "fst (onS (command_request ct e ''start'' given args) s)")
      (auto simp: control_def bindP_def is_Ok_iff split: prod.splits res.splits)
  ultimately show ?thesis by blast
qed

text \<open>The texts a user writes for the flags with configurations.\<close>

definition custom_json :: "(string \<times> (string \<times> val) list) list \<Rightarrow> string" where
  "custom_json custom = json_marshal (VObj (map (\<lambda>(name, flags). (name, VStr (json_marshal (VObj flags)))) custom))"

lemma reads_custom:
  assumes "reads (custom_json custom) m" "distinct (map fst custom)" "map_of custom name = Some flags"
  shows "mget m name = Some (json_marshal (VObj flags))"
proof -
  let ?kvs = "map (\<lambda>(name, flags). (name, json_marshal (VObj flags))) custom"
  have val: "VObj (map (\<lambda>(name, flags). (name, VStr (json_marshal (VObj flags)))) custom) =
      VObj (map (\<lambda>(k, s). (k, VStr s)) ?kvs)" by (simp add: case_prod_beta comp_def)
  have keys: "map fst ?kvs = map fst custom" by (simp add: case_prod_beta comp_def)
  have wf: "wf_val (VObj (map (\<lambda>(k, s). (k, VStr s)) ?kvs))"
    using assms(2) by (simp add: list_all_iff case_prod_beta comp_def)
  have "canon (VObj (map (\<lambda>(k, s). (k, VStr s)) ?kvs)) = strings_val (Some ?kvs)"
    by (simp add: strings_val_def case_prod_beta comp_def)
  then have "json_value (custom_json custom) = Some (jsonify (strings_val (Some ?kvs)))"
    unfolding custom_json_def val using json_value_marshal [OF wf] by simp
  moreover have "json_value [] = None" by code_simp
  ultimately have "custom_json custom \<noteq> []" by auto
  moreover note \<open>json_value (custom_json custom) = _\<close>
  ultimately have "m = strings_read (Some ?kvs)"
    using assms(1) get_strings_read [of "Some ?kvs"] by (simp add: reads_def unmarshal_to_def)
  then have "mget m name = map_of ?kvs name"
    using mget_strings_read [of "Some ?kvs"] assms(2) keys unfolding wf_strings_def by (metis mget_Some mrange.simps(2))
  then show ?thesis using assms(3) by (simp add: map_of_map case_prod_beta comp_def map_of_map_val)
qed

lemma unmarshal_empty: "unmarshal_map [] = Err json_error"
  by code_simp

lemma custom_flag:
  assumes "reads (custom_json custom) (opt_customNodeConfigs (lc_options lc))" "distinct (map fst custom)"
    and "map_of custom name = Some flags" "parsed (VObj flags)" "custom_config lc name = Ok m" "map_of flags k = Some v"
  shows "mget m k = Some (canon v)"
proof -
  have "mget (opt_customNodeConfigs (lc_options lc)) name = Some (json_marshal (VObj flags))"
    using assms(1-3) by (rule reads_custom)
  moreover obtain kvs where kvs: "unmarshal_map (json_marshal (VObj flags)) = Ok (Some kvs)" "map_of kvs k = map_option canon (map_of flags k)"
    using unmarshal_marshal [OF assms(4)] by blast
  ultimately show ?thesis using assms(5,6) by (auto simp: unmarshal_empty custom_config_def optional_map_def split: if_splits)
qed

lemma configured_custom:
  assumes "configured e lc i base nc" "reads (custom_json custom) (opt_customNodeConfigs (lc_options lc))"
    and "distinct (map fst custom)" "\<forall>(name, flags) \<in> set custom. parsed (VObj flags)"
    and "map_of custom (nc_Name nc) = Some flags" "map_of flags k = Some v"
  shows "mget (nc_Flags nc) k = Some (canon v)"
proof -
  obtain m where "custom_config lc (nc_Name nc) = Ok m" "mget (nc_Flags nc) k = node_flag e (lc_options lc) m (nc_Flags base) k"
    using assms(1) unfolding configured_def by blast
  moreover have "parsed (VObj flags)" using assms(4) map_of_SomeD [OF assms(5)] by blast
  ultimately show ?thesis using custom_flag [OF assms(2,3,5)] assms(6) by (simp add: node_flag_def)
qed

text \<open>
  C9. What the user writes is what the nodes get: if a \<^verbatim>\<open>start\<close> command whose flag \<^verbatim>\<open>custom-node-configs\<close> is the
  JSON text of a configuration per node reaches the server, then in the configuration that the server
  builds from the request every node has the flags of its own configuration with the values given
  there, whatever the defaults, the tracked subnets and the dynamic ports say; the flags of
  \<^verbatim>\<open>global-node-config\<close> are those of the network, but for the plugin directory; and every node runs
  the binary of \<^verbatim>\<open>node-path\<close>.
\<close>

theorem start_flags_reach_nodes:
  assumes "fst (command_request ct e ''start'' given args w) = Ok (ReqStart req)"
    and "given_flag given ''custom-node-configs'' = custom_json custom" "distinct (map fst custom)"
    and "\<forall>(name, flags) \<in> set custom. parsed (VObj flags)"
    and "given_flag given ''global-node-config'' = json_marshal (VObj global)" "parsed (VObj global)"
    and "newLocalNetwork ae (start_options s req n dir) t = Ok lc"
    and "createConfig e def (lc, w1, txs) = (Ok (), (lc', w2, txs'))"
  shows "let cfg = lc_cfg lc'; nodes = cfg_NodeConfigs cfg in
    length nodes = unat n \<and>
    (\<forall>i < length nodes. nc_Name (nodes ! i) = ''node'' @ show_nat (i + 1) \<and>
       nc_BinaryPath (nodes ! i) = given_flag given ''node-path'' \<and>
       (\<forall>flags k v. map_of custom (nc_Name (nodes ! i)) = Some flags \<longrightarrow> map_of flags k = Some v \<longrightarrow>
          mget (nc_Flags (nodes ! i)) k = Some (canon v))) \<and>
    (\<forall>k v. map_of global k = Some v \<longrightarrow> given_flag given ''plugin-dir'' = [] \<or> k \<noteq> PluginDirKey e \<longrightarrow>
       mget (cfg_Flags cfg) k = Some (canon v))"
proof -
  obtain r where "ReqStart req = ReqStart r" and r: "st_ExecPath r = given_flag given ''node-path''"
    "st_GlobalNodeConfig r = given_flag given ''global-node-config''" "st_PluginDir r = given_flag given ''plugin-dir''"
    "reads (given_flag given ''custom-node-configs'') (st_CustomNodeConfigs r)"
    using assms(1) by (rule start_command) blast
  then have req: "st_ExecPath req = given_flag given ''node-path''"
    "st_GlobalNodeConfig req = json_marshal (VObj global)" "st_PluginDir req = given_flag given ''plugin-dir''"
    "reads (custom_json custom) (st_CustomNodeConfigs req)"
    using assms(2,5) by simp_all
  have lc: "lc_options lc = start_options s req n dir" "lc_execPath lc = st_ExecPath req" "lc_pluginDir lc = st_PluginDir req"
    using assms(7) by (auto simp: newLocalNetwork_def bindR_eq_Ok start_options_def)
  have opts: "opt_globalNodeConfig (lc_options lc) = json_marshal (VObj global)" "opt_numNodes (lc_options lc) = n"
    "reads (custom_json custom) (opt_customNodeConfigs (lc_options lc))"
    using req lc(1) by (simp_all add: start_options_def)
  obtain base :: NetConfig and glob where glob: "optional_map (json_marshal (VObj global)) = Ok glob" and
    nodes: "length (cfg_NodeConfigs (lc_cfg lc')) = unat n"
      "\<forall>i < length (cfg_NodeConfigs (lc_cfg lc')).
         configured e lc i (cfg_NodeConfigs base ! i) (cfg_NodeConfigs (lc_cfg lc') ! i)" and
    net: "\<forall>k. mget (cfg_Flags (lc_cfg lc')) k =
       (if lc_pluginDir lc \<noteq> [] \<and> k = PluginDirKey e then Some (VStr (lc_pluginDir lc))
        else if mget glob k \<noteq> None then mget glob k else mget (cfg_Flags base) k)"
    using createConfig_result [OF assms(8)] unfolding Let_def opts by (elim exE conjE) blast
  have "mget glob k = Some (canon v)" if "map_of global k = Some v" for k v
    using unmarshal_marshal [OF assms(6)] glob that by (auto simp: unmarshal_empty optional_map_def split: if_splits)
  moreover have "mget (nc_Flags (cfg_NodeConfigs (lc_cfg lc') ! i)) k = Some (canon v)"
    if "i < length (cfg_NodeConfigs (lc_cfg lc'))"
      "map_of custom (nc_Name (cfg_NodeConfigs (lc_cfg lc') ! i)) = Some flags" "map_of flags k = Some v" for i flags k v
    using configured_custom [OF _ opts(3) assms(3,4) that(2,3)] nodes(2) that(1) by blast
  ultimately show ?thesis using nodes net lc req by (auto simp: Let_def configured_def)
qed

section \<open>The theorems at work\<close>

definition demo_ctl :: ctl_env where
  "demo_ctl = \<lparr>ct_Info = ''INFO'', ct_ToLevel = (\<lambda>_. Ok ()), ct_Make = (\<lambda>_ _. Ok ()), ct_Dial = (\<lambda>_ _. Ok ()),
     ct_Send = (\<lambda>_. Ok), ct_Recv = (\<lambda>_. Ok ()), ct_ctx = (\<lambda>_. (None, False)), ct_ElasticSpecs = (\<lambda>_. Ok []),
     ct_ValidatorSpecs = (\<lambda>_. Ok []), ct_Uint32 = (\<lambda>s. if s = ''1'' then Ok 1 else Err usage_error),
     ct_Bool = (\<lambda>s. Ok (s = ''true'')), ct_Duration = (\<lambda>_. Ok ())\<rparr>"

definition demo_custom :: "(string \<times> (string \<times> val) list) list" where
  "demo_custom = [(''node1'', [(''http-port'', VFloat 9999 0)])]"

definition demo_given :: "(string \<times> string) list" where
  "demo_given = [(''log-dir'', ''/log''), (''node-path'', ''luxd''), (''custom-node-configs'', custom_json demo_custom),
     (''global-node-config'', json_marshal (VObj []))]"

definition demo_ctl_start :: StartRequest where
  "demo_ctl_start = zero_StartRequest\<lparr>st_ExecPath := ''luxd'', st_NumNodes := Some 5,
     st_GlobalNodeConfig := json_marshal (VObj []),
     st_CustomNodeConfigs := Some [(''node1'', json_marshal (VObj [(''http-port'', VFloat 9999 0)]))]\<rparr>"

lemma demo_texts:
  "unmarshal_to get_strings (custom_json demo_custom) =
     Ok (Some [(''node1'', json_marshal (VObj [(''http-port'', VFloat 9999 0)]))])"
  "json_value (json_marshal (VObj [])) = Some (VObj [])" "json_marshal (VObj []) \<noteq> []" "custom_json demo_custom \<noteq> []"
proof -
  have wf: "wf_val (VObj [(''node1'', VStr (json_marshal (VObj [(''http-port'', VFloat 9999 0)])))])" "wf_val (VObj [])"
    by simp_all
  show "unmarshal_to get_strings (custom_json demo_custom) =
     Ok (Some [(''node1'', json_marshal (VObj [(''http-port'', VFloat 9999 0)]))])"
    using json_value_marshal [OF wf(1)] by (simp add: unmarshal_to_def custom_json_def demo_custom_def)
  show "json_value (json_marshal (VObj [])) = Some (VObj [])" using json_value_marshal [OF wf(2)] by simp
  show "json_marshal (VObj []) \<noteq> []" "custom_json demo_custom \<noteq> []"
    by (simp_all add: custom_json_def json_marshal_def)
qed

lemma demo_flags:
  "command_flags demo_ctl newStartCommand demo_given [] =
     Ok ((default_flags demo_ctl)\<lparr>cf_logDir := ''/log'', cf_luxdBinPath := ''luxd'',
        cf_customNodeConfigs := custom_json demo_custom, cf_globalNodeConfig := json_marshal (VObj [])\<rparr>)"
  by (simp add: command_flags_def demo_given_def newStartCommand_def flag_lists default_flags_def)

lemma demo_newClient:
  "cf_logDir fl \<noteq> [] \<Longrightarrow> newClient demo_ctl e fl w = (Ok new_client, w\<lparr>clock := Suc (Suc (clock w))\<rparr>)"
  by (simp add: newClient_def client_New_def setLogs_def demo_ctl_def bindP_def ret_def liftR_def tick_def gets_def modify_def)

lemma start_entry: "map_of NewCommand ''start'' = Some newStartCommand" "cmd_RunE newStartCommand = startFunc"
  by (simp_all add: NewCommand_def newStartCommand_def)

lemma demo_start_request:
  "fst (command_request demo_ctl demo_env ''start'' demo_given [] demo_world) = Ok (ReqStart demo_ctl_start)"
  by (simp add: command_request_def start_entry demo_flags bindP_def liftR_def startFunc_def with_client_def demo_newClient
      default_flags_def if_given_def valid_json_def demo_texts file_opts_def client_Start_def
      applyOpts_Cons option_defs zero_Op_def demo_ctl_start_def zero_StartRequest_def DefaultNumNodes_def Let_def)

lemma mput_all_Nil: "mput_all [] m = Ok m"
  by (simp add: mput_all_def)

lemma demo_config_ok:
  assumes "lc_options lc = start_options start_server demo_ctl_start n d"
  shows "is_Ok (config_node demo_env lc (0, nc))"
proof -
  obtain m0 where m0: "(if nc_Flags nc = None then Some [] else nc_Flags nc) = Some m0" by (cases "nc_Flags nc") auto
  have "parsed (VObj [(''http-port'', VFloat 9999 0)])" by (simp add: parsed_def)
  then obtain kvs where kvs: "unmarshal_map (json_marshal (VObj [(''http-port'', VFloat 9999 0)])) = Ok (Some kvs)"
    using unmarshal_marshal by blast
  have "json_marshal (VObj [(''http-port'', VFloat 9999 0)]) \<noteq> []" by (simp add: json_marshal_def)
  moreover have "''node'' @ show_nat (0 + 1) = ''node1''" by code_simp
  ultimately have "custom_config lc (''node'' @ show_nat (0 + 1)) = Ok (Some kvs)"
    using kvs by (simp add: custom_config_def optional_map_def assms start_options_def demo_ctl_start_def)
  moreover obtain ys where "mput_all kvs (Some m0) = Ok (Some ys)" using mput_all_Some by blast
  ultimately show ?thesis using m0
    by (simp add: config_node_def assms start_options_def demo_ctl_start_def zero_StartRequest_def mput_all_Nil Let_def)
qed

theorem start_flags_reach_nodes_witness:
  "\<exists>lc lc' w txs. newLocalNetwork demo_api (start_options start_server demo_ctl_start 1 ''/net'') 0 = Ok lc \<and>
     createConfig demo_env demo_default (lc, demo_world, []) = (Ok (), (lc', w, txs)) \<and>
     map nc_Name (cfg_NodeConfigs (lc_cfg lc')) = [''node1''] \<and>
     mget (nc_Flags (hd (cfg_NodeConfigs (lc_cfg lc')))) ''http-port'' = Some (VFloat 9999 0)"
proof -
  obtain lc where lc: "newLocalNetwork demo_api (start_options start_server demo_ctl_start 1 ''/net'') 0 = Ok lc"
    and opts: "lc_options lc = start_options start_server demo_ctl_start 1 ''/net''" "lc_pluginDir lc = []"
    by (auto simp: newLocalNetwork_def demo_api_def start_options_def demo_ctl_start_def zero_StartRequest_def)
  have "succeeds (NewDefaultConfigNNodes demo_env demo_default ''luxd'' 1)"
    using demo_ports by (intro succ_NewDefaultConfigNNodes)
  then obtain cfg w' where new: "NewDefaultConfigNNodes demo_env demo_default ''luxd'' 1 demo_world = (Ok cfg, w')"
    unfolding succeeds_def by blast
  obtain n1 where nodes: "cfg_NodeConfigs cfg = [n1]"
    using NewDefaultConfigNNodes_length [OF new] by (auto simp: length_Suc_conv)
  obtain m1 where "config_node demo_env lc (0, n1) = Ok m1"
    using demo_config_ok [OF opts(1)] unfolding is_Ok_iff by blast
  moreover have "optional_map (json_marshal (VObj [])) = Ok (Some [])"
    using demo_texts(2,3) by (simp add: optional_map_def unmarshal_map_def)
  ultimately obtain lc' w2 txs where run: "createConfig demo_env demo_default (lc, demo_world, []) = (Ok (), (lc', w2, txs))"
    using new nodes opts
    by (simp add: createConfig_def bindP_def getC_def gets_def onS_def zoomP_def liftR_def modC_def modify_def
        mput_all_Nil start_options_def demo_ctl_start_def zero_StartRequest_def)
  have given: "given_flag demo_given ''custom-node-configs'' = custom_json demo_custom"
    "given_flag demo_given ''global-node-config'' = json_marshal (VObj [])"
    by (simp_all add: given_flag_def demo_given_def)
  have wf: "distinct (map fst demo_custom)" "\<forall>(name, flags) \<in> set demo_custom. parsed (VObj flags)" "parsed (VObj [])"
    by (simp_all add: demo_custom_def parsed_def)
  note res = start_flags_reach_nodes [OF demo_start_request given(1) wf(1,2) given(2) wf(3) lc run]
  then obtain nc where nc: "cfg_NodeConfigs (lc_cfg lc') = [nc]" by (auto simp: Let_def length_Suc_conv)
  have name: "''node'' @ show_nat (0 + 1) = ''node1''" by code_simp
  then have "nc_Name nc = ''node1''" using res nc by (simp add: Let_def)
  moreover have "mget (nc_Flags nc) ''http-port'' = Some (VFloat 9999 0)"
    using res nc calculation by (simp add: Let_def demo_custom_def)
  ultimately show ?thesis using lc run nc by auto
qed

theorem start_rejects_bad_json_witness:
  "\<exists>r t. control demo_ctl demo_env demo_chain demo_api demo_append start_default ''start'' [(''node-path'', ''luxd''), (''chain-configs'', ''{'')] []
     (start_server, demo_world, []) = (r, t) \<and> \<not> is_Ok r \<and> procs (fst (snd t)) = []"
proof -
  obtain r t where run: "control demo_ctl demo_env demo_chain demo_api demo_append start_default ''start'' [(''node-path'', ''luxd''), (''chain-configs'', ''{'')] []
     (start_server, demo_world, []) = (r, t)" by (rule prod.exhaust)
  have "json_value ''{'' = None" by code_simp
  then have "\<not> is_Ok r \<and> aside (start_server, demo_world, []) t"
    by (intro start_rejects_bad_json [OF _ _ _ run, of "''chain-configs''"])
      (simp_all add: start_json_flags_def given_flag_def)
  then show ?thesis using run by (auto simp: aside_def demo_world_def)
qed

text \<open>A session: a server is started, and a \<^verbatim>\<open>start\<close> command is run.\<close>

definition demo_server_flags :: server_flags where
  "demo_server_flags = \<lparr>sf_logLevel = ''INFO'', sf_logDir = ''/log'', sf_port = '':8080'', sf_gwPort = '':8081'', sf_gwDisabled = True,
     sf_disableNodesOutput = True, sf_snapshotsDir = []\<rparr>"

lemma demo_serverFunc:
  "serverFunc demo_ctl demo_env2 demo_api demo_server_flags start_world = (Ok start_server, start_world\<lparr>clock := 1\<rparr>)"
  using start_server_New
  by (simp add: serverFunc_def demo_server_flags_def demo_ctl_def bindP_def ret_def liftR_def tick_def gets_def modify_def
      start_world_def)

definition session_given :: "(string \<times> string) list" where
  "session_given = [(''log-dir'', ''/log''), (''node-path'', ''/luxd''), (''number-of-nodes'', ''1''), (''root-data-dir'', ''/tmp'')]"

lemma session_flags:
  "command_flags demo_ctl newStartCommand session_given [] =
     Ok ((default_flags demo_ctl)\<lparr>cf_logDir := ''/log'', cf_luxdBinPath := ''/luxd'', cf_numNodes := 1, cf_rootDataDir := ''/tmp''\<rparr>)"
  by (simp add: command_flags_def session_given_def newStartCommand_def flag_lists default_flags_def demo_ctl_def)

lemma session_request:
  "command_request demo_ctl e ''start'' session_given [] w = (Ok (ReqStart start_request), w\<lparr>clock := Suc (Suc (clock w))\<rparr>)"
  by (simp add: command_request_def start_entry session_flags bindP_def liftR_def startFunc_def with_client_def demo_newClient
      default_flags_def if_given_def file_opts_def client_Start_def
      applyOpts_Cons option_defs zero_Op_def start_request_def zero_StartRequest_def Let_def)

abbreviation demo_control :: "string \<Rightarrow> (string \<times> string) list \<Rightarrow> string list \<Rightarrow> (sv_state, unit) prog" where
  "demo_control \<equiv> control demo_ctl demo_env2 demo_chain demo_api demo_append start_default"

lemma demo_transport: "ct_Send demo_ctl t req = Ok req" "ct_Recv demo_ctl t = Ok ()"
  by (simp_all add: demo_ctl_def)

lemma session_started:
  "\<exists>r t. demo_control ''start'' session_given [] (start_server, start_world\<lparr>clock := 1\<rparr>, []) = (r, t) \<and> \<not> is_Panic r \<and>
     live_procs (fst (snd t)) \<noteq> {}"
proof -
  obtain q t where run: "sv_Start demo_env2 demo_chain demo_api start_default start_request
      (start_server, start_world\<lparr>clock := 4\<rparr>, []) = (q, t)" "\<not> is_Panic q" "sv_with up t"
    using start_returns_at by blast
  then have live: "live_procs (fst (snd t)) \<noteq> {}"
    by (auto simp: sv_with_def up_def up_node_def node_Status_def live_procs_def split: prod.splits)
  have send: "bindP (onS (command_request demo_ctl demo_env2 ''start'' session_given [])) (\<lambda>req.
      bindP (askS (\<lambda>t. ct_Send demo_ctl t req)) f) (start_server, start_world\<lparr>clock := 1\<rparr>, []) =
    f (ReqStart start_request) (start_server, start_world\<lparr>clock := 4\<rparr>, [])" for f
    by (simp add: bindP_def onS_def zoomP_def session_request askS_def tick_def gets_def modify_def ret_def liftR_def
        demo_transport eval_nat_numeral comp_def)
  obtain r' t' where recv: "askS (ct_Recv demo_ctl) t = (r', t')" by (rule prod.exhaust)
  have "\<not> is_Panic r'" using recv
    by (auto simp: askS_def bindP_def onS_def zoomP_def tick_def gets_def modify_def ret_def liftR_def demo_transport split: prod.splits)
  moreover have "live_procs (fst (snd t')) = live_procs (fst (snd t))"
    using aside_askS [OF recv] by (simp add: aside_def live_procs_def proc_Status_def)
  moreover have "demo_control ''start'' session_given [] (start_server, start_world\<lparr>clock := 1\<rparr>, []) =
      bindP (no_response (sv_Start demo_env2 demo_chain demo_api start_default start_request)) (\<lambda>_. askS (ct_Recv demo_ctl))
        (start_server, start_world\<lparr>clock := 4\<rparr>, [])"
    unfolding control_def send by simp
  moreover have "bindP (no_response (sv_Start demo_env2 demo_chain demo_api start_default start_request)) (\<lambda>_. askS (ct_Recv demo_ctl))
      (start_server, start_world\<lparr>clock := 4\<rparr>, []) = (case q of Ok _ \<Rightarrow> (r', t') | Err er \<Rightarrow> (Err er, t) | Panic p \<Rightarrow> (Panic p, t))"
    using run(1) recv by (simp add: bindP_def no_response_def ret_def split: res.split)
  ultimately show ?thesis using run(2) live by (cases q) auto
qed



end
