(* ===== verification/Status_Stream.thy ===== *)
theory Status_Stream
  imports Control
begin

text \<open>
  The stream of status updates: \<^verbatim>\<open>StreamStatus\<close>, \<^verbatim>\<open>sendLoop\<close> and \<^verbatim>\<open>recvLoop\<close> of \<^verbatim>\<open>server/server.go\<close>, and the end of
  the stream in \<^verbatim>\<open>client/client.go\<close> and \<^verbatim>\<open>cmd/control/control.go\<close>.

  The handler runs two goroutines, one that sends the cluster information at each tick and one that
  receives; it returns once one of them or the context of the stream has ended it and the sender is
  done. The three are a step relation with the two contexts. A turn of a loop is one step; what its
  \<^verbatim>\<open>select\<close> and the calls on the stream give is chosen by the environment. As \<^verbatim>\<open>grpc\<close> documents, sending and
  receiving fail once the context of the stream is done.
\<close>

section \<open>The loops\<close>

definition ErrCanceled :: err where "ErrCanceled = External ''context canceled''"

definition ErrStatusCanceled :: err where "ErrStatusCanceled = New ''gRPC stream status canceled''"

text \<open>A turn of \<^verbatim>\<open>sendLoop\<close>: what was sent so far, and whether the loop has ended. \<^verbatim>\<open>Reset\<close> of a ticker panics if the
  interval is not positive.\<close>

datatype send_turn = SendRootDone | SendTick "ClusterInfo option" "err option"

fun sendLoop :: "int \<Rightarrow> send_turn \<Rightarrow> ClusterInfo option list \<Rightarrow> (ClusterInfo option list \<times> bool) res" where
  "sendLoop interval SendRootDone sent = Ok (sent, True)"
| "sendLoop interval (SendTick info er) sent =
     (if interval \<le> 0 then Panic ''non-positive interval for Ticker.Reset''
      else (case er of None \<Rightarrow> Ok (sent @ [info], False) | Some _ \<Rightarrow> Ok (sent, True)))"

text \<open>A turn of \<^verbatim>\<open>recvLoop\<close>: \<open>None\<close> if it goes on, else the error it returns.\<close>

datatype recv_turn = RecvRootDone err | RecvMsg | RecvEOF | RecvErr err

fun recvLoop :: "recv_turn \<Rightarrow> err option option" where
  "recvLoop (RecvRootDone er) = Some (Some er)"
| "recvLoop RecvMsg = None"
| "recvLoop RecvEOF = Some None"
| "recvLoop (RecvErr er) = Some (Some er)"

definition status_error :: "err option \<Rightarrow> err option" where
  "status_error er = (case er of None \<Rightarrow> None | Some x \<Rightarrow> if errors_Is x ErrCanceled then Some ErrStatusCanceled else Some x)"

section \<open>The handler\<close>

datatype stream_pc = MSelect | MWait "err option" | MReturned "err option"

record stream_sys =
  ss_sent :: "ClusterInfo option list"
  ss_sendDone :: bool
  ss_recvDone :: bool
  ss_errCh :: "err option option"
  ss_main :: stream_pc
  ss_rootErr :: "err option"
  ss_ctxErr :: "err option"
  ss_panic :: bool

fun may_send :: "stream_sys \<Rightarrow> send_turn \<Rightarrow> bool" where
  "may_send s SendRootDone = (ss_rootErr s \<noteq> None)"
| "may_send s (SendTick info er) = (ss_ctxErr s \<noteq> None \<longrightarrow> er \<noteq> None)"

fun may_recv :: "stream_sys \<Rightarrow> recv_turn \<Rightarrow> bool" where
  "may_recv s (RecvRootDone er) = (ss_rootErr s = Some er)"
| "may_recv s RecvMsg = (ss_ctxErr s = None)"
| "may_recv s _ = True"

inductive stream_step :: "int \<Rightarrow> stream_sys \<Rightarrow> stream_sys \<Rightarrow> bool" for interval :: int where
  send: "\<not> ss_sendDone s \<Longrightarrow> may_send s turn \<Longrightarrow> sendLoop interval turn (ss_sent s) = Ok (sent, fin) \<Longrightarrow> \<not> ss_panic s \<Longrightarrow>
    stream_step interval s (s\<lparr>ss_sent := sent, ss_sendDone := fin\<rparr>)"
| send_panic: "\<not> ss_sendDone s \<Longrightarrow> may_send s turn \<Longrightarrow> sendLoop interval turn (ss_sent s) = Panic m \<Longrightarrow> \<not> ss_panic s \<Longrightarrow>
    stream_step interval s (s\<lparr>ss_panic := True\<rparr>)"
| recv_goes_on: "\<not> ss_recvDone s \<Longrightarrow> may_recv s turn \<Longrightarrow> recvLoop turn = None \<Longrightarrow> \<not> ss_panic s \<Longrightarrow> stream_step interval s s"
| recv_returns: "\<not> ss_recvDone s \<Longrightarrow> may_recv s turn \<Longrightarrow> recvLoop turn = Some er \<Longrightarrow> \<not> ss_panic s \<Longrightarrow>
    stream_step interval s (s\<lparr>ss_recvDone := True, ss_errCh := Some er\<rparr>)"
| select_err: "ss_main s = MSelect \<Longrightarrow> ss_errCh s = Some er \<Longrightarrow> \<not> ss_panic s \<Longrightarrow>
    stream_step interval s (s\<lparr>ss_main := MWait (status_error er), ss_errCh := None\<rparr>)"
| select_ctx: "ss_main s = MSelect \<Longrightarrow> ss_ctxErr s = Some er \<Longrightarrow> \<not> ss_panic s \<Longrightarrow>
    stream_step interval s (s\<lparr>ss_main := MWait (status_error (Some er))\<rparr>)"
| wait: "ss_main s = MWait er \<Longrightarrow> ss_sendDone s \<Longrightarrow> \<not> ss_panic s \<Longrightarrow> stream_step interval s (s\<lparr>ss_main := MReturned er\<rparr>)"

text \<open>What happens outside: the root context is cancelled, the stream ends.\<close>

inductive outside_step :: "stream_sys \<Rightarrow> stream_sys \<Rightarrow> bool" where
  root_cancel: "ss_rootErr s = None \<Longrightarrow> outside_step s (s\<lparr>ss_rootErr := Some ErrCanceled\<rparr>)"
| stream_ends: "ss_ctxErr s = None \<Longrightarrow> outside_step s (s\<lparr>ss_ctxErr := Some er\<rparr>)"

definition any_stream_step :: "int \<Rightarrow> stream_sys \<Rightarrow> stream_sys \<Rightarrow> bool" where
  "any_stream_step interval s t \<longleftrightarrow> stream_step interval s t \<or> outside_step s t"

definition stream_init :: "stream_sys \<Rightarrow> bool" where
  "stream_init s \<longleftrightarrow> s = \<lparr>ss_sent = [], ss_sendDone = False, ss_recvDone = False, ss_errCh = None, ss_main = MSelect,
     ss_rootErr = None, ss_ctxErr = None, ss_panic = False\<rparr>"

section \<open>The client's end\<close>

text \<open>A turn of the goroutine of the client that receives from the stream.\<close>

datatype client_turn = CtxDone | ClientClosed | Received "ClusterInfo option" | StreamEOF | StreamErr err

text \<open>What is delivered on the channel, and whether the channel has been closed.\<close>

fun client_StreamStatus :: "client_turn list \<Rightarrow> ClusterInfo option list \<times> bool" where
  "client_StreamStatus [] = ([], False)"
| "client_StreamStatus (Received info # turns) =
     (case client_StreamStatus turns of (infos, closed) \<Rightarrow> (info # infos, closed))"
| "client_StreamStatus (CtxDone # turns) = ([], True)"
| "client_StreamStatus (ClientClosed # turns) = ([], True)"
| "client_StreamStatus (StreamEOF # turns) = ([], True)"
| "client_StreamStatus (StreamErr er # turns) = ([], True)"

text \<open>\<^verbatim>\<open>stream-status\<close> has one flag of its own and takes no arguments.\<close>

definition newStreamStatusCommand :: "ctl_env \<Rightarrow> (string \<times> string) list \<Rightarrow> string list \<Rightarrow> ctl_flags res" where
  "newStreamStatusCommand ct given args =
     bindR (set_flags ct ((''push-interval'', DurationVar) # persistent_flags) given (default_flags ct)) (\<lambda>fl.
     if args = [] then Ok fl else Err usage_error)"

text \<open>The command prints what is delivered until the channel is closed.\<close>

definition streamStatusFunc :: "ctl_env \<Rightarrow> env \<Rightarrow> ctl_flags \<Rightarrow> unit res \<Rightarrow> client_turn list \<Rightarrow> (world, ClusterInfo option list) prog" where
  "streamStatusFunc ct e fl stream turns =
     bindP (newClient ct e fl) (\<lambda>_.
     bindP (liftR stream) (\<lambda>_.
     ret (fst (client_StreamStatus turns))))"

section \<open>Invariant\<close>

definition stream_inv :: "int \<Rightarrow> stream_sys \<Rightarrow> bool" where
  "stream_inv interval s \<longleftrightarrow>
     (ss_panic s \<longrightarrow> interval \<le> 0) \<and>
     (ss_errCh s \<noteq> None \<longrightarrow> ss_recvDone s) \<and>
     (ss_recvDone s \<longrightarrow> ss_errCh s \<noteq> None \<or> ss_main s \<noteq> MSelect) \<and>
     (case ss_main s of MSelect \<Rightarrow> True | MWait er \<Rightarrow> er \<noteq> Some ErrCanceled | MReturned er \<Rightarrow> er \<noteq> Some ErrCanceled \<and> ss_sendDone s) \<and>
     (ss_sent s \<noteq> [] \<longrightarrow> 0 < interval)"

lemma status_error_not_canceled: "status_error er \<noteq> Some ErrCanceled"
  by (auto simp: status_error_def ErrStatusCanceled_def ErrCanceled_def split: option.splits)

lemma sendLoop_Panic: "sendLoop interval turn sent = Panic m \<Longrightarrow> interval \<le> 0"
  by (cases turn) (auto split: if_splits option.splits)

lemma sendLoop_Ok: "sendLoop interval turn sent = Ok (sent', fin) \<Longrightarrow> sent' = sent \<or> 0 < interval"
  by (cases turn) (auto split: if_splits option.splits)

interpretation stream: inductive_invariant stream_init "any_stream_step interval" "stream_inv interval" for interval
proof
  show "stream_inv interval s" if "stream_init s" for s using that by (simp add: stream_init_def stream_inv_def)
  show "stream_inv interval t" if "stream_inv interval s" "any_stream_step interval s t" for s t
    using that(2) unfolding any_stream_step_def
  proof
    assume "stream_step interval s t"
    then show ?thesis using that(1) status_error_not_canceled
      by cases (auto simp: stream_inv_def dest: sendLoop_Panic sendLoop_Ok split: stream_pc.splits)
  next
    assume "outside_step s t"
    then show ?thesis using that(1) by cases (auto simp: stream_inv_def split: stream_pc.splits)
  qed
qed

section \<open>Properties\<close>

lemma returned_stays:
  assumes "any_stream_step interval s t" "ss_sendDone s" "ss_main s = MReturned er"
  shows "ss_sendDone t \<and> ss_main t = MReturned er \<and> ss_sent t = ss_sent s"
  using assms(1) unfolding any_stream_step_def
proof
  assume "stream_step interval s t"
  then show ?thesis using assms(2,3) by cases auto
next
  assume "outside_step s t"
  then show ?thesis using assms(2,3) by cases auto
qed

lemma returned_stays_steps:
  assumes "(any_stream_step interval)\<^sup>*\<^sup>* s t" "ss_sendDone s" "ss_main s = MReturned er"
  shows "ss_sendDone t \<and> ss_main t = MReturned er \<and> ss_sent t = ss_sent s"
  using assms by (induction rule: rtranclp_induct) (auto dest: returned_stays)


text \<open>
  C31. The server panics on a status stream if and only if the push interval of the request is not positive: the
  first tick resets the ticker with it. The interval is taken from the client as it is.
\<close>

theorem StreamStatus_panics_iff:
  "(\<exists>s. reachable stream_init (any_stream_step interval) s \<and> ss_panic s) \<longleftrightarrow> interval \<le> 0"
proof
  assume "\<exists>s. reachable stream_init (any_stream_step interval) s \<and> ss_panic s"
  then show "interval \<le> 0" using stream.reachable_inv by (auto simp: stream_inv_def)
next
  assume le: "interval \<le> 0"
  obtain s where init: "stream_init s" by (simp add: stream_init_def)
  then have "stream_step interval s (s\<lparr>ss_panic := True\<rparr>)"
    using le by (intro stream_step.send_panic [of _ "SendTick None None"]) (simp_all add: stream_init_def)
  then have "reachable stream_init (any_stream_step interval) (s\<lparr>ss_panic := True\<rparr>)"
    using reach_step [OF reach_init [of stream_init, OF init]] by (simp add: any_stream_step_def)
  then show "\<exists>s. reachable stream_init (any_stream_step interval) s \<and> ss_panic s" by force
qed

fun main_rank :: "stream_pc \<Rightarrow> nat" where
  "main_rank MSelect = 2"
| "main_rank (MWait er) = 1"
| "main_rank (MReturned er) = 0"

definition stream_rank :: "stream_sys \<Rightarrow> nat" where
  "stream_rank s = (if ss_sendDone s then 0 else 1) + (if ss_recvDone s then 0 else 1) + main_rank (ss_main s) +
     (if ss_rootErr s = None then 1 else 0) + (if ss_panic s then 0 else 1)"

lemma sendLoop_ended: "may_send s turn \<Longrightarrow> ss_ctxErr s \<noteq> None \<Longrightarrow> sendLoop interval turn sent = Ok (sent', fin) \<Longrightarrow> fin"
  by (cases turn) (auto split: if_splits option.splits)

lemma recvLoop_ended: "may_recv s turn \<Longrightarrow> ss_ctxErr s \<noteq> None \<Longrightarrow> recvLoop turn \<noteq> None"
  by (cases turn) auto

lemma stream_rank_step:
  assumes "any_stream_step interval s t" "ss_ctxErr s \<noteq> None"
  shows "stream_rank t < stream_rank s"
  using assms(1) unfolding any_stream_step_def
proof
  assume "stream_step interval s t"
  then show ?thesis using assms(2) sendLoop_ended recvLoop_ended by cases (force simp: stream_rank_def)+
next
  assume "outside_step s t"
  then show ?thesis using assms(2) by cases (auto simp: stream_rank_def)
qed

text \<open>
  C34. A status stream ends with the client: once the context of the stream is done, no run of the handler and its
  goroutines is infinite, and when nothing can happen any more the handler has returned or the
  server has panicked.
\<close>

theorem StreamStatus_terminates:
  "wfp (\<lambda>t s. any_stream_step interval s t \<and> ss_ctxErr s \<noteq> None) \<and>
   (ss_ctxErr s \<noteq> None \<longrightarrow> (\<nexists>t. stream_step interval s t) \<longrightarrow> ss_panic s \<or> (\<exists>er. ss_main s = MReturned er))"
proof (intro conjI impI)
  show "wfp (\<lambda>t s. any_stream_step interval s t \<and> ss_ctxErr s \<noteq> None)"
    by (rule wfp_if_convertible_to_nat [of _ stream_rank]) (auto dest: stream_rank_step)
  assume ctx: "ss_ctxErr s \<noteq> None" and stuck: "\<nexists>t. stream_step interval s t"
  show "ss_panic s \<or> (\<exists>er. ss_main s = MReturned er)"
  proof (rule ccontr)
    assume no: "\<not> (ss_panic s \<or> (\<exists>er. ss_main s = MReturned er))"
    let ?turn = "SendTick None (Some ErrCanceled)"
    have "ss_sendDone s"
    proof (rule ccontr)
      assume "\<not> ss_sendDone s"
      then show False
        using stuck no stream_step.send [of s ?turn interval "ss_sent s" True] stream_step.send_panic [of s ?turn interval]
        by (cases "interval \<le> 0") auto
    qed
    then show False
      using stuck no ctx stream_step.wait [of s] stream_step.select_ctx [of s] by (cases "ss_main s") auto
  qed
qed

text \<open>A stream whose client goes away while the sender waits.\<close>

definition stream_start :: stream_sys where
  "stream_start = \<lparr>ss_sent = [], ss_sendDone = False, ss_recvDone = False, ss_errCh = None, ss_main = MSelect,
     ss_rootErr = None, ss_ctxErr = None, ss_panic = False\<rparr>"

definition stream_over :: stream_sys where
  "stream_over = stream_start\<lparr>ss_sent := [None], ss_ctxErr := Some ErrCanceled, ss_main := MReturned (Some ErrStatusCanceled),
     ss_sendDone := True\<rparr>"

lemma reach_stream:
  "reachable stream_init (any_stream_step i) s \<Longrightarrow> stream_step i s t \<Longrightarrow> reachable stream_init (any_stream_step i) t"
  "reachable stream_init (any_stream_step i) s \<Longrightarrow> outside_step s t \<Longrightarrow> reachable stream_init (any_stream_step i) t"
  by (auto simp: any_stream_step_def intro: reach_step)

lemma stream_over_reachable: "reachable stream_init (any_stream_step 5) stream_over"
proof -
  let ?a = "stream_start\<lparr>ss_sent := [None]\<rparr>"
  let ?b = "?a\<lparr>ss_ctxErr := Some ErrCanceled\<rparr>"
  let ?c = "?b\<lparr>ss_main := MWait (Some ErrStatusCanceled)\<rparr>"
  let ?d = "?c\<lparr>ss_sendDone := True\<rparr>"
  have "reachable stream_init (any_stream_step 5) stream_start"
    by (rule reach_init) (simp add: stream_init_def stream_start_def)
  then have "reachable stream_init (any_stream_step 5) ?a"
    by (rule reach_stream)
      (use stream_step.send [of stream_start "SendTick None None" 5 "[None]" False] in \<open>simp add: stream_start_def\<close>)
  then have "reachable stream_init (any_stream_step 5) ?b"
    by (rule reach_stream) (rule outside_step.stream_ends, simp add: stream_start_def)
  then have "reachable stream_init (any_stream_step 5) ?c"
    by (rule reach_stream)
      (use stream_step.select_ctx [of ?b ErrCanceled 5] in \<open>simp add: stream_start_def status_error_def ErrCanceled_def\<close>)
  then have "reachable stream_init (any_stream_step 5) ?d"
    by (rule reach_stream)
      (use stream_step.send [of ?c "SendTick None (Some ErrCanceled)" 5 "[None]" True] in \<open>simp add: stream_start_def\<close>)
  then show ?thesis
    by (rule reach_stream)
      (use stream_step.wait [of ?d "Some ErrStatusCanceled" 5] in \<open>simp add: stream_start_def stream_over_def\<close>)
qed

definition stream_late :: stream_sys where
  "stream_late = stream_over\<lparr>ss_rootErr := Some ErrCanceled\<rparr>"


theorem StreamStatus_terminates_witness:
  "ss_ctxErr stream_over \<noteq> None \<and> (\<nexists>t. stream_step 5 (stream_over\<lparr>ss_recvDone := True\<rparr>) t) \<and>
   (\<exists>er. ss_main (stream_over\<lparr>ss_recvDone := True\<rparr>) = MReturned er)"
proof -
  let ?s = "stream_over\<lparr>ss_recvDone := True\<rparr>"
  have "\<nexists>t. stream_step 5 ?s t" by (auto simp: stream_over_def stream_start_def elim: stream_step.cases)
  then show ?thesis using StreamStatus_terminates [of 5 ?s] by (simp add: stream_over_def stream_start_def)
qed

end
