(* ===== verification/Cluster_Copy.thy ===== *)
theory Cluster_Copy
  imports Server Snapshot_Theorems
begin

text \<open>
  The copy of the cluster information that every handler returns (\<^verbatim>\<open>deepCopy\<close> of \<^verbatim>\<open>server/utils.go\<close>): writing it as
  JSON and reading it back gives the same information.
\<close>

section \<open>Fields that are left out when they are empty\<close>

definition absent :: "string \<Rightarrow> (string \<times> val) list \<Rightarrow> bool" where
  "absent n kvs \<longleftrightarrow> map lower n \<notin> (\<lambda>kv. map lower (fst kv)) ` set kvs"

lemma absent_simps [simp]:
  "absent n (xs @ ys) \<longleftrightarrow> absent n xs \<and> absent n ys" "absent n []"
  "absent n [(k, v)] \<longleftrightarrow> map lower n \<noteq> map lower k"
  "absent n (if b then xs else ys) \<longleftrightarrow> (if b then absent n xs else absent n ys)"
  "absent n (map (\<lambda>(k, v). (k, f v)) xs) \<longleftrightarrow> absent n xs"
  by (auto simp: absent_def image_image case_prod_beta)

lemma absent_fields [simp]:
  "map lower n \<noteq> map lower k \<Longrightarrow> absent n (str_field k s)"
  "map lower n \<noteq> map lower k \<Longrightarrow> absent n (bool_field k b)"
  "map lower n \<noteq> map lower k \<Longrightarrow> absent n (strs_field k xs)"
  "map lower n \<noteq> map lower k \<Longrightarrow> absent n (map_field k f m)"
  by (simp_all add: str_field_def bool_field_def strs_field_def map_field_def)

lemma absent_map_of: "absent n kvs \<Longrightarrow> map_of (rev (map (\<lambda>(k, v). (map lower k, v)) kvs)) (map lower n) = None"
  by (auto simp: absent_def map_of_eq_None_iff image_image case_prod_beta)

lemma jfield_absent: "absent n kvs \<Longrightarrow> jfield n kvs = VNull"
  by (simp add: jfield_def absent_map_of)

lemma jfield_skip: "absent n xs \<Longrightarrow> jfield n (xs @ ys) = jfield n ys"
  by (simp add: jfield_def map_add_def absent_map_of split: option.splits)

lemma jfield_hit: "absent n ys \<Longrightarrow> jfield n (xs @ ys) = jfield n xs"
  by (simp add: jfield_def map_add_def absent_map_of)

lemma jfield_one: "jfield n [(n, v)] = v"
  by (simp add: jfield_def)

text \<open>The fields after \<open>jsonify\<close>, and what they are read as.\<close>

abbreviation jmap :: "(string \<times> val) list \<Rightarrow> (string \<times> val) list" where
  "jmap kvs \<equiv> map (\<lambda>(k, v). (k, jsonify v)) kvs"

lemma read_str: "get_str (jfield n (jmap (str_field n s))) = Ok s"
  by (simp add: str_field_def jfield_one jfield_absent)

lemma read_bool: "get_bool (jfield n (jmap (bool_field n b))) = Ok b"
  by (simp add: bool_field_def jfield_one jfield_absent)

lemma mapR_strings: "mapR get_str (map VStr xs) = Ok xs"
  by (induction xs) simp_all

lemma read_strs: "get_strs (jfield n (jmap (strs_field n xs))) = Ok xs"
  by (simp add: strs_field_def jfield_one jfield_absent get_strs_def comp_def mapR_strings)

lemma read_bytes: "get_bytes (jfield n (jmap (str_field n (b64_encode s)))) = Ok s"
  by (simp add: get_bytes_def read_str)

definition map_read :: "'v gomap \<Rightarrow> 'v gomap" where
  "map_read m = (if mrange m = [] then None else Some (sort_key fst (mrange m)))"

lemma mapR_entries:
  assumes "\<And>x. get (jsonify (f x)) = Ok x"
  shows "mapR (\<lambda>(k, v). bindR (get v) (\<lambda>x. Ok (k, x))) (jmap (map (\<lambda>(x, v). (x, f v)) xs)) = Ok xs"
  using assms by (induction xs) auto

lemma read_map:
  assumes "\<And>x. get (jsonify (f x)) = Ok x"
  shows "get_map get (jfield n (jmap (map_field n f m))) = Ok (map_read m)"
  using mapR_entries [where get = get and f = f, OF assms]
  by (simp add: map_field_def jfield_one jfield_absent map_read_def sort_vals)

lemma mget_map_read: "distinct (map fst (mrange m)) \<Longrightarrow> mget (map_read m) = mget m"
  by (cases m) (auto simp: map_read_def map_of_sort_key)

section \<open>The messages\<close>

lemmas read_rules = jfield_skip jfield_hit read_str read_bool read_strs read_bytes lower_def

lemma read_NodeInfo: "get_NodeInfo (jsonify (NodeInfo_val n)) = Ok n"
  by (simp add: get_NodeInfo_def NodeInfo_val_def read_rules)

lemma read_CustomChainInfo: "get_CustomChainInfo (jsonify (CustomChainInfo_val c)) = Ok c"
  by (simp add: get_CustomChainInfo_def CustomChainInfo_val_def read_rules)

lemma read_SubnetInfo: "get_SubnetInfo (jsonify (SubnetInfo_val s)) = Ok s"
  by (simp add: get_SubnetInfo_def SubnetInfo_val_def read_rules jfield_one)

lemma read_peers: "get_peers (jsonify (peers_val ps)) = Ok ps"
proof -
  have "mapR (\<lambda>p. bindR (get_fields p) (\<lambda>fs. bindR (get_str (jfield ''id'' fs)) (\<lambda>i. Ok \<lparr>ap_Id = i\<rparr>)))
      (map (\<lambda>p. VObj (jmap (str_field ''id'' (ap_Id p)))) ps) = Ok ps" for ps :: "AttachedPeerInfo list"
    by (induction ps) (simp_all add: read_str)
  then show ?thesis by (simp add: get_peers_def peers_val_def jfield_one jfield_absent comp_def)
qed

lemma read_pid: "get_int32 (jfield ''pid'' (jmap (if p = 0 then [] else [(''pid'', VInt (sint p))]))) = Ok (p :: 32 word)"
  using sint_range_size [of p] by (simp add: jfield_one jfield_absent word_size)

definition copy_read :: "ClusterInfo \<Rightarrow> ClusterInfo" where
  "copy_read c = c\<lparr>ci_NodeInfos := map_read (ci_NodeInfos c), ci_AttachedPeerInfos := map_read (ci_AttachedPeerInfos c),
     ci_CustomChains := map_read (ci_CustomChains c), ci_Subnets := map_read (ci_Subnets c)\<rparr>"

lemma read_ClusterInfo: "get_ClusterInfo (jsonify (ClusterInfo_val c)) = Ok (copy_read c)"
  by (simp add: get_ClusterInfo_def ClusterInfo_val_def read_rules read_pid copy_read_def
      read_map [of get_NodeInfo, OF read_NodeInfo] read_map [of get_peers, OF read_peers]
      read_map [of get_CustomChainInfo, OF read_CustomChainInfo] read_map [of get_SubnetInfo, OF read_SubnetInfo])

section \<open>The text of the messages\<close>

lemma absent_key: "absent k r \<Longrightarrow> k \<notin> fst ` set r"
  by (auto simp: absent_def)

lemma distinct_fields:
  "absent k r \<Longrightarrow> distinct (map fst r) \<Longrightarrow> distinct (map fst (str_field k s @ r))"
  "absent k r \<Longrightarrow> distinct (map fst r) \<Longrightarrow> distinct (map fst (bool_field k b @ r))"
  "absent k r \<Longrightarrow> distinct (map fst r) \<Longrightarrow> distinct (map fst (strs_field k xs @ r))"
  "absent k r \<Longrightarrow> distinct (map fst r) \<Longrightarrow> distinct (map fst (map_field k f m @ r))"
  "absent k r \<Longrightarrow> distinct (map fst r) \<Longrightarrow> distinct (map fst ((if c then [] else [(k, v)]) @ r))"
  by (auto simp: str_field_def bool_field_def strs_field_def map_field_def dest: absent_key)

lemma distinct_last:
  "distinct (map fst (str_field k s))" "distinct (map fst (bool_field k b))" "distinct (map fst (strs_field k xs))"
  "distinct (map fst (map_field k f m))" "distinct (map fst [(k, v)])"
  by (simp_all add: str_field_def bool_field_def strs_field_def map_field_def)

definition wf_fields :: "(string \<times> val) list \<Rightarrow> bool" where
  "wf_fields kvs \<longleftrightarrow> list_all (\<lambda>(k, v). wf_val v) kvs"

lemma wf_fields_simps [simp]:
  "wf_fields (xs @ ys) \<longleftrightarrow> wf_fields xs \<and> wf_fields ys" "wf_fields []" "wf_fields [(k, v)] \<longleftrightarrow> wf_val v"
  "wf_fields (str_field k s)" "wf_fields (bool_field k b)" "wf_fields (strs_field k ss)"
  by (auto simp: wf_fields_def str_field_def bool_field_def strs_field_def list_all_iff)

lemma wf_map_field:
  "distinct (map fst (mrange m)) \<Longrightarrow> (\<And>v. wf_val (f v)) \<Longrightarrow> wf_fields (map_field k f m)"
  by (auto simp: wf_fields_def map_field_def list_all_iff distinct_keys_sort comp_def case_prod_beta)

lemma wf_message: "distinct (map fst kvs) \<Longrightarrow> wf_fields kvs \<Longrightarrow> wf_val (VObj kvs)"
  by (simp add: wf_fields_def)

lemma wf_values: "(k, v) \<in> set (str_field n s) \<Longrightarrow> wf_val v" "(k, v) \<in> set (strs_field n xs) \<Longrightarrow> wf_val v"
  by (auto simp: str_field_def strs_field_def list_all_iff split: if_splits)

lemma wf_messages: "wf_val (NodeInfo_val n)" "wf_val (CustomChainInfo_val c)" "wf_val (SubnetInfo_val s)" "wf_val (peers_val ps)"
  unfolding NodeInfo_val_def CustomChainInfo_val_def SubnetInfo_val_def peers_val_def
  by (intro wf_message distinct_fields distinct_last; simp add: lower_def)+
    (auto simp: list_all_iff distinct_last dest: wf_values)

definition wf_info :: "ClusterInfo \<Rightarrow> bool" where
  "wf_info c \<longleftrightarrow> distinct (map fst (mrange (ci_NodeInfos c))) \<and> distinct (map fst (mrange (ci_AttachedPeerInfos c))) \<and>
     distinct (map fst (mrange (ci_CustomChains c))) \<and> distinct (map fst (mrange (ci_Subnets c)))"

lemma wf_ClusterInfo: "wf_info c \<Longrightarrow> wf_val (ClusterInfo_val c)"
  unfolding ClusterInfo_val_def wf_info_def
  by (intro wf_message distinct_fields distinct_last; simp add: lower_def wf_map_field wf_messages)

lemma deepCopy_copy: "wf_info c \<Longrightarrow> deepCopy (Some c) = Ok (copy_read c)"
  using json_value_jtext [of "\<lambda>_. []" "[]", OF _ _ wf_ClusterInfo] read_ClusterInfo
  by (simp add: deepCopy_def struct_text_def all_ws_def)

text \<open>A check of the participants of a subnet gives the same on the copy.\<close>

lemma verify_copy:
  "wf_info c \<Longrightarrow> VerifySubnetHasCorrectParticipants ps (Some (copy_read c)) i \<longleftrightarrow>
     VerifySubnetHasCorrectParticipants ps (Some c) i"
  by (simp add: VerifySubnetHasCorrectParticipants_def copy_read_def wf_info_def mget_map_read)

section \<open>Properties\<close>

text \<open>
  C20. The copy that a handler returns is the cluster information: writing it as JSON and reading it back does not
  fail and gives every field and every entry of every map as it was, for any cluster information
  whose maps have no repeated key, as Go maps do.
\<close>

theorem deepCopy_roundtrip:
  assumes "wf_info c"
  shows "\<exists>d. deepCopy (Some c) = Ok d \<and> ci_NodeNames d = ci_NodeNames c \<and> ci_Pid d = ci_Pid c \<and>
    ci_RootDataDir d = ci_RootDataDir c \<and> ci_Healthy d = ci_Healthy c \<and> ci_CustomChainsHealthy d = ci_CustomChainsHealthy c \<and>
    (\<forall>k. mget (ci_NodeInfos d) k = mget (ci_NodeInfos c) k) \<and>
    (\<forall>k. mget (ci_AttachedPeerInfos d) k = mget (ci_AttachedPeerInfos c) k) \<and>
    (\<forall>k. mget (ci_CustomChains d) k = mget (ci_CustomChains c) k) \<and> (\<forall>k. mget (ci_Subnets d) k = mget (ci_Subnets c) k)"
  using deepCopy_copy [OF assms] assms by (simp add: copy_read_def mget_map_read wf_info_def)

definition demo_info :: ClusterInfo where
  "demo_info = (new_ClusterInfo 42 ''/tmp'')\<lparr>ci_NodeNames := [''node1''], ci_Healthy := True,
     ci_AttachedPeerInfos := Some [(''node1'', [\<lparr>ap_Id = ''peer''\<rparr>])],
     ci_Subnets := Some [(''s'', \<lparr>si_IsElastic = True, si_ElasticSubnetId = ''e'', si_SubnetParticipants = \<lparr>sp_NodeNames = [''node1'']\<rparr>\<rparr>)]\<rparr>"

theorem deepCopy_roundtrip_witness:
  "\<exists>d. deepCopy (Some demo_info) = Ok d \<and> ci_Healthy d \<and> mget (ci_AttachedPeerInfos d) ''node1'' = Some [\<lparr>ap_Id = ''peer''\<rparr>]"
proof -
  have "wf_info demo_info" by (simp add: wf_info_def demo_info_def new_ClusterInfo_def)
  from deepCopy_roundtrip [OF this] show ?thesis by (auto simp: demo_info_def)
qed

end
