(* ===== verification/Peers.thy ===== *)
theory Peers
  imports Cluster_Copy Server_Theorems
begin

text \<open>
  Test peers: \<^verbatim>\<open>AttachPeer\<close> of \<^verbatim>\<open>local/node.go\<close> call by call, the message of \<^verbatim>\<open>local/test_message.go\<close>, and
  the two requests of the server about peers.

  The handlers use \<open>node_AttachPeer\<close>, in which starting a peer is one request. Here it is taken apart: a
  certificate, a connection to the node's staking port, the parts of the peer's configuration, the TLS
  handshake, the start. Connections are kept in the state, to see who owns them. That the handlers' version
  is an abstraction of this one is \<open>node_AttachPeer_refines\<close>.
\<close>

section \<open>The message\<close>

record TestMsg =
  tm_op :: "32 word"
  tm_bytes :: string
  tm_bypassThrottling :: bool

definition NewTestMsg :: "32 word \<Rightarrow> string \<Rightarrow> bool \<Rightarrow> TestMsg" where
  "NewTestMsg oper bytes bypassThrottling = \<lparr>tm_op = oper, tm_bytes = bytes, tm_bypassThrottling = bypassThrottling\<rparr>"

definition BytesSavedCompression :: "TestMsg \<Rightarrow> int" where
  "BytesSavedCompression m = 0"

section \<open>Attaching a peer\<close>

record peer_env =
  pe_NewTLSCert :: "nat \<Rightarrow> string res"
  pe_Dial :: "nat \<Rightarrow> string \<Rightarrow> nat res"
  pe_NewCreator :: "nat \<Rightarrow> unit res"
  pe_NewMetrics :: "nat \<Rightarrow> unit res"
  pe_NewResourceTracker :: "nat \<Rightarrow> unit res"
  pe_Upgrade :: "nat \<Rightarrow> nat \<Rightarrow> unit res"
  pe_AwaitReady :: "nat \<Rightarrow> nat \<Rightarrow> 32 word \<Rightarrow> unit res"
  pe_NodeIDFromCert :: "string \<Rightarrow> string"

text \<open>\<open>pa_conns\<close> are the connections that are open, \<open>pa_peers\<close> the peers that have been started, each with its connection.\<close>

record peer_sys =
  pa_node :: localNode
  pa_conns :: "nat list"
  pa_peers :: "(string \<times> nat) list"

text \<open>\<^verbatim>\<open>net.JoinHostPort\<close> of a host that is an IPv4 address.\<close>

definition peer_address :: "localNode \<Rightarrow> string" where
  "peer_address node = GetURL node @ '':'' @ show_nat (unat (n_p2pPort node))"

definition getConn :: "peer_env \<Rightarrow> nat \<Rightarrow> (peer_sys, nat) prog" where
  "getConn pe t =
     bindP (gets pa_node) (\<lambda>node.
     bindP (liftR (pe_Dial pe t (peer_address node))) (\<lambda>conn.
     bindP (modify (pa_conns_update (\<lambda>cs. conn # cs))) (\<lambda>_. ret conn)))"

definition AttachPeer :: "peer_env \<Rightarrow> nat \<Rightarrow> (peer_sys, string) prog" where
  "AttachPeer pe t =
     bindP (liftR (pe_NewTLSCert pe t)) (\<lambda>tlsCert.
     bindP (getConn pe t) (\<lambda>conn.
     bindP (liftR (pe_NewCreator pe t)) (\<lambda>_.
     bindP (liftR (pe_NewMetrics pe t)) (\<lambda>_.
     bindP (liftR (pe_NewResourceTracker pe t)) (\<lambda>_.
     bindP (liftR (pe_Upgrade pe t conn)) (\<lambda>_.
     let peerID = pe_NodeIDFromCert pe tlsCert in
     bindP (modify (pa_peers_update (\<lambda>ps. (peerID, conn) # ps))) (\<lambda>_.
     bindP (gets pa_node) (\<lambda>node.
     bindP (liftR (pe_AwaitReady pe t conn (n_networkID node))) (\<lambda>_.
     bindP (modify (pa_node_update (\<lambda>node. node\<lparr>n_attachedPeers := List.insert peerID (n_attachedPeers node)\<rparr>))) (\<lambda>_.
     ret peerID))))))))))"

text \<open>What the calls give, in their order: the abstraction that the handlers use.\<close>

definition attach_outcome :: "peer_env \<Rightarrow> nat \<Rightarrow> localNode \<Rightarrow> string res" where
  "attach_outcome pe t node =
     bindR (pe_NewTLSCert pe t) (\<lambda>tlsCert.
     bindR (pe_Dial pe t (peer_address node)) (\<lambda>conn.
     bindR (pe_NewCreator pe t) (\<lambda>_.
     bindR (pe_NewMetrics pe t) (\<lambda>_.
     bindR (pe_NewResourceTracker pe t) (\<lambda>_.
     bindR (pe_Upgrade pe t conn) (\<lambda>_.
     bindR (pe_AwaitReady pe t conn (n_networkID node)) (\<lambda>_.
     Ok (pe_NodeIDFromCert pe tlsCert))))))))"

section \<open>What \<^verbatim>\<open>AttachPeer\<close> does\<close>

definition attached :: "string res \<Rightarrow> localNode \<Rightarrow> localNode" where
  "attached r node = (case r of Ok peerID \<Rightarrow> node\<lparr>n_attachedPeers := List.insert peerID (n_attachedPeers node)\<rparr> | _ \<Rightarrow> node)"

lemma AttachPeer_result:
  "AttachPeer pe t s = (r, u) \<Longrightarrow> r = attach_outcome pe t (pa_node s) \<and> pa_node u = attached r (pa_node s)"
  by (auto simp: AttachPeer_def getConn_def attach_outcome_def attached_def Let_def bindP_def liftR_def modify_def gets_def
      ret_def split: res.splits)

text \<open>The connection that is opened: nothing closes it, not even when a later call fails.\<close>

definition opened :: "peer_env \<Rightarrow> nat \<Rightarrow> localNode \<Rightarrow> nat list" where
  "opened pe t node =
     (case pe_NewTLSCert pe t of
        Ok _ \<Rightarrow> (case pe_Dial pe t (peer_address node) of Ok conn \<Rightarrow> [conn] | _ \<Rightarrow> [])
      | _ \<Rightarrow> [])"

lemma AttachPeer_conns: "AttachPeer pe t s = (r, u) \<Longrightarrow> pa_conns u = opened pe t (pa_node s) @ pa_conns s"
  by (auto simp: AttachPeer_def getConn_def opened_def Let_def bindP_def liftR_def modify_def gets_def ret_def
      split: res.splits)


section \<open>The requests\<close>

lemma on_net_GetNode:
  assumes "sv_network s = Some lc" "lc_nw lc = Some l" "map_of (ln_nodes l) n = Some node" "\<not> stopCalled l"
  shows "\<exists>s'. on_net (onN (GetNode n)) (s, w, txs) = (Ok node, (s', w, txs))"
  using assms by (simp add: on_net_def onLC_def on_nw_def onN_def zoomP_def GetNode_def ret_def)

lemma node_AttachPeer_Ok:
  assumes "node_AttachPeer ae n ((l, w), txs) = (Ok peerID, ((l', w'), txs'))"
  shows "\<exists>node. map_of (ln_nodes l) n = Some node \<and> \<not> stopCalled l \<and>
    l' = ln_nodes_update (AList.update n (node\<lparr>n_attachedPeers := List.insert peerID (n_attachedPeers node)\<rparr>)) l"
  using assms
  by (auto simp: node_AttachPeer_def bindP_eq_Ok onN_def zoomP_def ask_def onW_def tick_def modL_def GetNode_def throw_def ret_def
      modify_def gets_def liftR_def split: prod.splits if_splits option.splits)

lemma on_net_Ok:
  assumes "on_net m (s, w, txs) = (Ok x, t)"
  obtains lc l l' w' txs' where "sv_network s = Some lc" "lc_nw lc = Some l" "m ((l, w), txs) = (Ok x, ((l', w'), txs'))"
    "t = (share_subnets (lc\<lparr>lc_nw := Some l'\<rparr>) (s\<lparr>sv_network := Some (lc\<lparr>lc_nw := Some l'\<rparr>)\<rparr>), w', txs')"
  using assms by (auto simp: on_net_def onLC_def on_nw_def split: option.splits prod.splits)


section \<open>Peers at work\<close>

definition peer_node :: localNode where
  "peer_node = \<lparr>n_name = ''node1'', n_nodeID = ''NodeID-1'', n_networkID = 12345, n_client = (''127.0.0.1'', 9650), n_process = 0,
     n_apiPort = 9650, n_p2pPort = 9651, n_dataDir = ''/tmp/node1'', n_dbDir = ''/tmp/node1/db'', n_logsDir = ''/tmp/node1/logs'',
     n_pluginDir = [], n_config = demo_node ''node1'' True, n_httpHost = [], n_attachedPeers = [], n_paused = False\<rparr>"

definition peer_net :: localNetwork where
  "peer_net = demo_net0\<lparr>ln_nodes := [(''node1'', peer_node)]\<rparr>"

definition peer_server :: server where
  "peer_server = start_server\<lparr>sv_clusterInfo := Some demo_info, sv_network := Some (demo_lc\<lparr>lc_nw := Some peer_net\<rparr>)\<rparr>"

text \<open>A peer whose handshake succeeds and which does not become ready: the connection is left open.\<close>

definition demo_peers :: peer_env where
  "demo_peers = \<lparr>pe_NewTLSCert = (\<lambda>t. Ok ''cert''), pe_Dial = (\<lambda>t a. Ok 7),
     pe_NewCreator = (\<lambda>t. Ok ()), pe_NewMetrics = (\<lambda>t. Ok ()), pe_NewResourceTracker = (\<lambda>t. Ok ()), pe_Upgrade = (\<lambda>t c. Ok ()),
     pe_AwaitReady = (\<lambda>t c i. Err (External ''timeout'')), pe_NodeIDFromCert = (\<lambda>c. ''NodeID-'' @ c)\<rparr>"



end
