(* ===== verification/Node_API.thy ===== *)
theory Node_API
  imports Server_Network
begin

text \<open>
  The clients of a node's APIs: \<^verbatim>\<open>api/api_client.go\<close>, which makes them, and \<^verbatim>\<open>api/eth_client.go\<close>, a client of a chain
  that connects on its first call.

  The clients themselves are packages of the node. The model says with which address each is made, and, for
  \<^verbatim>\<open>ethClient\<close>, when a connection is opened and over which connection a call goes: the calls of the package are
  events, in the order in which they are made. A call with its arguments is a value of \<open>eth_call\<close>; what the
  node answers is a parameter.
\<close>

section \<open>The client of a chain\<close>

record ethClient =
  ec_ipAddr :: string
  ec_chainID :: string
  ec_port :: "64 word"
  ec_client :: "nat option"

datatype eth_call =
    CSendTransaction string
  | CTransactionReceipt string
  | CBalanceAt string "int option"
  | CBlockByNumber "int option"
  | CBlockByHash string
  | CBlockNumber
  | CCallContract string "int option"
  | CNonceAt string "int option"
  | CAssetBalanceAt string string "int option"
  | CSuggestGasPrice
  | CAcceptedCodeAt string
  | CAcceptedNonceAt string
  | CCodeAt string "int option"
  | CEstimateGas string
  | CAcceptedCallContract string
  | CHeaderByNumber "int option"
  | CSuggestGasTipCap
  | CFilterLogs string
  | CSubscribeFilterLogs string string

datatype eth_event = Dialed string nat | Called nat eth_call | ClosedConn nat

text \<open>The package \<^verbatim>\<open>ethclient\<close>, asked at a given time: dialling gives a connection, a call on a connection an answer.\<close>

record eth_env =
  eth_Dial :: "nat \<Rightarrow> string \<Rightarrow> nat res"
  eth_Answer :: "nat \<Rightarrow> nat \<Rightarrow> eth_call \<Rightarrow> string res"

type_synonym eth_state = "ethClient \<times> eth_event list"

definition NewEthClientWithChainID :: "string \<Rightarrow> 64 word \<Rightarrow> string \<Rightarrow> ethClient" where
  "NewEthClientWithChainID ipAddr port chainID = \<lparr>ec_ipAddr = ipAddr, ec_chainID = chainID, ec_port = port, ec_client = None\<rparr>"

definition NewEthClient :: "string \<Rightarrow> 64 word \<Rightarrow> ethClient" where
  "NewEthClient ipAddr port = NewEthClientWithChainID ipAddr port ''C''"

definition ws_url :: "ethClient \<Rightarrow> string" where
  "ws_url c = ''ws://'' @ ec_ipAddr c @ '':'' @ show_nat (unat (ec_port c)) @ ''/ext/bc/'' @ ec_chainID c @ ''/ws''"

text \<open>The package is called.\<close>

definition happens :: "eth_event \<Rightarrow> (eth_state, unit) prog" where
  "happens ev = modify (\<lambda>(c, evs). (c, evs @ [ev]))"

definition connect :: "eth_env \<Rightarrow> nat \<Rightarrow> (eth_state, unit) prog" where
  "connect en t =
     bindP (gets fst) (\<lambda>c.
       if ec_client c = None then
         bindP (liftR (eth_Dial en t (ws_url c))) (\<lambda>client.
         bindP (happens (Dialed (ws_url c) client)) (\<lambda>_.
         modify (apfst (ec_client_update (\<lambda>_. Some client)))))
       else ret ())"

text \<open>Every method of the client takes the lock, connects and makes the call.\<close>

definition locked_call :: "eth_env \<Rightarrow> nat \<Rightarrow> eth_call \<Rightarrow> (eth_state, string) prog" where
  "locked_call en t call =
     bindP (connect en t) (\<lambda>_.
     bindP (gets (ec_client \<circ> fst)) (\<lambda>client.
       (case client of
          None \<Rightarrow> panic ''nil pointer dereference''
        | Some k \<Rightarrow> bindP (happens (Called k call)) (\<lambda>_. liftR (eth_Answer en t k call)))))"

definition eth_SendTransaction :: "eth_env \<Rightarrow> nat \<Rightarrow> string \<Rightarrow> (eth_state, string) prog" where
  "eth_SendTransaction en t tx = locked_call en t (CSendTransaction tx)"

definition eth_TransactionReceipt :: "eth_env \<Rightarrow> nat \<Rightarrow> string \<Rightarrow> (eth_state, string) prog" where
  "eth_TransactionReceipt en t txHash = locked_call en t (CTransactionReceipt txHash)"

definition eth_BalanceAt :: "eth_env \<Rightarrow> nat \<Rightarrow> string \<Rightarrow> (int option) \<Rightarrow> (eth_state, string) prog" where
  "eth_BalanceAt en t account blockNumber = locked_call en t (CBalanceAt account blockNumber)"

definition eth_BlockByNumber :: "eth_env \<Rightarrow> nat \<Rightarrow> (int option) \<Rightarrow> (eth_state, string) prog" where
  "eth_BlockByNumber en t number = locked_call en t (CBlockByNumber number)"

definition eth_BlockByHash :: "eth_env \<Rightarrow> nat \<Rightarrow> string \<Rightarrow> (eth_state, string) prog" where
  "eth_BlockByHash en t hash = locked_call en t (CBlockByHash hash)"

definition eth_BlockNumber :: "eth_env \<Rightarrow> nat \<Rightarrow> (eth_state, string) prog" where
  "eth_BlockNumber en t = locked_call en t CBlockNumber"

definition eth_CallContract :: "eth_env \<Rightarrow> nat \<Rightarrow> string \<Rightarrow> (int option) \<Rightarrow> (eth_state, string) prog" where
  "eth_CallContract en t msg blockNumber = locked_call en t (CCallContract msg blockNumber)"

definition eth_NonceAt :: "eth_env \<Rightarrow> nat \<Rightarrow> string \<Rightarrow> (int option) \<Rightarrow> (eth_state, string) prog" where
  "eth_NonceAt en t account blockNumber = locked_call en t (CNonceAt account blockNumber)"

definition eth_AssetBalanceAt :: "eth_env \<Rightarrow> nat \<Rightarrow> string \<Rightarrow> string \<Rightarrow> (int option) \<Rightarrow> (eth_state, string) prog" where
  "eth_AssetBalanceAt en t account assetID blockNumber = locked_call en t (CAssetBalanceAt account assetID blockNumber)"

definition eth_SuggestGasPrice :: "eth_env \<Rightarrow> nat \<Rightarrow> (eth_state, string) prog" where
  "eth_SuggestGasPrice en t = locked_call en t CSuggestGasPrice"

definition eth_AcceptedCodeAt :: "eth_env \<Rightarrow> nat \<Rightarrow> string \<Rightarrow> (eth_state, string) prog" where
  "eth_AcceptedCodeAt en t account = locked_call en t (CAcceptedCodeAt account)"

definition eth_AcceptedNonceAt :: "eth_env \<Rightarrow> nat \<Rightarrow> string \<Rightarrow> (eth_state, string) prog" where
  "eth_AcceptedNonceAt en t account = locked_call en t (CAcceptedNonceAt account)"

definition eth_CodeAt :: "eth_env \<Rightarrow> nat \<Rightarrow> string \<Rightarrow> (int option) \<Rightarrow> (eth_state, string) prog" where
  "eth_CodeAt en t account blockNumber = locked_call en t (CCodeAt account blockNumber)"

definition eth_EstimateGas :: "eth_env \<Rightarrow> nat \<Rightarrow> string \<Rightarrow> (eth_state, string) prog" where
  "eth_EstimateGas en t msg = locked_call en t (CEstimateGas msg)"

definition eth_AcceptedCallContract :: "eth_env \<Rightarrow> nat \<Rightarrow> string \<Rightarrow> (eth_state, string) prog" where
  "eth_AcceptedCallContract en t msg = locked_call en t (CAcceptedCallContract msg)"

definition eth_HeaderByNumber :: "eth_env \<Rightarrow> nat \<Rightarrow> (int option) \<Rightarrow> (eth_state, string) prog" where
  "eth_HeaderByNumber en t number = locked_call en t (CHeaderByNumber number)"

definition eth_SuggestGasTipCap :: "eth_env \<Rightarrow> nat \<Rightarrow> (eth_state, string) prog" where
  "eth_SuggestGasTipCap en t = locked_call en t CSuggestGasTipCap"

definition eth_FilterLogs :: "eth_env \<Rightarrow> nat \<Rightarrow> string \<Rightarrow> (eth_state, string) prog" where
  "eth_FilterLogs en t query = locked_call en t (CFilterLogs query)"

definition eth_SubscribeFilterLogs :: "eth_env \<Rightarrow> nat \<Rightarrow> string \<Rightarrow> string \<Rightarrow> (eth_state, string) prog" where
  "eth_SubscribeFilterLogs en t query ch = locked_call en t (CSubscribeFilterLogs query ch)"

text \<open>\<^verbatim>\<open>Close\<close> looks at the client before it takes the lock; what it does with the lock is a section of its own.\<close>

definition close_section :: "(eth_state, unit) prog" where
  "close_section =
     bindP (gets (ec_client \<circ> fst)) (\<lambda>client.
       (case client of None \<Rightarrow> panic ''nil pointer dereference'' | Some k \<Rightarrow> happens (ClosedConn k)))"

definition eth_Close :: "(eth_state, unit) prog" where
  "eth_Close = bindP (gets (ec_client \<circ> fst)) (\<lambda>client. if client = None then ret () else close_section)"

section \<open>All clients of a node\<close>

text \<open>The client of a service is the address it is made with, with the name of the chain for those of a chain.\<close>

record APIClient =
  ac_platform :: string
  ac_xChain :: "string \<times> string"
  ac_xChainWallet :: "string \<times> string"
  ac_cChain :: string
  ac_cChainEth :: ethClient
  ac_info :: string
  ac_health :: string
  ac_ipcs :: string
  ac_keystore :: string
  ac_admin :: string
  ac_pindex :: string
  ac_cindex :: string

definition NewAPIClient :: "string \<Rightarrow> 16 word \<Rightarrow> APIClient" where
  "NewAPIClient ipAddr port =
     (let uri = ''http://'' @ ipAddr @ '':'' @ show_nat (unat port) in
      \<lparr>ac_platform = uri, ac_xChain = (uri, ''X''), ac_xChainWallet = (uri, ''X''), ac_cChain = uri,
       ac_cChainEth = NewEthClient ipAddr (ucast port), ac_info = uri, ac_health = uri, ac_ipcs = uri, ac_keystore = uri,
       ac_admin = uri, ac_pindex = uri @ ''/ext/index/P/block'', ac_cindex = uri @ ''/ext/index/C/block''\<rparr>)"

definition PChainAPI :: "APIClient \<Rightarrow> string" where "PChainAPI c = ac_platform c"
definition XChainAPI :: "APIClient \<Rightarrow> string \<times> string" where "XChainAPI c = ac_xChain c"
definition XChainWalletAPI :: "APIClient \<Rightarrow> string \<times> string" where "XChainWalletAPI c = ac_xChainWallet c"
definition CChainAPI :: "APIClient \<Rightarrow> string" where "CChainAPI c = ac_cChain c"
definition CChainEthAPI :: "APIClient \<Rightarrow> ethClient" where "CChainEthAPI c = ac_cChainEth c"
definition InfoAPI :: "APIClient \<Rightarrow> string" where "InfoAPI c = ac_info c"
definition HealthAPI :: "APIClient \<Rightarrow> string" where "HealthAPI c = ac_health c"
definition IpcsAPI :: "APIClient \<Rightarrow> string" where "IpcsAPI c = ac_ipcs c"
definition KeystoreAPI :: "APIClient \<Rightarrow> string" where "KeystoreAPI c = ac_keystore c"
definition AdminAPI :: "APIClient \<Rightarrow> string" where "AdminAPI c = ac_admin c"
definition PChainIndexAPI :: "APIClient \<Rightarrow> string" where "PChainIndexAPI c = ac_pindex c"
definition CChainIndexAPI :: "APIClient \<Rightarrow> string" where "CChainIndexAPI c = ac_cindex c"

text \<open>What a node says of itself; its API client is made for its host and port.\<close>

definition GetName :: "localNode \<Rightarrow> string" where "GetName node = n_name node"
definition GetNodeID :: "localNode \<Rightarrow> string" where "GetNodeID node = n_nodeID node"
definition GetP2PPort :: "localNode \<Rightarrow> 16 word" where "GetP2PPort node = n_p2pPort node"
definition GetAPIPort :: "localNode \<Rightarrow> 16 word" where "GetAPIPort node = n_apiPort node"
definition GetPluginDir :: "localNode \<Rightarrow> string" where "GetPluginDir node = n_pluginDir node"
definition GetDataDir :: "localNode \<Rightarrow> string" where "GetDataDir node = n_dataDir node"
definition GetDbDir :: "localNode \<Rightarrow> string" where "GetDbDir node = n_dbDir node"
definition GetLogsDir :: "localNode \<Rightarrow> string" where "GetLogsDir node = n_logsDir node"
definition GetConfig :: "localNode \<Rightarrow> NodeConfig" where "GetConfig node = n_config node"
definition GetPaused :: "localNode \<Rightarrow> bool" where "GetPaused node = n_paused node"

definition GetAPIClient :: "localNode \<Rightarrow> APIClient" where
  "GetAPIClient node = NewAPIClient (fst (n_client node)) (snd (n_client node))"

text \<open>The address that the server's network uses is that of the node's client of the P-chain, and the websocket of the
  client of the C-chain is on the same host and port.\<close>

lemma unat_port: "unat (ucast (port :: 16 word) :: 64 word) = unat port"
proof -
  have "unat port < 2 ^ 64" using unsigned_less [of port, where 'a = nat] by (rule less_le_trans) simp
  then show ?thesis by (simp add: unsigned_ucast_eq take_bit_nat_eq_self)
qed

lemma client_addresses:
  "client_uri node = PChainAPI (GetAPIClient node)"
  "ws_url (CChainEthAPI (NewAPIClient ip port)) = ''ws://'' @ ip @ '':'' @ show_nat (unat port) @ ''/ext/bc/C/ws''"
  by (simp_all add: client_uri_def NewAPIClient_def GetAPIClient_def PChainAPI_def CChainEthAPI_def Let_def ws_url_def NewEthClient_def NewEthClientWithChainID_def unat_port)

section \<open>Concurrent use\<close>

text \<open>
  Any number of goroutines use one client. A method runs with the lock, so it is one step; \<^verbatim>\<open>Close\<close> is two: the
  number counts those that have seen a client and wait for the lock.
\<close>

inductive eth_step :: "eth_env \<Rightarrow> eth_state \<times> nat \<Rightarrow> eth_state \<times> nat \<Rightarrow> bool" for en :: eth_env where
  call: "locked_call en t m s = (r, s') \<Longrightarrow> eth_step en (s, k) (s', k)"
| close_enter: "ec_client (fst s) \<noteq> None \<Longrightarrow> eth_step en (s, k) (s, Suc k)"
| close_locked: "close_section s = (r, s') \<Longrightarrow> eth_step en (s, Suc k) (s', k)"

definition eth_init :: "string \<Rightarrow> 64 word \<Rightarrow> string \<Rightarrow> eth_state \<times> nat \<Rightarrow> bool" where
  "eth_init ip port chain s \<longleftrightarrow> s = ((NewEthClientWithChainID ip port chain, []), 0)"

fun over :: "nat \<Rightarrow> eth_event \<Rightarrow> bool" where
  "over h (Dialed url k) = False"
| "over h (Called k m) = (k = h)"
| "over h (ClosedConn k) = (k = h)"

definition eth_inv :: "string \<Rightarrow> 64 word \<Rightarrow> string \<Rightarrow> eth_state \<times> nat \<Rightarrow> bool" where
  "eth_inv ip port chain = (\<lambda>((c, evs), k).
     c = (NewEthClientWithChainID ip port chain)\<lparr>ec_client := ec_client c\<rparr> \<and>
     (case ec_client c of
        None \<Rightarrow> evs = [] \<and> k = 0
      | Some h \<Rightarrow> \<exists>rest. evs = Dialed (ws_url (NewEthClientWithChainID ip port chain)) h # rest \<and> list_all (over h) rest))"

lemma ws_url_client [simp]: "ws_url (c\<lparr>ec_client := x\<rparr>) = ws_url c"
  by (simp add: ws_url_def)

lemma locked_call_inv:
  assumes "eth_inv ip port chain (s, k)" "locked_call en t m s = (r, s')"
  shows "eth_inv ip port chain (s', k) \<and> (\<forall>p. r = Panic p \<longrightarrow> (\<exists>h. eth_Dial en t h = Panic p) \<or> (\<exists>h. eth_Answer en t h m = Panic p))"
proof (cases "ec_client (fst s)")
  case None
  then show ?thesis using assms
    by (cases s; cases "eth_Dial en t (ws_url (fst s))")
      (auto simp: locked_call_def connect_def bindP_def gets_def liftR_def happens_def modify_def eth_inv_def)
next
  case (Some h)
  then show ?thesis using assms
    by (cases s) (auto simp: locked_call_def connect_def bindP_def gets_def liftR_def happens_def modify_def eth_inv_def ret_def)
qed

interpretation eth: inductive_invariant "eth_init ip port chain" "eth_step en" "eth_inv ip port chain" for ip port chain en
proof
  show "eth_inv ip port chain s" if "eth_init ip port chain s" for s
    using that by (simp add: eth_init_def eth_inv_def NewEthClientWithChainID_def)
  show "eth_inv ip port chain u" if "eth_inv ip port chain s" "eth_step en s u" for s u
    using that(2,1)
  proof cases
    case (call t m s1 r s' k)
    then show ?thesis using locked_call_inv that(1) by blast
  next
    case (close_enter s1 k)
    then show ?thesis using that(1) by (auto simp: eth_inv_def split: option.splits prod.splits)
  next
    case (close_locked s1 r s' k)
    then show ?thesis using that(1)
      by (auto simp: eth_inv_def close_section_def bindP_def gets_def happens_def modify_def panic_def split: option.splits prod.splits)
  qed
qed

text \<open>
  C18. A client of a chain opens one connection in its life, however many goroutines use it and whenever it is
  closed: the first event is the successful dial of the chain's address on the node's host and port, and every
  later one, calls and closes, is on that connection. Nothing precedes the dial, and a dial that fails leaves the
  client as it was, so that the next call dials again. In particular a call after \<^verbatim>\<open>Close\<close> uses the closed
  connection.
\<close>

theorem ethClient_one_connection:
  assumes "reachable (eth_init ip port chain) (eth_step en) ((c, evs), k)"
  shows "(evs = [] \<and> c = NewEthClientWithChainID ip port chain \<or>
     (\<exists>h rest. ec_client c = Some h \<and> list_all (over h) rest \<and>
        evs = Dialed (''ws://'' @ ip @ '':'' @ show_nat (unat port) @ ''/ext/bc/'' @ chain @ ''/ws'') h # rest)) \<and>
    fst (eth_Close (c, evs)) = Ok ()"
proof -
  have inv: "eth_inv ip port chain ((c, evs), k)" by (rule eth.reachable_inv [OF assms])
  have "ws_url (NewEthClientWithChainID ip port chain) = ''ws://'' @ ip @ '':'' @ show_nat (unat port) @ ''/ext/bc/'' @ chain @ ''/ws''"
    by (simp add: ws_url_def NewEthClientWithChainID_def)
  then show ?thesis using inv
    by (cases "ec_client c")
      (auto simp: eth_inv_def NewEthClientWithChainID_def eth_Close_def close_section_def bindP_def gets_def ret_def happens_def modify_def)
qed

text \<open>Two calls with a \<^verbatim>\<open>Close\<close> between them.\<close>

definition demo_eth :: eth_env where
  "demo_eth = \<lparr>eth_Dial = (\<lambda>t url. Ok 3), eth_Answer = (\<lambda>t h m. Ok [])\<rparr>"

theorem ethClient_one_connection_witness:
  "\<exists>c. reachable (eth_init ''127.0.0.1'' 9650 ''C'') (eth_step demo_eth)
       ((c, [Dialed (ws_url c) 3, Called 3 CBlockNumber, ClosedConn 3, Called 3 CBlockNumber]), 0) \<and>
     fst (eth_Close (c, [Dialed (ws_url c) 3, Called 3 CBlockNumber, ClosedConn 3, Called 3 CBlockNumber])) = Ok ()"
proof -
  let ?new = "NewEthClientWithChainID ''127.0.0.1'' 9650 ''C''"
  let ?c = "?new\<lparr>ec_client := Some 3\<rparr>"
  let ?e1 = "[Dialed (ws_url ?new) 3, Called 3 CBlockNumber]"
  let ?R = "reachable (eth_init ''127.0.0.1'' 9650 ''C'') (eth_step demo_eth)"
  note defs = locked_call_def connect_def close_section_def bindP_def gets_def liftR_def happens_def modify_def ret_def demo_eth_def
    NewEthClientWithChainID_def
  have "?R ((?new, []), 0)" by (rule reach_init) (simp add: eth_init_def)
  then have "?R ((?c, ?e1), 0)"
    by (rule reach_step) (rule eth_step.call [of _ 0 CBlockNumber _ "Ok []"], simp add: defs)
  then have "?R ((?c, ?e1), 1)"
    by (rule reach_step) (use eth_step.close_enter [of "(?c, ?e1)" demo_eth 0] in simp)
  then have "?R ((?c, ?e1 @ [ClosedConn 3]), 0)"
    by (rule reach_step) (use eth_step.close_locked [of "(?c, ?e1)" "Ok ()" _ demo_eth 0] in \<open>simp add: defs\<close>)
  then have run: "?R ((?c, ?e1 @ [ClosedConn 3, Called 3 CBlockNumber]), 0)"
    by (rule reach_step) (rule eth_step.call [of _ 0 CBlockNumber _ "Ok []"], simp add: defs)
  have "fst (eth_Close (?c, ?e1 @ [ClosedConn 3, Called 3 CBlockNumber])) = Ok ()"
    using ethClient_one_connection [OF run] by blast
  with run show ?thesis by (intro exI [of _ ?c]) simp
qed

end
