(* ===== verification/Examples.thy ===== *)
theory Examples
  imports Server_Contract Default_Config
begin

text \<open>
  The two example programs, \<^verbatim>\<open>examples/local/indepth/main.go\<close> and \<^verbatim>\<open>examples/local/fivenodenetwork/main.go\<close>: clients of
  the network that create the default network, use it, and stop it on a signal or when they return.

  The goroutine that waits for the signal runs beside the program and may stop the network at any time; the
  network's lock puts its \<^verbatim>\<open>Stop\<close> before or after each of the other calls. So the model takes, for each
  call, whether the goroutine has got the signal before it. A deferred call runs after a panic, too.
\<close>

section \<open>The signal\<close>

definition shutdownOnSignal :: "env \<Rightarrow> (net_state, unit) prog" where
  "shutdownOnSignal e = catchP (Stop e) (\<lambda>_. ret ())"

definition at_signal :: "env \<Rightarrow> bool \<Rightarrow> (net_state, 'a) prog \<Rightarrow> (net_state, 'a) prog" where
  "at_signal e sig m = bindP (whenP sig (shutdownOnSignal e)) (\<lambda>_. m)"

definition deferP :: "('s, unit) prog \<Rightarrow> ('s, 'a) prog \<Rightarrow> ('s, 'a) prog" where
  "deferP d m s = (case m s of (r, t) \<Rightarrow> (r, snd (d t)))"

text \<open>Creating the network, and stopping it when the function returns. The deferred function stops the network and logs
  an error, like the handler of the signal.\<close>

definition with_network ::
  "env \<Rightarrow> NetConfig \<Rightarrow> string \<Rightarrow> (net_state, unit) prog \<Rightarrow> (world, unit) prog" where
  "with_network e def binaryPath body w =
     (case NewDefaultNetwork e def binaryPath True w of
        (Ok _, Some nw, w1) \<Rightarrow> (case deferP (shutdownOnSignal e) body (nw, w1) of (r, _, w2) \<Rightarrow> (r, w2))
      | (Ok _, None, w1) \<Rightarrow> (Panic ''nil pointer dereference'', w1)
      | (Err er, _, w1) \<Rightarrow> (Err er, w1)
      | (Panic p, _, w1) \<Rightarrow> (Panic p, w1))"

section \<open>The programs\<close>

record ex_env =
  ex_GetNodeID :: "nat \<Rightarrow> localNode \<Rightarrow> string res"
  ex_LogLevelKey :: string
  ex_Debug :: val

definition new_node_config :: "ex_env \<Rightarrow> env \<Rightarrow> string \<Rightarrow> string \<Rightarrow> string \<Rightarrow> NodeConfig" where
  "new_node_config xe e binaryPath stakingKey stakingCert = (named_config ''New Node'')
     \<lparr>nc_BinaryPath := binaryPath, nc_StakingKey := stakingKey, nc_StakingCert := stakingCert,
      nc_Flags := Some [(ex_LogLevelKey xe, ex_Debug xe), (HTTPHostKey e, VStr ''0.0.0.0'')]\<rparr>"

text \<open>The names of the nodes that are printed, before and after the update.\<close>

definition indepth_update ::
  "ex_env \<Rightarrow> env \<Rightarrow> (nat \<Rightarrow> bool) \<Rightarrow> string \<Rightarrow> (net_state, string list \<times> string list) prog" where
  "indepth_update xe e sig binaryPath =
     bindP (at_signal e (sig 0) (Healthy e)) (\<lambda>_.
     bindP (at_signal e (sig 1) GetNodeNames) (\<lambda>nodeNames.
     bindP (liftR (at nodeNames 0)) (\<lambda>name0.
     bindP (at_signal e (sig 2) (GetNode name0)) (\<lambda>node1.
     bindP (onW tick) (\<lambda>t.
     bindP (liftR (ex_GetNodeID xe t node1)) (\<lambda>_.
     bindP (onW tick) (\<lambda>t.
     bindP (liftR (staking_NewCertAndKeyBytes e t)) (\<lambda>(stakingCert, stakingKey).
     bindP (at_signal e (sig 3) (AddNode e (new_node_config xe e binaryPath stakingKey stakingCert))) (\<lambda>_.
     bindP (liftR (at nodeNames 3)) (\<lambda>nodeToRemove.
     bindP (at_signal e (sig 4) (RemoveNode e nodeToRemove)) (\<lambda>_.
     bindP (at_signal e (sig 5) (Healthy e)) (\<lambda>_.
     bindP (at_signal e (sig 6) GetNodeNames) (\<lambda>updated.
     ret (nodeNames, updated))))))))))))))"

text \<open>At the end both programs wait until the network has been shut down.\<close>

definition indepth_run :: "ex_env \<Rightarrow> env \<Rightarrow> NetConfig \<Rightarrow> (nat \<Rightarrow> bool) \<Rightarrow> string \<Rightarrow> (world, unit) prog" where
  "indepth_run xe e def sig binaryPath =
     with_network e def binaryPath (bindP (indepth_update xe e sig binaryPath) (\<lambda>_. shutdownOnSignal e))"

definition fivenode_run :: "env \<Rightarrow> NetConfig \<Rightarrow> bool \<Rightarrow> string \<Rightarrow> (world, unit) prog" where
  "fivenode_run e def sig binaryPath =
     with_network e def binaryPath (bindP (at_signal e sig (Healthy e)) (\<lambda>_. shutdownOnSignal e))"

text \<open>The exit code of \<^verbatim>\<open>main\<close>: \<open>log\<close> is what making the logger gives.\<close>

definition example_main :: "unit res \<Rightarrow> (string \<Rightarrow> (world, unit) prog) \<Rightarrow> string \<Rightarrow> (world, int) prog" where
  "example_main log run goPath =
     catchP (bindP (liftR log) (\<lambda>_.
             bindP (run (goPath @ ''/src/github.com/luxdefi/node/build/node'')) (\<lambda>_. ret 0)))
       (\<lambda>_. ret 1)"

section \<open>Nothing keeps running\<close>

text \<open>A network that has been stopped.\<close>

definition shut :: "net_state \<Rightarrow> bool" where
  "shut s \<longleftrightarrow> ln_stopOnce (fst s) \<and> stopCalled (fst s) \<and> idle (snd s)"

definition usable :: "net_state \<Rightarrow> bool" where
  "usable s \<longleftrightarrow> in_use s \<or> shut s"

lemma usable_op: "pres in_use m \<Longrightarrow> (\<And>s. shut s \<Longrightarrow> m s = (Err ErrStopped, s)) \<Longrightarrow> pres usable m"
  by (rule presI) (auto simp: usable_def dest: presD)

lemma in_use_queries: "pres in_use GetNodeNames" "pres in_use (GetNode n)" "pres in_use (Healthy e)"
  unfolding GetNodeNames_def GetNode_def Healthy_def
  by (intro pres_in_use pres_intros once_pres inv.keep_healthy)+

lemma shut_ops:
  assumes "shut s"
  shows "Healthy e s = (Err ErrStopped, s)" "GetNodeNames s = (Err ErrStopped, s)" "GetNode n s = (Err ErrStopped, s)"
    "AddNode e nc s = (Err ErrStopped, s)" "RemoveNode e n s = (Err ErrStopped, s)" "Stop e s = (Err ErrStopped, s)"
  using assms by (simp_all add: shut_def Healthy_def healthy_def GetNodeNames_def GetNode_def AddNode_def RemoveNode_def
      Stop_def throw_def)

lemma in_use_Stop_shut:
  assumes "in_use s" "Stop e s = (r, t)"
  shows "shut t \<and> \<not> is_Panic r"
proof -
  let ?u = "((fst s)\<lparr>ln_stopOnce := True, ln_onStopCh := True\<rparr>, snd s)"
  have "net_stop e ?u = (r, t)" using assms by (simp add: Stop_def stop_begin_def in_use_def once_def)
  from net_stop_result [OF this] show ?thesis using in_use_Stop [OF assms] by (simp add: shut_def stopCalled_def)
qed

lemma shutdown_result: "usable s \<Longrightarrow> \<exists>t. shutdownOnSignal e s = (Ok (), t) \<and> shut t"
  using in_use_Stop_shut [of s e] shut_ops(6) [of s e]
  by (cases "Stop e s"; cases "fst (Stop e s)") (auto simp: shutdownOnSignal_def catchP_def usable_def ret_def)

lemma usable_shutdown: "pres usable (shutdownOnSignal e)"
proof (rule presI)
  fix s r t
  assume "usable s" "shutdownOnSignal e s = (r, t)"
  then show "usable t" using shutdown_result [of s e] by (auto simp: usable_def)
qed

lemma usable_at_signal: "pres usable m \<Longrightarrow> pres usable (at_signal e sig m)"
  unfolding at_signal_def by (intro pres_intros usable_shutdown)

lemma usable_tick: "pres usable (onW tick)"
  by (rule presI) (auto simp: onW_eq_iff tick_def usable_def in_use_def net_inv_def once_def shut_def idle_def)

lemma usable_ops:
  "pres usable (Healthy e)" "pres usable GetNodeNames" "pres usable (GetNode n)" "pres usable (AddNode e nc)"
  "pres usable (RemoveNode e n)"
  by (intro usable_op in_use_queries in_use_nodes shut_ops; assumption)+

lemma usable_update: "pres usable (indepth_update xe e sig binaryPath)"
  unfolding indepth_update_def by (intro pres_intros usable_at_signal usable_ops usable_tick)

lemma with_network_clean:
  assumes "idle w" "pres usable body" "with_network e def binaryPath body w = (r, w')"
    and "\<not> is_Panic (fst (NewDefaultNetwork e def binaryPath True w))"
  shows "idle w'"
proof -
  obtain q nw w1 where new: "NewDefaultNetwork e def binaryPath True w = (q, nw, w1)" by (metis prod.exhaust)
  note created = in_use_created [OF assms(1) new [unfolded NewDefaultNetwork_def]]
  show ?thesis
  proof (cases q)
    case (Ok _)
    then obtain l where l: "nw = Some l" "usable (l, w1)" using created by (auto simp: usable_def)
    obtain r1 t where body: "body (l, w1) = (r1, t)" by (rule prod.exhaust)
    have "usable t" using presD [OF assms(2) l(2) body] .
    with shutdown_result obtain u where "shutdownOnSignal e t = (Ok (), u)" "shut u" by blast
    then show ?thesis using assms(3) new Ok l(1) body by (auto simp: with_network_def deferP_def shut_def split: prod.splits)
  qed (use assms(3,4) new created in \<open>auto simp: with_network_def\<close>)
qed

text \<open>
  C16. The example programs leave nothing behind: started on a machine without node processes, the program
  that builds, uses and updates a network has stopped every process when it returns, whenever the signal
  arrives, whichever call fails, and also when it panics; only a panic while the network is created is
  left out. The program that only waits for the network does the same.
\<close>

theorem examples_leave_no_process:
  assumes "procs w = []" "\<not> is_Panic (fst (NewDefaultNetwork e def binaryPath True w))"
  shows "live_procs (snd (indepth_run xe e def sig binaryPath w)) = {} \<and>
    live_procs (snd (fivenode_run e def stop binaryPath w)) = {}"
proof -
  have w: "idle w" using assms(1) by (simp add: idle_def net_ok_def pid_live_def wf_gmap_def)
  have "pres usable (bindP (indepth_update xe e sig binaryPath) (\<lambda>_. shutdownOnSignal e))"
    "pres usable (bindP (at_signal e stop (Healthy e)) (\<lambda>_. shutdownOnSignal e))"
    by (intro pres_intros usable_update usable_shutdown usable_at_signal usable_ops)+
  note clean = with_network_clean [OF w this(1) _ assms(2)] with_network_clean [OF w this(2) _ assms(2)]
  show ?thesis using clean [OF prod.collapse [symmetric]] by (simp add: indepth_run_def fivenode_run_def idle_live)
qed

section \<open>The updated network\<close>

lemma at_signal_Ok:
  assumes "usable s" "\<And>u. shut u \<Longrightarrow> m u = (Err ErrStopped, u)" "at_signal e sig m s = (Ok x, t)"
  shows "in_use s \<and> m s = (Ok x, t)"
proof (cases sig)
  case True
  obtain u where "shutdownOnSignal e s = (Ok (), u)" "shut u" using shutdown_result [OF assms(1)] by blast
  then show ?thesis using assms(2,3) True by (simp add: at_signal_def whenP_def bindP_def)
next
  case False
  then have run: "m s = (Ok x, t)" using assms(3) by (simp add: at_signal_def whenP_def)
  moreover have "\<not> shut s" using assms(2) [of s] run by auto
  ultimately show ?thesis using assms(1) by (simp add: usable_def)
qed

lemma signal_Healthy:
  assumes "usable s" "at_signal e b (Healthy e) s = (Ok (), t)"
  shows "usable t \<and> ln_nodes (fst t) = ln_nodes (fst s)"
proof -
  have run: "in_use s" "Healthy e s = (Ok (), t)" using at_signal_Ok [OF assms(1) shut_ops(1) assms(2)] by simp_all
  have "quiet (ln_nodes (fst s)) (procs (snd s)) t"
    using presD [OF quiet_healthy _ run(2) [unfolded Healthy_def]] by (simp add: quiet_def)
  then show ?thesis using presD [OF in_use_queries(3) run] by (simp add: usable_def quiet_def)
qed

lemma signal_queries:
  assumes "usable s"
  shows "at_signal e b GetNodeNames s = (Ok names, t) \<Longrightarrow> t = s \<and> set names = dom (map_of (ln_nodes (fst s)))"
    and "at_signal e b (GetNode n) s = (Ok node, t) \<Longrightarrow> t = s"
proof -
  assume "at_signal e b GetNodeNames s = (Ok names, t)"
  from at_signal_Ok [OF assms shut_ops(2) this] have "GetNodeNames s = (Ok names, t)" by simp
  then have "t = s" "names = mkeys (ln_nodes (fst s))"
    by (auto simp: GetNodeNames_def getL_def gets_def throw_def split: if_splits)
  then show "t = s \<and> set names = dom (map_of (ln_nodes (fst s)))" by (simp add: mkeys_def dom_map_of_conv_image_fst)
next
  assume "at_signal e b (GetNode n) s = (Ok node, t)"
  from at_signal_Ok [OF assms shut_ops(3) this] have "GetNode n s = (Ok node, t)" by simp
  then show "t = s" by (auto simp: GetNode_def throw_def ret_def split: if_splits option.splits)
qed

lemma signal_AddNode:
  assumes "usable s" "at_signal e b (AddNode e nc) s = (Ok node, t)" "nc_Name nc \<noteq> []"
  shows "usable t \<and> map_of (ln_nodes (fst t)) = (map_of (ln_nodes (fst s)))(nc_Name nc \<mapsto> node)"
proof -
  have run: "in_use s" "AddNode e nc s = (Ok node, t)" using at_signal_Ok [OF assms(1) shut_ops(4) assms(2)] by simp_all
  then have "addNode e nc s = (Ok node, t)" by (auto simp: AddNode_def throw_def split: if_splits)
  from addNode_added [OF this] show ?thesis
    using presD [OF in_use_nodes(1) run] assms(3) by (simp add: usable_def node_added_def update_conv')
qed

lemma signal_RemoveNode:
  assumes "usable s" "at_signal e b (RemoveNode e n) s = (Ok (), t)"
  shows "usable t \<and> map_of (ln_nodes (fst t)) = (map_of (ln_nodes (fst s)))(n := None)"
proof -
  have run: "in_use s" "RemoveNode e n s = (Ok (), t)" using at_signal_Ok [OF assms(1) shut_ops(5) assms(2)] by simp_all
  then have rm: "removeNode e n s = (Ok (), t)" by (auto simp: RemoveNode_def throw_def split: if_splits)
  then obtain node where "map_of (ln_nodes (fst s)) n = Some node"
    by (auto simp: removeNode_def throw_def split: option.splits)
  from removeNode_result(1) [OF _ this rm] show ?thesis
    using presD [OF in_use_nodes(2) run] run(1) by (simp add: usable_def in_use_def)
qed

lemma usable_ticked: "usable s \<Longrightarrow> onW tick s = (r, t) \<Longrightarrow> usable t \<and> ln_nodes (fst t) = ln_nodes (fst s)"
  using presD [OF usable_tick] by (auto simp: onW_eq_iff)

text \<open>If the whole update succeeds, the names that are printed at the end are the first ones with the new node and without the
  removed one.\<close>

lemma indepth_update_names:
  assumes "in_use s" "indepth_update xe e sig binaryPath s = (Ok (before, after), t)"
  shows "set before = dom (map_of (ln_nodes (fst s))) \<and> set after = insert ''New Node'' (set before) - {before ! 3}"
proof -
  obtain s1 s2 s3 s4 s5 s6 s7 s8 name0 node1 r4 r5 node nc where
    run: "at_signal e (sig 0) (Healthy e) s = (Ok (), s1)" "at_signal e (sig 1) GetNodeNames s1 = (Ok before, s2)"
      "at_signal e (sig 2) (GetNode name0) s2 = (Ok node1, s3)" "onW tick s3 = (Ok r4, s4)" "onW tick s4 = (Ok r5, s5)"
      "at_signal e (sig 3) (AddNode e nc) s5 = (Ok node, s6)" "nc_Name nc = ''New Node''"
      "at_signal e (sig 4) (RemoveNode e (before ! 3)) s6 = (Ok (), s7)"
      "at_signal e (sig 5) (Healthy e) s7 = (Ok (), s8)" "at_signal e (sig 6) GetNodeNames s8 = (Ok after, t)"
    using assms(2)
    by (auto simp: indepth_update_def bindP_eq_Ok at_def new_node_config_def named_config_def split: if_splits)
  have 1: "usable s1 \<and> ln_nodes (fst s1) = ln_nodes (fst s)"
    using assms(1) signal_Healthy [OF _ run(1)] by (simp add: usable_def)
  then have 2: "s3 = s1" "set before = dom (map_of (ln_nodes (fst s)))"
    using signal_queries(1) [OF _ run(2)] signal_queries(2) [OF _ run(3)] by auto
  then have 3: "usable s5 \<and> ln_nodes (fst s5) = ln_nodes (fst s)"
    using 1 usable_ticked [OF _ run(4)] usable_ticked [OF _ run(5)] by simp
  have 4: "usable s6 \<and> map_of (ln_nodes (fst s6)) = (map_of (ln_nodes (fst s)))(''New Node'' \<mapsto> node)"
    using signal_AddNode [OF _ run(6)] 3 run(7) by simp
  have 5: "usable s7 \<and> map_of (ln_nodes (fst s7)) = (map_of (ln_nodes (fst s6)))(before ! 3 := None)"
    using signal_RemoveNode [OF _ run(8)] 4 by blast
  have 6: "usable s8 \<and> ln_nodes (fst s8) = ln_nodes (fst s7)" using signal_Healthy [OF _ run(9)] 5 by blast
  then have "set after = dom (map_of (ln_nodes (fst s7)))" using signal_queries(1) [OF _ run(10)] by simp
  then show ?thesis using 2(2) 4 5 by simp
qed

section \<open>A run\<close>

text \<open>A network of two nodes: the update panics when it looks for a fourth name, and both processes are stopped.\<close>

definition demo_ex :: ex_env where
  "demo_ex = \<lparr>ex_GetNodeID = (\<lambda>t node. Ok (n_nodeID node)), ex_LogLevelKey = ''log-level'', ex_Debug = VStr ''DEBUG''\<rparr>"

lemma Validate_binary: "NetConfig_Validate e (cfg\<lparr>cfg_BinaryPath := b\<rparr>) = NetConfig_Validate e cfg"
  by (simp add: NetConfig_Validate_def)

lemma all_running_live:
  assumes "all_running s" "ln_nodes (fst s) \<noteq> []"
  shows "live_procs (snd s) \<noteq> {}"
proof -
  obtain name node where "map_of (ln_nodes (fst s)) name = Some node"
    using assms(2) by (cases "ln_nodes (fst s)") (auto intro: that)
  then have "n_process node \<in> live_procs (snd s)" using assms(1) by (simp add: all_running_def live_procs_iff)
  then show ?thesis by blast
qed

lemma demo_default_network:
  "\<exists>l w'. NewDefaultNetwork demo_env2 demo_config2 ''luxd'' True demo_world = (Ok (), Some l, w') \<and> live_procs w' \<noteq> {}"
proof -
  let ?cfg = "NewDefaultConfig demo_config2 ''luxd''"
  have "NetConfig_Validate demo_env2 ?cfg = Ok ()"
    using demo_valid2 by (simp add: NewDefaultConfig_def Validate_binary)
  from NewNetwork_total [OF demo_smooth(2) demo_nodes(1) this] obtain l w' where
    new: "NewNetwork demo_env2 ?cfg [] [] True demo_world = (Ok (), Some l, w')"
    using demo_nodes(2,3) by (fastforce simp: NewDefaultConfig_def)
  obtain l0 w0 where nn: "newNetwork demo_env2 [] [] True demo_world = (Ok l0, w0)"
    "loadConfig demo_env2 ?cfg (l0, w0) = (Ok (), (l, w'))"
    using new by (auto simp: NewNetwork_def split: prod.splits res.splits)
  have inv: "net_inv (l0, w0)" "ln_nodes l0 = []"
    using newNetwork_Ok [OF nn(1)] by (auto simp: demo_world_def intro: net_inv_empty)
  then have "all_running (l, w')" "length (ln_nodes l) = 2"
    using loadConfig_Ok [OF inv(1) _ nn(2)] by (simp_all add: NewDefaultConfig_def demo_config2_def demo_config_def)
  then have "live_procs w' \<noteq> {}" using all_running_live [of "(l, w')"] by force
  then show ?thesis using new by (simp add: NewDefaultNetwork_def)
qed

theorem examples_leave_no_process_witness:
  "live_procs (snd (snd (NewDefaultNetwork demo_env2 demo_config2 ''luxd'' True demo_world))) \<noteq> {} \<and>
   live_procs (snd (indepth_run demo_ex demo_env2 demo_config2 (\<lambda>k. k = 6) ''luxd'' demo_world)) = {}"
proof -
  have "procs demo_world = []" by (simp add: demo_world_def)
  moreover have "\<not> is_Panic (fst (NewDefaultNetwork demo_env2 demo_config2 ''luxd'' True demo_world))"
    using demo_default_network by auto
  ultimately show ?thesis
    using demo_default_network examples_leave_no_process [of demo_world demo_env2 demo_config2 "''luxd''" demo_ex "\<lambda>k. k = 6" True]
    by auto
qed

end
