(* ===== verification/Spec2Isabelle.thy ===== *)
theory Spec2Isabelle
  imports Control_Theorems Status_Stream Peers Node_API Examples
begin

text \<open>
  The network runner starts, watches and stops networks of nodes on one machine. This library models
  its Go code and proves what makes it correct.

  \<^bold>\<open>The program.\<close> A command of the command line (\<^verbatim>\<open>cmd/control/control.go\<close>) sends one request through a client
  (\<^verbatim>\<open>client/client.go\<close>) to the control server (\<^verbatim>\<open>cmd/server/server.go\<close>, \<^verbatim>\<open>server/server.go\<close>). The server holds
  at most one network, with what its clients are told about it (\<^verbatim>\<open>server/network.go\<close>,
  \<^verbatim>\<open>server/utils.go\<close>). That network is a local network (\<^verbatim>\<open>local/network.go\<close>): a table of nodes
  (\<^verbatim>\<open>local/node.go\<close>, \<^verbatim>\<open>local/helpers.go\<close>), each with a process of the operating system
  (\<^verbatim>\<open>local/node_process.go\<close>). A local network is started from a configuration
  (\<^verbatim>\<open>network/config.go\<close>, \<^verbatim>\<open>network/node/node.go\<close>, \<^verbatim>\<open>network/genesis.go\<close>), saved to and loaded from a
  snapshot (\<^verbatim>\<open>local/snapshot.go\<close>), and has operations on subnets and blockchains
  (\<^verbatim>\<open>local/blockchain.go\<close>). \<^verbatim>\<open>api\<close> makes the clients of a node's APIs, \<^verbatim>\<open>utils\<close> holds what several of them share,
  and \<^verbatim>\<open>examples\<close> has two programs that use a local network without the server.

  \<^bold>\<open>The model.\<close> A Go function is a HOL function. One that changes state is a program (\<open>prog\<close> of
  \<open>NR_Prelude\<close>), a function from a state to a result and a state; its result is \<open>Ok\<close> of a value,
  \<open>Err\<close> of an error, or \<open>Panic\<close>, and \<open>bindP\<close> composes programs the way the code does, an early return
  on an error included. Structs are records and keep the names of their fields. A map is \<open>None\<close> (nil)
  or an association list; its order stands for the order in which one \<^verbatim>\<open>range\<close> visits it, so that
  a theorem for all lists holds for every order. Errors are values; \<^verbatim>\<open>fmt.Errorf\<close> with a wrapped error
  keeps the wrapped one, so that \<^verbatim>\<open>errors.Is\<close> can be stated.

  A function that holds a lock for its whole run is one program. Where calls interleave the model is
  a step relation: \<open>np_step\<close> and \<open>os_step\<close> for the callers of \<^verbatim>\<open>Stop\<close> of one process with the
  goroutine that waits for it, \<open>net_step\<close> for the operations of a network with the exits of
  its processes, \<open>sv_step\<close> for the requests to the server with those exits, \<open>stream_step\<close> for the goroutines
  of a status stream, \<open>run_step\<close> for the server with its two listeners, \<open>eth_step\<close> for the users of one client of a chain, and \<open>session_step\<close> for the commands of a user.

  What is not in the repository is a parameter: the records \<open>env\<close> (operating system, health checks,
  certificates, file copies), \<open>chain_env\<close> (node APIs, wallet, clock), \<open>api_env\<close> (API clients of the
  server), \<open>gen_env\<close> (addresses of the genesis), \<open>peer_env\<close> (test peers), \<open>eth_env\<close> (connections to a chain), \<open>ex_env\<close>
  (the examples) and \<open>ctl_env\<close> (logger, connection to the server, the values
  of flags that are numbers). Each answer is a function of a counter that every
  request advances. A theorem holds for all of them, or names what it assumes of them.

  \<^bold>\<open>The theories.\<close>
  \<^item> \<open>NR_Prelude\<close>: results, programs, loops, maps, reachability. Locales: \<open>name_table\<close> (the laws of a
    Go map, interpreted on association lists) and \<open>inductive_invariant\<close> (an invariant of a transition
    system, interpreted for the process, the network and the server).
  \<^item> \<open>Go_Strings\<close>, \<open>Go_Base64\<close>, \<open>Go_Values\<close>, \<open>Json_Roundtrip\<close>: what the code uses of Go's standard library.
    The JSON parser reads back what the printer wrote.
  \<^item> \<open>Node_Process\<close>: the process object with the locale \<open>NodeProcess\<close> for the interface of that name; its
    concurrent machine, what \<^verbatim>\<open>Stop\<close> returns, that it waits only for a process it signalled, that
    it ends, and that the machine refines the sequential one.
  \<^item> \<open>World\<close>: file system, processes, \<open>env\<close>. \<open>Utils\<close>: package \<^verbatim>\<open>utils\<close>.
  \<^item> \<open>Net_Config\<close>, \<open>Default_Config\<close>: configurations, their validation, the genesis, the default network
    and its extension to any number of nodes.
  \<^item> \<open>Local_Node\<close>, \<open>Local_Network\<close>: the node, its ports and flags, and every operation of the network.
    \<open>Network_Invariant\<close> proves that all of them keep \<open>net_inv\<close>, \<open>Network_Theorems\<close> and
    \<open>Node_Lifecycle\<close> prove what each one does: no process outlives its entry in the table, a failed start
    leaves none, stopping stops all, a paused node comes back with the same ports.
  \<^item> \<open>Snapshot\<close>, \<open>Snapshot_Theorems\<close>: a saved network is loaded with the same nodes.
  \<^item> \<open>Blockchain\<close>, \<open>Blockchain_Theorems\<close>: subnets, validators, chains. The locale \<open>network_keeps\<close> states
    what a property of the network has to be kept by for every one of these operations to keep it;
    it is interpreted on \<open>net_inv\<close> and on the flag of \<^verbatim>\<open>stopOnce\<close>.
  \<^item> \<open>Server_Network\<close>, \<open>Start_Config\<close>: the server's network, and the configuration of a new network.
  \<^item> \<open>Cluster_Info\<close>, \<open>Server\<close>: the handlers. \<open>Server_Contract\<close>: the locale \<open>network_contract\<close> is what the
    server relies on of \<^verbatim>\<open>network.Network\<close>, interpreted on the local network.
    \<open>Server_Demo\<close> follows one request to a running network with a logic of total correctness;
    \<open>Server_Theorems\<close>: over all sequences of requests no process is lost. \<open>Cluster_Copy\<close>: the copies that the
    handlers return have all that the server knows.
  \<^item> \<open>Server_Run\<close>: \<^verbatim>\<open>Run\<close> with the goroutines of its listeners: it does not hang, and when it returns the
    goroutines have ended and no process runs.
  \<^item> \<open>Status_Stream\<close>: \<^verbatim>\<open>StreamStatus\<close> as a machine of the handler, the sender, the receiver and the two contexts,
    and the receiving end in the client: the handler returns last, it ends with the client, and when it
    panics.
  \<^item> \<open>Peers\<close>: attaching a test peer to a node, call by call, as a refinement of the step of the handler; a peer that was
    attached is listed and can be sent messages.
  \<^item> \<open>Node_API\<close>: the clients of a node. The client of a chain opens one connection, whoever uses it.
  \<^item> \<open>Examples\<close>: the example programs leave no process, whenever the signal comes.
  \<^item> \<open>Requests\<close>: the requests and the handler of each. \<open>Client\<close>: the options, and the request each method
    of the client sends. \<open>Control\<close>: the commands with their flags, \<^verbatim>\<open>ping\<close> and \<^verbatim>\<open>server\<close>.
    \<open>Control_Theorems\<close>: a command refines at most one step of the server, a session of any commands leaves
    no process once the server has ended, bad JSON is refused before the server is reached, and the
    flags of \<^verbatim>\<open>start\<close> are the flags of the nodes.

  \<^bold>\<open>Bounds.\<close> Every function is total. The JSON parser has fuel twice the length of the text plus two,
  which \<open>Json_Roundtrip\<close> shows to be enough for every text the printer writes. A loop that polls until
  its context ends takes the outcomes of its \<^verbatim>\<open>select\<close> statements as a list of the environment, finite
  because the context has a deadline. The search for an unused name goes through the suffixes below
  \<^verbatim>\<open>2^64\<close>; \<open>setNodeName_finds_unused_name\<close> shows that it finds one. The search for a free port tries
  a list of drawn ports, as often as the code does.

  \<^bold>\<open>Not modelled.\<close> Logging and printing. The generated code of the protocol (\<^verbatim>\<open>rpcpb\<close>) but for
  the messages, its gateway, and mocks. What the packages behind the clients of a node and behind
  a test peer do with a connection. What the listener of gRPC and the gateway do with a connection. How \<^verbatim>\<open>cobra\<close> splits a command line and
  completes the name of a command, and the root command that is given to it. The JSON of specs with
  numbers, which is read by a function of \<open>ctl_env\<close>.
\<close>

end
